(* ===== verification/Prelude.thy ===== *)
theory Prelude imports Main "HOL-Library.Word" begin

text \<open>
  What every theory of the development shares: the collections of automation facts, names for
  the recurring types, and lemmas on lists, options and sums that do not mention the program.

  A Go \<open>string\<close> and a Go \<open>[]byte\<close> are both sequences of bytes; both are a
  \<^typ>\<open>string\<close> here, whose characters are the 256 byte values. A function of the source that
  returns \<open>(T, error)\<close> returns \<open>'e + 'a\<close>, the error on the left; one that returns
  only \<open>error\<close> returns an option, with None for \<open>nil\<close>.
\<close>

type_synonym gostring = string

named_theorems domain_defs \<open>definitions of the job entity's operations\<close>
named_theorems wf_intros \<open>preservation of the job entity's invariants\<close>
named_theorems usecase_defs \<open>definitions of the application use cases\<close>

section \<open>Results\<close>

definition is_ok :: "'e + 'a \<Rightarrow> bool" where
  "is_ok r \<longleftrightarrow> (case r of Inl _ \<Rightarrow> False | Inr _ \<Rightarrow> True)"

lemma is_ok_simps [simp]: "is_ok (Inr v)" "\<not> is_ok (Inl e)"
  by (simp_all add: is_ok_def)

lemma is_ok_iff: "is_ok r \<longleftrightarrow> (\<exists>v. r = Inr v)"
  by (cases r) auto

lemma not_is_ok_iff: "\<not> is_ok r \<longleftrightarrow> (\<exists>e. r = Inl e)"
  by (cases r) auto

section \<open>Lists\<close>

lemma dropWhile_hd_not: "dropWhile P xs = y # ys \<Longrightarrow> \<not> P y"
  by (metis hd_dropWhile list.distinct(1) list.sel(1))

lemma list_all_nth_iff: "list_all P xs \<longleftrightarrow> (\<forall>i<length xs. P (xs ! i))"
  by (simp add: list_all_length)

lemma list_all2_map_self: "list_all P (map f xs) \<longleftrightarrow> list_all (P \<circ> f) xs"
  by (induction xs) auto

end
