(* ===== verification/Go_Strings.thy ===== *)
theory Go_Strings imports Prelude begin

text \<open>
  The parts of Go's \<open>strings\<close>, \<open>unicode\<close> and \<open>unicode/utf8\<close> packages that the program
  uses, on byte strings: decoding of runes with the width-1 \<open>RuneError\<close> for bytes that are not
  valid UTF-8, the \<open>for index, character := range s\<close> loop, \<open>TrimSpace\<close> and \<open>ToLower\<close>.
  They are modelled exactly, non-ASCII input included, because the program's guards
  (\<open>ParseID\<close>, \<open>ParseType\<close>, \<open>ParseStatus\<close>, the payload checks) are stated over arbitrary client
  strings.
\<close>

section \<open>Bytes and runes\<close>

abbreviation byte :: "char \<Rightarrow> nat" where
  "byte c \<equiv> of_char c"

definition RuneError :: nat where
  "RuneError = 0xFFFD"

text \<open>\<open>utf8.DecodeRuneInString\<close>: the first rune and its width in bytes.\<close>

definition cont_in :: "nat \<Rightarrow> nat \<Rightarrow> char \<Rightarrow> bool" where
  "cont_in lo hi c \<longleftrightarrow> lo \<le> byte c \<and> byte c \<le> hi"

definition decode_rune2 :: "nat \<Rightarrow> gostring \<Rightarrow> nat \<times> nat" where
  "decode_rune2 b0 cs =
     (case cs of
        c1 # _ \<Rightarrow>
          if cont_in 0x80 0xBF c1 then ((b0 - 0xC0) * 64 + (byte c1 - 0x80), 2)
          else (RuneError, 1)
      | _ \<Rightarrow> (RuneError, 1))"

definition decode_rune3 :: "nat \<Rightarrow> gostring \<Rightarrow> nat \<times> nat" where
  "decode_rune3 b0 cs =
     (case cs of
        c1 # c2 # _ \<Rightarrow>
          if cont_in (if b0 = 0xE0 then 0xA0 else 0x80) (if b0 = 0xED then 0x9F else 0xBF) c1
             \<and> cont_in 0x80 0xBF c2
          then ((b0 - 0xE0) * 4096 + (byte c1 - 0x80) * 64 + (byte c2 - 0x80), 3)
          else (RuneError, 1)
      | _ \<Rightarrow> (RuneError, 1))"

definition decode_rune4 :: "nat \<Rightarrow> gostring \<Rightarrow> nat \<times> nat" where
  "decode_rune4 b0 cs =
     (case cs of
        c1 # c2 # c3 # _ \<Rightarrow>
          if cont_in (if b0 = 0xF0 then 0x90 else 0x80) (if b0 = 0xF4 then 0x8F else 0xBF) c1
             \<and> cont_in 0x80 0xBF c2 \<and> cont_in 0x80 0xBF c3
          then ((b0 - 0xF0) * 262144 + (byte c1 - 0x80) * 4096 + (byte c2 - 0x80) * 64
                  + (byte c3 - 0x80), 4)
          else (RuneError, 1)
      | _ \<Rightarrow> (RuneError, 1))"

definition decode_rune :: "gostring \<Rightarrow> nat \<times> nat" where
  "decode_rune s =
     (case s of
        [] \<Rightarrow> (RuneError, 0)
      | c # cs \<Rightarrow>
          let b0 = byte c in
          if b0 < 0x80 then (b0, 1)
          else if 0xC2 \<le> b0 \<and> b0 \<le> 0xDF then decode_rune2 b0 cs
          else if 0xE0 \<le> b0 \<and> b0 \<le> 0xEF then decode_rune3 b0 cs
          else if 0xF0 \<le> b0 \<and> b0 \<le> 0xF4 then decode_rune4 b0 cs
          else (RuneError, 1))"

text \<open>\<open>utf8.AppendRune\<close>: surrogates and values beyond U+10FFFF are written as U+FFFD.\<close>

definition encode_rune :: "nat \<Rightarrow> gostring" where
  "encode_rune r =
     (if r < 0x80 then [char_of r]
      else if r < 0x800 then [char_of (0xC0 + r div 64), char_of (0x80 + r mod 64)]
      else if r > 0x10FFFF \<or> (0xD800 \<le> r \<and> r \<le> 0xDFFF)
        then [char_of (0xEF :: nat), char_of (0xBF :: nat), char_of (0xBD :: nat)]
      else if r < 0x10000
        then [char_of (0xE0 + r div 4096), char_of (0x80 + r div 64 mod 64),
              char_of (0x80 + r mod 64)]
      else [char_of (0xF0 + r div 262144), char_of (0x80 + r div 4096 mod 64),
            char_of (0x80 + r div 64 mod 64), char_of (0x80 + r mod 64)])"

lemma decode_rune_width_pos: "s \<noteq> [] \<Longrightarrow> 0 < snd (decode_rune s)"
  by (cases s)
     (simp_all add: decode_rune_def decode_rune2_def decode_rune3_def decode_rune4_def Let_def
       split: list.splits)

lemma decode_rune_ascii: "byte c < 0x80 \<Longrightarrow> decode_rune (c # cs) = (byte c, 1)"
  by (simp add: decode_rune_def)

lemma decode_rune_nonascii:
  "0x80 \<le> byte c \<Longrightarrow> 0x80 \<le> fst (decode_rune (c # cs))"
proof -
  assume b: "0x80 \<le> byte c"
  have "0x80 \<le> fst (decode_rune2 b0 cs)" if "0xC2 \<le> b0" for b0
    using that by (auto simp: decode_rune2_def RuneError_def split: list.splits)
  moreover have "0x80 \<le> fst (decode_rune3 b0 cs)" if "0xE0 \<le> b0" for b0
    using that
    by (auto simp: decode_rune3_def RuneError_def cont_in_def split: list.splits if_splits)
  moreover have "0x80 \<le> fst (decode_rune4 b0 cs)" if "0xF0 \<le> b0" for b0
    using that
    by (auto simp: decode_rune4_def RuneError_def cont_in_def split: list.splits if_splits)
  ultimately show ?thesis
    using b by (simp add: decode_rune_def RuneError_def Let_def)
qed

section \<open>The range loop\<close>

text \<open>
  \<open>for index, character := range s\<close> visits the pairs of byte offset and rune in this order; a
  body that returns early on a failed test is \<open>list_all\<close> of the test over them.
\<close>

function go_range :: "nat \<Rightarrow> gostring \<Rightarrow> (nat \<times> nat) list" where
  "go_range i [] = []"
| "go_range i (c # cs) =
     (let (r, w) = decode_rune (c # cs) in (i, r) # go_range (i + w) (drop w (c # cs)))"
  by pat_completeness auto
termination
proof (relation "measure (\<lambda>(i, s). length s)")
  fix i c cs p r w
  assume "p = decode_rune (c # cs)" "(r, w) = p"
  then have "w = snd (decode_rune (c # cs))" by (metis snd_conv)
  then have "0 < w" using decode_rune_width_pos [of "c # cs"] by simp
  then show "((i + w, drop w (c # cs)), i, c # cs) \<in> measure (\<lambda>(i, s). length s)" by simp
qed simp

definition runes :: "gostring \<Rightarrow> nat list" where
  "runes s = map snd (go_range 0 s)"

lemma go_range_ascii:
  "byte c < 0x80 \<Longrightarrow> go_range i (c # cs) = (i, byte c) # go_range (Suc i) cs"
  by (simp add: decode_rune_ascii)

text \<open>
  A test that accepts ASCII runes only makes the rune loop a byte loop: the first byte that is not
  ASCII starts a rune that is not ASCII either, and the test rejects it.
\<close>

fun byte_range :: "nat \<Rightarrow> gostring \<Rightarrow> (nat \<times> nat) list" where
  "byte_range i [] = []"
| "byte_range i (c # cs) = (i, byte c) # byte_range (Suc i) cs"

lemma go_range_ascii_test:
  assumes ascii: "\<And>i r. P (i, r) \<Longrightarrow> r < 0x80"
  shows "list_all P (go_range i s) \<longleftrightarrow> list_all P (byte_range i s)"
proof (induction s arbitrary: i)
  case Nil
  then show ?case by simp
next
  case (Cons c cs)
  show ?case
  proof (cases "byte c < 0x80")
    case True
    with Cons.IH show ?thesis by (simp only: go_range_ascii byte_range.simps list.pred_inject)
  next
    case False
    obtain r w where d: "decode_rune (c # cs) = (r, w)" by force
    with False have "0x80 \<le> r" using decode_rune_nonascii [of c cs] by simp
    then have "\<not> P (i, r)" using ascii by force
    moreover from False have "\<not> P (i, byte c)" using ascii by force
    ultimately show ?thesis using d by simp
  qed
qed

lemma byte_range_nth: "list_all P (byte_range i s) \<longleftrightarrow> (\<forall>k<length s. P (i + k, byte (s ! k)))"
proof (induction s arbitrary: i)
  case Nil
  then show ?case by simp
next
  case (Cons c cs)
  then show ?case by (auto simp: less_Suc_eq_0_disj All_less_Suc2)
qed

section \<open>White space\<close>

text \<open>\<open>unicode.IsSpace\<close>.\<close>

definition is_space :: "nat \<Rightarrow> bool" where
  "is_space r \<longleftrightarrow>
     r \<in> set [0x09, 0x0A, 0x0B, 0x0C, 0x0D, 0x20, 0x85, 0xA0, 0x1680, 0x2028, 0x2029, 0x202F,
       0x205F, 0x3000] \<or> (0x2000 \<le> r \<and> r \<le> 0x200A)"

text \<open>
  \<open>strings.TrimSpace\<close> drops, from the front, every rune that is a space as \<open>DecodeRune\<close>
  reads it, and then, from the back, every rune that is a space as \<open>DecodeLastRune\<close> reads it.
  The last rune is found by stepping back over at most three bytes to the nearest byte that can
  start a rune; it counts when its encoding ends exactly at the end of the string.
\<close>

function trim_left :: "gostring \<Rightarrow> gostring" where
  "trim_left s =
     (if s \<noteq> [] \<and> is_space (fst (decode_rune s))
      then trim_left (drop (snd (decode_rune s)) s) else s)"
  by pat_completeness auto
termination
  by (relation "measure length") (use decode_rune_width_pos in auto)

definition rune_start :: "char \<Rightarrow> bool" where
  "rune_start c \<longleftrightarrow> \<not> (0x80 \<le> byte c \<and> byte c \<le> 0xBF)"

text \<open>\<open>utf8.DecodeLastRuneInString\<close>.\<close>

definition last_start :: "gostring \<Rightarrow> nat" where
  "last_start s =
     (let n = length s in
      if n \<ge> 2 \<and> rune_start (s ! (n - 2)) then n - 2
      else if n \<ge> 3 \<and> rune_start (s ! (n - 3)) then n - 3
      else n - 4)"

definition decode_last_rune :: "gostring \<Rightarrow> nat \<times> nat" where
  "decode_last_rune s =
     (if s = [] then (RuneError, 0)
      else if byte (last s) < 0x80 then (byte (last s), 1)
      else let start = last_start s; (r, w) = decode_rune (drop start s) in
        if start + w \<noteq> length s then (RuneError, 1) else (r, w))"

lemma decode_last_rune_width_pos: "s \<noteq> [] \<Longrightarrow> 0 < snd (decode_last_rune s)"
proof -
  assume s: "s \<noteq> []"
  have "last_start s < length s"
    using s by (auto simp: last_start_def Let_def)
  then have "drop (last_start s) s \<noteq> []" by simp
  from decode_rune_width_pos [OF this] s show ?thesis
    by (auto simp: decode_last_rune_def Let_def split: prod.splits)
qed

function trim_right :: "gostring \<Rightarrow> gostring" where
  "trim_right s =
     (if s \<noteq> [] \<and> is_space (fst (decode_last_rune s))
      then trim_right (take (length s - snd (decode_last_rune s)) s) else s)"
  by pat_completeness auto
termination
  by (relation "measure length") (use decode_last_rune_width_pos in auto)

declare trim_left.simps [simp del] trim_right.simps [simp del]

definition trim_space :: "gostring \<Rightarrow> gostring" where
  "trim_space s = trim_right (trim_left s)"

lemma trim_left_id: "s = [] \<or> \<not> is_space (fst (decode_rune s)) \<Longrightarrow> trim_left s = s"
  by (subst trim_left.simps) auto

lemma trim_left_step:
  "s \<noteq> [] \<Longrightarrow> is_space (fst (decode_rune s))
    \<Longrightarrow> trim_left s = trim_left (drop (snd (decode_rune s)) s)"
  by (subst trim_left.simps) auto

lemma trim_right_id: "s = [] \<or> \<not> is_space (fst (decode_last_rune s)) \<Longrightarrow> trim_right s = s"
  by (subst trim_right.simps) auto

lemma trim_right_step:
  "s \<noteq> [] \<Longrightarrow> is_space (fst (decode_last_rune s))
    \<Longrightarrow> trim_right s = trim_right (take (length s - snd (decode_last_rune s)) s)"
  by (subst trim_right.simps) auto

lemma trim_left_first: "trim_left s = [] \<or> \<not> is_space (fst (decode_rune (trim_left s)))"
proof (induction s rule: trim_left.induct)
  case (1 s)
  then show ?case
    by (cases "s = [] \<or> \<not> is_space (fst (decode_rune s))")
       (auto simp: trim_left_id trim_left_step)
qed

lemma trim_right_last: "trim_right s = [] \<or> \<not> is_space (fst (decode_last_rune (trim_right s)))"
proof (induction s rule: trim_right.induct)
  case (1 s)
  then show ?case
    by (cases "s = [] \<or> \<not> is_space (fst (decode_last_rune s))")
       (auto simp: trim_right_id trim_right_step)
qed

lemma trim_right_prefix: "\<exists>n. trim_right s = take n s"
proof (induction s rule: trim_right.induct)
  case (1 s)
  show ?case
  proof (cases "s = [] \<or> \<not> is_space (fst (decode_last_rune s))")
    case True
    then have "trim_right s = take (length s) s" by (simp add: trim_right_id)
    then show ?thesis ..
  next
    case False
    let ?m = "length s - snd (decode_last_rune s)"
    from False "1.IH" obtain n where "trim_right (take ?m s) = take n (take ?m s)"
      by auto
    with False have "trim_right s = take (min n ?m) s" by (simp add: trim_right_step)
    then show ?thesis ..
  qed
qed

text \<open>
  A string whose first and last bytes are ASCII and no spaces is its own trimming; the constants and
  the identifiers of the program are of this kind.
\<close>

lemma trim_space_id:
  assumes "s \<noteq> []" "byte (hd s) < 0x80" "\<not> is_space (byte (hd s))"
    and "byte (last s) < 0x80" "\<not> is_space (byte (last s))"
  shows "trim_space s = s"
proof -
  from assms(1) obtain c cs where s: "s = c # cs" by (cases s) auto
  have "trim_left s = s"
    using assms(2,3) by (simp add: s trim_left.simps [of "c # cs"] decode_rune_ascii)
  moreover have "trim_right s = s"
    using assms(1,4,5) by (simp add: trim_right.simps [of s] decode_last_rune_def)
  ultimately show ?thesis by (simp add: trim_space_def)
qed

text \<open>Cutting a string short never makes its first rune a space.\<close>

lemma decode_rune_take:
  assumes "take n s \<noteq> []"
  shows "decode_rune (take n s) = decode_rune s \<or> fst (decode_rune (take n s)) = RuneError"
proof -
  from assms obtain c cs m where s: "s = c # cs" and n: "n = Suc m"
    by (cases s; cases n) auto
  have 2: "decode_rune2 b (take m cs) = decode_rune2 b cs
      \<or> fst (decode_rune2 b (take m cs)) = RuneError" for b
    by (cases m; cases cs) (simp_all add: decode_rune2_def)
  have 3: "decode_rune3 b (take m cs) = decode_rune3 b cs
      \<or> fst (decode_rune3 b (take m cs)) = RuneError" for b
    by (cases m; cases "m - 1"; cases cs; cases "tl cs") (simp_all add: decode_rune3_def)
  have 4: "decode_rune4 b (take m cs) = decode_rune4 b cs
      \<or> fst (decode_rune4 b (take m cs)) = RuneError" for b
    by (cases m; cases "m - 1"; cases "m - 2"; cases cs; cases "tl cs"; cases "tl (tl cs)")
       (simp_all add: decode_rune4_def)
  show ?thesis
    using 2 [of "byte c"] 3 [of "byte c"] 4 [of "byte c"]
    by (simp add: s n decode_rune_def Let_def)
qed

lemma trim_space_first: "trim_space s = [] \<or> \<not> is_space (fst (decode_rune (trim_space s)))"
proof -
  obtain n where n: "trim_space s = take n (trim_left s)"
    using trim_right_prefix [of "trim_left s"] by (auto simp: trim_space_def)
  show ?thesis
  proof (cases "take n (trim_left s) = []")
    case True
    with n show ?thesis by simp
  next
    case False
    then have "trim_left s \<noteq> []" by auto
    with trim_left_first [of s] have "\<not> is_space (fst (decode_rune (trim_left s)))" by blast
    moreover have "\<not> is_space RuneError" by (simp add: is_space_def RuneError_def)
    ultimately show ?thesis using decode_rune_take [OF False] by (auto simp: n)
  qed
qed

lemma trim_space_last: "trim_space s = [] \<or> \<not> is_space (fst (decode_last_rune (trim_space s)))"
  unfolding trim_space_def by (rule trim_right_last)

theorem trim_space_idem: "trim_space (trim_space s) = trim_space s"
  using trim_left_id [OF trim_space_first [of s]] trim_right_id [OF trim_space_last [of s]]
  by (simp add: trim_space_def [of "trim_space s"])

end
