(* ===== verification/Go_Strconv.thy ===== *)
theory Go_Strconv imports Unicode_Case begin

text \<open>
  The parts of \<open>strconv\<close> and \<open>fmt\<close> that the program uses: \<open>Atoi\<close> / \<open>ParseInt\<close> in base
  10 with the 64-bit range, \<open>Itoa\<close>, \<open>Quote\<close> (the \<open>%q\<close> verb) and the \<open>%x\<close> verb on
  bytes. Which runes \<open>Quote\<close> prints as they are is decided by Go's Unicode tables; that set is an
  argument.
\<close>

section \<open>Decimal integers\<close>

definition is_digit :: "char \<Rightarrow> bool" where
  "is_digit c \<longleftrightarrow> 48 \<le> byte c \<and> byte c \<le> 57"

definition digits_value :: "gostring \<Rightarrow> int" where
  "digits_value s = foldl (\<lambda>a c. 10 * a + (int (byte c) - 48)) 0 s"

datatype num_error = ErrSyntax | ErrRange

definition min_int64 :: int where
  "min_int64 = - 9223372036854775808"

definition max_int64 :: int where
  "max_int64 = 9223372036854775807"

text \<open>\<open>strconv.ParseInt(s, 10, 64)\<close>, which is \<open>Atoi\<close> on a 64-bit machine.\<close>

definition parse_int :: "gostring \<Rightarrow> num_error + int" where
  "parse_int s =
     (let neg = (s \<noteq> [] \<and> hd s = CHR ''-'');
          digits = (if s \<noteq> [] \<and> (hd s = CHR ''-'' \<or> hd s = CHR ''+'') then tl s else s)
      in if digits = [] \<or> \<not> list_all is_digit digits then Inl ErrSyntax
         else let v = (if neg then - digits_value digits else digits_value digits) in
           if min_int64 \<le> v \<and> v \<le> max_int64 then Inr v else Inl ErrRange)"

text \<open>\<open>strconv.Itoa\<close>, the \<open>%d\<close> verb.\<close>

fun nat_digits :: "nat \<Rightarrow> gostring" where
  "nat_digits n =
     (if n < 10 then [char_of (48 + n)] else nat_digits (n div 10) @ [char_of (48 + n mod 10)])"

declare nat_digits.simps [simp del]

definition itoa :: "int \<Rightarrow> gostring" where
  "itoa i = (if i < 0 then CHR ''-'' # nat_digits (nat (- i)) else nat_digits (nat i))"

lemma digits_value_snoc:
  "digits_value (s @ [c]) = 10 * digits_value s + (int (byte c) - 48)"
  by (simp add: digits_value_def)

lemma nat_digits_props:
  "nat_digits n \<noteq> [] \<and> list_all is_digit (nat_digits n) \<and> digits_value (nat_digits n) = int n"
proof (induction n rule: nat_digits.induct)
  case (1 n)
  show ?case
  proof (cases "n < 10")
    case True
    then show ?thesis
      by (subst (1 2 3) nat_digits.simps) (simp add: is_digit_def digits_value_def)
  next
    case False
    with 1 have ih: "list_all is_digit (nat_digits (n div 10))"
        "digits_value (nat_digits (n div 10)) = int (n div 10)"
      by blast+
    have "n mod 10 < 10" by simp
    then have b: "byte (char_of (48 + n mod 10) :: char) = 48 + n mod 10" by simp
    have "digits_value (nat_digits n) = 10 * int (n div 10) + int (n mod 10)"
      using False by (subst nat_digits.simps) (simp add: digits_value_snoc ih b del: of_char_of)
    also have "\<dots> = int n" by presburger
    finally show ?thesis
      using False ih
      by (subst (1 2) nat_digits.simps) (simp add: is_digit_def b del: of_char_of)
  qed
qed

lemma is_digit_not_sign: "is_digit c \<Longrightarrow> c \<noteq> CHR ''-'' \<and> c \<noteq> CHR ''+''"
  by (auto simp: is_digit_def)

text \<open>Parsing a printed integer gives it back, within the 64-bit range.\<close>

lemma parse_int_itoa:
  assumes "min_int64 \<le> i" "i \<le> max_int64"
  shows "parse_int (itoa i) = Inr i"
proof (cases "i < 0")
  case True
  have "digits_value (nat_digits (nat (- i))) = - i"
    using True nat_digits_props [of "nat (- i)"] by simp
  with True assms nat_digits_props [of "nat (- i)"] show ?thesis
    by (simp add: parse_int_def itoa_def Let_def)
next
  case False
  let ?d = "nat_digits (nat i)"
  from nat_digits_props [of "nat i"] False
  have d: "?d \<noteq> []" "list_all is_digit ?d" "digits_value ?d = i" by simp_all
  then have "hd ?d \<noteq> CHR ''-''" "hd ?d \<noteq> CHR ''+''"
    by (cases ?d; auto dest: is_digit_not_sign)+
  with False assms d show ?thesis
    by (simp add: parse_int_def itoa_def Let_def)
qed

lemma parse_int_range: "parse_int s = Inr v \<Longrightarrow> min_int64 \<le> v \<and> v \<le> max_int64"
  by (auto simp: parse_int_def Let_def split: if_splits)

section \<open>Hexadecimal bytes\<close>

definition hex_digit :: "nat \<Rightarrow> char" where
  "hex_digit n = (if n < 10 then char_of (48 + n) else char_of (87 + n))"

definition hex_byte :: "8 word \<Rightarrow> gostring" where
  "hex_byte b = [hex_digit (unat b div 16), hex_digit (unat b mod 16)]"

text \<open>\<open>fmt.Sprintf("%x", bytes)\<close>.\<close>

definition hex_bytes :: "8 word list \<Rightarrow> gostring" where
  "hex_bytes bs = concat (map hex_byte bs)"

lemma length_hex_bytes [simp]: "length (hex_bytes bs) = 2 * length bs"
  by (induction bs) (simp_all add: hex_bytes_def hex_byte_def)

section \<open>Quoting\<close>

definition hex_fixed :: "nat \<Rightarrow> nat \<Rightarrow> gostring" where
  "hex_fixed width n = map (\<lambda>k. hex_digit (n div 16 ^ (width - 1 - k) mod 16)) [0..<width]"

text \<open>\<open>strconv.Quote\<close>: one rune, decoded with the given width.\<close>

definition quote_rune :: "(nat \<Rightarrow> bool) \<Rightarrow> nat \<Rightarrow> nat \<Rightarrow> char \<Rightarrow> gostring" where
  "quote_rune printable r w c =
     (if w = 1 \<and> r = RuneError then [CHR 0x5C, CHR ''x''] @ hex_fixed 2 (byte c)
      else if r = 0x22 \<or> r = 0x5C then [CHR 0x5C, char_of r]
      else if printable r then encode_rune r
      else if r = 7 then [CHR 0x5C, CHR ''a'']
      else if r = 8 then [CHR 0x5C, CHR ''b'']
      else if r = 12 then [CHR 0x5C, CHR ''f'']
      else if r = 10 then [CHR 0x5C, CHR ''n'']
      else if r = 13 then [CHR 0x5C, CHR ''r'']
      else if r = 9 then [CHR 0x5C, CHR ''t'']
      else if r = 11 then [CHR 0x5C, CHR ''v'']
      else if r < 0x20 \<or> r = 0x7F then [CHR 0x5C, CHR ''x''] @ hex_fixed 2 r
      else if r < 0x10000 then [CHR 0x5C, CHR ''u''] @ hex_fixed 4 r
      else [CHR 0x5C, CHR ''U''] @ hex_fixed 8 r)"

function quote_body :: "(nat \<Rightarrow> bool) \<Rightarrow> gostring \<Rightarrow> gostring" where
  "quote_body printable [] = []"
| "quote_body printable (c # cs) =
     quote_rune printable (fst (decode_rune (c # cs))) (snd (decode_rune (c # cs))) c
     @ quote_body printable (drop (snd (decode_rune (c # cs))) (c # cs))"
  by pat_completeness auto
termination
  by (relation "measure (length \<circ> snd)") (use decode_rune_width_pos in auto)

definition go_quote :: "(nat \<Rightarrow> bool) \<Rightarrow> gostring \<Rightarrow> gostring" where
  "go_quote printable s = [CHR 0x22] @ quote_body printable s @ [CHR 0x22]"

end
