(* ===== verification/Go_Json.thy ===== *)
theory Go_Json imports Go_Strconv begin

text \<open>
  The parts of \<open>encoding/json\<close> that the program uses: the grammar that the scanner accepts
  (over bytes, with its nesting limit of 10000), \<open>Unmarshal\<close> into a
  \<open>map[string]json.RawMessage\<close>, and \<open>Decoder.Decode\<close> with \<open>DisallowUnknownFields\<close> into a
  flat struct whose fields are strings, ints or raw messages.

  A member of an object keeps the bytes its value was read from, because that is what a
  \<open>json.RawMessage\<close> holds. String literals and keys are kept as the bytes between the quotes;
  \<open>unquote\<close> resolves their escapes.
\<close>

section \<open>Values and errors\<close>

datatype json =
    JNull
  | JBool bool
  | JNumber gostring
  | JString gostring
  | JArray "json list"
  | JObject "(gostring \<times> gostring \<times> json) list"

text \<open>
  \<open>JsonEOF\<close> is \<open>io.EOF\<close> from the decoder: nothing but white space was left.
  \<open>JsonReader\<close> is an error of the reader the decoder reads from. \<open>JsonNoFuel\<close> is an
  artefact of the model that \<open>parse_json_fuel\<close> below shows not to occur.
\<close>

datatype json_error =
    JsonSyntax
  | JsonTooDeep
  | JsonEOF
  | JsonUnexpectedEOF
  | JsonReader
  | JsonUnknownField gostring
  | JsonTypeMismatch
  | JsonNoFuel

section \<open>Scanning\<close>

definition is_ws :: "char \<Rightarrow> bool" where
  "is_ws c \<longleftrightarrow> c = CHR '' '' \<or> c = CHR 0x09 \<or> c = CHR 0x0D \<or> c = CHR 0x0A"

definition skip_ws :: "gostring \<Rightarrow> gostring" where
  "skip_ws s = dropWhile is_ws s"

definition is_hex :: "char \<Rightarrow> bool" where
  "is_hex c \<longleftrightarrow>
     (48 \<le> byte c \<and> byte c \<le> 57) \<or> (97 \<le> byte c \<and> byte c \<le> 102) \<or> (65 \<le> byte c \<and> byte c \<le> 70)"

text \<open>Inside a string literal: the scanner's states \<open>stateInString\<close>, \<open>stateInStringEsc\<close> and
  \<open>stateInStringEscU\<close> to \<open>stateInStringEscU123\<close>. The result is the literal's body and what
  follows its closing quote.\<close>

datatype string_state = InString | InEscape | InUnicode nat

fun scan_string :: "string_state \<Rightarrow> gostring \<Rightarrow> json_error + gostring \<times> gostring" where
  "scan_string st [] = Inl JsonUnexpectedEOF"
| "scan_string InString (c # cs) =
     (if c = CHR 0x22 then Inr ([], cs)
      else if c = CHR 0x5C then map_sum id (map_prod (Cons c) id) (scan_string InEscape cs)
      else if byte c < 0x20 then Inl JsonSyntax
      else map_sum id (map_prod (Cons c) id) (scan_string InString cs))"
| "scan_string InEscape (c # cs) =
     (if c \<in> set [CHR ''b'', CHR ''f'', CHR ''n'', CHR ''r'', CHR ''t'', CHR 0x5C, CHR ''/'', CHR 0x22]
      then map_sum id (map_prod (Cons c) id) (scan_string InString cs)
      else if c = CHR ''u'' then map_sum id (map_prod (Cons c) id) (scan_string (InUnicode 3) cs)
      else Inl JsonSyntax)"
| "scan_string (InUnicode k) (c # cs) =
     (if is_hex c
      then map_sum id (map_prod (Cons c) id)
             (scan_string (case k of 0 \<Rightarrow> InString | Suc m \<Rightarrow> InUnicode m) cs)
      else Inl JsonSyntax)"

text \<open>Numbers: an integer part without leading zeros, an optional fraction, an optional exponent.\<close>

definition scan_digits :: "gostring \<Rightarrow> json_error + gostring \<times> gostring" where
  "scan_digits s =
     (case s of
        [] \<Rightarrow> Inl JsonUnexpectedEOF
      | c # cs \<Rightarrow>
          if is_digit c then Inr (takeWhile is_digit s, dropWhile is_digit s) else Inl JsonSyntax)"

definition scan_int_part :: "gostring \<Rightarrow> json_error + gostring \<times> gostring" where
  "scan_int_part s =
     (case s of
        c # cs \<Rightarrow> if c = CHR ''0'' then Inr ([c], cs) else scan_digits s
      | [] \<Rightarrow> Inl JsonUnexpectedEOF)"

definition scan_fraction :: "gostring \<Rightarrow> json_error + gostring \<times> gostring" where
  "scan_fraction s =
     (case s of
        c # cs \<Rightarrow>
          if c = CHR ''.'' then map_sum id (map_prod (Cons c) id) (scan_digits cs) else Inr ([], s)
      | [] \<Rightarrow> Inr ([], s))"

definition scan_exponent :: "gostring \<Rightarrow> json_error + gostring \<times> gostring" where
  "scan_exponent s =
     (case s of
        c # cs \<Rightarrow>
          if c = CHR ''e'' \<or> c = CHR ''E'' then
            (case cs of
               d # ds \<Rightarrow>
                 if d = CHR ''+'' \<or> d = CHR ''-''
                 then map_sum id (map_prod (\<lambda>t. c # d # t) id) (scan_digits ds)
                 else map_sum id (map_prod (Cons c) id) (scan_digits cs)
             | [] \<Rightarrow> Inl JsonUnexpectedEOF)
          else Inr ([], s)
      | [] \<Rightarrow> Inr ([], s))"

definition scan_number :: "gostring \<Rightarrow> json_error + gostring \<times> gostring" where
  "scan_number s =
     (let (sign, s0) = (case s of c # cs \<Rightarrow> if c = CHR ''-'' then ([c], cs) else ([], s) | [] \<Rightarrow> ([], s)) in
      case scan_int_part s0 of
        Inl e \<Rightarrow> Inl e
      | Inr (i, s1) \<Rightarrow>
          (case scan_fraction s1 of
             Inl e \<Rightarrow> Inl e
           | Inr (f, s2) \<Rightarrow>
               (case scan_exponent s2 of
                  Inl e \<Rightarrow> Inl e
                | Inr (x, s3) \<Rightarrow> Inr (sign @ i @ f @ x, s3))))"

fun expect :: "gostring \<Rightarrow> gostring \<Rightarrow> json_error + gostring" where
  "expect [] s = Inr s"
| "expect (x # xs) [] = Inl JsonUnexpectedEOF"
| "expect (x # xs) (c # cs) = (if c = x then expect xs cs else Inl JsonSyntax)"

section \<open>The grammar\<close>

text \<open>
  The recursion spends one unit of fuel per call; \<open>depth\<close> is how many more levels of nesting the
  scanner allows.
\<close>

fun parse_value :: "nat \<Rightarrow> nat \<Rightarrow> gostring \<Rightarrow> json_error + json \<times> gostring"
and parse_elements :: "nat \<Rightarrow> nat \<Rightarrow> gostring \<Rightarrow> json_error + json list \<times> gostring"
and parse_members ::
  "nat \<Rightarrow> nat \<Rightarrow> gostring \<Rightarrow> json_error + (gostring \<times> gostring \<times> json) list \<times> gostring" where
  "parse_value 0 depth s = Inl JsonNoFuel"
| "parse_value (Suc n) depth s =
     (case skip_ws s of
        [] \<Rightarrow> Inl JsonUnexpectedEOF
      | c # cs \<Rightarrow>
          if c = CHR ''{'' then
            (if depth = 0 then Inl JsonTooDeep
             else case skip_ws cs of
               [] \<Rightarrow> Inl JsonUnexpectedEOF
             | d # ds \<Rightarrow>
                 if d = CHR ''}'' then Inr (JObject [], ds)
                 else map_sum id (map_prod JObject id) (parse_members n (depth - 1) (d # ds)))
          else if c = CHR ''['' then
            (if depth = 0 then Inl JsonTooDeep
             else case skip_ws cs of
               [] \<Rightarrow> Inl JsonUnexpectedEOF
             | d # ds \<Rightarrow>
                 if d = CHR '']'' then Inr (JArray [], ds)
                 else map_sum id (map_prod JArray id) (parse_elements n (depth - 1) (d # ds)))
          else if c = CHR 0x22 then map_sum id (map_prod JString id) (scan_string InString cs)
          else if c = CHR ''t'' then map_sum id (Pair (JBool True)) (expect ''rue'' cs)
          else if c = CHR ''f'' then map_sum id (Pair (JBool False)) (expect ''alse'' cs)
          else if c = CHR ''n'' then map_sum id (Pair JNull) (expect ''ull'' cs)
          else if c = CHR ''-'' \<or> is_digit c then map_sum id (map_prod JNumber id) (scan_number (c # cs))
          else Inl JsonSyntax)"
| "parse_elements 0 depth s = Inl JsonNoFuel"
| "parse_elements (Suc n) depth s =
     (case parse_value n depth s of
        Inl e \<Rightarrow> Inl e
      | Inr (v, r) \<Rightarrow>
          (case skip_ws r of
             [] \<Rightarrow> Inl JsonUnexpectedEOF
           | c # cs \<Rightarrow>
               if c = CHR '','' then map_sum id (map_prod (Cons v) id) (parse_elements n depth cs)
               else if c = CHR '']'' then Inr ([v], cs)
               else Inl JsonSyntax))"
| "parse_members 0 depth s = Inl JsonNoFuel"
| "parse_members (Suc n) depth s =
     (case skip_ws s of
        [] \<Rightarrow> Inl JsonUnexpectedEOF
      | q # cs \<Rightarrow>
          if q \<noteq> CHR 0x22 then Inl JsonSyntax
          else (case scan_string InString cs of
            Inl e \<Rightarrow> Inl e
          | Inr (key, s1) \<Rightarrow>
              (case skip_ws s1 of
                 [] \<Rightarrow> Inl JsonUnexpectedEOF
               | d # s2 \<Rightarrow>
                   if d \<noteq> CHR '':'' then Inl JsonSyntax
                   else (case parse_value n depth s2 of
                     Inl e \<Rightarrow> Inl e
                   | Inr (v, r) \<Rightarrow>
                       let start = skip_ws s2;
                           raw = take (length start - length r) start
                       in (case skip_ws r of
                             [] \<Rightarrow> Inl JsonUnexpectedEOF
                           | c # cs' \<Rightarrow>
                               if c = CHR '','' then
                                 map_sum id (map_prod (Cons (key, raw, v)) id)
                                   (parse_members n depth cs')
                               else if c = CHR ''}'' then Inr ([(key, raw, v)], cs')
                               else Inl JsonSyntax)))))"

definition max_nesting_depth :: nat where
  "max_nesting_depth = 10000"

definition json_fuel :: "gostring \<Rightarrow> nat" where
  "json_fuel s = 2 * length s + 2"

definition parse_json :: "gostring \<Rightarrow> json_error + json \<times> gostring" where
  "parse_json s = parse_value (json_fuel s) max_nesting_depth s"

text \<open>\<open>Decoder.Decode\<close> up to the conversion into the target: the next value of the stream and what
  follows it.\<close>

definition decode_stream :: "gostring \<Rightarrow> json_error + json \<times> gostring" where
  "decode_stream s = (if skip_ws s = [] then Inl JsonEOF else parse_json s)"

text \<open>\<open>json.Unmarshal\<close> up to the conversion: exactly one value, and white space after it.\<close>

definition unmarshal_value :: "gostring \<Rightarrow> json_error + json" where
  "unmarshal_value s =
     (case parse_json s of
        Inl e \<Rightarrow> Inl e
      | Inr (v, r) \<Rightarrow> if skip_ws r = [] then Inr v else Inl JsonSyntax)"

section \<open>What the scanner consumes\<close>

lemma map_sum_Inr [simp]: "map_sum f g r = Inr v \<longleftrightarrow> (\<exists>u. r = Inr u \<and> v = g u)"
  by (cases r) auto

lemma map_sum_Inl [simp]: "map_sum f g r = Inl e \<longleftrightarrow> (\<exists>u. r = Inl u \<and> e = f u)"
  by (cases r) auto

lemma scan_string_split: "scan_string st s = Inr (b, r) \<Longrightarrow> s = b @ CHR 0x22 # r"
  by (induction st s arbitrary: b rule: scan_string.induct) (auto split: if_splits)

lemma scan_digits_split: "scan_digits s = Inr (b, r) \<Longrightarrow> s = b @ r \<and> b \<noteq> []"
  by (auto simp: scan_digits_def split: list.splits if_splits)

lemma scan_int_part_split: "scan_int_part s = Inr (b, r) \<Longrightarrow> s = b @ r \<and> b \<noteq> []"
  by (auto simp: scan_int_part_def split: list.splits if_splits dest: scan_digits_split)

lemma scan_fraction_split: "scan_fraction s = Inr (b, r) \<Longrightarrow> s = b @ r"
  by (auto simp: scan_fraction_def split: list.splits if_splits dest: scan_digits_split)

lemma scan_exponent_split: "scan_exponent s = Inr (b, r) \<Longrightarrow> s = b @ r"
  by (auto simp: scan_exponent_def split: list.splits if_splits dest!: scan_digits_split)

lemma scan_number_split: "scan_number s = Inr (b, r) \<Longrightarrow> s = b @ r \<and> b \<noteq> []"
  by (auto simp: scan_number_def Let_def split: list.splits if_splits sum.splits prod.splits
      dest!: scan_int_part_split scan_fraction_split scan_exponent_split)

lemma expect_split: "expect xs s = Inr r \<Longrightarrow> s = xs @ r"
  by (induction xs s rule: expect.induct) (auto split: if_splits)

lemma length_skip_ws: "length (skip_ws s) \<le> length s"
  by (simp add: skip_ws_def length_dropWhile_le)

lemma skip_ws_Cons_length: "skip_ws s = c # cs \<Longrightarrow> length cs < length s"
  using length_skip_ws [of s] by simp

lemmas scan_splits =
  scan_string_split scan_number_split expect_split

text \<open>Inversion of a successful parse: the cases of the grammar.\<close>

lemma parse_value_SucE:
  assumes "parse_value (Suc n) depth s = Inr (v, r)"
  obtains
    (empty_object) cs where "skip_ws s = CHR ''{'' # cs" "depth \<noteq> 0" "skip_ws cs = CHR ''}'' # r"
      "v = JObject []"
  | (object) cs ms where "skip_ws s = CHR ''{'' # cs" "depth \<noteq> 0" "skip_ws cs \<noteq> []"
      "parse_members n (depth - 1) (skip_ws cs) = Inr (ms, r)" "v = JObject ms"
  | (empty_array) cs where "skip_ws s = CHR ''['' # cs" "depth \<noteq> 0" "skip_ws cs = CHR '']'' # r"
      "v = JArray []"
  | (array) cs vs where "skip_ws s = CHR ''['' # cs" "depth \<noteq> 0" "skip_ws cs \<noteq> []"
      "parse_elements n (depth - 1) (skip_ws cs) = Inr (vs, r)" "v = JArray vs"
  | (string) cs b where "skip_ws s = CHR 0x22 # cs" "scan_string InString cs = Inr (b, r)"
      "v = JString b"
  | (literal) l where "skip_ws s = l @ r" "l \<noteq> []" "v \<in> {JBool True, JBool False, JNull}"
  | (number) c cs b where "skip_ws s = c # cs" "scan_number (c # cs) = Inr (b, r)" "v = JNumber b"
proof (cases "skip_ws s")
  case Nil
  with assms show thesis by simp
next
  case (Cons c cs)
  note c = this
  consider "c = CHR ''{''" | "c = CHR ''[''" | "c = CHR 0x22" | "c = CHR ''t''" | "c = CHR ''f''"
    | "c = CHR ''n''" | "c \<notin> {CHR ''{'', CHR ''['', CHR 0x22, CHR ''t'', CHR ''f'', CHR ''n''}"
    by blast
  then show thesis
  proof cases
    case 1
    show thesis
    proof (cases "skip_ws cs")
      case Nil
      with assms c 1 show thesis by (simp split: if_splits)
    next
      case (Cons d ds)
      with assms c 1 empty_object object show thesis by (auto split: if_splits)
    qed
  next
    case 2
    show thesis
    proof (cases "skip_ws cs")
      case Nil
      with assms c 2 show thesis by (simp split: if_splits)
    next
      case (Cons d ds)
      with assms c 2 empty_array array show thesis by (auto split: if_splits)
    qed
  next
    case 3
    with assms c obtain b where "scan_string InString cs = Inr (b, r)" "v = JString b" by auto
    with c 3 string show thesis by blast
  next
    case 4
    with assms c have "expect ''rue'' cs = Inr r \<and> v = JBool True" by auto
    with 4 c literal [of "''true''"] show thesis by (auto dest!: expect_split)
  next
    case 5
    with assms c have "expect ''alse'' cs = Inr r \<and> v = JBool False" by auto
    with 5 c literal [of "''false''"] show thesis by (auto dest!: expect_split)
  next
    case 6
    with assms c have "expect ''ull'' cs = Inr r \<and> v = JNull" by auto
    with 6 c literal [of "''null''"] show thesis by (auto dest!: expect_split)
  next
    case 7
    with assms c obtain b where "scan_number (c # cs) = Inr (b, r)" "v = JNumber b"
      by (simp split: if_splits) blast
    with c show thesis by (rule number)
  qed
qed

lemma parse_elements_SucE:
  assumes "parse_elements (Suc n) depth s = Inr (vs, r)"
  obtains
    (more) v q cs ws where "parse_value n depth s = Inr (v, q)" "skip_ws q = CHR '','' # cs"
      "parse_elements n depth cs = Inr (ws, r)" "vs = v # ws"
  | (last) v q where "parse_value n depth s = Inr (v, q)" "skip_ws q = CHR '']'' # r" "vs = [v]"
  using assms by (auto split: sum.splits prod.splits list.splits if_splits)

lemma parse_members_SucE:
  assumes "parse_members (Suc n) depth s = Inr (ms, r)"
  obtains
    (more) cs key s1 s2 v q cs' ms' where "skip_ws s = CHR 0x22 # cs"
      "scan_string InString cs = Inr (key, s1)" "skip_ws s1 = CHR '':'' # s2"
      "parse_value n depth s2 = Inr (v, q)" "skip_ws q = CHR '','' # cs'"
      "parse_members n depth cs' = Inr (ms', r)"
      "ms = (key, take (length (skip_ws s2) - length q) (skip_ws s2), v) # ms'"
  | (last) cs key s1 s2 v q where "skip_ws s = CHR 0x22 # cs"
      "scan_string InString cs = Inr (key, s1)" "skip_ws s1 = CHR '':'' # s2"
      "parse_value n depth s2 = Inr (v, q)" "skip_ws q = CHR ''}'' # r"
      "ms = [(key, take (length (skip_ws s2) - length q) (skip_ws s2), v)]"
proof -
  obtain c cs where s: "skip_ws s = c # cs" using assms by (cases "skip_ws s") simp_all
  with assms have c: "c = CHR 0x22" by (simp split: if_splits)
  obtain key s1 where k: "scan_string InString cs = Inr (key, s1)"
    using assms s c by (cases "scan_string InString cs") auto
  obtain d s2 where d: "skip_ws s1 = d # s2" using assms s c k by (cases "skip_ws s1") simp_all
  with assms s c k have d': "d = CHR '':''" by (simp split: if_splits)
  obtain v q where v: "parse_value n depth s2 = Inr (v, q)"
    using assms s c k d d' by (cases "parse_value n depth s2") auto
  obtain e cs' where e: "skip_ws q = e # cs'"
    using assms s c k d d' v by (cases "skip_ws q") (simp_all add: Let_def)
  show thesis
  proof (cases "e = CHR '',''")
    case True
    with assms s c k d d' v e obtain ms' where "parse_members n depth cs' = Inr (ms', r)"
      "ms = (key, take (length (skip_ws s2) - length q) (skip_ws s2), v) # ms'"
      by (auto simp: Let_def)
    with more s c k d d' v e True show thesis by simp
  next
    case False
    with assms s c k d d' v e last show thesis by (simp add: Let_def split: if_splits)
  qed
qed

lemma parse_shorter:
  "parse_value n depth s = Inr (v, r) \<Longrightarrow> length r < length s"
  "parse_elements n depth s = Inr (vs, r) \<Longrightarrow> length r < length s"
  "parse_members n depth s = Inr (ms, r) \<Longrightarrow> length r < length s"
proof (induction n arbitrary: depth s v r vs ms)
  case 0
  { case 1 then show ?case by simp next
    case 2 then show ?case by simp next
    case 3 then show ?case by simp }
next
  case (Suc n)
  { case 1
    then show ?case
    proof (cases rule: parse_value_SucE)
      case (object cs ms)
      with Suc.IH(3) [OF object(4)] length_skip_ws [of cs] skip_ws_Cons_length [OF object(1)]
      show ?thesis by simp
    next
      case (array cs vs)
      with Suc.IH(2) [OF array(4)] length_skip_ws [of cs] skip_ws_Cons_length [OF array(1)]
      show ?thesis by simp
    next
      case (string cs b)
      with length_skip_ws [of s] show ?thesis by (auto dest!: scan_string_split)
    next
      case (literal l)
      with length_skip_ws [of s] show ?thesis by (cases l) auto
    next
      case (number c cs b)
      with length_skip_ws [of s] show ?thesis by (cases b) (auto dest!: scan_number_split)
    qed (auto dest!: skip_ws_Cons_length)
  next
    case 2
    then show ?case
    proof (cases rule: parse_elements_SucE)
      case (more v q cs ws)
      with Suc.IH(1) [OF more(1)] Suc.IH(2) [OF more(3)] skip_ws_Cons_length [OF more(2)]
      show ?thesis by simp
    next
      case (last v q)
      with Suc.IH(1) [OF last(1)] skip_ws_Cons_length [OF last(2)] show ?thesis by simp
    qed
  next
    case 3
    then show ?case
    proof (cases rule: parse_members_SucE)
      case (more cs key s1 s2 v q cs' ms')
      with Suc.IH(1) [OF more(4)] Suc.IH(3) [OF more(6)] skip_ws_Cons_length [OF more(1)]
        skip_ws_Cons_length [OF more(3)] skip_ws_Cons_length [OF more(5)]
      show ?thesis by (auto dest!: scan_string_split)
    next
      case (last cs key s1 s2 v q)
      with Suc.IH(1) [OF last(4)] skip_ws_Cons_length [OF last(1)]
        skip_ws_Cons_length [OF last(3)] skip_ws_Cons_length [OF last(5)]
      show ?thesis by (auto dest!: scan_string_split)
    qed }
qed

text \<open>The fuel is enough: every recursive call has dropped at least one byte since the caller's.\<close>

lemma scan_no_fuel:
  "scan_string st s \<noteq> Inl JsonNoFuel"
  "scan_number s \<noteq> Inl JsonNoFuel"
  "expect xs s \<noteq> Inl JsonNoFuel"
proof -
  show "scan_string st s \<noteq> Inl JsonNoFuel"
    by (induction st s rule: scan_string.induct) auto
  have d: "scan_digits t \<noteq> Inl JsonNoFuel" for t
    by (auto simp: scan_digits_def split: list.splits)
  have i: "scan_int_part t \<noteq> Inl JsonNoFuel" for t
    using d by (auto simp: scan_int_part_def split: list.splits)
  have f: "scan_fraction t \<noteq> Inl JsonNoFuel" for t
    using d by (auto simp: scan_fraction_def split: list.splits)
  have x: "scan_exponent t \<noteq> Inl JsonNoFuel" for t
    using d by (auto simp: scan_exponent_def split: list.splits)
  show "scan_number s \<noteq> Inl JsonNoFuel"
    using i f x by (auto simp: scan_number_def Let_def split: sum.splits list.splits)
  show "expect xs s \<noteq> Inl JsonNoFuel"
    by (induction xs s rule: expect.induct) auto
qed

lemma parse_enough_fuel:
  "2 * length s + 1 \<le> n \<Longrightarrow> parse_value n depth s \<noteq> Inl JsonNoFuel"
  "2 * length s + 2 \<le> n \<Longrightarrow> parse_elements n depth s \<noteq> Inl JsonNoFuel"
  "2 * length s + 2 \<le> n \<Longrightarrow> parse_members n depth s \<noteq> Inl JsonNoFuel"
proof (induction n arbitrary: depth s)
  case 0
  { case 1 then show ?case by simp next
    case 2 then show ?case by simp next
    case 3 then show ?case by simp }
next
  case (Suc n)
  { case 1
    show ?case
    proof (cases "skip_ws s")
      case Nil
      then show ?thesis by simp
    next
      case (Cons c cs)
      have "length cs < length s" by (rule skip_ws_Cons_length [OF Cons])
      with 1 length_skip_ws [of cs] have "2 * length (skip_ws cs) + 2 \<le> n" by simp
      then have "parse_members n d xs \<noteq> Inl JsonNoFuel" "parse_elements n d xs \<noteq> Inl JsonNoFuel"
        if "skip_ws cs = xs" for d xs
        using Suc.IH that by blast+
      with Cons scan_no_fuel show ?thesis by (simp split: list.split)
    qed
  next
    case 2
    then have v: "parse_value n depth s \<noteq> Inl JsonNoFuel" using Suc.IH(1) by simp
    show ?case
    proof (cases "parse_value n depth s")
      case (Inl e)
      with v show ?thesis by simp
    next
      case (Inr p)
      obtain w r where p: "p = (w, r)" by force
      have "length r < length s" using Inr p parse_shorter(1) by blast
      with 2 have "parse_elements n depth cs \<noteq> Inl JsonNoFuel" if "skip_ws r = c # cs" for c cs
        using Suc.IH(2) skip_ws_Cons_length [OF that] by simp
      with Inr p show ?thesis by (simp split: list.split)
    qed
  next
    case 3
    show ?case
    proof (cases "skip_ws s")
      case Nil
      then show ?thesis by simp
    next
      case (Cons c cs)
      have l: "length cs < length s" by (rule skip_ws_Cons_length [OF Cons])
      show ?thesis
      proof (cases "scan_string InString cs")
        case (Inl e)
        with Cons scan_no_fuel(1) [of InString cs] show ?thesis by simp
      next
        case k: (Inr p)
        obtain key s1 where p: "p = (key, s1)" by force
        with k have "length s1 < length cs" by (auto dest!: scan_string_split)
        then have s2: "length s2 < length cs" if "skip_ws s1 = d # s2" for d s2
          using skip_ws_Cons_length [OF that] by simp
        have v: "parse_value n depth s2 \<noteq> Inl JsonNoFuel" if "skip_ws s1 = d # s2" for d s2
          using Suc.IH(1) s2 [OF that] l 3 by simp
        have m: "parse_members n depth cs' \<noteq> Inl JsonNoFuel"
          if "skip_ws s1 = d # s2" "parse_value n depth s2 = Inr (w, r)" "skip_ws r = e # cs'"
          for d s2 w r e cs'
          using Suc.IH(3) s2 [OF that(1)] parse_shorter(1) [OF that(2)]
            skip_ws_Cons_length [OF that(3)] l 3 by simp
        from Cons k p m show ?thesis
          by (simp add: Let_def split: list.split sum.split) (metis v)
      qed
    qed }
qed

theorem parse_json_fuel: "parse_json s \<noteq> Inl JsonNoFuel"
  unfolding parse_json_def json_fuel_def by (rule parse_enough_fuel) simp

text \<open>The errors of the scanner: a value that has begun never ends in \<open>io.EOF\<close>.\<close>

definition grammar_error :: "json_error \<Rightarrow> bool" where
  "grammar_error e \<longleftrightarrow> e \<in> {JsonSyntax, JsonTooDeep, JsonUnexpectedEOF, JsonNoFuel}"

lemma grammar_error_simps [simp]:
  "grammar_error JsonSyntax" "grammar_error JsonTooDeep" "grammar_error JsonUnexpectedEOF"
  "grammar_error JsonNoFuel"
  by (simp_all add: grammar_error_def)

lemma scan_errors:
  "scan_string st s = Inl e \<Longrightarrow> grammar_error e"
  "scan_number s = Inl e \<Longrightarrow> grammar_error e"
  "expect xs s = Inl e \<Longrightarrow> grammar_error e"
proof -
  show "scan_string st s = Inl e \<Longrightarrow> grammar_error e"
    by (induction st s rule: scan_string.induct) (auto split: if_splits)
  have d: "scan_digits t = Inl e \<Longrightarrow> grammar_error e" for t
    by (auto simp: scan_digits_def split: list.splits if_splits)
  have i: "scan_int_part t = Inl e \<Longrightarrow> grammar_error e" for t
    using d by (auto simp: scan_int_part_def split: list.splits if_splits)
  have f: "scan_fraction t = Inl e \<Longrightarrow> grammar_error e" for t
    using d by (auto simp: scan_fraction_def split: list.splits if_splits)
  have x: "scan_exponent t = Inl e \<Longrightarrow> grammar_error e" for t
    using d by (auto simp: scan_exponent_def split: list.splits if_splits)
  show "scan_number s = Inl e \<Longrightarrow> grammar_error e"
    using i f x by (auto simp: scan_number_def Let_def split: sum.splits list.splits if_splits)
  show "expect xs s = Inl e \<Longrightarrow> grammar_error e"
    by (induction xs s rule: expect.induct) (auto split: if_splits)
qed

lemma parse_errors:
  "parse_value n depth s = Inl e \<Longrightarrow> grammar_error e"
  "parse_elements n depth s = Inl e \<Longrightarrow> grammar_error e"
  "parse_members n depth s = Inl e \<Longrightarrow> grammar_error e"
proof (induction n arbitrary: depth s)
  case 0
  { case 1 then show ?case by simp next
    case 2 then show ?case by simp next
    case 3 then show ?case by simp }
next
  case (Suc n)
  note ih = Suc.IH
  { case 1
    show ?case
    proof (cases "skip_ws s")
      case Nil
      with 1 show ?thesis by simp
    next
      case (Cons c cs)
      note c = Cons
      consider "c = CHR ''{''" | "c = CHR ''[''" | "c = CHR 0x22" | "c = CHR ''t''" | "c = CHR ''f''"
        | "c = CHR ''n''" | "c \<notin> {CHR ''{'', CHR ''['', CHR 0x22, CHR ''t'', CHR ''f'', CHR ''n''}"
        by blast
      then show ?thesis
      proof cases
        case 1
        with \<open>parse_value (Suc n) depth s = Inl e\<close> c show ?thesis
          by (cases "skip_ws cs") (auto split: if_splits dest: ih(3))
      next
        case 2
        with \<open>parse_value (Suc n) depth s = Inl e\<close> c show ?thesis
          by (cases "skip_ws cs") (auto split: if_splits dest: ih(2))
      next
        case 7
        with \<open>parse_value (Suc n) depth s = Inl e\<close> c
        have "scan_number (c # cs) = Inl e \<or> e = JsonSyntax" by (simp split: if_splits)
        then show ?thesis using scan_errors(2) by auto
      qed (use \<open>parse_value (Suc n) depth s = Inl e\<close> c in \<open>auto dest: scan_errors\<close>)
    qed
  next
    case 2
    then show ?case by (auto split: list.splits if_splits sum.splits dest: ih)
  next
    case 3
    show ?case
    proof (cases "skip_ws s")
      case Nil
      with 3 show ?thesis by simp
    next
      case (Cons c cs)
      note c = Cons
      show ?thesis
      proof (cases "scan_string InString cs")
        case (Inl e')
        with 3 c scan_errors(1) [OF Inl] show ?thesis by (simp split: if_splits)
      next
        case (Inr p)
        obtain key s1 where k: "scan_string InString cs = Inr (key, s1)" using Inr by (cases p) auto
        show ?thesis
        proof (cases "skip_ws s1")
          case Nil
          with 3 c k show ?thesis by (simp split: if_splits)
        next
          case (Cons d s2)
          with 3 c k show ?thesis
            by (cases "parse_value n depth s2")
               (auto simp: Let_def split: list.splits if_splits dest: ih(1,3))
        qed
      qed
    qed }
qed

lemma parse_json_error: "parse_json s = Inl e \<Longrightarrow> e \<noteq> JsonEOF \<and> e \<noteq> JsonReader"
  unfolding parse_json_def using parse_errors(1) [of "json_fuel s" max_nesting_depth s e]
  by (auto simp: grammar_error_def)

lemma decode_stream_EOF: "decode_stream s = Inl JsonEOF \<longleftrightarrow> skip_ws s = []"
  using parse_json_error by (auto simp: decode_stream_def)

end
