(* ===== verification/Go_Json_Decode.thy ===== *)
theory Go_Json_Decode imports Go_Json "HOL-Library.AList" begin

text \<open>
  What \<open>encoding/json\<close> does with a parsed value: resolving the escapes of a string, decoding an
  object into a struct with \<open>DisallowUnknownFields\<close>, and decoding into a map of raw messages. A
  struct type is given by its fields: a name and a setter, which receives the bytes and the value
  of the member.
\<close>

section \<open>String literals\<close>

text \<open>The value of four hexadecimal digits (\<open>getu4\<close> after its prefix).\<close>

definition hex_value :: "char \<Rightarrow> nat" where
  "hex_value c =
     (if byte c \<le> 57 then byte c - 48 else if byte c \<le> 70 then byte c - 55 else byte c - 87)"

definition hex4 :: "gostring \<Rightarrow> nat" where
  "hex4 s = foldl (\<lambda>a c. 16 * a + hex_value c) 0 (take 4 s)"

definition is_surrogate :: "nat \<Rightarrow> bool" where
  "is_surrogate r \<longleftrightarrow> 0xD800 \<le> r \<and> r \<le> 0xDFFF"

text \<open>\<open>utf16.DecodeRune\<close>.\<close>

definition decode_utf16 :: "nat \<Rightarrow> nat \<Rightarrow> nat" where
  "decode_utf16 r1 r2 =
     (if 0xD800 \<le> r1 \<and> r1 < 0xDC00 \<and> 0xDC00 \<le> r2 \<and> r2 < 0xE000
      then (r1 - 0xD800) * 1024 + (r2 - 0xDC00) + 0x10000 else RuneError)"

definition escape_char :: "char \<Rightarrow> char" where
  "escape_char e =
     (if e = CHR ''b'' then CHR 0x08 else if e = CHR ''f'' then CHR 0x0C
      else if e = CHR ''n'' then CHR 0x0A else if e = CHR ''r'' then CHR 0x0D
      else if e = CHR ''t'' then CHR 0x09 else e)"

text \<open>\<open>unquoteBytes\<close>, on the bytes between the quotes of a literal that the scanner accepted.\<close>

function unquote :: "gostring \<Rightarrow> gostring" where
  "unquote [] = []"
| "unquote (c # cs) =
     (if c = CHR 0x5C then
        (case cs of
           [] \<Rightarrow> []
         | e # r \<Rightarrow>
             if e = CHR ''u'' then
               let rr = hex4 r; r4 = drop 4 r in
               if is_surrogate rr then
                 if take 2 r4 = [CHR 0x5C, CHR ''u'']
                    \<and> decode_utf16 rr (hex4 (drop 2 r4)) \<noteq> RuneError
                 then encode_rune (decode_utf16 rr (hex4 (drop 2 r4))) @ unquote (drop 6 r4)
                 else encode_rune RuneError @ unquote r4
               else encode_rune rr @ unquote r4
             else escape_char e # unquote r)
      else if byte c < 0x80 then c # unquote cs
      else encode_rune (fst (decode_rune (c # cs)))
             @ unquote (drop (snd (decode_rune (c # cs))) (c # cs)))"
  by pat_completeness auto
termination
  by (relation "measure length") (use decode_rune_width_pos in auto)

lemma unquote_plain:
  assumes "list_all (\<lambda>c. byte c < 0x80 \<and> c \<noteq> CHR 0x5C) s"
  shows "unquote s = s"
  using assms by (induction s) simp_all

section \<open>Structs\<close>

text \<open>
  \<open>foldName\<close>. Field names of the program are ASCII, so only the runes that fold into ASCII
  matter: the ASCII letters, U+017F and U+212A. Every other rune folds to a rune outside ASCII and
  is kept.
\<close>

definition fold_rune :: "nat \<Rightarrow> nat" where
  "fold_rune r =
     (if 97 \<le> r \<and> r \<le> 122 then r - 32 else if r = 0x017F then 83 else if r = 0x212A then 75 else r)"

definition fold_name :: "gostring \<Rightarrow> nat list" where
  "fold_name s = map fold_rune (runes s)"

type_synonym 'a fields = "(gostring \<times> (gostring \<Rightarrow> json \<Rightarrow> 'a \<Rightarrow> json_error + 'a)) list"

text \<open>A key selects the field of that exact name, else the first field whose name folds alike.\<close>

definition find_field ::
  "'a fields \<Rightarrow> gostring \<Rightarrow> (gostring \<Rightarrow> json \<Rightarrow> 'a \<Rightarrow> json_error + 'a) option" where
  "find_field fields key =
     (case map_of fields key of
        Some setf \<Rightarrow> Some setf
      | None \<Rightarrow> map_option snd (find (\<lambda>(name, setf). fold_name name = fold_name key) fields))"

text \<open>\<open>d.saveError\<close> keeps the first error; decoding goes on with the next member.\<close>

definition save_error :: "json_error option \<Rightarrow> json_error \<Rightarrow> json_error option" where
  "save_error saved e = (case saved of None \<Rightarrow> Some e | Some e0 \<Rightarrow> Some e0)"

fun decode_members ::
  "'a fields \<Rightarrow> (gostring \<times> gostring \<times> json) list \<Rightarrow> json_error option \<Rightarrow> 'a
     \<Rightarrow> json_error option \<times> 'a" where
  "decode_members fields [] saved acc = (saved, acc)"
| "decode_members fields ((key, raw, v) # ms) saved acc =
     (case find_field fields (unquote key) of
        None \<Rightarrow>
          decode_members fields ms (save_error saved (JsonUnknownField (unquote key))) acc
      | Some setf \<Rightarrow>
          (case setf raw v acc of
             Inl e \<Rightarrow> decode_members fields ms (save_error saved e) acc
           | Inr acc' \<Rightarrow> decode_members fields ms saved acc'))"

definition decode_struct :: "'a fields \<Rightarrow> 'a \<Rightarrow> json \<Rightarrow> json_error + 'a" where
  "decode_struct fields zero v =
     (case v of
        JObject ms \<Rightarrow>
          (case decode_members fields ms None zero of
             (Some e, _) \<Rightarrow> Inl e
           | (None, acc) \<Rightarrow> Inr acc)
      | JNull \<Rightarrow> Inr zero
      | _ \<Rightarrow> Inl JsonTypeMismatch)"

text \<open>Setters of a string, an int and a \<open>json.RawMessage\<close> field. A null leaves the first two as they
  are; a raw message takes the bytes of any value.\<close>

definition string_field ::
  "(gostring \<Rightarrow> 'a \<Rightarrow> 'a) \<Rightarrow> gostring \<Rightarrow> json \<Rightarrow> 'a \<Rightarrow> json_error + 'a" where
  "string_field upd raw v acc =
     (case v of
        JString body \<Rightarrow> Inr (upd (unquote body) acc)
      | JNull \<Rightarrow> Inr acc
      | _ \<Rightarrow> Inl JsonTypeMismatch)"

definition int_field ::
  "(int \<Rightarrow> 'a \<Rightarrow> 'a) \<Rightarrow> gostring \<Rightarrow> json \<Rightarrow> 'a \<Rightarrow> json_error + 'a" where
  "int_field upd raw v acc =
     (case v of
        JNumber lit \<Rightarrow>
          (case parse_int lit of Inr i \<Rightarrow> Inr (upd i acc) | Inl _ \<Rightarrow> Inl JsonTypeMismatch)
      | JNull \<Rightarrow> Inr acc
      | _ \<Rightarrow> Inl JsonTypeMismatch)"

definition raw_field ::
  "(gostring \<Rightarrow> 'a \<Rightarrow> 'a) \<Rightarrow> gostring \<Rightarrow> json \<Rightarrow> 'a \<Rightarrow> json_error + 'a" where
  "raw_field upd raw v acc = Inr (upd raw acc)"

section \<open>Maps of raw messages\<close>

text \<open>
  \<open>json.Unmarshal\<close> into a \<open>map[string]json.RawMessage\<close>: an error, the nil map for null, or the
  members as an association list with one entry per key. A later member with the same key replaces
  an earlier one.
\<close>

definition raw_map :: "(gostring \<times> gostring \<times> json) list \<Rightarrow> (gostring \<times> gostring) list" where
  "raw_map ms = fold (\<lambda>(k, raw, _) m. AList.update (unquote k) raw m) ms []"

definition unmarshal_raw_map ::
  "gostring \<Rightarrow> json_error + (gostring \<times> gostring) list option" where
  "unmarshal_raw_map s =
     (case unmarshal_value s of
        Inl e \<Rightarrow> Inl e
      | Inr v \<Rightarrow>
          (case v of
             JObject ms \<Rightarrow> Inr (Some (raw_map ms))
           | JNull \<Rightarrow> Inr None
           | _ \<Rightarrow> Inl JsonTypeMismatch))"

lemma raw_map_Nil: "raw_map ms = [] \<longleftrightarrow> ms = []"
proof -
  have "fold (\<lambda>(k, raw, _) m. AList.update (unquote k) raw m) ms m = [] \<longleftrightarrow> ms = [] \<and> m = []" for m
    by (induction ms arbitrary: m) (simp_all add: case_prod_unfold)
  then show ?thesis by (simp add: raw_map_def)
qed

lemma decode_members_saved: "decode_members fields ms (Some e) acc = (saved, a) \<Longrightarrow> saved = Some e"
  by (induction fields ms "Some e" acc arbitrary: e rule: decode_members.induct)
     (auto simp: save_error_def split: option.splits sum.splits)

text \<open>A decoded struct has only known keys, each accepted by its field.\<close>

lemma decode_members_ok:
  assumes "decode_members fields ms None acc = (None, a)" "(key, raw, v) \<in> set ms"
  obtains setf b b' where "find_field fields (unquote key) = Some setf" "setf raw v b = Inr b'"
proof -
  from assms have "\<exists>setf b b'. find_field fields (unquote key) = Some setf \<and> setf raw v b = Inr b'"
  proof (induction ms arbitrary: acc)
    case (Cons m ms)
    obtain k r w where m: "m = (k, r, w)" by (cases m) auto
    from Cons.prems(1) obtain setf b' where s: "find_field fields (unquote k) = Some setf"
      "setf r w acc = Inr b'" "decode_members fields ms None b' = (None, a)"
      by (auto simp: m save_error_def split: option.splits sum.splits dest: decode_members_saved)
    then show ?case using Cons.IH [OF s(3)] Cons.prems(2) m by auto
  qed simp
  then show thesis using that by blast
qed

end
