(* ===== verification/Go_Errors.thy ===== *)
theory Go_Errors imports Go_Json_Decode begin

text \<open>
  Go's \<open>error\<close> values as the program builds and inspects them: the sentinels it declares or takes
  from its libraries, errors made on the spot by \<open>errors.New\<close>, wrapping by \<open>fmt.Errorf\<close> with the
  verb of every argument kept, and \<open>errors.Join\<close>. \<open>errors_is\<close> is \<open>errors.Is\<close>: it looks
  through \<open>%w\<close> and \<open>Join\<close>, but not through \<open>%v\<close>.

  A third-party or system error that the program only passes on is any such value too; the
  definitions that receive one take it from their environment.
\<close>

datatype sentinel =
    ErrInvalidID
  | ErrInvalidType
  | ErrInvalidStatus
  | ErrInvalidPayload
  | ErrInvalidCreatedAt
  | ErrInvalidUpdatedAt
  | ErrInvalidRetry
  | ErrInvalidEventTime
  | ErrInvalidTransition
  | ErrInvalidFailureReason
  | ErrJobNotFound
  | ErrJobAlreadyExists
  | ErrJobQueueUnavailable
  | ErrJobRetryScheduled
  | ErrJobRetriesExhausted
  | ErrHandlerNotRegistered
  | ErrUnexpectedJobType
  | ErrInvalidHandlerPayload
  | ErrNilJob
  | Canceled
  | DeadlineExceeded
  | ErrDuplicatedKey
  | ErrRecordNotFound
  | ErrServerClosed

text \<open>\<open>Lit\<close> is literal text of the format, \<open>Arg_s\<close>, \<open>Arg_q\<close> and \<open>Arg_d\<close> the arguments of
  \<open>%s\<close>, \<open>%q\<close> and \<open>%d\<close>, \<open>Arg_w\<close> and \<open>Arg_v\<close> an error under \<open>%w\<close> and \<open>%v\<close>.\<close>

datatype goerror =
    Sentinel sentinel
  | NewError gostring
  | JsonError json_error
  | Errorf "format_part list"
  | JoinErrors "goerror list"
and format_part =
    Lit gostring
  | Arg_s gostring
  | Arg_q gostring
  | Arg_d int
  | Arg_w goerror
  | Arg_v goerror

section \<open>\<open>errors.Is\<close>\<close>

fun errors_is :: "goerror \<Rightarrow> sentinel \<Rightarrow> bool"
and part_is :: "format_part \<Rightarrow> sentinel \<Rightarrow> bool" where
  "errors_is (Sentinel t) s = (t = s)"
| "errors_is (NewError m) s = False"
| "errors_is (JsonError e) s = False"
| "errors_is (Errorf ps) s = list_ex (\<lambda>p. part_is p s) ps"
| "errors_is (JoinErrors es) s = list_ex (\<lambda>e. errors_is e s) es"
| "part_is (Arg_w e) s = errors_is e s"
| "part_is p s = False"

text \<open>\<open>errors.Join\<close> of a list without nils.\<close>

definition errors_join :: "goerror list \<Rightarrow> goerror option" where
  "errors_join es = (if es = [] then None else Some (JoinErrors es))"

section \<open>\<open>Error()\<close>\<close>

fun sentinel_text :: "sentinel \<Rightarrow> gostring" where
  "sentinel_text ErrInvalidID = ''invalid job ID''"
| "sentinel_text ErrInvalidType = ''invalid job type''"
| "sentinel_text ErrInvalidStatus = ''invalid job status''"
| "sentinel_text ErrInvalidPayload = ''invalid job payload''"
| "sentinel_text ErrInvalidCreatedAt = ''invalid job creation time''"
| "sentinel_text ErrInvalidUpdatedAt = ''invalid job update time''"
| "sentinel_text ErrInvalidRetry = ''invalid job retry values''"
| "sentinel_text ErrInvalidEventTime = ''invalid job lifecycle time''"
| "sentinel_text ErrInvalidTransition = ''invalid job status transition''"
| "sentinel_text ErrInvalidFailureReason = ''invalid job failure reason''"
| "sentinel_text ErrJobNotFound = ''job not found''"
| "sentinel_text ErrJobAlreadyExists = ''job already exists''"
| "sentinel_text ErrJobQueueUnavailable = ''job queue unavailable''"
| "sentinel_text ErrJobRetryScheduled = ''job retry scheduled''"
| "sentinel_text ErrJobRetriesExhausted = ''job retries exhausted''"
| "sentinel_text ErrHandlerNotRegistered = ''job handler not registered''"
| "sentinel_text ErrUnexpectedJobType = ''unexpected job type''"
| "sentinel_text ErrInvalidHandlerPayload = ''invalid handler payload''"
| "sentinel_text ErrNilJob = ''job must not be nil''"
| "sentinel_text Canceled = ''context canceled''"
| "sentinel_text DeadlineExceeded = ''context deadline exceeded''"
| "sentinel_text ErrDuplicatedKey = ''duplicated key not allowed''"
| "sentinel_text ErrRecordNotFound = ''record not found''"
| "sentinel_text ErrServerClosed = ''http: Server closed''"

text \<open>
  What the standard library contributes to the text of an error and the program never looks at:
  which runes \<open>Quote\<close> prints as they are, and the wording of the JSON package's errors.
\<close>

record wording =
  printable :: "nat \<Rightarrow> bool"
  json_wording :: "json_error \<Rightarrow> gostring"

fun join_lines :: "gostring list \<Rightarrow> gostring" where
  "join_lines [] = []"
| "join_lines [s] = s"
| "join_lines (s # t # ss) = s @ [CHR 0x0A] @ join_lines (t # ss)"

fun error_text :: "wording \<Rightarrow> goerror \<Rightarrow> gostring"
and part_text :: "wording \<Rightarrow> format_part \<Rightarrow> gostring" where
  "error_text w (Sentinel s) = sentinel_text s"
| "error_text w (NewError m) = m"
| "error_text w (JsonError e) = json_wording w e"
| "error_text w (Errorf ps) = concat (map (part_text w) ps)"
| "error_text w (JoinErrors es) = join_lines (map (error_text w) es)"
| "part_text w (Lit s) = s"
| "part_text w (Arg_s s) = s"
| "part_text w (Arg_q s) = go_quote (printable w) s"
| "part_text w (Arg_d i) = itoa i"
| "part_text w (Arg_w e) = error_text w e"
| "part_text w (Arg_v e) = error_text w e"

text \<open>\<open>fmt.Errorf(prefix + ": %w", err)\<close>, the commonest use.\<close>

definition wrap :: "gostring \<Rightarrow> goerror \<Rightarrow> goerror" where
  "wrap prefix e = Errorf [Lit prefix, Lit '': '', Arg_w e]"

lemma errors_is_wrap [simp]: "errors_is (wrap prefix e) s = errors_is e s"
  by (simp add: wrap_def)

end
