(* ===== verification/Job_Types.thy ===== *)
theory Job_Types imports Go_Errors begin

text \<open>
  \<open>internal/domain/job\<close>: identifiers, types and statuses (\<open>id.go\<close>, \<open>type.go\<close>,
  \<open>status.go\<close>). All three are string types in the source; any string can be one, and
  \<open>IsValid\<close> tells the proper ones apart.
\<close>

type_synonym job_id = gostring
type_synonym job_type = gostring
type_synonym status = gostring

section \<open>Job types\<close>

definition TypeSendEmail :: job_type where
  "TypeSendEmail = ''send_email''"

definition TypeReportGeneration :: job_type where
  "TypeReportGeneration = ''report_generation''"

definition TypeDataCleanup :: job_type where
  "TypeDataCleanup = ''data_cleanup''"

definition type_is_valid :: "job_type \<Rightarrow> bool" where
  "type_is_valid t \<longleftrightarrow> t = TypeSendEmail \<or> t = TypeReportGeneration \<or> t = TypeDataCleanup"

definition parse_type :: "gostring \<Rightarrow> goerror + job_type" where
  "parse_type s =
     (let t = to_lower (trim_space s) in
      if \<not> type_is_valid t then Inl (Errorf [Arg_w (Sentinel ErrInvalidType), Lit '': '', Arg_q s])
      else Inr t)"

section \<open>Statuses\<close>

definition StatusPending :: status where
  "StatusPending = ''pending''"

definition StatusProcessing :: status where
  "StatusProcessing = ''processing''"

definition StatusSuccess :: status where
  "StatusSuccess = ''success''"

definition StatusFailed :: status where
  "StatusFailed = ''failed''"

lemmas status_defs = StatusPending_def StatusProcessing_def StatusSuccess_def StatusFailed_def

lemma status_distinct [simp]:
  "StatusPending \<noteq> StatusProcessing" "StatusProcessing \<noteq> StatusPending"
  "StatusPending \<noteq> StatusSuccess" "StatusSuccess \<noteq> StatusPending"
  "StatusPending \<noteq> StatusFailed" "StatusFailed \<noteq> StatusPending"
  "StatusProcessing \<noteq> StatusSuccess" "StatusSuccess \<noteq> StatusProcessing"
  "StatusProcessing \<noteq> StatusFailed" "StatusFailed \<noteq> StatusProcessing"
  "StatusSuccess \<noteq> StatusFailed" "StatusFailed \<noteq> StatusSuccess"
  by (simp_all add: status_defs)

definition status_is_valid :: "status \<Rightarrow> bool" where
  "status_is_valid s \<longleftrightarrow>
     s = StatusPending \<or> s = StatusProcessing \<or> s = StatusSuccess \<or> s = StatusFailed"

lemma status_is_valid_simps [simp]:
  "status_is_valid StatusPending" "status_is_valid StatusProcessing"
  "status_is_valid StatusSuccess" "status_is_valid StatusFailed"
  by (simp_all add: status_is_valid_def)

definition parse_status :: "gostring \<Rightarrow> goerror + status" where
  "parse_status s =
     (let st = to_lower (trim_space s) in
      if \<not> status_is_valid st
      then Inl (Errorf [Arg_w (Sentinel ErrInvalidStatus), Lit '': '', Arg_q s])
      else Inr st)"

section \<open>Identifiers\<close>

definition is_hexadecimal :: "nat \<Rightarrow> bool" where
  "is_hexadecimal r \<longleftrightarrow> (48 \<le> r \<and> r \<le> 57) \<or> (97 \<le> r \<and> r \<le> 102) \<or> (65 \<le> r \<and> r \<le> 70)"

text \<open>The body of the loop of \<open>IsValid\<close>, at one byte offset and the rune that starts there.\<close>

definition id_rune_ok :: "nat \<times> nat \<Rightarrow> bool" where
  "id_rune_ok p =
     (case p of (index, character) \<Rightarrow>
        if index = 8 \<or> index = 13 \<or> index = 18 \<or> index = 23 then character = byte (CHR ''-'')
        else is_hexadecimal character)"

definition id_is_valid :: "job_id \<Rightarrow> bool" where
  "id_is_valid value \<longleftrightarrow> length value = 36 \<and> list_all id_rune_ok (go_range 0 value)"

definition parse_id :: "gostring \<Rightarrow> goerror + job_id" where
  "parse_id s =
     (let normalized = trim_space s in
      if \<not> id_is_valid normalized
      then Inl (Errorf [Arg_w (Sentinel ErrInvalidID), Lit '': '', Arg_q s])
      else Inr normalized)"

section \<open>Validity of identifiers, byte by byte\<close>

lemma id_rune_ok_ascii: "id_rune_ok (i, r) \<Longrightarrow> r < 0x80"
  by (auto simp: id_rune_ok_def is_hexadecimal_def split: if_splits)

definition uuid_dashes :: "nat set" where
  "uuid_dashes = {8, 13, 18, 23}"

lemma id_is_valid_iff:
  "id_is_valid s \<longleftrightarrow> length s = 36
     \<and> (\<forall>k<36. if k \<in> uuid_dashes then s ! k = CHR ''-'' else is_hex (s ! k))"
proof -
  have dash: "byte c = 45 \<longleftrightarrow> c = CHR ''-''" for c
    using of_char_eq_iff [of c "CHR ''-''", where 'a = nat] by simp
  have ok: "id_rune_ok (k, byte c) \<longleftrightarrow> (if k \<in> uuid_dashes then c = CHR ''-'' else is_hex c)" for k c
    using dash [of c] by (simp add: id_rune_ok_def uuid_dashes_def is_hexadecimal_def is_hex_def)
  have "list_all id_rune_ok (go_range 0 s) \<longleftrightarrow> list_all id_rune_ok (byte_range 0 s)"
    by (rule go_range_ascii_test) (rule id_rune_ok_ascii)
  also have "\<dots> \<longleftrightarrow> (\<forall>k<length s. id_rune_ok (k, byte (s ! k)))"
    by (simp add: byte_range_nth)
  also have "\<dots> \<longleftrightarrow>
      (\<forall>k<length s. if k \<in> uuid_dashes then s ! k = CHR ''-'' else is_hex (s ! k))"
    by (simp only: ok)
  finally show ?thesis unfolding id_is_valid_def by (metis (no_types))
qed

lemma id_valid_ends:
  assumes "id_is_valid s"
  shows "s \<noteq> []" "is_hex (hd s)" "is_hex (last s)"
proof -
  from assms have l: "length s = 36" by (simp add: id_is_valid_def)
  then show s: "s \<noteq> []" by auto
  have "is_hex (s ! 0)" "is_hex (s ! 35)"
    using assms unfolding id_is_valid_iff uuid_dashes_def by force+
  with s l show "is_hex (hd s)" "is_hex (last s)" by (simp_all add: hd_conv_nth last_conv_nth)
qed

lemma is_hex_not_space: "is_hex c \<Longrightarrow> byte c < 0x80 \<and> \<not> is_space (byte c)"
  by (auto simp: is_hex_def is_space_def)

lemma trim_space_valid_id: "id_is_valid s \<Longrightarrow> trim_space s = s"
  using id_valid_ends is_hex_not_space by (intro trim_space_id) auto

lemma parse_id_valid: "id_is_valid s \<Longrightarrow> parse_id s = Inr s"
  by (simp add: parse_id_def trim_space_valid_id)

lemma parse_id_ok: "parse_id s = Inr i \<Longrightarrow> id_is_valid i \<and> i = trim_space s"
  by (auto simp: parse_id_def Let_def split: if_splits)

lemma parse_id_error: "parse_id s = Inl e \<Longrightarrow> errors_is e ErrInvalidID \<and> \<not> errors_is e ErrJobNotFound"
  by (auto simp: parse_id_def Let_def split: if_splits)

section \<open>Round trips of the constants\<close>

lemma plain_constant:
  assumes "s \<noteq> []" "list_all plain_char s" "\<not> is_space (byte (hd s))" "\<not> is_space (byte (last s))"
  shows "to_lower (trim_space s) = s"
proof -
  have "plain_char (hd s)" "plain_char (last s)"
    using assms(1,2) by (auto simp: list_all_iff)
  then have "trim_space s = s"
    using assms by (intro trim_space_id) (auto simp: plain_char_def)
  with assms(2) show ?thesis by (simp add: to_lower_plain)
qed

lemma normalize_types:
  "type_is_valid t \<Longrightarrow> to_lower (trim_space t) = t"
  by (rule plain_constant)
     (auto simp: type_is_valid_def TypeSendEmail_def TypeReportGeneration_def TypeDataCleanup_def
       plain_char_def is_space_def)

lemma normalize_statuses:
  "status_is_valid t \<Longrightarrow> to_lower (trim_space t) = t"
  by (rule plain_constant)
     (auto simp: status_is_valid_def status_defs plain_char_def is_space_def)

lemma parse_type_valid: "type_is_valid t \<Longrightarrow> parse_type t = Inr t"
  by (simp add: parse_type_def normalize_types)

lemma parse_type_ok: "parse_type s = Inr t \<Longrightarrow> type_is_valid t \<and> t = to_lower (trim_space s)"
  by (auto simp: parse_type_def Let_def split: if_splits)

lemma parse_type_error: "parse_type s = Inl e \<Longrightarrow> errors_is e ErrInvalidType"
  by (auto simp: parse_type_def Let_def split: if_splits)

lemma parse_status_valid: "status_is_valid t \<Longrightarrow> parse_status t = Inr t"
  by (simp add: parse_status_def normalize_statuses)

lemma parse_status_ok: "parse_status s = Inr t \<Longrightarrow> status_is_valid t"
  by (auto simp: parse_status_def Let_def split: if_splits)

lemma status_valid_nonempty: "status_is_valid s \<Longrightarrow> s \<noteq> []"
  by (auto simp: status_is_valid_def status_defs)

end
