(* ===== verification/Go_Time.thy ===== *)
theory Go_Time imports Prelude begin

text \<open>
  \<open>time.Time\<close> as the program uses it: an instant in nanoseconds, counted from Go's zero time
  (January 1 of year 1, UTC), and the location it is shown in. Monotonic readings never reach the
  program's data: every time it keeps has gone through \<open>UTC()\<close>, which drops them.
\<close>

datatype location = LocUTC | LocOther gostring

record gotime =
  instant :: int
  location :: location

definition zero_time :: gotime where
  "zero_time = \<lparr>instant = 0, location = LocUTC\<rparr>"

definition is_zero :: "gotime \<Rightarrow> bool" where
  "is_zero t \<longleftrightarrow> instant t = 0"

definition before :: "gotime \<Rightarrow> gotime \<Rightarrow> bool" where
  "before t u \<longleftrightarrow> instant t < instant u"

definition utc :: "gotime \<Rightarrow> gotime" where
  "utc t = t\<lparr>location := LocUTC\<rparr>"

lemma instant_utc [simp]: "instant (utc t) = instant t"
  and location_utc [simp]: "location (utc t) = LocUTC"
  and utc_utc [simp]: "utc (utc t) = utc t"
  and is_zero_utc [simp]: "is_zero (utc t) = is_zero t"
  and before_utc1 [simp]: "before (utc t) u = before t u"
  and before_utc2 [simp]: "before t (utc u) = before t u"
  by (simp_all add: utc_def is_zero_def before_def)

lemma utc_id: "location t = LocUTC \<Longrightarrow> utc t = t"
  by (simp add: utc_def)

end
