(* ===== verification/Job.thy ===== *)
theory Job imports Job_Types Go_Time begin

text \<open>
  \<open>internal/domain/job/job.go\<close> and \<open>failure.go\<close>: the job entity, its two constructors and its
  lifecycle transitions. A method with a pointer receiver returns the updated entity; every method
  checks all its guards before it writes, so an error leaves the entity as it was. The counters are
  Go ints; they are integers here, since the only increment is guarded by a smaller counter.
\<close>

section \<open>Data\<close>

definition DefaultMaxRetries :: int where
  "DefaultMaxRetries = 3"

record new_params =
  np_id :: job_id
  np_type :: job_type
  np_payload :: gostring
  np_created_at :: gotime

record restore_params =
  rp_id :: job_id
  rp_type :: job_type
  rp_status :: status
  rp_payload :: gostring
  rp_retry_count :: int
  rp_max_retries :: int
  rp_last_error :: "gostring option"
  rp_created_at :: gotime
  rp_updated_at :: gotime
  rp_started_at :: "gotime option"
  rp_completed_at :: "gotime option"

record job =
  ent_id :: job_id
  ent_type :: job_type
  ent_status :: status
  ent_payload :: gostring
  retry_count :: int
  max_retries :: int
  last_error :: "gostring option"
  created_at :: gotime
  updated_at :: gotime
  started_at :: "gotime option"
  completed_at :: "gotime option"

section \<open>Payloads\<close>

definition invalid_payload :: "gostring \<Rightarrow> goerror" where
  "invalid_payload why = Errorf [Arg_w (Sentinel ErrInvalidPayload), Lit ('': '' @ why)]"

definition validate_payload :: "gostring \<Rightarrow> goerror option" where
  "validate_payload payload =
     (let trimmed = trim_space payload in
      if length trimmed = 0 then Some (invalid_payload ''payload is required'')
      else case unmarshal_raw_map trimmed of
        Inl e \<Rightarrow> Some (Errorf [Arg_w (Sentinel ErrInvalidPayload), Lit '': '', Arg_v (JsonError e)])
      | Inr None \<Rightarrow> Some (invalid_payload ''payload must be a JSON object'')
      | Inr (Some members) \<Rightarrow>
          if length members = 0 then Some (invalid_payload ''payload must not be empty'') else None)"

section \<open>Constructors\<close>

definition new_job :: "new_params \<Rightarrow> goerror + job" where
  "new_job p =
     (if \<not> id_is_valid (np_id p)
      then Inl (Errorf [Arg_w (Sentinel ErrInvalidID), Lit '': '', Arg_q (np_id p)])
      else if \<not> type_is_valid (np_type p)
      then Inl (Errorf [Arg_w (Sentinel ErrInvalidType), Lit '': '', Arg_q (np_type p)])
      else case validate_payload (np_payload p) of
        Some e \<Rightarrow> Inl e
      | None \<Rightarrow>
          if is_zero (np_created_at p) then Inl (Sentinel ErrInvalidCreatedAt)
          else let created = utc (np_created_at p) in
            Inr \<lparr>ent_id = np_id p, ent_type = np_type p, ent_status = StatusPending,
              ent_payload = np_payload p, retry_count = 0, max_retries = DefaultMaxRetries,
              last_error = None, created_at = created, updated_at = created,
              started_at = None, completed_at = None\<rparr>)"

definition restore_job :: "restore_params \<Rightarrow> goerror + job" where
  "restore_job p =
     (if \<not> id_is_valid (rp_id p)
      then Inl (Errorf [Arg_w (Sentinel ErrInvalidID), Lit '': '', Arg_q (rp_id p)])
      else if \<not> type_is_valid (rp_type p)
      then Inl (Errorf [Arg_w (Sentinel ErrInvalidType), Lit '': '', Arg_q (rp_type p)])
      else if \<not> status_is_valid (rp_status p)
      then Inl (Errorf [Arg_w (Sentinel ErrInvalidStatus), Lit '': '', Arg_q (rp_status p)])
      else case validate_payload (rp_payload p) of
        Some e \<Rightarrow> Inl e
      | None \<Rightarrow>
          if rp_retry_count p < 0 \<or> rp_max_retries p \<le> 0 \<or> rp_retry_count p > rp_max_retries p
          then Inl (Errorf [Arg_w (Sentinel ErrInvalidRetry), Lit '': retry count '',
            Arg_d (rp_retry_count p), Lit '', max retries '', Arg_d (rp_max_retries p)])
          else if is_zero (rp_created_at p) then Inl (Sentinel ErrInvalidCreatedAt)
          else if is_zero (rp_updated_at p) \<or> before (rp_updated_at p) (rp_created_at p)
          then Inl (Sentinel ErrInvalidUpdatedAt)
          else if (case rp_started_at p of Some t \<Rightarrow> is_zero t | None \<Rightarrow> False)
          then Inl (Errorf [Arg_w (Sentinel ErrInvalidEventTime), Lit '': started_at''])
          else if (case rp_completed_at p of Some t \<Rightarrow> is_zero t | None \<Rightarrow> False)
          then Inl (Errorf [Arg_w (Sentinel ErrInvalidEventTime), Lit '': completed_at''])
          else Inr \<lparr>ent_id = rp_id p, ent_type = rp_type p, ent_status = rp_status p,
            ent_payload = rp_payload p, retry_count = rp_retry_count p,
            max_retries = rp_max_retries p, last_error = rp_last_error p,
            created_at = utc (rp_created_at p), updated_at = utc (rp_updated_at p),
            started_at = map_option utc (rp_started_at p),
            completed_at = map_option utc (rp_completed_at p)\<rparr>)"

section \<open>Transitions\<close>

definition invalid_transition :: "status \<Rightarrow> status \<Rightarrow> goerror" where
  "invalid_transition from to =
     Errorf [Arg_w (Sentinel ErrInvalidTransition), Lit '': cannot move job from '', Arg_s from,
       Lit '' to '', Arg_s to]"

definition transition_time :: "gotime \<Rightarrow> job \<Rightarrow> goerror + gotime" where
  "transition_time at entity =
     (if is_zero at \<or> before at (updated_at entity)
      then Inl (Errorf [Arg_w (Sentinel ErrInvalidEventTime),
        Lit '': transition time must not be before the last update''])
      else Inr (utc at))"

definition mark_processing :: "gotime \<Rightarrow> job \<Rightarrow> goerror + job" where
  "mark_processing at entity =
     (if ent_status entity \<noteq> StatusPending
      then Inl (invalid_transition (ent_status entity) StatusProcessing)
      else case transition_time at entity of
        Inl e \<Rightarrow> Inl e
      | Inr t \<Rightarrow> Inr (entity\<lparr>ent_status := StatusProcessing, started_at := Some t,
          completed_at := None, updated_at := t\<rparr>))"

definition mark_success :: "gotime \<Rightarrow> job \<Rightarrow> goerror + job" where
  "mark_success at entity =
     (if ent_status entity \<noteq> StatusProcessing
      then Inl (invalid_transition (ent_status entity) StatusSuccess)
      else case transition_time at entity of
        Inl e \<Rightarrow> Inl e
      | Inr t \<Rightarrow> Inr (entity\<lparr>ent_status := StatusSuccess, completed_at := Some t,
          last_error := None, updated_at := t\<rparr>))"

definition mark_failed :: "gotime \<Rightarrow> gostring \<Rightarrow> job \<Rightarrow> goerror + job" where
  "mark_failed at reason entity =
     (if ent_status entity \<noteq> StatusProcessing
      then Inl (invalid_transition (ent_status entity) StatusFailed)
      else let normalized = trim_space reason in
        if normalized = [] then Inl (Sentinel ErrInvalidFailureReason)
        else case transition_time at entity of
          Inl e \<Rightarrow> Inl e
        | Inr t \<Rightarrow> Inr (entity\<lparr>ent_status := StatusFailed, last_error := Some normalized,
            completed_at := Some t, updated_at := t\<rparr>))"

section \<open>Failures and retries\<close>

type_synonym failure_outcome = gostring

definition FailureOutcomeRetryScheduled :: failure_outcome where
  "FailureOutcomeRetryScheduled = ''retry_scheduled''"

definition FailureOutcomeTerminalFailure :: failure_outcome where
  "FailureOutcomeTerminalFailure = ''terminal_failure''"

lemma failure_outcome_distinct [simp]:
  "FailureOutcomeRetryScheduled \<noteq> FailureOutcomeTerminalFailure"
  "FailureOutcomeTerminalFailure \<noteq> FailureOutcomeRetryScheduled"
  by (simp_all add: FailureOutcomeRetryScheduled_def FailureOutcomeTerminalFailure_def)

definition can_retry :: "job \<Rightarrow> bool" where
  "can_retry entity \<longleftrightarrow> retry_count entity < max_retries entity"

definition record_failure ::
  "gotime \<Rightarrow> gostring \<Rightarrow> job \<Rightarrow> goerror + failure_outcome \<times> job" where
  "record_failure at reason entity =
     (if ent_status entity \<noteq> StatusProcessing
      then Inl (Errorf [Arg_w (Sentinel ErrInvalidTransition),
        Lit '': cannot record failure while job is '', Arg_s (ent_status entity)])
      else let normalized = trim_space reason in
        if normalized = [] then Inl (Sentinel ErrInvalidFailureReason)
        else case transition_time at entity of
          Inl e \<Rightarrow> Inl e
        | Inr t \<Rightarrow>
            let entity = entity\<lparr>last_error := Some normalized, updated_at := t\<rparr> in
            if can_retry entity
            then Inr (FailureOutcomeRetryScheduled,
              entity\<lparr>retry_count := retry_count entity + 1, ent_status := StatusPending,
                completed_at := None\<rparr>)
            else Inr (FailureOutcomeTerminalFailure,
              entity\<lparr>ent_status := StatusFailed, completed_at := Some t\<rparr>))"

end
