(* ===== verification/Job_Runs.thy ===== *)
theory Job_Runs imports Job_Lifecycle begin

text \<open>
  The lifecycle as a labelled transition system over the entity's own methods, its runs, and what
  every run from a new job satisfies: which status changes occur, how the fields agree, how many
  attempts a job gets and that its life is finite.
\<close>

section \<open>Steps and runs\<close>

datatype job_event =
    EvStart gotime
  | EvSucceed gotime
  | EvFail gotime gostring
  | EvAbort gotime gostring

inductive job_step :: "job \<Rightarrow> job_event \<Rightarrow> job \<Rightarrow> bool" where
  start: "mark_processing t j = Inr j' \<Longrightarrow> job_step j (EvStart t) j'"
| succeed: "mark_success t j = Inr j' \<Longrightarrow> job_step j (EvSucceed t) j'"
| fail: "record_failure t r j = Inr (oc, j') \<Longrightarrow> job_step j (EvFail t r) j'"
| abort: "mark_failed t r j = Inr j' \<Longrightarrow> job_step j (EvAbort t r) j'"

inductive job_run :: "job \<Rightarrow> job_event list \<Rightarrow> job \<Rightarrow> bool" for j0 where
  nil: "job_run j0 [] j0"
| snoc: "job_run j0 es j \<Longrightarrow> job_step j e j' \<Longrightarrow> job_run j0 (es @ [e]) j'"

inductive_cases job_stepE: "job_step j e j'"
inductive_simps job_step_start: "job_step j (EvStart t) j'"
inductive_simps job_step_fail: "job_step j (EvFail t r) j'"

fun is_start :: "job_event \<Rightarrow> bool" where
  "is_start (EvStart t) = True"
| "is_start e = False"

definition attempts :: "job_event list \<Rightarrow> nat" where
  "attempts es = length (filter is_start es)"

section \<open>One step\<close>

definition status_edges :: "(status \<times> status) set" where
  "status_edges = {(StatusPending, StatusProcessing), (StatusProcessing, StatusSuccess),
     (StatusProcessing, StatusPending), (StatusProcessing, StatusFailed)}"

lemma job_step_edge: "job_step j e j' \<Longrightarrow> (ent_status j, ent_status j') \<in> status_edges"
  by (auto elim!: job_stepE simp: status_edges_def transition_ok retried_def exhausted_def split: if_splits)

lemma job_step_wf [wf_intros]: "job_step j e j' \<Longrightarrow> wf_job j \<Longrightarrow> wf_job j'"
  by (auto elim!: job_stepE intro: wf_intros)

text \<open>Identity, type, payload, creation time and retry limit never change.\<close>

lemma job_step_frame:
  "job_step j e j' \<Longrightarrow> ent_id j' = ent_id j \<and> ent_type j' = ent_type j
     \<and> ent_payload j' = ent_payload j \<and> created_at j' = created_at j \<and> max_retries j' = max_retries j"
  by (auto elim!: job_stepE simp: transition_ok retried_def exhausted_def split: if_splits)

lemma job_step_time: "job_step j e j' \<Longrightarrow> \<not> before (updated_at j') (updated_at j)"
  by (auto elim!: job_stepE simp: transition_ok retried_def exhausted_def split: if_splits)

lemma terminal_no_step:
  "ent_status j = StatusSuccess \<or> ent_status j = StatusFailed \<Longrightarrow> \<not> job_step j e j'"
  by (auto elim!: job_stepE simp: transition_ok)

section \<open>How the fields agree\<close>

definition lifecycle_ok :: "job \<Rightarrow> bool" where
  "lifecycle_ok j \<longleftrightarrow>
     (ent_status j = StatusPending \<longrightarrow> completed_at j = None
        \<and> (if retry_count j = 0 then started_at j = None \<and> last_error j = None
           else started_at j \<noteq> None \<and> last_error j \<noteq> None))
     \<and> (ent_status j = StatusProcessing \<longrightarrow> completed_at j = None
        \<and> started_at j = Some (updated_at j) \<and> (last_error j = None \<longleftrightarrow> retry_count j = 0))
     \<and> (ent_status j = StatusSuccess \<longrightarrow> completed_at j = Some (updated_at j)
        \<and> started_at j \<noteq> None \<and> last_error j = None)
     \<and> (ent_status j = StatusFailed \<longrightarrow> completed_at j = Some (updated_at j)
        \<and> started_at j \<noteq> None \<and> last_error j \<noteq> None)
     \<and> (\<forall>e. last_error j = Some e \<longrightarrow> e \<noteq> [] \<and> trim_space e = e)
     \<and> (\<forall>t. started_at j = Some t \<longrightarrow> \<not> before (updated_at j) t)"

lemma lifecycle_new: "new_job p = Inr j \<Longrightarrow> lifecycle_ok j"
  by (auto simp: lifecycle_ok_def dest!: new_job_ok)

lemma lifecycle_start: "mark_processing t j = Inr j' \<Longrightarrow> lifecycle_ok j \<Longrightarrow> lifecycle_ok j'"
  by (auto simp: mark_processing_ok lifecycle_ok_def before_def split: if_splits)

lemma lifecycle_succeed: "mark_success t j = Inr j' \<Longrightarrow> lifecycle_ok j \<Longrightarrow> lifecycle_ok j'"
  by (auto simp: mark_success_ok lifecycle_ok_def before_def)

lemma lifecycle_fail:
  "record_failure t r j = Inr (oc, j') \<Longrightarrow> wf_job j \<Longrightarrow> lifecycle_ok j \<Longrightarrow> lifecycle_ok j'"
  by (auto simp: record_failure_ok lifecycle_ok_def wf_job_def retried_def exhausted_def before_def
      trim_space_idem split: if_splits)

lemma lifecycle_abort: "mark_failed t r j = Inr j' \<Longrightarrow> lifecycle_ok j \<Longrightarrow> lifecycle_ok j'"
  by (auto simp: mark_failed_ok lifecycle_ok_def before_def trim_space_idem)

lemmas lifecycle_steps = lifecycle_start lifecycle_succeed lifecycle_fail lifecycle_abort

lemma job_step_lifecycle: "job_step j e j' \<Longrightarrow> wf_job j \<Longrightarrow> lifecycle_ok j \<Longrightarrow> lifecycle_ok j'"
  by (auto elim!: job_stepE intro: lifecycle_steps)

section \<open>Runs\<close>

lemma job_run_wf: "job_run j0 es j \<Longrightarrow> wf_job j0 \<Longrightarrow> wf_job j"
  by (induction rule: job_run.induct) (auto intro: job_step_wf)

lemma job_run_lifecycle: "job_run j0 es j \<Longrightarrow> wf_job j0 \<Longrightarrow> lifecycle_ok j0 \<Longrightarrow> lifecycle_ok j"
proof (induction rule: job_run.induct)
  case (snoc es j e j')
  then have "wf_job j" by (blast intro: job_run_wf)
  with snoc show ?case by (blast intro: job_step_lifecycle)
qed

lemma job_run_frame:
  "job_run j0 es j \<Longrightarrow> ent_id j = ent_id j0 \<and> ent_type j = ent_type j0
     \<and> ent_payload j = ent_payload j0 \<and> created_at j = created_at j0 \<and> max_retries j = max_retries j0"
  by (induction rule: job_run.induct) (auto dest!: job_step_frame)

lemma job_run_time: "job_run j0 es j \<Longrightarrow> \<not> before (updated_at j) (updated_at j0)"
  by (induction rule: job_run.induct) (auto dest!: job_step_time simp: before_def)

definition in_flight :: "job \<Rightarrow> nat" where
  "in_flight j = (if ent_status j = StatusPending then 0 else 1)"

definition events_done :: "job \<Rightarrow> nat" where
  "events_done j =
     (if ent_status j = StatusPending then 0 else if ent_status j = StatusProcessing then 1 else 2)"

lemma job_step_count:
  assumes "job_step j e j'" "wf_job j"
  shows "nat (retry_count j') + in_flight j' = nat (retry_count j) + in_flight j + (if is_start e then 1 else 0)"
    and "2 * nat (retry_count j') + events_done j' = 2 * nat (retry_count j) + events_done j + 1"
  using assms
  by (auto elim!: job_stepE simp: transition_ok retried_def exhausted_def in_flight_def events_done_def wf_job_def
      nat_add_distrib split: if_splits)

lemma job_run_count:
  assumes "job_run j0 es j" "wf_job j0"
  shows "nat (retry_count j) + in_flight j = nat (retry_count j0) + in_flight j0 + attempts es"
    and "2 * nat (retry_count j) + events_done j = 2 * nat (retry_count j0) + events_done j0 + length es"
proof -
  have "nat (retry_count j) + in_flight j = nat (retry_count j0) + in_flight j0 + attempts es
    \<and> 2 * nat (retry_count j) + events_done j = 2 * nat (retry_count j0) + events_done j0 + length es"
    using assms
  proof (induction rule: job_run.induct)
    case nil
    then show ?case by (simp add: attempts_def)
  next
    case (snoc es j e j')
    then have "wf_job j" by (blast intro: job_run_wf)
    with snoc job_step_count [OF snoc.hyps(2)] show ?case by (simp add: attempts_def)
  qed
  then show "nat (retry_count j) + in_flight j = nat (retry_count j0) + in_flight j0 + attempts es"
    and "2 * nat (retry_count j) + events_done j = 2 * nat (retry_count j0) + events_done j0 + length es"
    by blast+
qed

section \<open>Failing rounds\<close>

text \<open>One round of processing that fails: the job is started at one time and its failure is recorded at
  a later one. Rounds follow each other until one of them cannot be taken.\<close>

type_synonym failing_round = "gotime \<times> gotime \<times> gostring"

fun failing_rounds :: "job \<Rightarrow> failing_round list \<Rightarrow> goerror + failure_outcome list \<times> job" where
  "failing_rounds j [] = Inr ([], j)"
| "failing_rounds j ((t1, t2, why) # rs) =
     (case mark_processing t1 j of
        Inl e \<Rightarrow> Inl e
      | Inr j1 \<Rightarrow>
          (case record_failure t2 why j1 of
             Inl e \<Rightarrow> Inl e
           | Inr (oc, j2) \<Rightarrow> map_sum id (map_prod (Cons oc) id) (failing_rounds j2 rs)))"

fun rounds_ok :: "gotime \<Rightarrow> failing_round list \<Rightarrow> bool" where
  "rounds_ok t [] = True"
| "rounds_ok t ((t1, t2, why) # rs) \<longleftrightarrow>
     \<not> is_zero t1 \<and> \<not> is_zero t2 \<and> \<not> before t1 t \<and> \<not> before t2 t1 \<and> trim_space why \<noteq> []
     \<and> rounds_ok t2 rs"

lemma rounds_ok_utc [simp]: "rounds_ok (utc t) rs = rounds_ok t rs"
  by (cases rs) auto

lemma failing_round_retry:
  assumes "ent_status j = StatusPending" "can_retry j" "rounds_ok (updated_at j) ((t1, t2, why) # rs)"
  obtains j1 j2 where "mark_processing t1 j = Inr j1"
    "record_failure t2 why j1 = Inr (FailureOutcomeRetryScheduled, j2)"
    "ent_status j2 = StatusPending" "retry_count j2 = retry_count j + 1" "max_retries j2 = max_retries j"
    "updated_at j2 = utc t2" "last_error j2 = Some (trim_space why)" "ent_id j2 = ent_id j"
proof -
  let ?j1 = "j\<lparr>ent_status := StatusProcessing, started_at := Some (utc t1), completed_at := None,
         updated_at := utc t1\<rparr>"
  have "mark_processing t1 j = Inr ?j1" using assms by (simp add: mark_processing_ok)
  moreover have "record_failure t2 why ?j1 = Inr (FailureOutcomeRetryScheduled, retried t2 why ?j1)"
    using assms by (simp add: record_failure_ok can_retry_def)
  ultimately show thesis by (rule that) (simp_all add: retried_def assms)
qed

lemma failing_round_last:
  assumes "ent_status j = StatusPending" "\<not> can_retry j" "rounds_ok (updated_at j) [(t1, t2, why)]"
  obtains j1 j2 where "mark_processing t1 j = Inr j1"
    "record_failure t2 why j1 = Inr (FailureOutcomeTerminalFailure, j2)"
    "ent_status j2 = StatusFailed" "retry_count j2 = retry_count j"
    "completed_at j2 = Some (utc t2)" "last_error j2 = Some (trim_space why)"
proof -
  let ?j1 = "j\<lparr>ent_status := StatusProcessing, started_at := Some (utc t1), completed_at := None,
         updated_at := utc t1\<rparr>"
  have "mark_processing t1 j = Inr ?j1" using assms by (simp add: mark_processing_ok)
  moreover have "record_failure t2 why ?j1 = Inr (FailureOutcomeTerminalFailure, exhausted t2 why ?j1)"
    using assms by (simp add: record_failure_ok can_retry_def)
  ultimately show thesis by (rule that) (simp_all add: exhausted_def)
qed

lemma failing_rounds_exhaust:
  assumes "ent_status j = StatusPending" "retry_count j + int n = max_retries j"
    "rounds_ok (updated_at j) rs" "length rs = Suc n"
  shows "\<exists>j'. failing_rounds j rs
      = Inr (replicate n FailureOutcomeRetryScheduled @ [FailureOutcomeTerminalFailure], j')
    \<and> ent_status j' = StatusFailed \<and> retry_count j' = max_retries j
    \<and> completed_at j' = Some (utc (fst (snd (last rs))))
    \<and> last_error j' = Some (trim_space (snd (snd (last rs))))"
  using assms
proof (induction n arbitrary: j rs)
  case 0
  then obtain t1 t2 why where rs: "rs = [(t1, t2, why)]" by (auto simp: length_Suc_conv)
  with 0 have "\<not> can_retry j" "rounds_ok (updated_at j) [(t1, t2, why)]"
    by (simp_all add: can_retry_def)
  with 0(1) obtain j1 j2 where "mark_processing t1 j = Inr j1"
    "record_failure t2 why j1 = Inr (FailureOutcomeTerminalFailure, j2)"
    "ent_status j2 = StatusFailed" "retry_count j2 = retry_count j"
    "completed_at j2 = Some (utc t2)" "last_error j2 = Some (trim_space why)"
    by (rule failing_round_last)
  with rs 0(2) show ?case by simp
next
  case (Suc n)
  then obtain t1 t2 why rs' where rs: "rs = (t1, t2, why) # rs'" "length rs' = Suc n"
    by (metis length_Suc_conv prod_cases3)
  with Suc have "can_retry j" "rounds_ok (updated_at j) ((t1, t2, why) # rs')"
    by (simp_all add: can_retry_def)
  with Suc.prems(1) obtain j1 j2 where s: "mark_processing t1 j = Inr j1"
    "record_failure t2 why j1 = Inr (FailureOutcomeRetryScheduled, j2)"
    "ent_status j2 = StatusPending" "retry_count j2 = retry_count j + 1" "max_retries j2 = max_retries j"
    "updated_at j2 = utc t2"
    by (rule failing_round_retry)
  with Suc.prems rs have "retry_count j2 + int n = max_retries j2" "rounds_ok (updated_at j2) rs'"
    by simp_all
  from Suc.IH [OF s(3) this rs(2)] s rs show ?case by (auto split: if_splits)
qed

end
