(* ===== verification/Ports.thy ===== *)
theory Ports imports Job_Runs begin

text \<open>
  \<open>internal/application/ports\<close>: the interfaces between the use cases and their adapters. A
  port is a record of functions over a world, which is whatever the adapters act on (the database, the
  broker, the clock, the request's or the process's context). What an adapter promises is a locale over
  the port and over the part of the world it is about; the use cases are verified inside these locales
  and the adapters interpret them.
\<close>

section \<open>The interfaces\<close>

record 'w repository_port =
  repo_create :: "job \<Rightarrow> 'w \<Rightarrow> goerror option \<times> 'w"
  repo_get :: "job_id \<Rightarrow> 'w \<Rightarrow> (goerror + job) \<times> 'w"
  repo_update :: "job \<Rightarrow> 'w \<Rightarrow> goerror option \<times> 'w"

type_synonym 'w queue_port = "job_id \<Rightarrow> 'w \<Rightarrow> goerror option \<times> 'w"

type_synonym 'w consumer_port = "'w \<Rightarrow> (goerror + job_id) \<times> 'w"

type_synonym 'w executor_port = "job \<Rightarrow> 'w \<Rightarrow> goerror option \<times> 'w"

type_synonym 'w id_port = "'w \<Rightarrow> (goerror + job_id) \<times> 'w"

type_synonym 'w clock_port = "'w \<Rightarrow> gotime \<times> 'w"

type_synonym 'w observer_port = "job \<Rightarrow> status \<Rightarrow> 'w \<Rightarrow> 'w"

section \<open>What the adapters promise\<close>

text \<open>
  The job that a repository gives back for one that was written. The store may round times and
  normalise the payload, and it may stamp the row's update time itself; it keeps everything that the
  lifecycle depends on, and what it gives back is well formed.
\<close>

definition stored_as :: "job \<Rightarrow> job \<Rightarrow> bool" where
  "stored_as j j' \<longleftrightarrow>
     ent_id j' = ent_id j \<and> ent_type j' = ent_type j \<and> ent_status j' = ent_status j
     \<and> retry_count j' = retry_count j \<and> max_retries j' = max_retries j \<and> last_error j' = last_error j
     \<and> (started_at j' = None \<longleftrightarrow> started_at j = None)
     \<and> (completed_at j' = None \<longleftrightarrow> completed_at j = None) \<and> wf_job j'"

text \<open>What no transition changes and an update does not write.\<close>

definition same_frame :: "job \<Rightarrow> job \<Rightarrow> bool" where
  "same_frame j j' \<longleftrightarrow>
     ent_id j' = ent_id j \<and> ent_type j' = ent_type j \<and> ent_payload j' = ent_payload j
     \<and> created_at j' = created_at j \<and> max_retries j' = max_retries j"

text \<open>An error of an adapter is never one of the two outcomes that only the processing use case
  reports.\<close>

definition adapter_error :: "goerror \<Rightarrow> bool" where
  "adapter_error e \<longleftrightarrow> \<not> errors_is e ErrJobRetryScheduled \<and> \<not> errors_is e ErrJobRetriesExhausted"

text \<open>The row of one job is set to what the store keeps of it; nothing else changes.\<close>

definition row_written :: "job \<Rightarrow> (job_id \<Rightarrow> job option) \<Rightarrow> (job_id \<Rightarrow> job option) \<Rightarrow> bool" where
  "row_written j rs rs' \<longleftrightarrow> (\<exists>j'. stored_as j j' \<and> rs' = rs(ent_id j \<mapsto> j'))"

definition row_updated :: "job \<Rightarrow> (job_id \<Rightarrow> job option) \<Rightarrow> (job_id \<Rightarrow> job option) \<Rightarrow> bool" where
  "row_updated j rs rs' \<longleftrightarrow> (\<exists>j'. stored_as j j' \<and> same_frame j j' \<and> rs' = rs(ent_id j \<mapsto> j'))"

locale repository_laws =
  fixes repo :: "'w repository_port"
    and rows :: "'w \<Rightarrow> job_id \<Rightarrow> job option"
  assumes create_ok: "repo_create repo j w = (None, w') \<Longrightarrow> wf_job j \<Longrightarrow>
      rows w (ent_id j) = None \<and> row_written j (rows w) (rows w')"
    and create_error: "repo_create repo j w = (Some e, w') \<Longrightarrow> wf_job j \<Longrightarrow>
      adapter_error e \<and> (rows w' = rows w
        \<or> rows w (ent_id j) = None \<and> row_written j (rows w) (rows w'))"
    and get_ok: "repo_get repo i w = (Inr j, w') \<Longrightarrow>
      rows w i = Some j \<and> rows w' = rows w \<and> ent_id j = i \<and> wf_job j"
    and get_error: "repo_get repo i w = (Inl e, w') \<Longrightarrow> adapter_error e \<and> rows w' = rows w
      \<and> (errors_is e ErrJobNotFound \<longrightarrow> rows w i = None)"
    and update_ok: "repo_update repo j w = (None, w') \<Longrightarrow> wf_job j \<Longrightarrow> rows w (ent_id j) = Some j0 \<Longrightarrow>
      same_frame j j0 \<Longrightarrow> row_updated j (rows w) (rows w')"
    and update_error: "repo_update repo j w = (Some e, w') \<Longrightarrow> wf_job j \<Longrightarrow>
      rows w (ent_id j) = Some j0 \<Longrightarrow> same_frame j j0 \<Longrightarrow>
      adapter_error e \<and> (rows w' = rows w \<or> row_updated j (rows w) (rows w'))"

locale queue_laws =
  fixes enqueue :: "'w queue_port"
    and contents :: "'w \<Rightarrow> job_id list"
  assumes enqueue_ok: "enqueue i w = (None, w') \<Longrightarrow> contents w' = contents w @ [i]"
    and enqueue_error: "enqueue i w = (Some e, w') \<Longrightarrow>
      adapter_error e \<and> (contents w' = contents w \<or> contents w' = contents w @ [i])"

text \<open>The consumer's side: the oldest identifier is taken; a failed call may have taken it.\<close>

locale consumer_laws =
  fixes dequeue :: "'w consumer_port"
    and contents :: "'w \<Rightarrow> job_id list"
  assumes dequeue_ok: "dequeue w = (Inr i, w') \<Longrightarrow> id_is_valid i \<and> contents w = i # contents w'"
    and dequeue_error: "dequeue w = (Inl e, w') \<Longrightarrow>
      contents w' = contents w \<or> contents w' = tl (contents w)"

text \<open>Repository and queue are two systems: neither touches the other.\<close>

locale storage_laws = repository_laws repo rows + queue_laws enqueue contents
  for repo :: "'w repository_port" and rows :: "'w \<Rightarrow> job_id \<Rightarrow> job option"
    and enqueue :: "'w queue_port" and contents :: "'w \<Rightarrow> job_id list" +
  assumes create_contents: "repo_create repo j w = (r, w') \<Longrightarrow> contents w' = contents w"
    and get_contents: "repo_get repo i w = (r', w') \<Longrightarrow> contents w' = contents w"
    and update_contents: "repo_update repo j w = (r, w') \<Longrightarrow> contents w' = contents w"
    and enqueue_rows: "enqueue i w = (r, w') \<Longrightarrow> rows w' = rows w"

section \<open>Rows\<close>

lemma row_written_row: "row_written j rs rs' \<Longrightarrow> \<exists>j'. rs' (ent_id j) = Some j' \<and> stored_as j j'"
  by (auto simp: row_written_def)

lemma row_updated_row:
  "row_updated j rs rs' \<Longrightarrow> \<exists>j'. rs' (ent_id j) = Some j' \<and> stored_as j j' \<and> same_frame j j'"
  by (auto simp: row_updated_def)

lemma row_updated_other: "row_updated j rs rs' \<Longrightarrow> k \<noteq> ent_id j \<Longrightarrow> rs' k = rs k"
  by (auto simp: row_updated_def)

lemma row_updated_again:
  "row_updated j rs rs1 \<Longrightarrow> row_updated j' rs1 rs2 \<Longrightarrow> ent_id j' = ent_id j \<Longrightarrow> row_updated j' rs rs2"
  by (auto simp: row_updated_def)

lemma same_frame_refl [simp]: "same_frame j j"
  by (simp add: same_frame_def)

lemma same_frame_sym: "same_frame j j' \<Longrightarrow> same_frame j' j"
  by (simp add: same_frame_def)

lemma same_frame_trans: "same_frame j k \<Longrightarrow> same_frame k l \<Longrightarrow> same_frame j l"
  by (simp add: same_frame_def)

lemma frame_mark_processing: "mark_processing t j = Inr j' \<Longrightarrow> same_frame j' j"
  and frame_mark_success: "mark_success t j = Inr j' \<Longrightarrow> same_frame j' j"
  and frame_record_failure: "record_failure t why j = Inr (oc, j') \<Longrightarrow> same_frame j' j"
  by (auto simp: same_frame_def transition_ok retried_def exhausted_def split: if_splits)

end
