(* ===== verification/Use_Cases.thy ===== *)
theory Use_Cases imports Ports begin

text \<open>
  \<open>internal/application/usecase\<close>: creating, reading and processing a job. A use case is a record
  of its ports, made by a constructor that refuses a missing one (a nil port is None there);
  \<open>Execute\<close> is one pass through the ports, threading the world, in the order of the source's calls.
  The text of an executor's error is needed for the job's last error, so processing takes the
  \<open>wording\<close> of the standard library's errors.
\<close>

section \<open>Lifecycle observers\<close>

definition noop_lifecycle_observer :: "'w observer_port" where
  "noop_lifecycle_observer entity previous w = w"

fun resolve_lifecycle_observer :: "'w observer_port option list \<Rightarrow> goerror + 'w observer_port" where
  "resolve_lifecycle_observer [] = Inr noop_lifecycle_observer"
| "resolve_lifecycle_observer [None] = Inl (NewError ''lifecycle observer must not be nil'')"
| "resolve_lifecycle_observer [Some obs] = Inr obs"
| "resolve_lifecycle_observer (x # y # zs) =
     Inl (NewError ''only one lifecycle observer may be provided'')"

section \<open>Creating a job\<close>

record create_job_input =
  in_type :: gostring
  in_payload :: gostring

record 'w create_job =
  cj_repository :: "'w repository_port"
  cj_queue :: "'w queue_port"
  cj_id_generator :: "'w id_port"
  cj_clock :: "'w clock_port"
  cj_observer :: "'w observer_port"

definition new_create_job ::
  "'w repository_port option \<Rightarrow> 'w queue_port option \<Rightarrow> 'w id_port option \<Rightarrow> 'w clock_port option
     \<Rightarrow> 'w observer_port option list \<Rightarrow> goerror + 'w create_job" where
  "new_create_job repository queue gen clock observers =
     (case repository of None \<Rightarrow> Inl (NewError ''job repository must not be nil'')
      | Some repo \<Rightarrow>
     (case queue of None \<Rightarrow> Inl (NewError ''job queue must not be nil'')
      | Some enq \<Rightarrow>
     (case gen of None \<Rightarrow> Inl (NewError ''ID generator must not be nil'')
      | Some newid \<Rightarrow>
     (case clock of None \<Rightarrow> Inl (NewError ''clock must not be nil'')
      | Some clk \<Rightarrow>
     (case resolve_lifecycle_observer observers of Inl e \<Rightarrow> Inl e
      | Inr obs \<Rightarrow>
          Inr \<lparr>cj_repository = repo, cj_queue = enq, cj_id_generator = newid, cj_clock = clk,
            cj_observer = obs\<rparr>)))))"

definition create_job_execute ::
  "'w create_job \<Rightarrow> create_job_input \<Rightarrow> 'w \<Rightarrow> (goerror + job) \<times> 'w" where
  "create_job_execute uc input w =
     (case parse_type (in_type input) of Inl e \<Rightarrow> (Inl (wrap ''validate job type'' e), w)
      | Inr job_type \<Rightarrow>
     (case cj_id_generator uc w of (Inl e, w) \<Rightarrow> (Inl (wrap ''generate job ID'' e), w)
      | (Inr jobid, w) \<Rightarrow>
     (case cj_clock uc w of (now, w) \<Rightarrow>
     (case new_job \<lparr>np_id = jobid, np_type = job_type, np_payload = in_payload input,
             np_created_at = now\<rparr>
      of Inl e \<Rightarrow> (Inl (wrap ''create job'' e), w)
      | Inr entity \<Rightarrow>
     (case repo_create (cj_repository uc) entity w of
        (Some e, w) \<Rightarrow> (Inl (wrap ''persist job'' e), w)
      | (None, w) \<Rightarrow>
          let w = cj_observer uc entity [] w in
     (case cj_queue uc (ent_id entity) w of
        (Some e, w) \<Rightarrow>
          (Inl (Errorf [Lit ''publish job '', Arg_s (ent_id entity), Lit '' to queue: '', Arg_w e]), w)
      | (None, w) \<Rightarrow> (Inr entity, w)))))))"

section \<open>Reading a job\<close>

definition new_get_job :: "'w repository_port option \<Rightarrow> goerror + 'w repository_port" where
  "new_get_job repository =
     (case repository of None \<Rightarrow> Inl (NewError ''job repository must not be nil'')
      | Some repo \<Rightarrow> Inr repo)"

definition get_job_execute :: "'w repository_port \<Rightarrow> gostring \<Rightarrow> 'w \<Rightarrow> (goerror + job) \<times> 'w" where
  "get_job_execute repo input w =
     (case parse_id input of Inl e \<Rightarrow> (Inl (wrap ''validate job ID'' e), w)
      | Inr jobid \<Rightarrow>
     (case repo_get repo jobid w of
        (Inl e, w) \<Rightarrow> (Inl (wrap ''get job'' e), w)
      | (Inr entity, w) \<Rightarrow> (Inr entity, w)))"

section \<open>Processing a job\<close>

record 'w process_job =
  pj_repository :: "'w repository_port"
  pj_queue :: "'w queue_port"
  pj_executor :: "'w executor_port"
  pj_clock :: "'w clock_port"
  pj_observer :: "'w observer_port"

definition new_process_job ::
  "'w repository_port option \<Rightarrow> 'w queue_port option \<Rightarrow> 'w executor_port option \<Rightarrow> 'w clock_port option
     \<Rightarrow> 'w observer_port option list \<Rightarrow> goerror + 'w process_job" where
  "new_process_job repository queue executor clock observers =
     (case repository of None \<Rightarrow> Inl (NewError ''job repository must not be nil'')
      | Some repo \<Rightarrow>
     (case queue of None \<Rightarrow> Inl (NewError ''job queue must not be nil'')
      | Some enq \<Rightarrow>
     (case executor of None \<Rightarrow> Inl (NewError ''job executor must not be nil'')
      | Some exec \<Rightarrow>
     (case clock of None \<Rightarrow> Inl (NewError ''clock must not be nil'')
      | Some clk \<Rightarrow>
     (case resolve_lifecycle_observer observers of Inl e \<Rightarrow> Inl e
      | Inr obs \<Rightarrow>
          Inr \<lparr>pj_repository = repo, pj_queue = enq, pj_executor = exec, pj_clock = clk,
            pj_observer = obs\<rparr>)))))"

text \<open>\<open>fmt.Errorf("<prefix> %s: %w", jobID, err)\<close>.\<close>

definition wrap_job :: "gostring \<Rightarrow> job_id \<Rightarrow> goerror \<Rightarrow> goerror" where
  "wrap_job prefix jobid e = Errorf [Lit prefix, Arg_s jobid, Lit '': '', Arg_w e]"

lemma errors_is_wrap_job [simp]: "errors_is (wrap_job prefix i e) s = errors_is e s"
  by (simp add: wrap_job_def)

definition retry_scheduled_error :: "job \<Rightarrow> goerror \<Rightarrow> goerror" where
  "retry_scheduled_error entity execution_error =
     JoinErrors
       [Errorf [Arg_w (Sentinel ErrJobRetryScheduled), Lit '': job '', Arg_s (ent_id entity),
          Lit '' retry '', Arg_d (retry_count entity), Lit '' of '', Arg_d (max_retries entity)],
        wrap_job ''execute job '' (ent_id entity) execution_error]"

definition retries_exhausted_error :: "job \<Rightarrow> goerror \<Rightarrow> goerror" where
  "retries_exhausted_error entity execution_error =
     JoinErrors
       [Errorf [Arg_w (Sentinel ErrJobRetriesExhausted), Lit '': job '', Arg_s (ent_id entity),
          Lit '' failed after '', Arg_d (retry_count entity), Lit '' retries''],
        wrap_job ''execute job '' (ent_id entity) execution_error]"

definition handle_execution_failure ::
  "wording \<Rightarrow> 'w process_job \<Rightarrow> job \<Rightarrow> goerror \<Rightarrow> 'w \<Rightarrow> goerror option \<times> 'w" where
  "handle_execution_failure words uc entity execution_error w =
     (let jobid = ent_id entity; previous = ent_status entity in
      case pj_clock uc w of (now, w) \<Rightarrow>
      (case record_failure now (error_text words execution_error) entity of
         Inl e \<Rightarrow>
           (Some (JoinErrors [wrap_job ''execute job '' jobid execution_error,
              wrap_job ''record failure for job '' jobid e]), w)
       | Inr (outcome, entity) \<Rightarrow>
      (case repo_update (pj_repository uc) entity w of
         (Some e, w) \<Rightarrow>
           (Some (JoinErrors [wrap_job ''execute job '' jobid execution_error,
              wrap_job ''persist failure state for job '' jobid e]), w)
       | (None, w) \<Rightarrow>
           let w = pj_observer uc entity previous w in
           if outcome = FailureOutcomeRetryScheduled then
             (case pj_queue uc jobid w of
                (Some e, w) \<Rightarrow>
                  (Some (JoinErrors [wrap_job ''execute job '' jobid execution_error,
                     Errorf [Lit ''enqueue retry '', Arg_d (retry_count entity), Lit '' of '',
                       Arg_d (max_retries entity), Lit '' for job '', Arg_s jobid, Lit '': '', Arg_w e]]), w)
              | (None, w) \<Rightarrow> (Some (retry_scheduled_error entity execution_error), w))
           else if outcome = FailureOutcomeTerminalFailure then
             (Some (retries_exhausted_error entity execution_error), w)
           else
             (Some (Errorf [Lit ''job '', Arg_s jobid, Lit '' produced unknown failure outcome '',
                Arg_q outcome]), w))))"

definition process_job_execute ::
  "wording \<Rightarrow> 'w process_job \<Rightarrow> job_id \<Rightarrow> 'w \<Rightarrow> goerror option \<times> 'w" where
  "process_job_execute words uc jobid w =
     (if \<not> id_is_valid jobid
      then (Some (Errorf [Lit ''validate job ID: '', Arg_w (Sentinel ErrInvalidID), Lit '': '',
              Arg_q jobid]), w)
      else
     (case repo_get (pj_repository uc) jobid w of
        (Inl e, w) \<Rightarrow> (Some (wrap_job ''load job '' jobid e), w)
      | (Inr entity, w) \<Rightarrow>
          let previous = ent_status entity in
     (case pj_clock uc w of (now, w) \<Rightarrow>
     (case mark_processing now entity of
        Inl e \<Rightarrow>
          (Some (Errorf [Lit ''mark job '', Arg_s jobid, Lit '' as processing: '', Arg_w e]), w)
      | Inr entity \<Rightarrow>
     (case repo_update (pj_repository uc) entity w of
        (Some e, w) \<Rightarrow> (Some (wrap_job ''persist processing status for job '' jobid e), w)
      | (None, w) \<Rightarrow>
          let w = pj_observer uc entity previous w in
     (case pj_executor uc entity w of
        (Some e, w) \<Rightarrow> handle_execution_failure words uc entity e w
      | (None, w) \<Rightarrow>
          let previous = ent_status entity in
     (case pj_clock uc w of (now, w) \<Rightarrow>
     (case mark_success now entity of
        Inl e \<Rightarrow>
          (Some (Errorf [Lit ''mark job '', Arg_s jobid, Lit '' as successful: '', Arg_w e]), w)
      | Inr entity \<Rightarrow>
     (case repo_update (pj_repository uc) entity w of
        (Some e, w) \<Rightarrow> (Some (wrap_job ''persist successful status for job '' jobid e), w)
      | (None, w) \<Rightarrow>
          let w = pj_observer uc entity previous w in (None, w))))))))))"

end
