(* ===== verification/Use_Case_Laws.thy ===== *)
theory Use_Case_Laws imports Use_Cases begin

text \<open>
  What the use cases do to the repository's rows and to the queue, proved inside the interfaces of
  \<open>Ports\<close>: for every adapter that keeps the laws, and for every way a call can fail (an error
  leaves the write undone or done).
\<close>

section \<open>The worlds of the use cases\<close>

locale use_case_world = storage_laws repo rows enqueue contents
  for repo :: "'w repository_port" and rows :: "'w \<Rightarrow> job_id \<Rightarrow> job option"
    and enqueue :: "'w queue_port" and contents :: "'w \<Rightarrow> job_id list" +
  fixes clock :: "'w clock_port"
    and observe :: "'w observer_port"
  assumes clock_rows: "clock w = (t, w') \<Longrightarrow> rows w' = rows w"
    and clock_contents: "clock w = (t, w') \<Longrightarrow> contents w' = contents w"
    and observe_rows: "rows (observe j st w) = rows w"
    and observe_contents: "contents (observe j st w) = contents w"

text \<open>Making identifiers touches neither store.\<close>

locale creating_world =
  use_case_world "cj_repository uc" rows "cj_queue uc" contents "cj_clock uc" "cj_observer uc"
  for uc :: "'w create_job" and rows :: "'w \<Rightarrow> job_id \<Rightarrow> job option"
    and contents :: "'w \<Rightarrow> job_id list" +
  assumes newid_rows: "cj_id_generator uc w = (r, w') \<Longrightarrow> rows w' = rows w"
    and newid_contents: "cj_id_generator uc w = (r, w') \<Longrightarrow> contents w' = contents w"

text \<open>\<open>effects\<close> is what executing a job can change, whatever that is (the mails that were sent, say):
  an observation of the world that nothing else in the use case changes.\<close>

locale processing_world =
  use_case_world "pj_repository uc" rows "pj_queue uc" contents "pj_clock uc" "pj_observer uc"
  for uc :: "'w process_job" and rows :: "'w \<Rightarrow> job_id \<Rightarrow> job option"
    and contents :: "'w \<Rightarrow> job_id list" +
  fixes effects :: "'w \<Rightarrow> 'e"
  assumes exec_rows: "pj_executor uc j w = (r, w') \<Longrightarrow> rows w' = rows w"
    and exec_contents: "pj_executor uc j w = (r, w') \<Longrightarrow> contents w' = contents w"
    and exec_error: "pj_executor uc j w = (Some e, w') \<Longrightarrow> adapter_error e"
    and clock_effects: "pj_clock uc w = (t, w') \<Longrightarrow> effects w' = effects w"
    and observe_effects: "effects (pj_observer uc j st w) = effects w"
    and get_effects: "repo_get (pj_repository uc) i w = (r', w') \<Longrightarrow> effects w' = effects w"
    and update_effects: "repo_update (pj_repository uc) j w = (r, w') \<Longrightarrow> effects w' = effects w"
    and enqueue_effects: "pj_queue uc i w = (r, w') \<Longrightarrow> effects w' = effects w"

section \<open>Creating\<close>

context creating_world begin

text \<open>What one execution of the use case does, whatever fails: either neither store has changed, or
  the row of one new pending job is there and its identifier is queued at most once; an answer with a
  job means that both are done.\<close>

lemma create_job_effect:
  assumes "create_job_execute uc input w = (r, w')"
  shows "(rows w' = rows w \<and> contents w' = contents w \<and> \<not> is_ok r)
    \<or> (\<exists>j. wf_job j \<and> lifecycle_ok j \<and> ent_status j = StatusPending
          \<and> parse_type (in_type input) = Inr (ent_type j)
          \<and> ent_payload j = in_payload input \<and> retry_count j = 0
          \<and> rows w (ent_id j) = None \<and> row_written j (rows w) (rows w')
          \<and> (if is_ok r then r = Inr j \<and> contents w' = contents w @ [ent_id j]
             else contents w' = contents w \<or> contents w' = contents w @ [ent_id j]))"
proof (cases "parse_type (in_type input)")
  case (Inl e)
  with assms show ?thesis by (auto simp: create_job_execute_def)
next
  case (Inr t)
  note t = this
  obtain ri w1 where gen: "cj_id_generator uc w = (ri, w1)" by force
  note f1 = newid_rows [OF gen] newid_contents [OF gen]
  show ?thesis
  proof (cases ri)
    case (Inl e)
    with assms t gen f1 show ?thesis by (auto simp: create_job_execute_def)
  next
    case (Inr jobid)
    note i = this
    obtain now w2 where clk: "cj_clock uc w1 = (now, w2)" by force
    note f2 = clock_rows [OF clk] clock_contents [OF clk]
    let ?np = "\<lparr>np_id = jobid, np_type = t, np_payload = in_payload input, np_created_at = now\<rparr>"
    show ?thesis
    proof (cases "new_job ?np")
      case (Inl e)
      with assms t gen i clk f1 f2 show ?thesis by (auto simp: create_job_execute_def)
    next
      case (Inr j)
      note j = this
      note nj = new_job_ok [OF j]
      have good: "wf_job j" "lifecycle_ok j" "ent_status j = StatusPending" "ent_type j = t"
        "ent_payload j = in_payload input" "retry_count j = 0"
        using wf_new_job [OF j] lifecycle_new [OF j] nj by simp_all
      obtain rc w3 where cr: "repo_create (cj_repository uc) j w2 = (rc, w3)" by force
      note f3 = create_contents [OF cr]
      show ?thesis
      proof (cases rc)
        case (Some e)
        with create_error [of j w2 e w3] cr good assms t gen i clk j f1 f2 f3
        show ?thesis by (auto simp: create_job_execute_def)
      next
        case None
        note none = this
        obtain rq w4 where enq: "cj_queue uc (ent_id j) (cj_observer uc j [] w3) = (rq, w4)" by force
        note f4 = enqueue_rows [OF enq] enqueue_ok [of "ent_id j" "cj_observer uc j [] w3" w4]
          enqueue_error [of "ent_id j" "cj_observer uc j [] w3" _ w4]
        from create_ok [of j w2 w3] cr none good
        have "rows w2 (ent_id j) = None" "row_written j (rows w2) (rows w3)" by simp_all
        with assms t gen i clk j cr none enq f1 f2 f3 f4 good show ?thesis
          by (cases rq) (auto simp: create_job_execute_def Let_def
              observe_rows observe_contents)
      qed
    qed
  qed
qed

end

section \<open>Reading\<close>

context repository_laws begin

lemma get_job_effect:
  assumes "get_job_execute repo input w = (r, w')"
  shows "rows w' = rows w
    \<and> (case r of
         Inr j \<Rightarrow> parse_id input = Inr (ent_id j) \<and> rows w (ent_id j) = Some j
       | Inl e \<Rightarrow> if is_ok (parse_id input) then \<forall>i. errors_is e ErrJobNotFound \<longrightarrow>
             parse_id input = Inr i \<longrightarrow> rows w i = None
           else errors_is e ErrInvalidID)"
proof (cases "parse_id input")
  case (Inl e)
  with assms show ?thesis
    by (auto simp: get_job_execute_def dest: parse_id_error)
next
  case (Inr i)
  obtain rg w1 where g: "repo_get repo i w = (rg, w1)" by force
  with assms Inr get_ok [of i w _ w1] get_error [of i w _ w1] show ?thesis
    by (cases rg) (auto simp: get_job_execute_def)
qed

end

section \<open>Processing\<close>

text \<open>The two transitions that end a failed attempt, on the entity.\<close>

lemma record_failure_retry:
  "record_failure t why j = Inr (oc, j') \<Longrightarrow> can_retry j \<Longrightarrow>
     oc = FailureOutcomeRetryScheduled \<and> ent_status j' = StatusPending
     \<and> retry_count j' = retry_count j + 1 \<and> ent_id j' = ent_id j \<and> ent_type j' = ent_type j
     \<and> max_retries j' = max_retries j \<and> last_error j' = Some (trim_space why)"
  by (simp add: record_failure_ok retried_def)

lemma record_failure_exhaust:
  "record_failure t why j = Inr (oc, j') \<Longrightarrow> \<not> can_retry j \<Longrightarrow>
     oc = FailureOutcomeTerminalFailure \<and> ent_status j' = StatusFailed
     \<and> retry_count j' = retry_count j \<and> ent_id j' = ent_id j \<and> ent_type j' = ent_type j
     \<and> max_retries j' = max_retries j \<and> last_error j' = Some (trim_space why)"
  by (simp add: record_failure_ok exhausted_def)

lemma record_failure_outcomes:
  "record_failure t why j = Inr (oc, j') \<Longrightarrow>
     oc = FailureOutcomeRetryScheduled \<or> oc = FailureOutcomeTerminalFailure"
  by (auto simp: record_failure_ok split: if_splits)

lemma failure_errors [simp]:
  "errors_is (retry_scheduled_error j e) ErrJobRetryScheduled"
  "errors_is (retries_exhausted_error j e) ErrJobRetriesExhausted"
  "adapter_error e \<Longrightarrow> \<not> errors_is (retry_scheduled_error j e) ErrJobRetriesExhausted"
  "adapter_error e \<Longrightarrow> \<not> errors_is (retries_exhausted_error j e) ErrJobRetryScheduled"
  by (simp_all add: retry_scheduled_error_def retries_exhausted_error_def adapter_error_def)

lemma domain_adapter_errors:
  "record_failure t why j = Inl e \<Longrightarrow> adapter_error e"
  "mark_processing t j = Inl e \<Longrightarrow> adapter_error e"
  "mark_success t j = Inl e \<Longrightarrow> adapter_error e"
  by (auto simp: record_failure_def mark_processing_def mark_success_def transition_time_def
      invalid_transition_def adapter_error_def Let_def split: if_splits)

text \<open>How a failed attempt at the job \<open>j\<close> can end: its failure is not recorded (or the write is
  lost), or it is, and then a retry is queued, reported only if that is certain, or the job is over.\<close>

definition failure_handled ::
  "job \<Rightarrow> gostring \<Rightarrow> goerror \<Rightarrow> (job_id \<Rightarrow> job option) \<Rightarrow> (job_id \<Rightarrow> job option)
     \<Rightarrow> job_id list \<Rightarrow> job_id list \<Rightarrow> bool" where
  "failure_handled j why e rs rs' q q' \<longleftrightarrow>
     (adapter_error e \<and> rs' = rs \<and> q' = q)
     \<or> (\<exists>j'. row_updated j' rs rs' \<and> same_frame j j'
          \<and> last_error j' = Some (trim_space why)
          \<and> (if can_retry j
             then ent_status j' = StatusPending \<and> retry_count j' = retry_count j + 1
               \<and> \<not> errors_is e ErrJobRetriesExhausted
               \<and> (if errors_is e ErrJobRetryScheduled then q' = q @ [ent_id j]
                  else q' = q \<or> q' = q @ [ent_id j])
             else ent_status j' = StatusFailed \<and> retry_count j' = retry_count j
               \<and> \<not> errors_is e ErrJobRetryScheduled \<and> q' = q))"

lemma failure_lost: "adapter_error e \<Longrightarrow> failure_handled j why e rs rs q q"
  by (simp add: failure_handled_def)

lemma failure_retried:
  assumes "record_failure t why j = Inr (oc, j')" "can_retry j" "row_updated j' rs rs'"
    "\<not> errors_is e ErrJobRetriesExhausted"
    "if errors_is e ErrJobRetryScheduled then q' = q @ [ent_id j] else q' = q \<or> q' = q @ [ent_id j]"
  shows "failure_handled j why e rs rs' q q'"
  unfolding failure_handled_def
  using assms record_failure_retry [OF assms(1,2)] same_frame_sym [OF frame_record_failure [OF assms(1)]]
  by auto

lemma failure_final:
  assumes "record_failure t why j = Inr (oc, j')" "\<not> can_retry j" "row_updated j' rs rs'"
    "\<not> errors_is e ErrJobRetryScheduled"
  shows "failure_handled j why e rs rs' q q"
  unfolding failure_handled_def
  using assms record_failure_exhaust [OF assms(1,2)] same_frame_sym [OF frame_record_failure [OF assms(1)]]
  by auto

lemma adapter_error_join [simp]:
  "adapter_error (JoinErrors es) \<longleftrightarrow> list_all adapter_error es"
  "adapter_error (wrap_job s i e) = adapter_error e"
  "adapter_error (wrap s e) = adapter_error e"
  by (auto simp: adapter_error_def list_ex_iff list_all_iff)

text \<open>How one execution for the identifier \<open>i\<close> can end. Before the executor runs: with an error, the
  row unchanged or marked as processing. After it: with nil and a successful row, with an error and the
  success not recorded for certain, or as a failure that is handled.\<close>

definition not_run ::
  "job_id \<Rightarrow> goerror option \<Rightarrow> (job_id \<Rightarrow> job option) \<Rightarrow> (job_id \<Rightarrow> job option) \<Rightarrow> bool" where
  "not_run i r rs rs' \<longleftrightarrow>
     (\<exists>e. r = Some e \<and> adapter_error e)
     \<and> (rs' = rs \<or> (\<exists>j0 t j1. rs i = Some j0 \<and> ent_id j0 = i \<and> mark_processing t j0 = Inr j1 \<and> row_updated j1 rs rs'))"

definition success_written ::
  "job \<Rightarrow> (job_id \<Rightarrow> job option) \<Rightarrow> (job_id \<Rightarrow> job option) \<Rightarrow> bool" where
  "success_written j1 rs1 rs' \<longleftrightarrow> (\<exists>t j2. mark_success t j1 = Inr j2 \<and> row_updated j2 rs1 rs')"

definition run_ended ::
  "wording \<Rightarrow> goerror option \<Rightarrow> (job_id \<Rightarrow> job option) \<Rightarrow> (job_id \<Rightarrow> job option)
     \<Rightarrow> job_id list \<Rightarrow> job_id list \<Rightarrow> job \<Rightarrow> goerror option \<Rightarrow> bool" where
  "run_ended words r rs1 rs' q q' j1 rx \<longleftrightarrow>
     (case rx of
        None \<Rightarrow> q' = q
          \<and> (case r of
               None \<Rightarrow> success_written j1 rs1 rs'
             | Some e \<Rightarrow> adapter_error e \<and> (rs' = rs1 \<or> success_written j1 rs1 rs'))
      | Some ex \<Rightarrow> \<exists>e. r = Some e \<and> failure_handled j1 (error_text words ex) e rs1 rs' q q')"

definition run_once ::
  "wording \<Rightarrow> job_id \<Rightarrow> goerror option \<Rightarrow> (job_id \<Rightarrow> job option) \<Rightarrow> (job_id \<Rightarrow> job option)
     \<Rightarrow> job_id list \<Rightarrow> job_id list \<Rightarrow> job \<Rightarrow> goerror option \<Rightarrow> bool" where
  "run_once words i r rs rs' q q' j1 rx \<longleftrightarrow>
     (\<exists>j0 t rs1. rs i = Some j0 \<and> wf_job j0 \<and> ent_id j0 = i \<and> mark_processing t j0 = Inr j1
        \<and> row_updated j1 rs rs1 \<and> run_ended words r rs1 rs' q q' j1 rx)"

text \<open>The second half of the use case, from the executor's call on.\<close>

definition execute_and_finish ::
  "wording \<Rightarrow> 'w process_job \<Rightarrow> job_id \<Rightarrow> job \<Rightarrow> 'w \<Rightarrow> goerror option \<times> 'w" where
  "execute_and_finish words uc i j w =
     (case pj_executor uc j w of
        (Some e, w) \<Rightarrow> handle_execution_failure words uc j e w
      | (None, w) \<Rightarrow>
          let previous = ent_status j in
     (case pj_clock uc w of (now, w) \<Rightarrow>
     (case mark_success now j of
        Inl e \<Rightarrow>
          (Some (Errorf [Lit ''mark job '', Arg_s i, Lit '' as successful: '', Arg_w e]), w)
      | Inr entity \<Rightarrow>
     (case repo_update (pj_repository uc) entity w of
        (Some e, w) \<Rightarrow> (Some (wrap_job ''persist successful status for job '' i e), w)
      | (None, w) \<Rightarrow>
          let w = pj_observer uc entity previous w in (None, w)))))"

lemma process_job_started:
  assumes "id_is_valid i" "repo_get (pj_repository uc) i w = (Inr j0, w1)"
    "pj_clock uc w1 = (now, w2)" "mark_processing now j0 = Inr j1"
    "repo_update (pj_repository uc) j1 w2 = (None, w3)"
  shows "process_job_execute words uc i w
    = execute_and_finish words uc i j1 (pj_observer uc j1 (ent_status j0) w3)"
  using assms by (simp add: process_job_execute_def execute_and_finish_def Let_def)

context processing_world begin

lemma handle_failure_effect:
  assumes h: "handle_execution_failure words uc j e w = (r, w')"
    and j: "wf_job j" and row: "rows w (ent_id j) = Some j0" "same_frame j j0"
    and e: "adapter_error e"
  shows "effects w' = effects w
    \<and> (\<exists>e'. r = Some e' \<and> failure_handled j (error_text words e) e' (rows w) (rows w') (contents w) (contents w'))"
proof -
  obtain now w1 where clk: "pj_clock uc w = (now, w1)" by force
  note f1 = clock_rows [OF clk] clock_contents [OF clk] clock_effects [OF clk]
  note h = h [unfolded handle_execution_failure_def Let_def clk prod.case]
  show ?thesis
  proof (cases "record_failure now (error_text words e) j")
    case (Inl ef)
    with h have "w' = w1" and r: "r = Some (JoinErrors [wrap_job ''execute job '' (ent_id j) e,
        wrap_job ''record failure for job '' (ent_id j) ef])" by simp_all
    moreover from Inl e domain_adapter_errors(1) have "adapter_error (JoinErrors
        [wrap_job ''execute job '' (ent_id j) e, wrap_job ''record failure for job '' (ent_id j) ef])"
      by simp
    ultimately show ?thesis using f1 failure_lost by metis
  next
    case (Inr p)
    obtain oc j1 where p: "p = (oc, j1)" by force
    note rf = Inr [unfolded p]
    have same: "ent_id j1 = ent_id j" "same_frame j1 j0" and j1: "wf_job j1"
      using frame_record_failure [OF rf] wf_record_failure [OF rf j] same_frame_trans row(2)
      by (auto simp: same_frame_def)
    obtain ru w2 where upd: "repo_update (pj_repository uc) j1 w1 = (ru, w2)" by force
    note f2 = update_contents [OF upd] update_effects [OF upd]
    have row1: "rows w1 (ent_id j1) = Some j0" using row f1 same by simp
    note h = h [unfolded rf sum.case prod.case upd]
    show ?thesis
    proof (cases ru)
      case (Some eu)
      let ?e = "JoinErrors [wrap_job ''execute job '' (ent_id j) e,
          wrap_job ''persist failure state for job '' (ent_id j) eu]"
      have upd': "adapter_error eu" "rows w2 = rows w1 \<or> row_updated j1 (rows w1) (rows w2)"
        using update_error [OF upd [unfolded Some] j1 row1 same(2)] by blast+
      have r: "r = Some ?e" "w' = w2" using h Some by simp_all
      have ae: "adapter_error ?e" using e upd'(1) by simp
      then have "failure_handled j (error_text words e) ?e (rows w) (rows w2) (contents w) (contents w)"
        using upd'(2) f1(1) failure_lost failure_retried [OF rf] failure_final [OF rf]
        unfolding adapter_error_def by metis
      then show ?thesis using r f1 f2 by simp
    next
      case None
      have written: "row_updated j1 (rows w) (rows w2)"
        using update_ok [OF upd [unfolded None] j1 row1 same(2)] f1(1) by simp
      let ?w3 = "pj_observer uc j1 (ent_status j) w2"
      note f3 = observe_rows [of j1 "ent_status j" w2] observe_contents [of j1 "ent_status j" w2]
        observe_effects [of j1 "ent_status j" w2]
      show ?thesis
      proof (cases "can_retry j")
        case True
        obtain rq w4 where enq: "pj_queue uc (ent_id j) ?w3 = (rq, w4)" by force
        note f4 = enqueue_rows [OF enq] enqueue_effects [OF enq]
        have oc: "oc = FailureOutcomeRetryScheduled" using record_failure_retry [OF rf True] by simp
        show ?thesis
        proof (cases rq)
          case None
          then have r: "r = Some (retry_scheduled_error j1 e)" "w' = w4"
            using h \<open>ru = None\<close> oc enq by simp_all
          have "contents w4 = contents w @ [ent_id j]"
            using enqueue_ok [OF enq [unfolded None]] f1 f2 f3 by simp
          with failure_retried [OF rf True written] e show ?thesis using r f1 f2 f3 f4 by simp
        next
          case (Some eq)
          have eq: "adapter_error eq" "contents w4 = contents w \<or> contents w4 = contents w @ [ent_id j]"
            using enqueue_error [OF enq [unfolded Some]] f1 f2 f3 by auto
          with h Some \<open>ru = None\<close> oc enq e have "w' = w4" "\<exists>e'. r = Some e' \<and> adapter_error e'"
            by (auto simp: adapter_error_def)
          then show ?thesis
            using failure_retried [OF rf True written] eq(2) f1 f2 f3 f4 unfolding adapter_error_def
            by auto
        qed
      next
        case False
        have oc: "oc = FailureOutcomeTerminalFailure" using record_failure_exhaust [OF rf False] by simp
        with h None have "r = Some (retries_exhausted_error j1 e)" "w' = ?w3" by simp_all
        with failure_final [OF rf False written] e show ?thesis using f1 f2 f3 by simp
      qed
    qed
  qed
qed

lemma finish_success_effect:
  assumes j: "wf_job j" and row: "rows w (ent_id j) = Some j0" "same_frame j j0"
    and clk: "pj_clock uc w = (now, w1)" and ok: "mark_success now j = Inr j2"
    and upd: "repo_update (pj_repository uc) j2 w1 = (ru, w2)"
  shows "contents w2 = contents w \<and> effects w2 = effects w
    \<and> (case ru of None \<Rightarrow> success_written j (rows w) (rows w2)
       | Some e \<Rightarrow> adapter_error e \<and> (rows w2 = rows w \<or> success_written j (rows w) (rows w2)))"
proof -
  have j2: "wf_job j2" "ent_id j2 = ent_id j" "same_frame j2 j"
    using wf_mark_success [OF ok j] frame_mark_success [OF ok] by (auto simp: same_frame_def)
  have row1: "rows w1 (ent_id j2) = Some j0" "same_frame j2 j0"
    using clock_rows [OF clk] row j2 same_frame_trans by auto
  have "contents w2 = contents w" "effects w2 = effects w"
    using update_contents [OF upd] update_effects [OF upd] clock_contents [OF clk] clock_effects [OF clk]
    by simp_all
  moreover have "row_updated j2 (rows w) (rows w2) \<Longrightarrow> success_written j (rows w) (rows w2)"
    using ok unfolding success_written_def by blast
  moreover note update_ok [of j2 w1 w2 j0] update_error [of j2 w1 _ w2 j0]
  ultimately show ?thesis
    using upd j2(1) row1 clock_rows [OF clk] by (cases ru) auto
qed

lemma execution_effect:
  assumes j: "wf_job j" and row: "rows w (ent_id j) = Some j0" "same_frame j j0"
    and ex: "pj_executor uc j w = (rx, w1)"
    and h: "execute_and_finish words uc i j w = (r, w')"
  shows "effects w' = effects w1 \<and> run_ended words r (rows w) (rows w') (contents w) (contents w') j rx"
proof (cases rx)
  case (Some e)
  note f = exec_rows [OF ex] exec_contents [OF ex]
  have "handle_execution_failure words uc j e w1 = (r, w')"
    using h Some ex by (simp add: execute_and_finish_def)
  from handle_failure_effect [OF this j] row f exec_error [OF ex [unfolded Some]]
  show ?thesis by (simp add: run_ended_def Some)
next
  case None
  note f = exec_rows [OF ex] exec_contents [OF ex]
  obtain now w2 where clk: "pj_clock uc w1 = (now, w2)" by force
  note f2 = clock_rows [OF clk] clock_contents [OF clk] clock_effects [OF clk]
  note h = h [unfolded execute_and_finish_def ex None Let_def prod.case option.case clk]
  show ?thesis
  proof (cases "mark_success now j")
    case (Inl e)
    with h have "w' = w2" "\<exists>e'. r = Some e' \<and> adapter_error e'"
      using domain_adapter_errors(3) [OF Inl] by (auto simp: adapter_error_def)
    then show ?thesis using f f2 None by (auto simp: run_ended_def)
  next
    case (Inr j2)
    obtain ru w3 where upd: "repo_update (pj_repository uc) j2 w2 = (ru, w3)" by force
    have row1: "rows w1 (ent_id j) = Some j0" using row f by simp
    note fin = finish_success_effect [OF j row1 row(2) clk Inr upd]
    show ?thesis
    proof (cases ru)
      case None
      with h Inr upd have "r = None" "w' = pj_observer uc j2 (ent_status j) w3" by simp_all
      with fin None \<open>rx = None\<close> f show ?thesis
        by (simp add: observe_rows observe_contents observe_effects run_ended_def)
    next
      case (Some e)
      with h Inr upd have "w' = w3" "r = Some (wrap_job ''persist successful status for job '' i e)"
        by simp_all
      with fin Some \<open>rx = None\<close> f show ?thesis by (auto simp: run_ended_def)
    qed
  qed
qed

lemma process_job_effect:
  assumes h: "process_job_execute words uc i w = (r, w')"
  shows "(effects w' = effects w \<and> contents w' = contents w \<and> not_run i r (rows w) (rows w'))
    \<or> (\<exists>j1 rx x x'. pj_executor uc j1 x = (rx, x') \<and> effects x = effects w \<and> effects w' = effects x'
         \<and> run_once words i r (rows w) (rows w') (contents w) (contents w') j1 rx)"
proof (cases "id_is_valid i")
  case False
  with h show ?thesis by (auto simp: process_job_execute_def not_run_def adapter_error_def)
next
  case True
  obtain rg w1 where get: "repo_get (pj_repository uc) i w = (rg, w1)" by force
  note f1 = get_contents [OF get] get_effects [OF get]
  show ?thesis
  proof (cases rg)
    case (Inl e)
    with h True get get_error [OF get [unfolded Inl]] f1 show ?thesis
      by (auto simp: not_run_def process_job_execute_def)
  next
    case (Inr j0)
    note g = get_ok [OF get [unfolded Inr]]
    obtain now w2 where clk: "pj_clock uc w1 = (now, w2)" by force
    note f2 = clock_rows [OF clk] clock_contents [OF clk] clock_effects [OF clk]
    show ?thesis
    proof (cases "mark_processing now j0")
      case (Inl e)
      with h True get \<open>rg = Inr j0\<close> clk g f1 f2 domain_adapter_errors(2) [OF Inl] show ?thesis
        by (auto simp: not_run_def adapter_error_def process_job_execute_def Let_def)
    next
      case (Inr j1)
      note mp = Inr
      have j1: "wf_job j1" "ent_id j1 = i" "same_frame j1 j0"
        using wf_mark_processing [OF mp] g frame_mark_processing [OF mp] by (auto simp: same_frame_def)
      obtain ru w3 where upd: "repo_update (pj_repository uc) j1 w2 = (ru, w3)" by force
      note f3 = update_contents [OF upd] update_effects [OF upd]
      have row2: "rows w2 (ent_id j1) = Some j0" using g f2 j1 by simp
      show ?thesis
      proof (cases ru)
        case (Some e)
        with h True get \<open>rg = Inr j0\<close> clk mp upd
        have r: "r = Some (wrap_job ''persist processing status for job '' i e)" "w' = w3"
          by (simp_all add: process_job_execute_def Let_def)
        from update_error [OF upd [unfolded Some] j1(1) row2 j1(3)] g f1 f2 f3 r mp
        show ?thesis unfolding not_run_def by auto
      next
        case None
        have written: "row_updated j1 (rows w) (rows w3)"
          using update_ok [OF upd [unfolded None] j1(1) row2 j1(3)] g f2 by simp
        let ?w4 = "pj_observer uc j1 (ent_status j0) w3"
        note f4 = observe_rows [of j1 "ent_status j0" w3] observe_contents [of j1 "ent_status j0" w3]
          observe_effects [of j1 "ent_status j0" w3]
        obtain j3 where row4: "rows ?w4 (ent_id j1) = Some j3" "same_frame j1 j3"
          using row_updated_row [OF written] f4 by auto
        obtain rx w5 where ex: "pj_executor uc j1 ?w4 = (rx, w5)" by force
        note eff = execution_effect [OF j1(1) row4 ex]
        have "execute_and_finish words uc i j1 ?w4 = (r, w')"
          using h process_job_started [OF True get [unfolded \<open>rg = Inr j0\<close>] clk mp upd [unfolded None]]
          by simp
        from eff [OF this] have "effects w' = effects w5"
          "run_ended words r (rows w3) (rows w') (contents w) (contents w') j1 rx"
          unfolding f4 f3 f2 f1 by blast+
        then show ?thesis using g mp j1(2) written ex f1 f2 f3 f4 unfolding run_once_def by metis
      qed
    qed
  qed
qed

end

section \<open>What an execution's result tells\<close>

text \<open>The rows after a run, from the rows before it.\<close>

lemma success_written_row:
  assumes "row_updated j1 rs rs1" "success_written j1 rs1 rs'"
  obtains j' where "rs' (ent_id j1) = Some j'" "ent_status j' = StatusSuccess" "last_error j' = None"
    "same_frame j1 j'" "completed_at j' \<noteq> None" "\<And>k. k \<noteq> ent_id j1 \<Longrightarrow> rs' k = rs k"
proof -
  from assms(2) obtain t j2 where j2: "mark_success t j1 = Inr j2" "row_updated j2 rs1 rs'"
    unfolding success_written_def by blast
  note fr = frame_mark_success [OF j2(1)]
  then have id: "ent_id j2 = ent_id j1" by (simp add: same_frame_def)
  from row_updated_row [OF j2(2)] obtain j' where j': "rs' (ent_id j2) = Some j'" "stored_as j2 j'"
    "same_frame j2 j'" by blast
  show thesis
  proof (rule that [of j'])
    show "same_frame j1 j'" using same_frame_trans [OF same_frame_sym [OF fr] j'(3)] .
    show "rs' k = rs k" if "k \<noteq> ent_id j1" for k
      using row_updated_other [OF j2(2)] row_updated_other [OF assms(1)] that id by simp
  qed (use j' j2(1) id in \<open>auto simp: stored_as_def mark_success_ok\<close>)
qed

lemma failure_handled_row:
  assumes "row_updated j1 rs rs1" "failure_handled j1 why e rs1 rs' q q'" "\<not> adapter_error e"
  obtains j' where "rs' (ent_id j1) = Some j'" "last_error j' = Some (trim_space why)" "same_frame j1 j'"
    "if can_retry j1 then ent_status j' = StatusPending \<and> retry_count j' = retry_count j1 + 1
       \<and> errors_is e ErrJobRetryScheduled \<and> \<not> errors_is e ErrJobRetriesExhausted
       \<and> q' = q @ [ent_id j1]
     else ent_status j' = StatusFailed \<and> retry_count j' = retry_count j1
       \<and> errors_is e ErrJobRetriesExhausted \<and> \<not> errors_is e ErrJobRetryScheduled \<and> q' = q"
proof -
  from assms(2,3) obtain j2 where j2: "row_updated j2 rs1 rs'" "same_frame j1 j2"
    "last_error j2 = Some (trim_space why)"
    "if can_retry j1
     then ent_status j2 = StatusPending \<and> retry_count j2 = retry_count j1 + 1
       \<and> \<not> errors_is e ErrJobRetriesExhausted
       \<and> (if errors_is e ErrJobRetryScheduled then q' = q @ [ent_id j1]
          else q' = q \<or> q' = q @ [ent_id j1])
     else ent_status j2 = StatusFailed \<and> retry_count j2 = retry_count j1
       \<and> \<not> errors_is e ErrJobRetryScheduled \<and> q' = q"
    unfolding failure_handled_def by blast
  from row_updated_row [OF j2(1)] obtain j' where j': "rs' (ent_id j2) = Some j'" "stored_as j2 j'"
    "same_frame j2 j'" by blast
  show thesis
  proof (rule that [of j'])
    show "same_frame j1 j'" using same_frame_trans [OF j2(2) j'(3)] .
    show "rs' (ent_id j1) = Some j'" using j'(1) j2(2) by (simp add: same_frame_def)
    show "last_error j' = Some (trim_space why)" using j' j2 by (simp add: stored_as_def)
    show "if can_retry j1 then ent_status j' = StatusPending \<and> retry_count j' = retry_count j1 + 1
       \<and> errors_is e ErrJobRetryScheduled \<and> \<not> errors_is e ErrJobRetriesExhausted
       \<and> q' = q @ [ent_id j1]
     else ent_status j' = StatusFailed \<and> retry_count j' = retry_count j1
       \<and> errors_is e ErrJobRetriesExhausted \<and> \<not> errors_is e ErrJobRetryScheduled \<and> q' = q"
      using j'(2) j2(4) assms(3) unfolding stored_as_def adapter_error_def by (auto split: if_splits)
  qed
qed

lemma failure_handled_other:
  assumes "row_updated j1 rs rs1" "failure_handled j1 why e rs1 rs' q q'" "k \<noteq> ent_id j1"
  shows "rs' k = rs k"
proof -
  have "rs1 k = rs k" using row_updated_other [OF assms(1,3)] .
  moreover have "rs' k = rs1 k"
    using assms(2,3) row_updated_other unfolding failure_handled_def same_frame_def by metis
  ultimately show ?thesis by simp
qed

lemma not_run_other: "not_run i r rs rs' \<Longrightarrow> k \<noteq> i \<Longrightarrow> rs' k = rs k"
proof -
  assume "not_run i r rs rs'" "k \<noteq> i"
  then consider "rs' = rs" | j0 t j1 where "ent_id j0 = i" "mark_processing t j0 = Inr j1" "row_updated j1 rs rs'"
    unfolding not_run_def by blast
  then show "rs' k = rs k"
  proof cases
    case 2
    then have "ent_id j1 = i" using frame_mark_processing [OF 2(2)] by (simp add: same_frame_def)
    with row_updated_other [OF 2(3)] \<open>k \<noteq> i\<close> show ?thesis by simp
  qed simp
qed

lemma run_onceE:
  assumes "run_once words i r rs rs' q q' j1 rx"
  obtains j0 t rs1 where "rs i = Some j0" "wf_job j0" "ent_status j0 = StatusPending"
    "mark_processing t j0 = Inr j1" "ent_id j1 = i" "same_frame j0 j1" "retry_count j1 = retry_count j0"
    "ent_status j1 = StatusProcessing" "row_updated j1 rs rs1" "run_ended words r rs1 rs' q q' j1 rx"
proof -
  from assms obtain j0 t rs1 where h: "rs i = Some j0" "wf_job j0" "ent_id j0 = i"
    "mark_processing t j0 = Inr j1" "row_updated j1 rs rs1" "run_ended words r rs1 rs' q q' j1 rx"
    unfolding run_once_def by blast
  note fr = same_frame_sym [OF frame_mark_processing [OF h(4)]]
  show thesis
    by (rule that [OF h(1,2) _ h(4) _ fr _ _ h(5,6)])
       (use h(3,4) fr in \<open>auto simp: mark_processing_ok same_frame_def\<close>)
qed

lemma run_once_other:
  assumes "run_once words i r rs rs' q q' j1 rx" "k \<noteq> i"
  shows "rs' k = rs k"
  using assms(1)
proof (rule run_onceE)
  fix j0 t rs1
  assume h: "ent_id j1 = i" "row_updated j1 rs rs1" "run_ended words r rs1 rs' q q' j1 rx"
  then have "rs1 k = rs k" using row_updated_other assms(2) by blast
  with h assms(2) show ?thesis
    unfolding run_ended_def
    by (auto split: option.splits elim: success_written_row [OF h(2)] dest: failure_handled_other [OF h(2)])
qed

lemma run_once_succeeded:
  assumes "run_once words i None rs rs' q q' j1 rx"
  shows "\<exists>j j'. rs i = Some j \<and> ent_status j = StatusPending \<and> rs' i = Some j'
    \<and> ent_status j' = StatusSuccess \<and> last_error j' = None \<and> same_frame j j' \<and> q' = q \<and> rx = None"
  using assms
proof (rule run_onceE)
  fix j0 t rs1
  assume h: "rs i = Some j0" "ent_status j0 = StatusPending" "ent_id j1 = i" "same_frame j0 j1"
    "row_updated j1 rs rs1" "run_ended words None rs1 rs' q q' j1 rx"
  from h(6) have "success_written j1 rs1 rs'" "q' = q" "rx = None"
    by (auto simp: run_ended_def split: option.splits)
  with h show ?thesis
    by (auto elim!: success_written_row [OF h(5)] intro: same_frame_trans)
qed

lemma run_once_failed:
  assumes "run_once words i (Some e) rs rs' q q' j1 rx" "\<not> adapter_error e"
  shows "\<exists>j j' ex. rx = Some ex \<and> rs i = Some j \<and> wf_job j \<and> ent_status j = StatusPending
    \<and> rs' i = Some j' \<and> last_error j' = Some (trim_space (error_text words ex)) \<and> same_frame j j'
    \<and> (if can_retry j then ent_status j' = StatusPending \<and> retry_count j' = retry_count j + 1
         \<and> errors_is e ErrJobRetryScheduled \<and> \<not> errors_is e ErrJobRetriesExhausted \<and> q' = q @ [i]
       else ent_status j' = StatusFailed \<and> retry_count j' = retry_count j
         \<and> errors_is e ErrJobRetriesExhausted \<and> \<not> errors_is e ErrJobRetryScheduled \<and> q' = q)"
  using assms(1)
proof (rule run_onceE)
  fix j0 t rs1
  assume h: "rs i = Some j0" "wf_job j0" "ent_status j0 = StatusPending" "ent_id j1 = i" "same_frame j0 j1"
    "retry_count j1 = retry_count j0" "row_updated j1 rs rs1" "run_ended words (Some e) rs1 rs' q q' j1 rx"
  from h(8) assms(2) obtain ex where ex: "rx = Some ex"
    "failure_handled j1 (error_text words ex) e rs1 rs' q q'"
    by (auto simp: run_ended_def split: option.splits)
  have retry: "can_retry j1 = can_retry j0" using h(5,6) by (simp add: can_retry_def same_frame_def)
  from failure_handled_row [OF h(7) ex(2) assms(2)] obtain j' where "rs' (ent_id j1) = Some j'"
    "last_error j' = Some (trim_space (error_text words ex))" "same_frame j1 j'"
    "if can_retry j1 then ent_status j' = StatusPending \<and> retry_count j' = retry_count j1 + 1
       \<and> errors_is e ErrJobRetryScheduled \<and> \<not> errors_is e ErrJobRetriesExhausted
       \<and> q' = q @ [ent_id j1]
     else ent_status j' = StatusFailed \<and> retry_count j' = retry_count j1
       \<and> errors_is e ErrJobRetriesExhausted \<and> \<not> errors_is e ErrJobRetryScheduled \<and> q' = q"
    by blast
  then show ?thesis
    unfolding retry h(4,6) using ex(1) h(1-3) same_frame_trans [OF h(5)] by blast
qed

text \<open>Whatever ends up in the queue is pending in its row, in every way an execution can end.\<close>

lemma run_once_published:
  assumes "run_once words i r rs rs' q q' j1 rx" "q' \<noteq> q"
  shows "q' = q @ [i] \<and> (\<exists>j'. rs' i = Some j' \<and> ent_status j' = StatusPending)"
  using assms(1)
proof (rule run_onceE)
  fix j0 t rs1
  assume h: "ent_id j1 = i" "run_ended words r rs1 rs' q q' j1 rx"
  from h(2) assms(2) obtain ex e where "failure_handled j1 (error_text words ex) e rs1 rs' q q'"
    by (auto simp: run_ended_def split: option.splits)
  then obtain j2 where j2: "row_updated j2 rs1 rs'" "same_frame j1 j2" "q' = q @ [i]"
    "ent_status j2 = StatusPending"
    using assms(2) h(1) unfolding failure_handled_def by (auto split: if_splits)
  with row_updated_row [OF j2(1)] h(1) show ?thesis by (auto simp: stored_as_def same_frame_def)
qed

end
