(* ===== verification/Process_Steps.thy ===== *)
theory Process_Steps imports Use_Case_Laws begin

text \<open>
  The two use cases that write, as sequences of atomic calls. A process is between two calls of its
  ports; one step makes the next call. Run alone, the steps compute exactly what the definitions of
  \<open>Use_Cases\<close> do; interleaved with the steps of others they are the program's real executions.
\<close>

section \<open>Processing\<close>

text \<open>The constructors name what has just been done. The status in some of them is the previous status
  that the observer is told.\<close>

datatype proc =
    PStart job_id
  | PLoaded job_id job
  | PMarked job_id status job
  | PStarted job_id status job
  | PReady job_id job
  | PExecuted job_id job
  | PSucceeded job_id status job
  | PFinished job_id status job
  | PFailed job goerror
  | PRecorded status goerror failure_outcome job
  | PPersisted status goerror failure_outcome job
  | PPublish goerror failure_outcome job
  | PDone "goerror option"

fun proc_step :: "wording \<Rightarrow> 'w process_job \<Rightarrow> proc \<Rightarrow> 'w \<Rightarrow> proc \<times> 'w" where
  "proc_step words uc (PStart i) w =
     (if \<not> id_is_valid i
      then (PDone (Some (Errorf [Lit ''validate job ID: '', Arg_w (Sentinel ErrInvalidID), Lit '': '',
              Arg_q i])), w)
      else case repo_get (pj_repository uc) i w of
        (Inl e, w) \<Rightarrow> (PDone (Some (wrap_job ''load job '' i e)), w)
      | (Inr j, w) \<Rightarrow> (PLoaded i j, w))"
| "proc_step words uc (PLoaded i j) w =
     (case pj_clock uc w of (now, w) \<Rightarrow>
      (case mark_processing now j of
         Inl e \<Rightarrow>
           (PDone (Some (Errorf [Lit ''mark job '', Arg_s i, Lit '' as processing: '', Arg_w e])), w)
       | Inr j1 \<Rightarrow> (PMarked i (ent_status j) j1, w)))"
| "proc_step words uc (PMarked i prev j) w =
     (case repo_update (pj_repository uc) j w of
        (Some e, w) \<Rightarrow> (PDone (Some (wrap_job ''persist processing status for job '' i e)), w)
      | (None, w) \<Rightarrow> (PStarted i prev j, w))"
| "proc_step words uc (PStarted i prev j) w = (PReady i j, pj_observer uc j prev w)"
| "proc_step words uc (PReady i j) w =
     (case pj_executor uc j w of
        (Some e, w) \<Rightarrow> (PFailed j e, w)
      | (None, w) \<Rightarrow> (PExecuted i j, w))"
| "proc_step words uc (PExecuted i j) w =
     (case pj_clock uc w of (now, w) \<Rightarrow>
      (case mark_success now j of
         Inl e \<Rightarrow>
           (PDone (Some (Errorf [Lit ''mark job '', Arg_s i, Lit '' as successful: '', Arg_w e])), w)
       | Inr j2 \<Rightarrow> (PSucceeded i (ent_status j) j2, w)))"
| "proc_step words uc (PSucceeded i prev j) w =
     (case repo_update (pj_repository uc) j w of
        (Some e, w) \<Rightarrow> (PDone (Some (wrap_job ''persist successful status for job '' i e)), w)
      | (None, w) \<Rightarrow> (PFinished i prev j, w))"
| "proc_step words uc (PFinished i prev j) w = (PDone None, pj_observer uc j prev w)"
| "proc_step words uc (PFailed j e) w =
     (case pj_clock uc w of (now, w) \<Rightarrow>
      (case record_failure now (error_text words e) j of
         Inl e' \<Rightarrow>
           (PDone (Some (JoinErrors [wrap_job ''execute job '' (ent_id j) e,
              wrap_job ''record failure for job '' (ent_id j) e'])), w)
       | Inr (oc, j') \<Rightarrow> (PRecorded (ent_status j) e oc j', w)))"
| "proc_step words uc (PRecorded prev e oc j) w =
     (case repo_update (pj_repository uc) j w of
        (Some e', w) \<Rightarrow>
          (PDone (Some (JoinErrors [wrap_job ''execute job '' (ent_id j) e,
             wrap_job ''persist failure state for job '' (ent_id j) e'])), w)
      | (None, w) \<Rightarrow> (PPersisted prev e oc j, w))"
| "proc_step words uc (PPersisted prev e oc j) w = (PPublish e oc j, pj_observer uc j prev w)"
| "proc_step words uc (PPublish e oc j) w =
     (if oc = FailureOutcomeRetryScheduled then
        (case pj_queue uc (ent_id j) w of
           (Some e', w) \<Rightarrow>
             (PDone (Some (JoinErrors [wrap_job ''execute job '' (ent_id j) e,
                Errorf [Lit ''enqueue retry '', Arg_d (retry_count j), Lit '' of '',
                  Arg_d (max_retries j), Lit '' for job '', Arg_s (ent_id j), Lit '': '', Arg_w e']])), w)
         | (None, w) \<Rightarrow> (PDone (Some (retry_scheduled_error j e)), w))
      else if oc = FailureOutcomeTerminalFailure then
        (PDone (Some (retries_exhausted_error j e)), w)
      else
        (PDone (Some (Errorf [Lit ''job '', Arg_s (ent_id j), Lit '' produced unknown failure outcome '',
           Arg_q oc])), w))"
| "proc_step words uc (PDone r) w = (PDone r, w)"

fun proc_run :: "wording \<Rightarrow> 'w process_job \<Rightarrow> nat \<Rightarrow> proc \<times> 'w \<Rightarrow> proc \<times> 'w" where
  "proc_run words uc 0 s = s"
| "proc_run words uc (Suc n) (p, w) = proc_run words uc n (proc_step words uc p w)"

text \<open>How many calls are left at most.\<close>

fun proc_left :: "proc \<Rightarrow> nat" where
  "proc_left (PStart i) = 10"
| "proc_left (PLoaded i j) = 9"
| "proc_left (PMarked i prev j) = 8"
| "proc_left (PStarted i prev j) = 7"
| "proc_left (PReady i j) = 6"
| "proc_left (PExecuted i j) = 3"
| "proc_left (PSucceeded i prev j) = 2"
| "proc_left (PFinished i prev j) = 1"
| "proc_left (PFailed j e) = 4"
| "proc_left (PRecorded prev e oc j) = 3"
| "proc_left (PPersisted prev e oc j) = 2"
| "proc_left (PPublish e oc j) = 1"
| "proc_left (PDone r) = 0"

lemma proc_step_left:
  "proc_left p \<noteq> 0 \<Longrightarrow> proc_step words uc p w = (p', w') \<Longrightarrow> proc_left p' < proc_left p"
  by (cases p) (auto split: prod.splits sum.splits option.splits if_splits)

lemma proc_left_0: "proc_left p = 0 \<longleftrightarrow> (\<exists>r. p = PDone r)"
  by (cases p) auto

lemma proc_run_done [simp]: "proc_run words uc n (PDone r, w) = (PDone r, w)"
  by (induction n) simp_all

lemma proc_run_enough:
  "proc_left p \<le> n \<Longrightarrow> n \<le> m \<Longrightarrow> proc_run words uc m (p, w) = proc_run words uc n (p, w)"
proof (induction n arbitrary: p w m)
  case 0
  then obtain r where "p = PDone r" by (auto simp: proc_left_0)
  then show ?case by simp
next
  case (Suc n)
  then obtain m' where m: "m = Suc m'" "n \<le> m'" by (cases m) auto
  show ?case
  proof (cases "proc_left p = 0")
    case True
    then obtain r where "p = PDone r" by (auto simp: proc_left_0)
    then show ?thesis by simp
  next
    case False
    obtain p' w' where s: "proc_step words uc p w = (p', w')" by force
    with False Suc.prems proc_step_left [OF False s] have "proc_left p' \<le> n" by simp
    from Suc.IH [OF this m(2)] show ?thesis by (simp add: m(1) s)
  qed
qed

text \<open>The rest of an execution, from the place a process is at.\<close>

lemmas proc_run_numeral [simp] = proc_run.simps(2) [of _ _ "pred_numeral k" for k, folded numeral_eq_Suc]

lemma proc_run_add: "proc_run words uc (m + n) (p, w) = proc_run words uc n (proc_run words uc m (p, w))"
proof (induction m arbitrary: p w)
  case (Suc m)
  obtain p' w' where "proc_step words uc p w = (p', w')" by force
  with Suc show ?case by simp
qed simp

lemma failure_refines:
  "proc_run words uc 4 (PFailed j e, w)
     = (case handle_execution_failure words uc j e w of (r, w') \<Rightarrow> (PDone r, w'))"
proof -
  obtain now w1 where clk: "pj_clock uc w = (now, w1)" by force
  show ?thesis
  proof (cases "record_failure now (error_text words e) j")
    case (Inl e')
    then show ?thesis by (simp add: handle_execution_failure_def Let_def clk)
  next
    case (Inr p)
    then obtain oc j' where rf: "record_failure now (error_text words e) j = Inr (oc, j')" by (cases p) auto
    have id: "ent_id j' = ent_id j" using frame_record_failure [OF rf] by (simp add: same_frame_def)
    obtain ru w2 where upd: "repo_update (pj_repository uc) j' w1 = (ru, w2)" by force
    show ?thesis
      by (cases ru)
         (simp_all add: handle_execution_failure_def Let_def clk rf upd id split: prod.split option.split)
  qed
qed

lemma finish_refines:
  "proc_run words uc 6 (PReady i j, w)
     = (case execute_and_finish words uc i j w of (r, w') \<Rightarrow> (PDone r, w'))"
proof -
  obtain rx w1 where ex: "pj_executor uc j w = (rx, w1)" by force
  show ?thesis
  proof (cases rx)
    case None
    then show ?thesis
      by (simp add: execute_and_finish_def ex Let_def split: prod.split sum.split option.split)
  next
    case (Some e)
    have "proc_run words uc 5 (PFailed j e, w1) = proc_run words uc 4 (PFailed j e, w1)"
      by (rule proc_run_enough) simp_all
    moreover have "proc_run words uc 1 (PReady i j, w) = (PFailed j e, w1)" using Some ex by simp
    ultimately show ?thesis
      using proc_run_add [of words uc 1 5 "PReady i j" w] Some failure_refines [of words uc j e w1]
      by (simp add: execute_and_finish_def ex del: proc_run_numeral)
  qed
qed

lemma process_refines:
  "proc_run words uc 10 (PStart i, w)
     = (case process_job_execute words uc i w of (r, w') \<Rightarrow> (PDone r, w'))"
proof (cases "id_is_valid i")
  case False
  then show ?thesis by (simp add: process_job_execute_def)
next
  case True
  obtain rg w1 where get: "repo_get (pj_repository uc) i w = (rg, w1)" by force
  show ?thesis
  proof (cases rg)
    case (Inl e)
    with True get show ?thesis by (simp add: process_job_execute_def)
  next
    case (Inr j)
    obtain now w2 where clk: "pj_clock uc w1 = (now, w2)" by force
    show ?thesis
    proof (cases "mark_processing now j")
      case (Inl e)
      with True get \<open>rg = Inr j\<close> clk show ?thesis by (simp add: process_job_execute_def Let_def)
    next
      case mp: (Inr j1)
      obtain ru w3 where upd: "repo_update (pj_repository uc) j1 w2 = (ru, w3)" by force
      show ?thesis
      proof (cases ru)
        case (Some e)
        with True get \<open>rg = Inr j\<close> clk mp upd show ?thesis by (simp add: process_job_execute_def Let_def)
      next
        case None
        have "proc_run words uc 4 (PStart i, w) = (PReady i j1, pj_observer uc j1 (ent_status j) w3)"
          using True get \<open>rg = Inr j\<close> clk mp upd None by simp
        then have "proc_run words uc 10 (PStart i, w)
            = proc_run words uc 6 (PReady i j1, pj_observer uc j1 (ent_status j) w3)"
          using proc_run_add [of words uc 4 6 "PStart i" w] by (simp del: proc_run_numeral)
        also note finish_refines
        also have "execute_and_finish words uc i j1 (pj_observer uc j1 (ent_status j) w3)
            = process_job_execute words uc i w"
          using process_job_started [OF True get [unfolded Inr] clk mp upd [unfolded None]] by simp
        finally show ?thesis .
      qed
    qed
  qed
qed

section \<open>Creating\<close>

datatype creating =
    CStart create_job_input
  | CTyped create_job_input job_type
  | CIdentified create_job_input job_type job_id
  | CMade job
  | CPersisted job
  | CPublish job
  | CDone "goerror + job"

fun create_step :: "'w create_job \<Rightarrow> creating \<Rightarrow> 'w \<Rightarrow> creating \<times> 'w" where
  "create_step uc (CStart input) w =
     (case parse_type (in_type input) of
        Inl e \<Rightarrow> (CDone (Inl (wrap ''validate job type'' e)), w)
      | Inr t \<Rightarrow> (CTyped input t, w))"
| "create_step uc (CTyped input t) w =
     (case cj_id_generator uc w of
        (Inl e, w) \<Rightarrow> (CDone (Inl (wrap ''generate job ID'' e)), w)
      | (Inr i, w) \<Rightarrow> (CIdentified input t i, w))"
| "create_step uc (CIdentified input t i) w =
     (case cj_clock uc w of (now, w) \<Rightarrow>
      (case new_job \<lparr>np_id = i, np_type = t, np_payload = in_payload input, np_created_at = now\<rparr> of
         Inl e \<Rightarrow> (CDone (Inl (wrap ''create job'' e)), w)
       | Inr j \<Rightarrow> (CMade j, w)))"
| "create_step uc (CMade j) w =
     (case repo_create (cj_repository uc) j w of
        (Some e, w) \<Rightarrow> (CDone (Inl (wrap ''persist job'' e)), w)
      | (None, w) \<Rightarrow> (CPersisted j, w))"
| "create_step uc (CPersisted j) w = (CPublish j, cj_observer uc j [] w)"
| "create_step uc (CPublish j) w =
     (case cj_queue uc (ent_id j) w of
        (Some e, w) \<Rightarrow>
          (CDone (Inl (Errorf [Lit ''publish job '', Arg_s (ent_id j), Lit '' to queue: '', Arg_w e])), w)
      | (None, w) \<Rightarrow> (CDone (Inr j), w))"
| "create_step uc (CDone r) w = (CDone r, w)"

fun create_run :: "'w create_job \<Rightarrow> nat \<Rightarrow> creating \<times> 'w \<Rightarrow> creating \<times> 'w" where
  "create_run uc 0 s = s"
| "create_run uc (Suc n) (c, w) = create_run uc n (create_step uc c w)"

lemma create_run_done [simp]: "create_run uc n (CDone r, w) = (CDone r, w)"
  by (induction n) simp_all

lemma create_refines:
  "create_run uc 6 (CStart input, w)
     = (case create_job_execute uc input w of (r, w') \<Rightarrow> (CDone r, w'))"
  by (simp add: numeral_eq_Suc create_job_execute_def Let_def split: prod.split sum.split option.split)

section \<open>Which job a process is at\<close>

text \<open>A process that has finished is at no job; one that only has to report the end of a job no longer
  counts as being at it either.\<close>

fun proc_token :: "proc \<Rightarrow> job_id option" where
  "proc_token (PStart i) = Some i"
| "proc_token (PLoaded i j) = Some i"
| "proc_token (PMarked i prev j) = Some i"
| "proc_token (PStarted i prev j) = Some i"
| "proc_token (PReady i j) = Some i"
| "proc_token (PExecuted i j) = Some i"
| "proc_token (PSucceeded i prev j) = Some i"
| "proc_token (PFinished i prev j) = Some i"
| "proc_token (PFailed j e) = Some (ent_id j)"
| "proc_token (PRecorded prev e oc j) = Some (ent_id j)"
| "proc_token (PPersisted prev e oc j) = Some (ent_id j)"
| "proc_token (PPublish e oc j) = Some (ent_id j)"
| "proc_token (PDone r) = None"

text \<open>A creating request is at its job from the moment its row exists.\<close>

fun create_token :: "creating \<Rightarrow> job_id option" where
  "create_token (CPersisted j) = Some (ent_id j)"
| "create_token (CPublish j) = Some (ent_id j)"
| "create_token c = None"

end
