(* ===== verification/Step_Invariants.thy ===== *)
theory Step_Invariants imports Process_Steps begin

text \<open>
  What holds of one process between two of its calls, in terms of the row of its job and of the number
  of times the executor has been run on that job so far, and that each step keeps it. A process only
  ever changes the row of its own job; that is what makes these facts stable when others take steps.
\<close>

section \<open>The invariants\<close>

type_synonym row_view = "job_id \<Rightarrow> job option"

definition pending_row :: "row_view \<Rightarrow> (job_id \<Rightarrow> nat) \<Rightarrow> job_id \<Rightarrow> bool" where
  "pending_row rs runs i \<longleftrightarrow>
     (\<exists>j. rs i = Some j \<and> ent_id j = i \<and> wf_job j \<and> ent_status j = StatusPending
        \<and> int (runs i) \<le> retry_count j)"

definition processing_row :: "row_view \<Rightarrow> (job_id \<Rightarrow> nat) \<Rightarrow> int \<Rightarrow> job_id \<Rightarrow> job \<Rightarrow> bool" where
  "processing_row rs runs extra i j \<longleftrightarrow>
     (\<exists>j'. rs i = Some j' \<and> stored_as j j' \<and> same_frame j j') \<and> wf_job j \<and> ent_id j = i
     \<and> ent_status j = StatusProcessing \<and> int (runs i) \<le> retry_count j + extra"

fun proc_ok :: "row_view \<Rightarrow> (job_id \<Rightarrow> nat) \<Rightarrow> proc \<Rightarrow> bool" where
  "proc_ok rs runs (PStart i) = pending_row rs runs i"
| "proc_ok rs runs (PLoaded i j) \<longleftrightarrow> pending_row rs runs i \<and> rs i = Some j"
| "proc_ok rs runs (PMarked i prev j) \<longleftrightarrow>
     pending_row rs runs i \<and> (\<exists>t j0. rs i = Some j0 \<and> mark_processing t j0 = Inr j)"
| "proc_ok rs runs (PStarted i prev j) = processing_row rs runs 0 i j"
| "proc_ok rs runs (PReady i j) = processing_row rs runs 0 i j"
| "proc_ok rs runs (PExecuted i j) = processing_row rs runs 1 i j"
| "proc_ok rs runs (PSucceeded i prev j) \<longleftrightarrow>
     (\<exists>t j1. processing_row rs runs 1 i j1 \<and> mark_success t j1 = Inr j)"
| "proc_ok rs runs (PFinished i prev j) = (rs i \<noteq> None)"
| "proc_ok rs runs (PFailed j e) = processing_row rs runs 1 (ent_id j) j"
| "proc_ok rs runs (PRecorded prev e oc j) \<longleftrightarrow>
     (\<exists>t why j1. processing_row rs runs 1 (ent_id j) j1 \<and> record_failure t why j1 = Inr (oc, j))"
| "proc_ok rs runs (PPersisted prev e oc j) \<longleftrightarrow>
     rs (ent_id j) \<noteq> None \<and> (oc = FailureOutcomeRetryScheduled \<longrightarrow> pending_row rs runs (ent_id j))"
| "proc_ok rs runs (PPublish e oc j) \<longleftrightarrow>
     rs (ent_id j) \<noteq> None \<and> (oc = FailureOutcomeRetryScheduled \<longrightarrow> pending_row rs runs (ent_id j))"
| "proc_ok rs runs (PDone r) = True"

fun create_ok :: "row_view \<Rightarrow> (job_id \<Rightarrow> nat) \<Rightarrow> creating \<Rightarrow> bool" where
  "create_ok rs runs (CMade j) \<longleftrightarrow>
     wf_job j \<and> ent_status j = StatusPending \<and> retry_count j = 0 \<and> max_retries j = DefaultMaxRetries"
| "create_ok rs runs (CPersisted j) = pending_row rs runs (ent_id j)"
| "create_ok rs runs (CPublish j) = pending_row rs runs (ent_id j)"
| "create_ok rs runs c = True"

text \<open>What holds of every row, whoever is at it.\<close>

definition rows_ok :: "row_view \<Rightarrow> (job_id \<Rightarrow> nat) \<Rightarrow> bool" where
  "rows_ok rs runs \<longleftrightarrow>
     (\<forall>i. case rs i of
        None \<Rightarrow> runs i = 0
      | Some j \<Rightarrow> wf_job j \<and> max_retries j = DefaultMaxRetries \<and> int (runs i) \<le> retry_count j + 1)"

fun count_run :: "proc \<Rightarrow> (job_id \<Rightarrow> nat) \<Rightarrow> job_id \<Rightarrow> nat" where
  "count_run (PReady i j) runs = runs(i := Suc (runs i))"
| "count_run p runs = runs"

lemma rows_okD:
  assumes "rows_ok rs runs" "rs i = Some j"
  shows "wf_job j \<and> max_retries j = DefaultMaxRetries \<and> int (runs i) \<le> retry_count j + 1"
proof -
  from assms(1) have "case rs i of None \<Rightarrow> runs i = 0
      | Some j \<Rightarrow> wf_job j \<and> max_retries j = DefaultMaxRetries \<and> int (runs i) \<le> retry_count j + 1"
    unfolding rows_ok_def by blast
  with assms(2) show ?thesis by simp
qed

section \<open>Stability\<close>

lemma pending_row_cong:
  "rs' i = rs i \<Longrightarrow> runs' i = runs i \<Longrightarrow> pending_row rs' runs' i = pending_row rs runs i"
  by (simp add: pending_row_def)

lemma processing_row_cong:
  "rs' i = rs i \<Longrightarrow> runs' i = runs i \<Longrightarrow> processing_row rs' runs' x i j = processing_row rs runs x i j"
  by (simp add: processing_row_def)

lemma proc_ok_cong:
  assumes "\<And>i. proc_token p = Some i \<Longrightarrow> rs' i = rs i \<and> runs' i = runs i"
  shows "proc_ok rs' runs' p = proc_ok rs runs p"
proof -
  have r: "rs' i = rs i" "pending_row rs' runs' i = pending_row rs runs i"
    "processing_row rs' runs' x i j = processing_row rs runs x i j"
    if "proc_token p = Some i" for i x j
  proof -
    from assms [OF that] have e: "rs' i = rs i" "runs' i = runs i" by blast+
    show "rs' i = rs i" by (rule e)
    show "pending_row rs' runs' i = pending_row rs runs i" using e by (rule pending_row_cong)
    show "processing_row rs' runs' x i j = processing_row rs runs x i j" using e by (rule processing_row_cong)
  qed
  show ?thesis
    by (cases p) (simp_all add: r(1) r(2) r(3))
qed

lemma create_ok_cong:
  assumes "\<And>i. create_token c = Some i \<Longrightarrow> rs' i = rs i \<and> runs' i = runs i"
  shows "create_ok rs' runs' c = create_ok rs runs c"
proof -
  have "pending_row rs' runs' i = pending_row rs runs i" if "create_token c = Some i" for i
    by (rule pending_row_cong) (use assms [OF that] in blast)+
  then show ?thesis by (cases c) simp_all
qed

lemma count_run_other: "proc_token p = Some i \<Longrightarrow> k \<noteq> i \<Longrightarrow> count_run p runs k = runs k"
  by (cases p) auto

text \<open>A write of one row keeps what holds of all rows, if it holds of the new one.\<close>

lemma rows_ok_updated:
  assumes "rows_ok rs runs" "row_updated j rs rs'" "rs (ent_id j) = Some j0" "same_frame j0 j"
    "int (runs (ent_id j)) \<le> retry_count j + 1"
  shows "rows_ok rs' runs"
proof -
  from assms(2) obtain j' where j': "stored_as j j'" "same_frame j j'" "rs' = rs(ent_id j \<mapsto> j')"
    unfolding row_updated_def by blast
  have "max_retries j0 = DefaultMaxRetries"
    using rows_okD [OF assms(1,3)] by blast
  moreover have "wf_job j'" "retry_count j' = retry_count j" using j'(1) unfolding stored_as_def by blast+
  moreover have "max_retries j' = max_retries j0"
    using j'(2) assms(4) unfolding same_frame_def by simp
  ultimately have new: "case Some j' of None \<Rightarrow> runs (ent_id j) = 0
      | Some x \<Rightarrow> wf_job x \<and> max_retries x = DefaultMaxRetries \<and> int (runs (ent_id j)) \<le> retry_count x + 1"
    using assms(5) by simp
  show ?thesis
    unfolding rows_ok_def
  proof
    fix i
    from assms(1) have old: "case rs i of None \<Rightarrow> runs i = 0
      | Some j \<Rightarrow> wf_job j \<and> max_retries j = DefaultMaxRetries \<and> int (runs i) \<le> retry_count j + 1"
      unfolding rows_ok_def by blast
    show "case rs' i of None \<Rightarrow> runs i = 0
      | Some j \<Rightarrow> wf_job j \<and> max_retries j = DefaultMaxRetries \<and> int (runs i) \<le> retry_count j + 1"
    proof (cases "i = ent_id j")
      case True
      with new j'(3) show ?thesis by simp
    next
      case False
      with old j'(3) show ?thesis by simp
    qed
  qed
qed

lemma rows_ok_maybe:
  assumes "rs' = rs \<or> row_updated j rs rs'" "rows_ok rs runs" "rs (ent_id j) = Some j0" "same_frame j0 j"
    "int (runs (ent_id j)) \<le> retry_count j + 1"
  shows "rows_ok rs' runs"
  using assms rows_ok_updated by blast

lemma maybe_other: "rs' = rs \<or> row_updated j rs rs' \<Longrightarrow> k \<noteq> ent_id j \<Longrightarrow> rs' k = rs k"
  using row_updated_other by blast

lemma processing_rowD:
  assumes "processing_row rs runs x i j"
  obtains j' where "rs i = Some j'" "stored_as j j'" "same_frame j j'" "wf_job j" "ent_id j = i"
    "ent_status j = StatusProcessing" "int (runs i) \<le> retry_count j + x"
  using assms unfolding processing_row_def by blast

section \<open>What one step does\<close>

text \<open>A row keeps its place, or its status moves along one edge of the state machine. \<open>row_written\<close> is
  how it comes to be there.\<close>

definition row_moved :: "job option \<Rightarrow> job option \<Rightarrow> bool" where
  "row_moved r r' \<longleftrightarrow> r' = r
     \<or> (\<exists>j j'. r = Some j \<and> r' = Some j' \<and> (ent_status j, ent_status j') \<in> status_edges
          \<and> retry_count j \<le> retry_count j' \<and> same_frame j j')"

text \<open>One step of a process at \<open>i\<close>: no other row changes, the row of \<open>i\<close> moves as the state machine
  allows, and the process is still at \<open>i\<close>, or it has let it go, having published it at most once and
  only when the row is pending.\<close>

definition proc_moved ::
  "job_id \<Rightarrow> row_view \<Rightarrow> job_id list \<Rightarrow> row_view \<Rightarrow> (job_id \<Rightarrow> nat) \<Rightarrow> job_id list \<Rightarrow> proc \<Rightarrow> bool" where
  "proc_moved i rs q rs' runs' q' p' \<longleftrightarrow>
     (\<forall>k. k \<noteq> i \<longrightarrow> rs' k = rs k) \<and> row_moved (rs i) (rs' i) \<and> rows_ok rs' runs' \<and> proc_ok rs' runs' p'
     \<and> (proc_token p' = Some i \<and> q' = q
        \<or> proc_token p' = None \<and> (q' = q \<or> q' = q @ [i] \<and> pending_row rs' runs' i))"

lemma row_moved_refl [simp]: "row_moved r r"
  by (simp add: row_moved_def)

lemma proc_moved_same:
  "rows_ok rs runs \<Longrightarrow> proc_ok rs runs p' \<Longrightarrow> proc_token p' = Some i \<or> proc_token p' = None \<Longrightarrow>
     proc_moved i rs q rs runs q p'"
  unfolding proc_moved_def by auto

text \<open>The executor's run is counted.\<close>

lemma processing_row_run:
  assumes "processing_row rs runs 0 i j"
  shows "processing_row rs (runs(i := Suc (runs i))) 1 i j"
  using assms by (simp add: processing_row_def)

lemma rows_ok_run:
  assumes "rows_ok rs runs" "processing_row rs runs 0 i j"
  shows "rows_ok rs (runs(i := Suc (runs i)))"
proof -
  from assms(2) obtain j' where j': "rs i = Some j'" "retry_count j' = retry_count j" "int (runs i) \<le> retry_count j"
    unfolding processing_row_def stored_as_def by auto
  show ?thesis unfolding rows_ok_def
  proof
    fix k
    from assms(1) have "case rs k of None \<Rightarrow> runs k = 0
      | Some x \<Rightarrow> wf_job x \<and> max_retries x = DefaultMaxRetries \<and> int (runs k) \<le> retry_count x + 1"
      unfolding rows_ok_def by blast
    then show "case rs k of None \<Rightarrow> (runs(i := Suc (runs i))) k = 0
      | Some x \<Rightarrow> wf_job x \<and> max_retries x = DefaultMaxRetries
          \<and> int ((runs(i := Suc (runs i))) k) \<le> retry_count x + 1"
      using j' by (cases "k = i"; cases "rs k") simp_all
  qed
qed

text \<open>A write, whether it was reported or not. \<open>j\<close> is what is written over the row \<open>j0\<close>.\<close>

lemma written_moved:
  assumes all: "rows_ok rs runs" and row: "rs (ent_id j) = Some j0" "same_frame j0 j"
    and up: "rs' = rs \<or> row_updated j rs rs'"
    and edge: "(ent_status j0, ent_status j) \<in> status_edges" "retry_count j0 \<le> retry_count j"
    and runs: "int (runs (ent_id j)) \<le> retry_count j + 1"
  shows "\<forall>k. k \<noteq> ent_id j \<longrightarrow> rs' k = rs k" "row_moved (rs (ent_id j)) (rs' (ent_id j))" "rows_ok rs' runs"
    "rs' (ent_id j) \<noteq> None"
proof -
  show "\<forall>k. k \<noteq> ent_id j \<longrightarrow> rs' k = rs k" using maybe_other [OF up] by blast
  show "rows_ok rs' runs" using rows_ok_maybe [OF up all row runs] .
  have "row_moved (rs (ent_id j)) (rs' (ent_id j)) \<and> rs' (ent_id j) \<noteq> None"
  proof (cases "rs' = rs")
    case True
    then show ?thesis using row by simp
  next
    case False
    with up obtain j' where j': "stored_as j j'" "same_frame j j'" "rs' (ent_id j) = Some j'"
      using row_updated_row by blast
    then have "ent_status j' = ent_status j" "retry_count j' = retry_count j" by (simp_all add: stored_as_def)
    then have "row_moved (Some j0) (Some j')"
      unfolding row_moved_def using edge same_frame_trans [OF row(2) j'(2)] by simp
    then show ?thesis using row(1) j'(3) by simp
  qed
  then show "row_moved (rs (ent_id j)) (rs' (ent_id j))" "rs' (ent_id j) \<noteq> None" by blast+
qed

end
