(* ===== verification/Step_Effects.thy ===== *)
theory Step_Effects imports Step_Invariants begin

text \<open>
  What one step of a process and one step of a creating request do, inside the worlds of
  \<open>Use_Case_Laws\<close>: for every adapter that keeps the laws, and however a call fails. The statements
  are in terms of the step's own row; they are what the system's invariant is made of.
\<close>

section \<open>Processing\<close>

lemma processing_rowI:
  assumes "rs i = Some j'" "stored_as j j'" "same_frame j j'" "wf_job j" "ent_id j = i"
    "ent_status j = StatusProcessing" "int (runs i) \<le> retry_count j + x"
  shows "processing_row rs runs x i j"
  unfolding processing_row_def using assms by blast

context processing_world begin

lemma step_start:
  assumes st: "proc_step words uc (PStart i) w = (p', w')" and ok: "pending_row (rows w) runs i"
    and all: "rows_ok (rows w) runs"
  shows "proc_moved i (rows w) (contents w) (rows w') runs (contents w') p'"
proof (cases "id_is_valid i")
  case False
  with st have "p' = PDone (Some (Errorf [Lit ''validate job ID: '', Arg_w (Sentinel ErrInvalidID), Lit '': '',
      Arg_q i]))" "w' = w" by simp_all
  then show ?thesis using all by (simp add: proc_moved_same)
next
  case True
  obtain r w1 where g: "repo_get (pj_repository uc) i w = (r, w1)" by force
  note c = get_contents [OF g]
  show ?thesis
  proof (cases r)
    case (Inl e)
    with st True g have "p' = PDone (Some (wrap_job ''load job '' i e))" "w' = w1" by simp_all
    moreover have "rows w1 = rows w" using get_error [OF g [unfolded Inl]] by blast
    ultimately show ?thesis using all c by (simp add: proc_moved_same)
  next
    case (Inr j)
    with st True g have "p' = PLoaded i j" "w' = w1" by simp_all
    moreover have "rows w1 = rows w" "rows w i = Some j" using get_ok [OF g [unfolded Inr]] by blast+
    ultimately show ?thesis using all c ok by (simp add: proc_moved_same)
  qed
qed

lemma step_loaded:
  assumes st: "proc_step words uc (PLoaded i j) w = (p', w')"
    and ok: "pending_row (rows w) runs i" "rows w i = Some j" and all: "rows_ok (rows w) runs"
  shows "proc_moved i (rows w) (contents w) (rows w') runs (contents w') p'"
proof -
  obtain now w1 where clk: "pj_clock uc w = (now, w1)" by force
  note c = clock_rows [OF clk] clock_contents [OF clk]
  show ?thesis
  proof (cases "mark_processing now j")
    case (Inl e)
    with st clk have "w' = w1" "\<exists>e'. p' = PDone e'" by auto
    then show ?thesis using all c by (auto simp: proc_moved_same)
  next
    case (Inr j1)
    with st clk have "w' = w1" "p' = PMarked i (ent_status j) j1" by simp_all
    moreover have "proc_ok (rows w) runs (PMarked i (ent_status j) j1)" using ok Inr by auto
    ultimately show ?thesis using all c by (simp add: proc_moved_same)
  qed
qed

lemma step_marked:
  assumes st: "proc_step words uc (PMarked i prev j) w = (p', w')"
    and ok: "pending_row (rows w) runs i" "rows w i = Some j0" "mark_processing t j0 = Inr j"
    and all: "rows_ok (rows w) runs"
  shows "proc_moved i (rows w) (contents w) (rows w') runs (contents w') p'"
proof -
  from ok(1,2) have j0: "ent_id j0 = i" "wf_job j0" "ent_status j0 = StatusPending"
      "int (runs i) \<le> retry_count j0"
    unfolding pending_row_def by auto
  have fr: "same_frame j j0" using frame_mark_processing [OF ok(3)] .
  then have id: "ent_id j = i" using j0 by (simp add: same_frame_def)
  have wf: "wf_job j" using wf_mark_processing [OF ok(3) j0(2)] .
  have j: "ent_status j = StatusProcessing" "retry_count j = retry_count j0"
    using ok(3) by (simp_all add: mark_processing_ok)
  have row: "rows w (ent_id j) = Some j0" using ok(2) id by simp
  obtain r w1 where u: "repo_update (pj_repository uc) j w = (r, w1)" by force
  note c = update_contents [OF u]
  have up: "rows w1 = rows w \<or> row_updated j (rows w) (rows w1)"
    using update_ok [OF _ wf row fr] update_error [OF _ wf row fr] u by (cases r) blast+
  have edge: "(ent_status j0, ent_status j) \<in> status_edges" using j0(3) j(1) by (simp add: status_edges_def)
  have "retry_count j0 \<le> retry_count j" "int (runs (ent_id j)) \<le> retry_count j + 1" using j j0(4) id by simp_all
  note m = written_moved [OF all row same_frame_sym [OF fr] up edge this]
  show ?thesis
  proof (cases r)
    case (Some e)
    with st u have "w' = w1" "p' = PDone (Some (wrap_job ''persist processing status for job '' i e))" by simp_all
    then show ?thesis using m c id unfolding proc_moved_def by simp
  next
    case None
    with st u have p': "w' = w1" "p' = PStarted i prev j" by simp_all
    from None u have "row_updated j (rows w) (rows w1)" using update_ok [OF _ wf row fr] by blast
    from row_updated_row [OF this] obtain j' where "rows w1 i = Some j'" "stored_as j j'" "same_frame j j'"
      using id by blast
    then have "processing_row (rows w1) runs 0 i j"
      using wf id j j0(4) by (intro processing_rowI) simp_all
    then show ?thesis using m c id p' unfolding proc_moved_def by simp
  qed
qed

lemma step_ready:
  assumes st: "proc_step words uc (PReady i j) w = (p', w')"
    and ok: "processing_row (rows w) runs 0 i j" and all: "rows_ok (rows w) runs"
  shows "proc_moved i (rows w) (contents w) (rows w') (runs(i := Suc (runs i))) (contents w') p'"
proof -
  obtain r w1 where ex: "pj_executor uc j w = (r, w1)" by force
  note c = exec_rows [OF ex] exec_contents [OF ex]
  note all' = rows_ok_run [OF all ok] and ok' = processing_row_run [OF ok]
  from ok have id: "ent_id j = i" by (simp add: processing_row_def)
  show ?thesis
  proof (cases r)
    case (Some e)
    with st ex have "w' = w1" "p' = PFailed j e" by simp_all
    then show ?thesis using c all' ok' id by (simp add: proc_moved_same)
  next
    case None
    with st ex have "w' = w1" "p' = PExecuted i j" by simp_all
    then show ?thesis using c all' ok' by (simp add: proc_moved_same)
  qed
qed

lemma step_executed:
  assumes st: "proc_step words uc (PExecuted i j) w = (p', w')"
    and ok: "processing_row (rows w) runs 1 i j" and all: "rows_ok (rows w) runs"
  shows "proc_moved i (rows w) (contents w) (rows w') runs (contents w') p'"
proof -
  obtain now w1 where clk: "pj_clock uc w = (now, w1)" by force
  note c = clock_rows [OF clk] clock_contents [OF clk]
  show ?thesis
  proof (cases "mark_success now j")
    case (Inl e)
    with st clk have "w' = w1" "\<exists>e'. p' = PDone e'" by auto
    then show ?thesis using all c by (auto simp: proc_moved_same)
  next
    case (Inr j1)
    with st clk have "w' = w1" "p' = PSucceeded i (ent_status j) j1" by simp_all
    moreover have "proc_ok (rows w) runs (PSucceeded i (ent_status j) j1)" using ok Inr by auto
    ultimately show ?thesis using all c by (simp add: proc_moved_same)
  qed
qed

text \<open>Writing the end of an attempt: \<open>j1\<close> is the processing job that the process holds, \<open>j\<close> what it
  has made of it, and the row still has the status processing.\<close>

lemma end_written:
  assumes hold: "processing_row (rows w) runs 1 i j1" and fr: "same_frame j j1" and wf: "wf_job j"
    and edge: "(StatusProcessing, ent_status j) \<in> status_edges" "retry_count j1 \<le> retry_count j"
    and all: "rows_ok (rows w) runs" and u: "repo_update (pj_repository uc) j w = (r, w')"
  shows "\<forall>k. k \<noteq> i \<longrightarrow> rows w' k = rows w k" "row_moved (rows w i) (rows w' i)" "rows_ok (rows w') runs"
    "rows w' i \<noteq> None" "contents w' = contents w"
    "r = None \<Longrightarrow> \<exists>j'. rows w' i = Some j' \<and> stored_as j j'"
proof -
  from hold obtain j0 where h: "rows w i = Some j0" "stored_as j1 j0" "same_frame j1 j0" "ent_id j1 = i"
      "ent_status j1 = StatusProcessing" "int (runs i) \<le> retry_count j1 + 1"
    by (rule processing_rowD)
  have id: "ent_id j = i" using fr h(4) by (simp add: same_frame_def)
  have row: "rows w (ent_id j) = Some j0" using h(1) id by simp
  note fr0 = same_frame_trans [OF fr h(3)]
  have up: "rows w' = rows w \<or> row_updated j (rows w) (rows w')"
    using update_ok [OF _ wf row fr0] update_error [OF _ wf row fr0] u by (cases r) blast+
  have st0: "ent_status j0 = StatusProcessing" "retry_count j0 = retry_count j1"
    using h(2,5) by (simp_all add: stored_as_def)
  have e: "(ent_status j0, ent_status j) \<in> status_edges" "retry_count j0 \<le> retry_count j"
    "int (runs (ent_id j)) \<le> retry_count j + 1"
    using edge st0 h(6) id by simp_all
  note m = written_moved [OF all row same_frame_sym [OF fr0] up e]
  show "\<forall>k. k \<noteq> i \<longrightarrow> rows w' k = rows w k" "row_moved (rows w i) (rows w' i)" "rows_ok (rows w') runs"
    "rows w' i \<noteq> None" using m id by simp_all
  show "contents w' = contents w" by (rule update_contents [OF u])
  show "\<exists>j'. rows w' i = Some j' \<and> stored_as j j'" if "r = None"
  proof -
    from that u have "row_updated j (rows w) (rows w')" using update_ok [OF _ wf row fr0] by blast
    from row_updated_row [OF this] show ?thesis using id by blast
  qed
qed

lemma step_succeeded:
  assumes st: "proc_step words uc (PSucceeded i prev j) w = (p', w')"
    and ok: "processing_row (rows w) runs 1 i j1" "mark_success t j1 = Inr j"
    and all: "rows_ok (rows w) runs"
  shows "proc_moved i (rows w) (contents w) (rows w') runs (contents w') p'"
proof -
  obtain r w1 where u: "repo_update (pj_repository uc) j w = (r, w1)" by force
  have wf1: "wf_job j1" using ok(1) by (simp add: processing_row_def)
  have "ent_status j = StatusSuccess" "retry_count j1 \<le> retry_count j"
    using ok(2) by (simp_all add: mark_success_ok)
  then have "(StatusProcessing, ent_status j) \<in> status_edges" "retry_count j1 \<le> retry_count j"
    by (simp_all add: status_edges_def)
  note m = end_written [OF ok(1) frame_mark_success [OF ok(2)] wf_mark_success [OF ok(2) wf1] this all u]
  show ?thesis
  proof (cases r)
    case (Some e)
    with st u have "w' = w1" "p' = PDone (Some (wrap_job ''persist successful status for job '' i e))" by simp_all
    then show ?thesis using m(1-5) unfolding proc_moved_def by simp
  next
    case None
    with st u have "w' = w1" "p' = PFinished i prev j" by simp_all
    then show ?thesis using m(1-5) unfolding proc_moved_def by simp
  qed
qed

lemma step_failed:
  assumes st: "proc_step words uc (PFailed j e) w = (p', w')"
    and ok: "processing_row (rows w) runs 1 (ent_id j) j" and all: "rows_ok (rows w) runs"
  shows "proc_moved (ent_id j) (rows w) (contents w) (rows w') runs (contents w') p'"
proof -
  obtain now w1 where clk: "pj_clock uc w = (now, w1)" by force
  note c = clock_rows [OF clk] clock_contents [OF clk]
  show ?thesis
  proof (cases "record_failure now (error_text words e) j")
    case (Inl e')
    with st clk have "w' = w1" "\<exists>e''. p' = PDone e''" by auto
    then show ?thesis using all c by (auto simp: proc_moved_same)
  next
    case (Inr oj)
    then obtain oc j' where rf: "record_failure now (error_text words e) j = Inr (oc, j')" by (cases oj) auto
    with st clk have p': "w' = w1" "p' = PRecorded (ent_status j) e oc j'" by simp_all
    have id: "ent_id j' = ent_id j" using frame_record_failure [OF rf] by (simp add: same_frame_def)
    have "proc_ok (rows w) runs (PRecorded (ent_status j) e oc j')"
      unfolding proc_ok.simps id using ok rf by blast
    then show ?thesis using all c id p' by (simp add: proc_moved_same)
  qed
qed

lemma step_recorded:
  assumes st: "proc_step words uc (PRecorded prev e oc j) w = (p', w')"
    and ok: "processing_row (rows w) runs 1 (ent_id j) j1" "record_failure t why j1 = Inr (oc, j)"
    and all: "rows_ok (rows w) runs"
  shows "proc_moved (ent_id j) (rows w) (contents w) (rows w') runs (contents w') p'"
proof -
  obtain r w1 where u: "repo_update (pj_repository uc) j w = (r, w1)" by force
  have j1: "wf_job j1" "int (runs (ent_id j)) \<le> retry_count j1 + 1" using ok(1) by (simp_all add: processing_row_def)
  note wf = wf_record_failure [OF ok(2) j1(1)]
  have edge: "(StatusProcessing, ent_status j) \<in> status_edges" "retry_count j1 \<le> retry_count j"
    using ok(2) by (auto simp: record_failure_ok retried_def exhausted_def status_edges_def split: if_splits)
  note m = end_written [OF ok(1) frame_record_failure [OF ok(2)] wf edge all u]
  show ?thesis
  proof (cases r)
    case (Some e')
    with st u have "w' = w1" "\<exists>e''. p' = PDone e''" by auto
    then show ?thesis using m(1-5) unfolding proc_moved_def by auto
  next
    case None
    with st u have p': "w' = w1" "p' = PPersisted prev e oc j" by simp_all
    from m(6) [OF None] obtain j' where j': "rows w1 (ent_id j) = Some j'" "stored_as j j'" by blast
    have "pending_row (rows w1) runs (ent_id j)" if "oc = FailureOutcomeRetryScheduled"
    proof -
      have "can_retry j1" using record_failure_exhaust [OF ok(2)] that by (metis failure_outcome_distinct(1))
      then have "ent_status j = StatusPending" "retry_count j = retry_count j1 + 1"
        using record_failure_retry [OF ok(2)] by blast+
      with j' j1(2) show ?thesis unfolding pending_row_def stored_as_def by auto
    qed
    then show ?thesis using m(1-5) p' unfolding proc_moved_def by simp
  qed
qed

lemma step_publish:
  assumes st: "proc_step words uc (PPublish e oc j) w = (p', w')"
    and ok: "oc = FailureOutcomeRetryScheduled \<Longrightarrow> pending_row (rows w) runs (ent_id j)"
    and all: "rows_ok (rows w) runs"
  shows "proc_moved (ent_id j) (rows w) (contents w) (rows w') runs (contents w') p'"
proof (cases "oc = FailureOutcomeRetryScheduled")
  case True
  obtain r w1 where q: "pj_queue uc (ent_id j) w = (r, w1)" by force
  from st q True have "w' = w1" "\<exists>e''. p' = PDone e''" by (auto split: option.splits)
  moreover have "contents w1 = contents w \<or> contents w1 = contents w @ [ent_id j]"
    using q enqueue_ok [of "ent_id j" w w1] enqueue_error [of "ent_id j" w _ w1] by (cases r) blast+
  moreover note enqueue_rows [OF q] ok [OF True] all
  ultimately show ?thesis unfolding proc_moved_def by auto
next
  case False
  with st have "w' = w" "\<exists>e''. p' = PDone e''" by (auto split: if_splits)
  then show ?thesis using all by (auto simp: proc_moved_same)
qed

theorem proc_step_moved:
  assumes st: "proc_step words uc p w = (p', w')" and tok: "proc_token p = Some i"
    and ok: "proc_ok (rows w) runs p" and all: "rows_ok (rows w) runs"
  shows "proc_moved i (rows w) (contents w) (rows w') (count_run p runs) (contents w') p'"
proof (cases p)
  case (PStart k)
  then show ?thesis using step_start [OF st [unfolded PStart] _ all] tok ok by simp
next
  case (PLoaded k j)
  then show ?thesis using step_loaded [OF st [unfolded PLoaded] _ _ all] tok ok by simp
next
  case (PMarked k prev j)
  then show ?thesis using step_marked [OF st [unfolded PMarked] _ _ _ all] tok ok by auto
next
  case (PStarted k prev j)
  with st tok have "p' = PReady i j" "w' = pj_observer uc j prev w" "k = i" by simp_all
  then show ?thesis using PStarted ok all by (simp add: observe_rows observe_contents proc_moved_same)
next
  case (PReady k j)
  then show ?thesis using step_ready [OF st [unfolded PReady] _ all] tok ok by simp
next
  case (PExecuted k j)
  then show ?thesis using step_executed [OF st [unfolded PExecuted] _ all] tok ok by simp
next
  case (PSucceeded k prev j)
  then show ?thesis using step_succeeded [OF st [unfolded PSucceeded] _ _ all] tok ok by auto
next
  case (PFinished k prev j)
  with st have "p' = PDone None" "w' = pj_observer uc j prev w" by simp_all
  then show ?thesis using PFinished all by (simp add: observe_rows observe_contents proc_moved_same)
next
  case (PFailed j e)
  then show ?thesis using step_failed [OF st [unfolded PFailed] _ all] tok ok by simp
next
  case (PRecorded prev e oc j)
  then show ?thesis using step_recorded [OF st [unfolded PRecorded] _ _ all] tok ok by auto
next
  case (PPersisted prev e oc j)
  with st tok have "p' = PPublish e oc j" "w' = pj_observer uc j prev w" "ent_id j = i" by simp_all
  then show ?thesis using PPersisted ok all by (simp add: observe_rows observe_contents proc_moved_same)
next
  case (PPublish e oc j)
  then show ?thesis using step_publish [OF st [unfolded PPublish] _ all] tok ok by simp
next
  case (PDone r)
  then show ?thesis using tok by simp
qed

end

section \<open>Creating\<close>

text \<open>One step of a request. Until its row exists it is at no job and changes nothing; the row it makes
  is new; from then on it is at that job, and it lets it go having published it at most once.\<close>

definition create_moved ::
  "job_id option \<Rightarrow> row_view \<Rightarrow> job_id list \<Rightarrow> row_view \<Rightarrow> (job_id \<Rightarrow> nat) \<Rightarrow> job_id list \<Rightarrow> creating \<Rightarrow> bool" where
  "create_moved t rs q rs' runs q' c' \<longleftrightarrow>
     rows_ok rs' runs \<and> create_ok rs' runs c'
     \<and> (case t of
          Some i \<Rightarrow> rs' = rs \<and> (create_token c' = Some i \<and> q' = q
            \<or> create_token c' = None \<and> (q' = q \<or> q' = q @ [i] \<and> pending_row rs' runs i))
        | None \<Rightarrow> q' = q \<and> (rs' = rs \<and> create_token c' = None
            \<or> (\<exists>i j'. rs i = None \<and> rs' = rs(i \<mapsto> j') \<and> ent_status j' = StatusPending
                 \<and> (create_token c' = Some i \<or> create_token c' = None))))"

lemma create_moved_same:
  "rows_ok rs runs \<Longrightarrow> create_ok rs runs c' \<Longrightarrow> create_token c' = None \<Longrightarrow> create_moved None rs q rs runs q c'"
  by (simp add: create_moved_def)

lemma rows_ok_new:
  assumes all: "rows_ok rs runs" and new: "rs i = None"
    and j: "wf_job j'" "max_retries j' = DefaultMaxRetries" "retry_count j' = 0"
  shows "rows_ok (rs(i \<mapsto> j')) runs" "runs i = 0"
proof -
  have ok: "case rs k of None \<Rightarrow> runs k = 0
      | Some x \<Rightarrow> wf_job x \<and> max_retries x = DefaultMaxRetries \<and> int (runs k) \<le> retry_count x + 1" for k
    using all unfolding rows_ok_def by blast
  show z: "runs i = 0" using ok [of i] new by simp
  show "rows_ok (rs(i \<mapsto> j')) runs"
    unfolding rows_ok_def
  proof
    fix k
    show "case (rs(i \<mapsto> j')) k of None \<Rightarrow> runs k = 0
      | Some x \<Rightarrow> wf_job x \<and> max_retries x = DefaultMaxRetries \<and> int (runs k) \<le> retry_count x + 1"
      using ok [of k] z j by (cases "k = i"; cases "rs k") simp_all
  qed
qed

context creating_world begin

lemma step_made:
  assumes st: "create_step uc (CMade j) w = (c', w')"
    and ok: "wf_job j" "ent_status j = StatusPending" "retry_count j = 0" "max_retries j = DefaultMaxRetries"
    and all: "rows_ok (rows w) runs"
  shows "create_moved None (rows w) (contents w) (rows w') runs (contents w') c'"
proof -
  obtain r w1 where cr: "repo_create (cj_repository uc) j w = (r, w1)" by force
  note c = create_contents [OF cr]
  have new: "create_moved None (rows w) (contents w) (rows w1) runs (contents w1) c'"
    if "rows w (ent_id j) = None" "row_written j (rows w) (rows w1)"
      "c' = CPersisted j \<or> (\<exists>e. c' = CDone e)" for c'
  proof -
    from that(2) obtain j' where j': "stored_as j j'" "rows w1 = (rows w)(ent_id j \<mapsto> j')"
      unfolding row_written_def by blast
    then have s: "wf_job j'" "max_retries j' = DefaultMaxRetries" "retry_count j' = 0" "ent_id j' = ent_id j"
      "ent_status j' = StatusPending"
      using ok by (simp_all add: stored_as_def)
    note n = rows_ok_new [OF all that(1) s(1-3)]
    have "pending_row (rows w1) runs (ent_id j)" unfolding pending_row_def using j' s n(2) by auto
    then have "create_ok (rows w1) runs c'" "create_token c' = Some (ent_id j) \<or> create_token c' = None"
      using that(3) by auto
    then show ?thesis unfolding create_moved_def using n(1) j'(2) that(1) s(5) c by auto
  qed
  show ?thesis
  proof (cases r)
    case (Some e)
    with st cr have "w' = w1" "c' = CDone (Inl (wrap ''persist job'' e))" by simp_all
    then show ?thesis
      using create_error [OF cr [unfolded Some] ok(1)] new all c by (auto simp: create_moved_same)
  next
    case None
    with st cr have "w' = w1" "c' = CPersisted j" by simp_all
    then show ?thesis using create_ok [OF cr [unfolded None] ok(1)] new by blast
  qed
qed

lemma step_create_publish:
  assumes st: "create_step uc (CPublish j) w = (c', w')"
    and ok: "pending_row (rows w) runs (ent_id j)" and all: "rows_ok (rows w) runs"
  shows "create_moved (Some (ent_id j)) (rows w) (contents w) (rows w') runs (contents w') c'"
proof -
  obtain r w1 where q: "cj_queue uc (ent_id j) w = (r, w1)" by force
  from st q have "w' = w1" "\<exists>e. c' = CDone e" by (auto split: option.splits)
  moreover have "contents w1 = contents w \<or> contents w1 = contents w @ [ent_id j]"
    using q enqueue_ok [of "ent_id j" w w1] enqueue_error [of "ent_id j" w _ w1] by (cases r) blast+
  moreover note enqueue_rows [OF q] ok all
  ultimately show ?thesis unfolding create_moved_def by auto
qed

theorem create_step_moved:
  assumes st: "create_step uc c w = (c', w')" and ok: "Step_Invariants.create_ok (rows w) runs c"
    and all: "rows_ok (rows w) runs"
  shows "create_moved (create_token c) (rows w) (contents w) (rows w') runs (contents w') c'"
proof (cases c)
  case (CStart input)
  with st have "w' = w" "(\<exists>e. c' = CDone e) \<or> (\<exists>t. c' = CTyped input t)" by (auto split: sum.splits)
  then show ?thesis using CStart all by (auto simp: create_moved_same)
next
  case (CTyped input t)
  obtain r w1 where g: "cj_id_generator uc w = (r, w1)" by force
  with st CTyped have "w' = w1" "(\<exists>e. c' = CDone e) \<or> (\<exists>i. c' = CIdentified input t i)"
    by (auto split: sum.splits)
  then show ?thesis
    using CTyped all newid_rows [OF g] newid_contents [OF g] by (auto simp: create_moved_same)
next
  case (CIdentified input t i)
  obtain now w1 where clk: "cj_clock uc w = (now, w1)" by force
  note c = clock_rows [OF clk] clock_contents [OF clk]
  let ?np = "\<lparr>np_id = i, np_type = t, np_payload = in_payload input, np_created_at = now\<rparr>"
  show ?thesis
  proof (cases "new_job ?np")
    case (Inl e)
    with st CIdentified clk have "w' = w1" "c' = CDone (Inl (wrap ''create job'' e))" by simp_all
    then show ?thesis using CIdentified all c by (simp add: create_moved_same)
  next
    case (Inr j)
    with st CIdentified clk have "w' = w1" "c' = CMade j" by simp_all
    moreover have "wf_job j" "ent_status j = StatusPending" "retry_count j = 0" "max_retries j = DefaultMaxRetries"
      using wf_new_job [OF Inr] new_job_ok [OF Inr] by (simp_all add: DefaultMaxRetries_def)
    ultimately show ?thesis using CIdentified all c by (simp add: create_moved_same)
  qed
next
  case (CMade j)
  then show ?thesis using step_made [OF st [unfolded CMade] _ _ _ _ all] ok by simp
next
  case (CPersisted j)
  with st have "c' = CPublish j" "w' = cj_observer uc j [] w" by simp_all
  then show ?thesis using CPersisted ok all by (simp add: observe_rows observe_contents create_moved_def)
next
  case (CPublish j)
  then show ?thesis using step_create_publish [OF st [unfolded CPublish] _ all] ok by simp
next
  case (CDone r)
  with st have "c' = c" "w' = w" by simp_all
  then show ?thesis using CDone ok all by (simp add: create_moved_same)
qed

end

end
