(* ===== verification/Logging.thy ===== *)
theory Logging imports Ports begin

text \<open>
  \<open>internal/platform/logging\<close>: the fields of a log line, the observer that logs persisted status
  changes, and the configuration of the root logger. A logger is a function from a line to a change
  of the world; the handler that prints the lines is \<open>log/slog\<close>'s.
\<close>

section \<open>Lines\<close>

datatype log_level = LevelDebug | LevelInfo | LevelWarn | LevelError

datatype log_attr =
    AttrString gostring gostring
  | AttrInt gostring int
  | AttrError gostring goerror

record log_line =
  line_level :: log_level
  line_message :: gostring
  line_attrs :: "log_attr list"

type_synonym 'w logger = "log_line \<Rightarrow> 'w \<Rightarrow> 'w"

definition log_attrs :: "'w logger \<Rightarrow> log_level \<Rightarrow> gostring \<Rightarrow> log_attr list \<Rightarrow> 'w \<Rightarrow> 'w" where
  "log_attrs lg lvl msg attrs = lg \<lparr>line_level = lvl, line_message = msg, line_attrs = attrs\<rparr>"

text \<open>\<open>logger.With\<close>: the attributes go before those of every line.\<close>

definition logger_with :: "log_attr list \<Rightarrow> 'w logger \<Rightarrow> 'w logger" where
  "logger_with attrs lg line = lg (line\<lparr>line_attrs := attrs @ line_attrs line\<rparr>)"

section \<open>\<open>job_fields.go\<close>\<close>

definition job_id_attribute :: "job_id \<Rightarrow> log_attr" where
  "job_id_attribute i = AttrString ''job_id'' i"

definition job_attributes :: "job option \<Rightarrow> log_attr list" where
  "job_attributes entity =
     (case entity of
        None \<Rightarrow> []
      | Some j \<Rightarrow>
          [job_id_attribute (ent_id j), AttrString ''job_type'' (ent_type j),
           AttrString ''job_status'' (ent_status j), AttrInt ''retry_count'' (retry_count j),
           AttrInt ''max_retries'' (max_retries j)])"

definition error_attribute :: "goerror \<Rightarrow> log_attr" where
  "error_attribute e = AttrError ''error'' e"

definition request_id_attribute :: "gostring \<Rightarrow> log_attr" where
  "request_id_attribute r = AttrString ''request_id'' r"

section \<open>\<open>job_lifecycle.go\<close>\<close>

definition new_job_lifecycle_observer :: "'w logger option \<Rightarrow> goerror + 'w logger" where
  "new_job_lifecycle_observer lg =
     (case lg of None \<Rightarrow> Inl (NewError ''logger must not be nil'') | Some l \<Rightarrow> Inr l)"

definition status_persisted :: "'w logger \<Rightarrow> 'w observer_port" where
  "status_persisted lg entity previous_status =
     (let previous = (if previous_status = [] then ''none'' else previous_status) in
      log_attrs lg LevelInfo ''job status persisted''
        (job_attributes (Some entity)
          @ [AttrString ''previous_status'' previous, AttrString ''new_status'' (ent_status entity)]))"

section \<open>\<open>logging.go\<close>\<close>

record log_options =
  opt_level :: gostring
  opt_environment :: gostring
  opt_service_name :: gostring

definition parse_level :: "gostring \<Rightarrow> goerror + log_level" where
  "parse_level s =
     (let l = to_lower (trim_space s) in
      if l = ''debug'' then Inr LevelDebug
      else if l = ''info'' then Inr LevelInfo
      else if l = ''warn'' then Inr LevelWarn
      else if l = ''error'' then Inr LevelError
      else Inl (NewError ''log level must be one of debug, info, warn, or error''))"

text \<open>What \<open>New\<close> decides: the least level that is printed, whether lines name their source position,
  and the attributes of every line.\<close>

record root_logger =
  rl_level :: log_level
  rl_add_source :: bool
  rl_attrs :: "log_attr list"

definition new_logger :: "bool \<Rightarrow> log_options \<Rightarrow> goerror + root_logger" where
  "new_logger has_output options =
     (if \<not> has_output then Inl (NewError ''log output must not be nil'')
      else case parse_level (opt_level options) of Inl e \<Rightarrow> Inl e
      | Inr lvl \<Rightarrow>
          let trimmed = trim_space (opt_service_name options);
              service_name = (if trimmed = [] then ''async-job-poc'' else trimmed)
          in Inr \<lparr>rl_level = lvl, rl_add_source = (opt_environment options = ''development''),
               rl_attrs = [AttrString ''service'' service_name,
                 AttrString ''environment'' (opt_environment options)]\<rparr>)"

end
