(* ===== verification/Worker.thy ===== *)
theory Worker imports Process_Steps Logging begin

text \<open>
  \<open>internal/adapters/worker\<close>: the dispatcher that takes identifiers from the queue, the workers that
  process them, and the pool that runs one dispatcher and five workers over an unbuffered channel. Each
  goroutine is a state (where it is in its loop) and a function for every piece of code between two
  points where it may wait; \<open>pool_step\<close> interleaves them, one call at a time, with every choice that
  \<open>select\<close> and the scheduler may make.
\<close>

section \<open>\<open>dispatcher.go\<close>\<close>

record 'w queue_dispatcher =
  qd_consumer :: "'w consumer_port"
  qd_logger :: "'w logger"

definition new_queue_dispatcher ::
  "'w consumer_port option \<Rightarrow> 'w logger option \<Rightarrow> goerror + 'w queue_dispatcher" where
  "new_queue_dispatcher consumer lg =
     (case consumer of None \<Rightarrow> Inl (NewError ''job consumer must not be nil'')
      | Some c \<Rightarrow>
     (case lg of None \<Rightarrow> Inl (NewError ''logger must not be nil'')
      | Some l \<Rightarrow> Inr \<lparr>qd_consumer = c, qd_logger = l\<rparr>))"

text \<open>Where the loop is: before \<open>Dequeue\<close>, waiting after an error, offering an identifier on the
  channel, or returned, with the channel closed.\<close>

datatype dispatcher_pc = DDequeue | DWait | DSend job_id | DStopped

definition dispatcher_context_finished :: "bool \<Rightarrow> goerror \<Rightarrow> bool" where
  "dispatcher_context_finished ctx_done e \<longleftrightarrow>
     ctx_done \<or> errors_is e Canceled \<or> errors_is e DeadlineExceeded"

definition dispatcher_start :: "'w queue_dispatcher \<Rightarrow> bool \<Rightarrow> 'w \<Rightarrow> (goerror + dispatcher_pc) \<times> 'w" where
  "dispatcher_start d has_jobs w =
     (if \<not> has_jobs then (Inl (NewError ''jobs channel must not be nil''), w)
      else (Inr DDequeue, log_attrs (qd_logger d) LevelInfo ''queue dispatcher started'' [] w))"

text \<open>Returning runs the deferred function: the channel is closed, then the line is logged.\<close>

definition dispatcher_return :: "'w queue_dispatcher \<Rightarrow> 'w \<Rightarrow> dispatcher_pc \<times> 'w" where
  "dispatcher_return d w =
     (DStopped, log_attrs (qd_logger d) LevelInfo ''queue dispatcher stopped gracefully'' [] w)"

definition dispatcher_dequeue ::
  "'w queue_dispatcher \<Rightarrow> ('w \<Rightarrow> bool) \<Rightarrow> 'w \<Rightarrow> dispatcher_pc \<times> 'w" where
  "dispatcher_dequeue d ctx_done w =
     (case qd_consumer d w of
        (Inl e, w) \<Rightarrow>
          if dispatcher_context_finished (ctx_done w) e then dispatcher_return d w
          else (DWait, log_attrs (qd_logger d) LevelError ''failed to dequeue job'' [error_attribute e] w)
      | (Inr i, w) \<Rightarrow>
          (DSend i, log_attrs (qd_logger d) LevelInfo ''job dequeued from Redis'' [job_id_attribute i] w))"

text \<open>The send of the \<open>select\<close> has been taken by a worker.\<close>

definition dispatcher_sent :: "'w queue_dispatcher \<Rightarrow> job_id \<Rightarrow> 'w \<Rightarrow> dispatcher_pc \<times> 'w" where
  "dispatcher_sent d i w =
     (DDequeue, log_attrs (qd_logger d) LevelDebug ''job dispatched to worker pool''
        [AttrString ''job_id'' i] w)"

section \<open>\<open>processor_worker.go\<close>\<close>

record ('w, 'p) processor_worker =
  wk_id :: int
  wk_processor :: 'p
  wk_logger :: "'w logger"

definition new_processor_worker ::
  "int \<Rightarrow> 'p option \<Rightarrow> 'w logger option \<Rightarrow> goerror + ('w, 'p) processor_worker" where
  "new_processor_worker i processor lg =
     (if i \<le> 0 then Inl (NewError ''worker ID must be greater than zero'')
      else
     (case processor of None \<Rightarrow> Inl (NewError ''job processor must not be nil'')
      | Some p \<Rightarrow>
     (case lg of None \<Rightarrow> Inl (NewError ''logger must not be nil'')
      | Some l \<Rightarrow> Inr \<lparr>wk_id = i, wk_processor = p, wk_logger = l\<rparr>)))"

text \<open>Where the loop is: in \<open>select\<close>, in \<open>Execute\<close> with a job, or returned.\<close>

datatype worker_pc = WIdle | WBusy job_id proc | WStopped

definition worker_logger :: "('w, 'p) processor_worker \<Rightarrow> 'w logger" where
  "worker_logger wk = logger_with [AttrInt ''worker_id'' (wk_id wk)] (wk_logger wk)"

definition worker_start :: "('w, 'p) processor_worker \<Rightarrow> bool \<Rightarrow> 'w \<Rightarrow> (goerror + worker_pc) \<times> 'w" where
  "worker_start wk has_jobs w =
     (if \<not> has_jobs then (Inl (NewError ''jobs channel must not be nil''), w)
      else (Inr WIdle, log_attrs (worker_logger wk) LevelInfo ''processing worker started'' [] w))"

text \<open>The three cases of the \<open>select\<close>.\<close>

definition worker_done :: "('w, 'p) processor_worker \<Rightarrow> 'w \<Rightarrow> worker_pc \<times> 'w" where
  "worker_done wk w =
     (WStopped, log_attrs (worker_logger wk) LevelInfo ''processing worker stopped gracefully'' [] w)"

definition worker_closed :: "('w, 'p) processor_worker \<Rightarrow> 'w \<Rightarrow> worker_pc \<times> 'w" where
  "worker_closed wk w =
     (WStopped,
      log_attrs (worker_logger wk) LevelInfo ''processing worker stopped after jobs channel closed'' [] w)"

definition worker_received :: "('w, 'p) processor_worker \<Rightarrow> job_id \<Rightarrow> 'w \<Rightarrow> worker_pc \<times> 'w" where
  "worker_received wk i w =
     (WBusy i (PStart i),
      log_attrs (worker_logger wk) LevelInfo ''job processing started'' [job_id_attribute i] w)"

text \<open>The rest of the loop's body, from the return of \<open>Execute\<close>.\<close>

definition worker_failure_line :: "goerror \<Rightarrow> log_level \<times> gostring" where
  "worker_failure_line e =
     (if errors_is e ErrJobRetryScheduled then (LevelWarn, ''job retry scheduled'')
      else if errors_is e ErrJobRetriesExhausted then (LevelError, ''job retries exhausted'')
      else (LevelError, ''job processing failed''))"

definition worker_returned ::
  "('w, 'p) processor_worker \<Rightarrow> ('w \<Rightarrow> bool) \<Rightarrow> job_id \<Rightarrow> goerror option \<Rightarrow> 'w \<Rightarrow> worker_pc \<times> 'w" where
  "worker_returned wk ctx_done i r w =
     (case r of
        Some e \<Rightarrow>
          (case worker_failure_line e of (lvl, msg) \<Rightarrow>
             let w = log_attrs (worker_logger wk) lvl msg [job_id_attribute i, error_attribute e] w in
             if ctx_done w then worker_done wk w else (WIdle, w))
      | None \<Rightarrow>
          (WIdle,
           log_attrs (worker_logger wk) LevelInfo ''job processing completed'' [job_id_attribute i] w))"

section \<open>\<open>pool.go\<close>\<close>

definition WorkerCount :: nat where
  "WorkerCount = 5"

record ('w, 'p) pool =
  pool_dispatcher :: "'w queue_dispatcher"
  pool_workers :: "('w, 'p) processor_worker list"
  pool_logger :: "'w logger"

text \<open>The loop of \<open>NewPool\<close>, from the worker with the given number.\<close>

fun make_workers ::
  "nat \<Rightarrow> int \<Rightarrow> 'p option \<Rightarrow> 'w logger option \<Rightarrow> goerror + ('w, 'p) processor_worker list" where
  "make_workers 0 i processor lg = Inr []"
| "make_workers (Suc n) i processor lg =
     (case new_processor_worker i processor lg of
        Inl e \<Rightarrow> Inl (Errorf [Lit ''create processing worker '', Arg_d i, Lit '': '', Arg_w e])
      | Inr wk \<Rightarrow>
     (case make_workers n (i + 1) processor lg of Inl e \<Rightarrow> Inl e | Inr wks \<Rightarrow> Inr (wk # wks)))"

definition new_pool ::
  "'w consumer_port option \<Rightarrow> 'p option \<Rightarrow> 'w logger option \<Rightarrow> goerror + ('w, 'p) pool" where
  "new_pool consumer processor lg =
     (case consumer of None \<Rightarrow> Inl (NewError ''job consumer must not be nil'')
      | Some c \<Rightarrow>
     (case processor of None \<Rightarrow> Inl (NewError ''job processor must not be nil'')
      | Some p \<Rightarrow>
     (case lg of None \<Rightarrow> Inl (NewError ''logger must not be nil'')
      | Some l \<Rightarrow>
     (case new_queue_dispatcher (Some c) (Some l) of
        Inl e \<Rightarrow> Inl (wrap ''create queue dispatcher'' e)
      | Inr d \<Rightarrow>
     (case make_workers WorkerCount 1 (Some p) (Some l) of Inl e \<Rightarrow> Inl e
      | Inr wks \<Rightarrow> Inr \<lparr>pool_dispatcher = d, pool_workers = wks, pool_logger = l\<rparr>)))))"

text \<open>The end of \<open>Run\<close>: what the goroutines returned becomes its result.\<close>

definition pool_result :: "goerror option \<Rightarrow> goerror list \<Rightarrow> goerror option" where
  "pool_result dispatcher_error worker_errors =
     errors_join
       ((case dispatcher_error of None \<Rightarrow> [] | Some e \<Rightarrow> [wrap ''run queue dispatcher'' e])
        @ map (wrap ''run processing worker'') worker_errors)"

definition pool_return ::
  "('w, 'p) pool \<Rightarrow> goerror option \<Rightarrow> goerror list \<Rightarrow> 'w \<Rightarrow> goerror option \<times> 'w" where
  "pool_return pl dispatcher_error worker_errors w =
     (case pool_result dispatcher_error worker_errors of
        Some e \<Rightarrow> (Some e, w)
      | None \<Rightarrow>
          (None, log_attrs (pool_logger pl) LevelInfo ''worker pool stopped gracefully''
             [AttrInt ''worker_count'' (int (length (pool_workers pl)))] w))"

text \<open>What \<open>NewPool\<close> makes of ports that are there.\<close>

definition pool_for :: "'w consumer_port \<Rightarrow> 'p \<Rightarrow> 'w logger \<Rightarrow> ('w, 'p) pool" where
  "pool_for c p l =
     \<lparr>pool_dispatcher = \<lparr>qd_consumer = c, qd_logger = l\<rparr>,
      pool_workers = map (\<lambda>n. \<lparr>wk_id = int n + 1, wk_processor = p, wk_logger = l\<rparr>) [0..<WorkerCount],
      pool_logger = l\<rparr>"

lemma new_pool_eq: "new_pool (Some c) (Some p) (Some l) = Inr (pool_for c p l)"
  by (simp add: new_pool_def pool_for_def new_queue_dispatcher_def WorkerCount_def eval_nat_numeral
      new_processor_worker_def)

lemma pool_for_simps [simp]:
  "pool_dispatcher (pool_for c p l) = \<lparr>qd_consumer = c, qd_logger = l\<rparr>"
  "pool_logger (pool_for c p l) = l" "length (pool_workers (pool_for c p l)) = WorkerCount"
  "k < WorkerCount \<Longrightarrow>
     pool_workers (pool_for c p l) ! k = \<lparr>wk_id = int k + 1, wk_processor = p, wk_logger = l\<rparr>"
  by (simp_all add: pool_for_def)

end
