(* ===== verification/Pool_Steps.thy ===== *)
theory Pool_Steps imports Worker begin

text \<open>
  \<open>Pool.Run\<close> as a step relation: the dispatcher and the workers take turns in any order, each step one
  call or one choice of a \<open>select\<close>, and the process's context may be cancelled at any moment. After
  the cancellation every run of the pool ends, and it ends with every goroutine returned.
\<close>

section \<open>The relation\<close>

text \<open>The context of \<open>signal.NotifyContext\<close>: whether it is done, the arrival of a signal, and a new
  process's fresh one.\<close>

record 'w process_context =
  ctx_done :: "'w \<Rightarrow> bool"
  ctx_cancel :: "'w \<Rightarrow> 'w"
  ctx_new :: "'w \<Rightarrow> 'w"

record pool_state =
  ps_dispatcher :: dispatcher_pc
  ps_workers :: "worker_pc list"

datatype pool_event =
    EvDequeue
  | EvWaited
  | EvReturned
  | EvSent nat
  | EvDropped job_id
  | EvStopped nat
  | EvCall nat
  | EvRan job_id
  | EvNext nat
  | EvSignal

text \<open>The call that runs the executor is told apart from the others.\<close>

fun call_event :: "nat \<Rightarrow> proc \<Rightarrow> pool_event" where
  "call_event k (PReady i j) = EvRan i"
| "call_event k p = EvCall k"

text \<open>The goroutines as \<open>Run\<close> starts them.\<close>

fun workers_start :: "('w, 'p) processor_worker list \<Rightarrow> 'w \<Rightarrow> worker_pc list \<times> 'w" where
  "workers_start [] w = ([], w)"
| "workers_start (wk # wks) w =
     (case worker_start wk True w of
        (Inl e, w) \<Rightarrow> (case workers_start wks w of (pcs, w) \<Rightarrow> (WStopped # pcs, w))
      | (Inr pc, w) \<Rightarrow> (case workers_start wks w of (pcs, w) \<Rightarrow> (pc # pcs, w)))"

definition pool_start :: "('w, 'p) pool \<Rightarrow> 'w \<Rightarrow> pool_state \<times> 'w" where
  "pool_start pl w =
     (let w = log_attrs (pool_logger pl) LevelInfo ''worker pool started''
                [AttrInt ''worker_count'' (int (length (pool_workers pl)))] w in
      case workers_start (pool_workers pl) w of (pcs, w) \<Rightarrow>
     (case dispatcher_start (pool_dispatcher pl) True w of
        (Inl e, w) \<Rightarrow> (\<lparr>ps_dispatcher = DStopped, ps_workers = pcs\<rparr>, w)
      | (Inr pc, w) \<Rightarrow> (\<lparr>ps_dispatcher = pc, ps_workers = pcs\<rparr>, w)))"

inductive pool_step ::
  "wording \<Rightarrow> 'w process_context \<Rightarrow> ('w, 'w process_job) pool \<Rightarrow> pool_state \<times> 'w \<Rightarrow> pool_event
     \<Rightarrow> pool_state \<times> 'w \<Rightarrow> bool"
  for words :: wording and cx :: "'w process_context" and pl :: "('w, 'w process_job) pool"
where
  dequeue: "ps_dispatcher s = DDequeue \<Longrightarrow>
    dispatcher_dequeue (pool_dispatcher pl) (ctx_done cx) w = (pc, w') \<Longrightarrow>
    pool_step words cx pl (s, w) EvDequeue (s\<lparr>ps_dispatcher := pc\<rparr>, w')"
| waited: "ps_dispatcher s = DWait \<Longrightarrow>
    pool_step words cx pl (s, w) EvWaited (s\<lparr>ps_dispatcher := DDequeue\<rparr>, w)"
| wait_cut: "ps_dispatcher s = DWait \<Longrightarrow> ctx_done cx w \<Longrightarrow>
    dispatcher_return (pool_dispatcher pl) w = (pc, w') \<Longrightarrow>
    pool_step words cx pl (s, w) EvReturned (s\<lparr>ps_dispatcher := pc\<rparr>, w')"
| sent: "ps_dispatcher s = DSend i \<Longrightarrow> k < length (ps_workers s) \<Longrightarrow> ps_workers s ! k = WIdle \<Longrightarrow>
    worker_received (pool_workers pl ! k) i w = (wpc, w1) \<Longrightarrow>
    dispatcher_sent (pool_dispatcher pl) i w1 = (pc, w') \<Longrightarrow>
    pool_step words cx pl (s, w) (EvSent k)
      (s\<lparr>ps_dispatcher := pc, ps_workers := (ps_workers s)[k := wpc]\<rparr>, w')"
| dropped: "ps_dispatcher s = DSend i \<Longrightarrow> ctx_done cx w \<Longrightarrow>
    dispatcher_return (pool_dispatcher pl) w = (pc, w') \<Longrightarrow>
    pool_step words cx pl (s, w) (EvDropped i) (s\<lparr>ps_dispatcher := pc\<rparr>, w')"
| idle_done: "k < length (ps_workers s) \<Longrightarrow> ps_workers s ! k = WIdle \<Longrightarrow> ctx_done cx w \<Longrightarrow>
    worker_done (pool_workers pl ! k) w = (wpc, w') \<Longrightarrow>
    pool_step words cx pl (s, w) (EvStopped k) (s\<lparr>ps_workers := (ps_workers s)[k := wpc]\<rparr>, w')"
| idle_closed: "k < length (ps_workers s) \<Longrightarrow> ps_workers s ! k = WIdle \<Longrightarrow> ps_dispatcher s = DStopped \<Longrightarrow>
    worker_closed (pool_workers pl ! k) w = (wpc, w') \<Longrightarrow>
    pool_step words cx pl (s, w) (EvStopped k) (s\<lparr>ps_workers := (ps_workers s)[k := wpc]\<rparr>, w')"
| call: "k < length (ps_workers s) \<Longrightarrow> ps_workers s ! k = WBusy i p \<Longrightarrow> \<forall>r. p \<noteq> PDone r \<Longrightarrow>
    proc_step words (wk_processor (pool_workers pl ! k)) p w = (p', w') \<Longrightarrow>
    pool_step words cx pl (s, w) (call_event k p) (s\<lparr>ps_workers := (ps_workers s)[k := WBusy i p']\<rparr>, w')"
| returned: "k < length (ps_workers s) \<Longrightarrow> ps_workers s ! k = WBusy i (PDone r) \<Longrightarrow>
    worker_returned (pool_workers pl ! k) (ctx_done cx) i r w = (wpc, w') \<Longrightarrow>
    pool_step words cx pl (s, w) (EvNext k) (s\<lparr>ps_workers := (ps_workers s)[k := wpc]\<rparr>, w')"
| signal: "\<not> ctx_done cx w \<Longrightarrow> pool_step words cx pl (s, w) EvSignal (s, ctx_cancel cx w)"

inductive pool_run ::
  "wording \<Rightarrow> 'w process_context \<Rightarrow> ('w, 'w process_job) pool \<Rightarrow> pool_state \<times> 'w \<Rightarrow> pool_event list
     \<Rightarrow> pool_state \<times> 'w \<Rightarrow> bool"
  for words :: wording and cx :: "'w process_context" and pl :: "('w, 'w process_job) pool"
where
  run_refl: "pool_run words cx pl x [] x"
| run_step: "pool_run words cx pl x evs y \<Longrightarrow> pool_step words cx pl y ev z \<Longrightarrow>
    pool_run words cx pl x (evs @ [ev]) z"

inductive_cases pool_stepE: "pool_step words cx pl (s, w) ev (s', w')"

definition all_stopped :: "pool_state \<Rightarrow> bool" where
  "all_stopped s \<longleftrightarrow> ps_dispatcher s = DStopped \<and> (\<forall>pc \<in> set (ps_workers s). pc = WStopped)"

section \<open>Shutting down\<close>

text \<open>How many steps each goroutine has left at most, once the context is done.\<close>

fun worker_left :: "worker_pc \<Rightarrow> nat" where
  "worker_left WIdle = 1"
| "worker_left (WBusy i p) = proc_left p + 2"
| "worker_left WStopped = 0"

fun dispatcher_left :: "dispatcher_pc \<Rightarrow> nat" where
  "dispatcher_left DDequeue = 1"
| "dispatcher_left DWait = 2"
| "dispatcher_left (DSend i) = 13"
| "dispatcher_left DStopped = 0"

definition pool_left :: "pool_state \<Rightarrow> nat" where
  "pool_left s = dispatcher_left (ps_dispatcher s) + sum_list (map worker_left (ps_workers s))"

lemma proc_left_bound: "proc_left p \<le> 10"
  by (cases p) simp_all

lemma worker_left_bound: "worker_left pc \<le> 12"
  using proc_left_bound by (cases pc) (simp_all add: le_diff_conv)

lemma dispatcher_left_bound: "dispatcher_left pc \<le> 13"
  by (cases pc) simp_all

lemma pool_left_bound: "pool_left s \<le> 13 + 12 * length (ps_workers s)"
proof -
  have "sum_list (map worker_left pcs) \<le> 12 * length pcs" for pcs
    by (induction pcs) (use worker_left_bound in \<open>simp_all add: add_le_mono\<close>)
  then show ?thesis unfolding pool_left_def using dispatcher_left_bound add_le_mono by blast
qed

lemma workers_left_update:
  assumes "k < length pcs"
  shows "sum_list (map worker_left (pcs[k := pc])) + worker_left (pcs ! k)
    = sum_list (map worker_left pcs) + worker_left pc"
  using assms by (induction pcs arbitrary: k) (auto split: nat.split simp: nth_Cons less_Suc_eq_0_disj)

lemma pool_left_worker:
  assumes "k < length (ps_workers s)" "worker_left pc < worker_left (ps_workers s ! k)"
  shows "pool_left (s\<lparr>ps_workers := (ps_workers s)[k := pc]\<rparr>) < pool_left s"
  using workers_left_update [OF assms(1), of pc] assms(2) by (simp add: pool_left_def)

text \<open>The calls of a pool leave a done context done, and with a done context \<open>Dequeue\<close> gives an
  error.\<close>

locale cancellation =
  fixes cx :: "'w process_context" and dequeue :: "'w consumer_port" and uc :: "'w process_job"
    and lg :: "'w logger"
  assumes dequeue_done: "ctx_done cx w \<Longrightarrow> dequeue w = (r, w') \<Longrightarrow> \<not> is_ok r \<and> ctx_done cx w'"
    and log_done: "ctx_done cx w \<Longrightarrow> ctx_done cx (lg l w)"
    and get_done: "ctx_done cx w \<Longrightarrow> repo_get (pj_repository uc) i w = (rg, w') \<Longrightarrow> ctx_done cx w'"
    and update_done: "ctx_done cx w \<Longrightarrow> repo_update (pj_repository uc) j w = (ru, w') \<Longrightarrow> ctx_done cx w'"
    and queue_done: "ctx_done cx w \<Longrightarrow> pj_queue uc i w = (ru, w') \<Longrightarrow> ctx_done cx w'"
    and exec_done: "ctx_done cx w \<Longrightarrow> pj_executor uc j w = (ru, w') \<Longrightarrow> ctx_done cx w'"
    and clock_done: "ctx_done cx w \<Longrightarrow> pj_clock uc w = (t, w') \<Longrightarrow> ctx_done cx w'"
    and observe_done: "ctx_done cx w \<Longrightarrow> ctx_done cx (pj_observer uc j st w)"

context cancellation begin

lemma log_attrs_done: "ctx_done cx w \<Longrightarrow> ctx_done cx (log_attrs lg lvl msg attrs w)"
  and worker_log_done: "ctx_done cx w \<Longrightarrow>
    ctx_done cx (log_attrs (worker_logger \<lparr>wk_id = n, wk_processor = pr, wk_logger = lg\<rparr>) lvl msg attrs w)"
  by (simp_all add: log_attrs_def worker_logger_def logger_with_def log_done)

lemma proc_step_done:
  assumes "ctx_done cx w" "proc_step words uc p w = (p', w')"
  shows "ctx_done cx w'"
  using assms
  by (cases p)
     (auto split: if_splits prod.splits sum.splits option.splits
       dest: get_done update_done queue_done exec_done clock_done simp: observe_done)

lemma dequeue_stops:
  assumes "ctx_done cx w" "dispatcher_dequeue \<lparr>qd_consumer = dequeue, qd_logger = lg\<rparr> (ctx_done cx) w = (pc, w')"
  shows "pc = DStopped \<and> ctx_done cx w'"
proof -
  obtain r w1 where d: "dequeue w = (r, w1)" by force
  from dequeue_done [OF assms(1) d] obtain e where "r = Inl e" "ctx_done cx w1" by (auto simp: not_is_ok_iff)
  with d assms(2) show ?thesis
    by (auto simp: dispatcher_dequeue_def dispatcher_context_finished_def dispatcher_return_def log_attrs_done)
qed

lemma returned_left:
  assumes "ctx_done cx w"
    "worker_returned \<lparr>wk_id = n, wk_processor = pr, wk_logger = lg\<rparr> (ctx_done cx) i r w = (pc, w')"
  shows "worker_left pc \<le> 1 \<and> ctx_done cx w'"
  using assms
  by (auto simp: worker_returned_def Let_def worker_done_def worker_log_done split: option.splits prod.splits if_splits)

lemma pool_step_left:
  assumes st: "pool_step words cx (pool_for dequeue uc lg) (s, w) ev (s', w')"
    and fin: "ctx_done cx w" and n: "length (ps_workers s) = WorkerCount"
  shows "pool_left s' < pool_left s \<and> ctx_done cx w' \<and> length (ps_workers s') = WorkerCount"
  using st
proof (rule pool_stepE)
  fix pc
  assume h: "s' = s\<lparr>ps_dispatcher := pc\<rparr>" "ps_dispatcher s = DDequeue"
    "dispatcher_dequeue (pool_dispatcher (pool_for dequeue uc lg)) (ctx_done cx) w = (pc, w')"
  show ?thesis
    using dequeue_stops [OF fin, of pc w'] h n by (simp add: pool_left_def)
next
  assume "s' = s\<lparr>ps_dispatcher := DDequeue\<rparr>" "ps_dispatcher s = DWait" "w' = w"
  then show ?thesis using fin n by (simp add: pool_left_def)
next
  fix pc
  assume "s' = s\<lparr>ps_dispatcher := pc\<rparr>" "ps_dispatcher s = DWait"
    "dispatcher_return (pool_dispatcher (pool_for dequeue uc lg)) w = (pc, w')"
  then show ?thesis using fin n log_attrs_done by (simp add: pool_left_def dispatcher_return_def) blast
next
  fix i k wpc w1 pc
  assume h: "s' = s\<lparr>ps_dispatcher := pc, ps_workers := (ps_workers s)[k := wpc]\<rparr>" "ps_dispatcher s = DSend i"
    "k < length (ps_workers s)" "ps_workers s ! k = WIdle"
    "worker_received (pool_workers (pool_for dequeue uc lg) ! k) i w = (wpc, w1)"
    "dispatcher_sent (pool_dispatcher (pool_for dequeue uc lg)) i w1 = (pc, w')"
  then have "wpc = WBusy i (PStart i)" "pc = DDequeue" "ctx_done cx w'"
    using n fin by (auto simp: worker_received_def dispatcher_sent_def intro!: log_attrs_done worker_log_done)
  with h n workers_left_update [OF h(3), of wpc] show ?thesis by (simp add: pool_left_def)
next
  fix i pc
  assume "s' = s\<lparr>ps_dispatcher := pc\<rparr>" "ps_dispatcher s = DSend i"
    "dispatcher_return (pool_dispatcher (pool_for dequeue uc lg)) w = (pc, w')"
  then show ?thesis using fin n log_attrs_done by (simp add: pool_left_def dispatcher_return_def) blast
next
  fix k wpc
  assume h: "s' = s\<lparr>ps_workers := (ps_workers s)[k := wpc]\<rparr>" "k < length (ps_workers s)" "ps_workers s ! k = WIdle"
    "worker_done (pool_workers (pool_for dequeue uc lg) ! k) w = (wpc, w')"
  then have "wpc = WStopped" "ctx_done cx w'"
    using n fin by (auto simp: worker_done_def intro!: worker_log_done)
  with h n pool_left_worker [OF h(2), of wpc] show ?thesis by simp
next
  fix k wpc
  assume h: "s' = s\<lparr>ps_workers := (ps_workers s)[k := wpc]\<rparr>" "k < length (ps_workers s)" "ps_workers s ! k = WIdle"
    "worker_closed (pool_workers (pool_for dequeue uc lg) ! k) w = (wpc, w')"
  then have "wpc = WStopped" "ctx_done cx w'"
    using n fin by (auto simp: worker_closed_def intro!: worker_log_done)
  with h n pool_left_worker [OF h(2), of wpc] show ?thesis by simp
next
  fix k i p p'
  assume h: "s' = s\<lparr>ps_workers := (ps_workers s)[k := WBusy i p']\<rparr>" "k < length (ps_workers s)"
    "ps_workers s ! k = WBusy i p" "\<forall>r. p \<noteq> PDone r"
    "proc_step words (wk_processor (pool_workers (pool_for dequeue uc lg) ! k)) p w = (p', w')"
  then have st: "proc_step words uc p w = (p', w')" using n by simp
  have "proc_left p' < proc_left p" using proc_step_left [OF _ st] h(4) by (simp add: proc_left_0)
  with h n pool_left_worker [OF h(2), of "WBusy i p'"] proc_step_done [OF fin st] show ?thesis by simp
next
  fix k i r wpc
  assume h: "s' = s\<lparr>ps_workers := (ps_workers s)[k := wpc]\<rparr>" "k < length (ps_workers s)"
    "ps_workers s ! k = WBusy i (PDone r)"
    "worker_returned (pool_workers (pool_for dequeue uc lg) ! k) (ctx_done cx) i r w = (wpc, w')"
  have "worker_returned \<lparr>wk_id = int k + 1, wk_processor = uc, wk_logger = lg\<rparr> (ctx_done cx) i r w = (wpc, w')"
    using h(2,4) n by simp
  from returned_left [OF fin this] have "worker_left wpc \<le> 1" "ctx_done cx w'" by blast+
  with h n pool_left_worker [OF h(2), of wpc] show ?thesis by simp
next
  assume "\<not> ctx_done cx w"
  then show ?thesis using fin by blast
qed

lemma pool_run_left:
  assumes "pool_run words cx (pool_for dequeue uc lg) (s, w) evs (s', w')"
    "ctx_done cx w" "length (ps_workers s) = WorkerCount"
  shows "length evs + pool_left s' \<le> pool_left s \<and> ctx_done cx w' \<and> length (ps_workers s') = WorkerCount"
proof -
  have "length evs + pool_left (fst y) \<le> pool_left (fst x) \<and> ctx_done cx (snd y)
      \<and> length (ps_workers (fst y)) = WorkerCount"
    if "pool_run words cx (pool_for dequeue uc lg) x evs y" "ctx_done cx (snd x)"
      "length (ps_workers (fst x)) = WorkerCount" for x y
    using that
  proof (induction rule: pool_run.induct)
    case (run_step x evs y ev z)
    obtain s1 w1 s2 w2 where yz: "y = (s1, w1)" "z = (s2, w2)" by (cases y, cases z)
    from run_step pool_step_left [of words s1 w1 ev s2 w2] show ?case by (simp add: yz)
  qed simp
  from this [OF assms(1)] assms(2,3) show ?thesis by simp
qed

text \<open>A pool with a done context that has not ended can take a step.\<close>

lemma pool_progress:
  assumes "ctx_done cx w" "\<not> all_stopped s" "length (ps_workers s) = WorkerCount"
  shows "\<exists>ev s' w'. pool_step words cx (pool_for dequeue uc lg) (s, w) ev (s', w')"
proof (cases "ps_dispatcher s")
  case DDequeue
  obtain pc w' where "dispatcher_dequeue (pool_dispatcher (pool_for dequeue uc lg)) (ctx_done cx) w = (pc, w')"
    by force
  from pool_step.dequeue [OF DDequeue this] show ?thesis by blast
next
  case DWait
  from pool_step.waited [OF this, of words cx "pool_for dequeue uc lg" w] show ?thesis by blast
next
  case (DSend i)
  obtain pc w' where "dispatcher_return (pool_dispatcher (pool_for dequeue uc lg)) w = (pc, w')" by force
  from pool_step.dropped [OF DSend assms(1) this] show ?thesis by blast
next
  case DStopped
  with assms(2) obtain pc where "pc \<in> set (ps_workers s)" "pc \<noteq> WStopped" by (auto simp: all_stopped_def)
  then obtain k where k: "k < length (ps_workers s)" "ps_workers s ! k \<noteq> WStopped"
    by (metis in_set_conv_nth)
  show ?thesis
  proof (cases "ps_workers s ! k")
    case WIdle
    obtain wpc w' where "worker_closed (pool_workers (pool_for dequeue uc lg) ! k) w = (wpc, w')" by force
    from pool_step.idle_closed [OF k(1) WIdle DStopped this] show ?thesis by blast
  next
    case (WBusy i p)
    show ?thesis
    proof (cases "\<exists>r. p = PDone r")
      case True
      then obtain r where r: "ps_workers s ! k = WBusy i (PDone r)" using WBusy by blast
      obtain wpc w' where
        "worker_returned (pool_workers (pool_for dequeue uc lg) ! k) (ctx_done cx) i r w = (wpc, w')" by force
      from pool_step.returned [OF k(1) r this] show ?thesis by blast
    next
      case False
      obtain p' w' where "proc_step words (wk_processor (pool_workers (pool_for dequeue uc lg) ! k)) p w = (p', w')"
        by force
      from pool_step.call [OF k(1) WBusy _ this] False show ?thesis by blast
    qed
  qed (use k in simp)
qed

end

end
