(* ===== verification/System.thy ===== *)
theory System imports Step_Effects Pool_Steps begin

text \<open>
  The deployed system: one API process serving any number of requests at once, one worker process with
  its pool, and the two stores between them. Each step is one call of one of them; either process may
  be killed and started again between any two steps. The invariant counts, for every job, the places
  that hold its identifier: the queue, the dispatcher's hand, the workers and the requests that are
  creating it.
\<close>

section \<open>Steps\<close>

record system =
  sy_pool :: pool_state
  sy_requests :: "creating list"

datatype system_event =
    EvPool pool_event
  | EvRequest create_job_input
  | EvHandled nat
  | EvWorkerRestart
  | EvApiRestart

inductive system_step ::
  "wording \<Rightarrow> 'w process_context \<Rightarrow> ('w, 'w process_job) pool \<Rightarrow> 'w create_job \<Rightarrow> system \<times> 'w
     \<Rightarrow> system_event \<Rightarrow> system \<times> 'w \<Rightarrow> bool"
  for words :: wording and cx :: "'w process_context" and pl :: "('w, 'w process_job) pool"
    and cc :: "'w create_job"
where
  pool: "pool_step words cx pl (sy_pool s, w) ev (p', w') \<Longrightarrow>
    system_step words cx pl cc (s, w) (EvPool ev) (s\<lparr>sy_pool := p'\<rparr>, w')"
| request: "system_step words cx pl cc (s, w) (EvRequest input)
    (s\<lparr>sy_requests := sy_requests s @ [CStart input]\<rparr>, w)"
| handled: "k < length (sy_requests s) \<Longrightarrow> create_step cc (sy_requests s ! k) w = (c', w') \<Longrightarrow>
    system_step words cx pl cc (s, w) (EvHandled k) (s\<lparr>sy_requests := (sy_requests s)[k := c']\<rparr>, w')"
| worker_restart: "pool_start pl (ctx_new cx w) = (p', w') \<Longrightarrow>
    system_step words cx pl cc (s, w) EvWorkerRestart (s\<lparr>sy_pool := p'\<rparr>, w')"
| api_restart: "system_step words cx pl cc (s, w) EvApiRestart (s\<lparr>sy_requests := []\<rparr>, w)"

inductive_cases system_stepE: "system_step words cx pl cc (s, w) ev (s', w')"

inductive system_run ::
  "wording \<Rightarrow> 'w process_context \<Rightarrow> ('w, 'w process_job) pool \<Rightarrow> 'w create_job \<Rightarrow> system \<times> 'w
     \<Rightarrow> system_event list \<Rightarrow> system \<times> 'w \<Rightarrow> bool"
  for words :: wording and cx :: "'w process_context" and pl :: "('w, 'w process_job) pool"
    and cc :: "'w create_job"
where
  srun_refl: "system_run words cx pl cc x [] x"
| srun_step: "system_run words cx pl cc x evs y \<Longrightarrow> system_step words cx pl cc y ev z \<Longrightarrow>
    system_run words cx pl cc x (evs @ [ev]) z"

section \<open>Counting\<close>

definition holders :: "('a \<Rightarrow> 'b option) \<Rightarrow> 'b \<Rightarrow> 'a list \<Rightarrow> nat" where
  "holders f i xs = length (filter (\<lambda>x. f x = Some i) xs)"

lemma holders_update:
  "k < length xs \<Longrightarrow> holders f i (xs[k := y]) + of_bool (f (xs ! k) = Some i) = holders f i xs + of_bool (f y = Some i)"
proof (induction xs arbitrary: k)
  case (Cons x xs)
  then show ?case by (cases k) (simp_all add: holders_def)
qed simp

lemma holders_append [simp]: "holders f i (xs @ [y]) = holders f i xs + of_bool (f y = Some i)"
  by (simp add: holders_def)

lemma holders_Nil [simp]: "holders f i [] = 0"
  by (simp add: holders_def)

lemma holders_pos: "0 < holders f i xs \<longleftrightarrow> (\<exists>x \<in> set xs. f x = Some i)"
  by (auto simp: holders_def filter_empty_conv)

lemma holders_nth: "k < length xs \<Longrightarrow> f (xs ! k) = Some i \<Longrightarrow> 0 < holders f i xs"
  unfolding holders_pos by force

lemma holders_unique:
  assumes "holders f i xs \<le> 1" "k < length xs" "l < length xs" "f (xs ! k) = Some i" "f (xs ! l) = Some i"
  shows "k = l"
proof -
  have "card {n. n < length xs \<and> f (xs ! n) = Some i} \<le> Suc 0"
    using assms(1) by (simp add: holders_def length_filter_conv_card)
  then show ?thesis using assms(2-5) by (auto simp: card_le_Suc0_iff_eq)
qed

lemma distinct_count_le: "distinct xs \<Longrightarrow> count_list xs i \<le> 1"
  by (induction xs) (auto simp: count_list_0_iff)

lemma distinct_counts: "(\<And>i. count_list xs i \<le> 1) \<Longrightarrow> distinct xs"
proof (induction xs)
  case (Cons x xs)
  have "count_list xs i \<le> 1" for i using Cons.prems [of i] by (simp split: if_splits)
  moreover have "x \<notin> set xs" using Cons.prems [of x] count_list_0_iff [of xs x] by simp
  ultimately show ?case using Cons.IH by simp
qed simp

fun dispatcher_token :: "dispatcher_pc \<Rightarrow> job_id option" where
  "dispatcher_token (DSend i) = Some i"
| "dispatcher_token pc = None"

fun worker_token :: "worker_pc \<Rightarrow> job_id option" where
  "worker_token (WBusy i p) = proc_token p"
| "worker_token pc = None"

lemma holders_idle: "\<forall>pc \<in> set pcs. pc = WIdle \<Longrightarrow> holders worker_token i pcs = 0"
  using holders_pos [of worker_token i pcs] by auto

definition tokens :: "job_id list \<Rightarrow> system \<Rightarrow> job_id \<Rightarrow> nat" where
  "tokens q s i =
     count_list q i + of_bool (dispatcher_token (ps_dispatcher (sy_pool s)) = Some i)
     + holders worker_token i (ps_workers (sy_pool s)) + holders create_token i (sy_requests s)"

section \<open>The invariant\<close>

fun worker_ok :: "row_view \<Rightarrow> (job_id \<Rightarrow> nat) \<Rightarrow> worker_pc \<Rightarrow> bool" where
  "worker_ok rs runs (WBusy i p) \<longleftrightarrow> proc_ok rs runs p \<and> (proc_token p = None \<or> proc_token p = Some i)"
| "worker_ok rs runs pc \<longleftrightarrow> True"

definition system_ok :: "row_view \<Rightarrow> job_id list \<Rightarrow> (job_id \<Rightarrow> nat) \<Rightarrow> system \<Rightarrow> bool" where
  "system_ok rs q runs s \<longleftrightarrow>
     rows_ok rs runs \<and> (\<forall>i. tokens q s i \<le> 1)
     \<and> (\<forall>i \<in> set q. pending_row rs runs i)
     \<and> (\<forall>i. dispatcher_token (ps_dispatcher (sy_pool s)) = Some i \<longrightarrow> pending_row rs runs i)
     \<and> (\<forall>pc \<in> set (ps_workers (sy_pool s)). worker_ok rs runs pc)
     \<and> (\<forall>c \<in> set (sy_requests s). Step_Invariants.create_ok rs runs c)"

fun count_event :: "system_event \<Rightarrow> (job_id \<Rightarrow> nat) \<Rightarrow> job_id \<Rightarrow> nat" where
  "count_event (EvPool (EvRan i)) runs = runs(i := Suc (runs i))"
| "count_event ev runs = runs"

lemma count_event_call: "count_event (EvPool (call_event k p)) runs = count_run p runs"
  by (cases p) simp_all

lemma proc_token_None: "proc_token p = None \<longleftrightarrow> (\<exists>r. p = PDone r)"
  by (cases p) simp_all

text \<open>Whoever holds an identifier, its row is there.\<close>

lemma pending_row_there: "pending_row rs runs i \<Longrightarrow> rs i \<noteq> None"
  by (auto simp: pending_row_def)

lemma processing_row_there: "processing_row rs runs x i j \<Longrightarrow> rs i \<noteq> None"
  by (auto simp: processing_row_def)

lemma proc_ok_there:
  assumes "proc_ok rs runs p" "proc_token p = Some i"
  shows "rs i \<noteq> None"
  using assms by (cases p) (auto dest: pending_row_there processing_row_there)

lemma worker_ok_there: "worker_ok rs runs pc \<Longrightarrow> worker_token pc = Some i \<Longrightarrow> rs i \<noteq> None"
  using proc_ok_there by (cases pc) auto

lemma create_ok_there:
  "Step_Invariants.create_ok rs runs c \<Longrightarrow> create_token c = Some i \<Longrightarrow> rs i \<noteq> None"
  by (cases c) (auto dest: pending_row_there)

lemma count_list_pos: "0 < count_list q i \<longleftrightarrow> i \<in> set q"
  by (metis count_list_0_iff neq0_conv)

lemma tokens_there:
  assumes ok: "system_ok rs q runs s" and i: "0 < tokens q s i"
  shows "rs i \<noteq> None"
proof -
  from i consider "i \<in> set q" | "dispatcher_token (ps_dispatcher (sy_pool s)) = Some i"
    | "0 < holders worker_token i (ps_workers (sy_pool s))" | "0 < holders create_token i (sy_requests s)"
    unfolding tokens_def using count_list_pos [of q i] by (auto split: if_splits)
  then show ?thesis
  proof cases
    case 3
    with ok show ?thesis unfolding holders_pos system_ok_def using worker_ok_there by blast
  next
    case 4
    with ok show ?thesis unfolding holders_pos system_ok_def using create_ok_there by blast
  qed (use ok pending_row_there in \<open>auto simp: system_ok_def\<close>)
qed

text \<open>What is said of the holders of other identifiers does not depend on the row of \<open>i\<close>.\<close>

lemma worker_ok_other:
  assumes "worker_ok rs runs pc" "worker_token pc \<noteq> Some i"
    "\<And>k. k \<noteq> i \<Longrightarrow> rs' k = rs k" "\<And>k. k \<noteq> i \<Longrightarrow> runs' k = runs k"
  shows "worker_ok rs' runs' pc"
proof (cases pc)
  case (WBusy k p)
  have "proc_ok rs' runs' p = proc_ok rs runs p"
    by (rule proc_ok_cong) (use assms(2-4) WBusy in auto)
  with assms(1) WBusy show ?thesis by simp
qed simp_all

lemma create_ok_other:
  assumes "Step_Invariants.create_ok rs runs c" "create_token c \<noteq> Some i"
    "\<And>k. k \<noteq> i \<Longrightarrow> rs' k = rs k" "\<And>k. k \<noteq> i \<Longrightarrow> runs' k = runs k"
  shows "Step_Invariants.create_ok rs' runs' c"
proof -
  have "Step_Invariants.create_ok rs' runs' c = Step_Invariants.create_ok rs runs c"
    by (rule create_ok_cong) (use assms(2-4) in auto)
  with assms(1) show ?thesis by simp
qed

lemma pending_row_other:
  assumes "pending_row rs runs k" "k \<noteq> i"
    "\<And>k. k \<noteq> i \<Longrightarrow> rs' k = rs k" "\<And>k. k \<noteq> i \<Longrightarrow> runs' k = runs k"
  shows "pending_row rs' runs' k"
  using assms pending_row_cong [of rs' k rs runs' runs] by blast

section \<open>Each kind of step keeps it\<close>

lemma system_okD:
  assumes "system_ok rs q runs s"
  shows "rows_ok rs runs" "tokens q s i \<le> 1" "i \<in> set q \<Longrightarrow> pending_row rs runs i"
    "dispatcher_token (ps_dispatcher (sy_pool s)) = Some i \<Longrightarrow> pending_row rs runs i"
    "k < length (ps_workers (sy_pool s)) \<Longrightarrow> worker_ok rs runs (ps_workers (sy_pool s) ! k)"
    "k < length (sy_requests s) \<Longrightarrow> Step_Invariants.create_ok rs runs (sy_requests s ! k)"
  using assms unfolding system_ok_def by auto

lemma system_okI:
  assumes "rows_ok rs runs" "\<And>i. tokens q s i \<le> 1" "\<And>i. i \<in> set q \<Longrightarrow> pending_row rs runs i"
    "\<And>i. dispatcher_token (ps_dispatcher (sy_pool s)) = Some i \<Longrightarrow> pending_row rs runs i"
    "\<And>k. k < length (ps_workers (sy_pool s)) \<Longrightarrow> worker_ok rs runs (ps_workers (sy_pool s) ! k)"
    "\<And>k. k < length (sy_requests s) \<Longrightarrow> Step_Invariants.create_ok rs runs (sy_requests s ! k)"
  shows "system_ok rs q runs s"
  using assms assms(3) [OF nth_mem] unfolding system_ok_def all_set_conv_all_nth by blast

text \<open>Steps that change neither store's content for a holder: the dispatcher takes the head of the
  queue, or loses it, or passes it on.\<close>

lemma tokens_dispatcher:
  assumes "dispatcher_token pc = None \<and> (q' = q \<or> q' = tl q) \<or> dispatcher_token pc \<noteq> None
      \<and> q = the (dispatcher_token pc) # q' \<and> dispatcher_token (ps_dispatcher (sy_pool s)) = None"
  shows "tokens q' (s\<lparr>sy_pool := (sy_pool s)\<lparr>ps_dispatcher := pc\<rparr>\<rparr>) i \<le> tokens q s i"
proof -
  have "count_list q' i + of_bool (dispatcher_token pc = Some i)
      \<le> count_list q i + of_bool (dispatcher_token (ps_dispatcher (sy_pool s)) = Some i)"
    using assms by (cases q) auto
  then show ?thesis by (simp add: tokens_def)
qed

lemma system_ok_dispatcher:
  assumes ok: "system_ok rs q runs s"
    and pc: "dispatcher_token pc = None \<and> (q' = q \<or> q' = tl q) \<or> dispatcher_token pc \<noteq> None
      \<and> q = the (dispatcher_token pc) # q' \<and> dispatcher_token (ps_dispatcher (sy_pool s)) = None"
  shows "system_ok rs q' runs (s\<lparr>sy_pool := (sy_pool s)\<lparr>ps_dispatcher := pc\<rparr>\<rparr>)"
proof (rule system_okI)
  have sub: "set q' \<subseteq> set q" using pc by (cases q) auto
  show "pending_row rs runs i" if "i \<in> set q'" for i using sub that system_okD(3) [OF ok] by blast
  show "tokens q' (s\<lparr>sy_pool := (sy_pool s)\<lparr>ps_dispatcher := pc\<rparr>\<rparr>) i \<le> 1" for i
    using tokens_dispatcher [OF pc, of i] system_okD(2) [OF ok, of i] by linarith
  show "pending_row rs runs i"
    if "dispatcher_token (ps_dispatcher (sy_pool (s\<lparr>sy_pool := (sy_pool s)\<lparr>ps_dispatcher := pc\<rparr>\<rparr>))) = Some i" for i
    using pc that system_okD(3) [OF ok, of i] by auto
qed (use system_okD [OF ok] in simp_all)

text \<open>A worker changes its state, and with it perhaps the row of the one identifier it holds; it may
  let it go into the queue.\<close>

lemma tokens_worker:
  assumes k: "k < length (ps_workers (sy_pool s))"
    and hold: "worker_token (ps_workers (sy_pool s) ! k) = Some i"
    and token: "worker_token pc = Some i \<and> q' = q \<or> worker_token pc = None \<and> (q' = q \<or> q' = q @ [i])"
  shows "tokens q' (s\<lparr>sy_pool := (sy_pool s)\<lparr>ps_workers := (ps_workers (sy_pool s))[k := pc]\<rparr>\<rparr>) n \<le> tokens q s n"
  using holders_update [OF k, of worker_token n pc] hold token
  by (auto simp: tokens_def split: if_splits)

lemma tokens_worker_held:
  "k < length (ps_workers (sy_pool s)) \<Longrightarrow> worker_token (ps_workers (sy_pool s) ! k) = Some i \<Longrightarrow>
     0 < tokens q s i"
  unfolding tokens_def using holders_nth by fastforce

lemma system_ok_worker:
  assumes ok: "system_ok rs q runs s" and k: "k < length (ps_workers (sy_pool s))"
    and hold: "worker_token (ps_workers (sy_pool s) ! k) = Some i"
    and rows: "\<And>n. n \<noteq> i \<Longrightarrow> rs' n = rs n" "\<And>n. n \<noteq> i \<Longrightarrow> runs' n = runs n" "rows_ok rs' runs'"
    and new: "worker_ok rs' runs' pc"
    and token: "worker_token pc = Some i \<and> q' = q
      \<or> worker_token pc = None \<and> (q' = q \<or> q' = q @ [i] \<and> pending_row rs' runs' i)"
  shows "system_ok rs' q' runs' (s\<lparr>sy_pool := (sy_pool s)\<lparr>ps_workers := (ps_workers (sy_pool s))[k := pc]\<rparr>\<rparr>)"
    (is "system_ok _ _ _ ?s")
proof (rule system_okI)
  let ?ws = "ps_workers (sy_pool s)"
  note one = system_okD(2) [OF ok, unfolded tokens_def]
  have mine: "0 < holders worker_token i ?ws" using holders_nth k hold by fast
  have free: "i \<notin> set q" "dispatcher_token (ps_dispatcher (sy_pool s)) \<noteq> Some i"
      "holders create_token i (sy_requests s) = 0" "holders worker_token i ?ws \<le> 1"
    using one [of i] mine count_list_pos [of q i] by (auto split: if_splits)
  show "rows_ok rs' runs'" by (rule rows(3))
  show "tokens q' ?s n \<le> 1" for n
    using tokens_worker [OF k hold, of pc q' q n] token system_okD(2) [OF ok, of n] by fastforce
  show "pending_row rs' runs' n" if "n \<in> set q'" for n
  proof (cases "n = i")
    case True
    with that free token show ?thesis by auto
  next
    case False
    with that token have "n \<in> set q" by auto
    from pending_row_other [OF system_okD(3) [OF ok this] False rows(1,2)] show ?thesis by blast
  qed
  show "pending_row rs' runs' n" if "dispatcher_token (ps_dispatcher (sy_pool ?s)) = Some n" for n
  proof -
    from that have d: "dispatcher_token (ps_dispatcher (sy_pool s)) = Some n" by simp
    with free have "n \<noteq> i" by auto
    from pending_row_other [OF system_okD(4) [OF ok d] this rows(1,2)] show ?thesis by blast
  qed
  show "worker_ok rs' runs' (ps_workers (sy_pool ?s) ! n)" if "n < length (ps_workers (sy_pool ?s))" for n
  proof (cases "n = k")
    case True
    with k new show ?thesis by simp
  next
    case False
    from that have n: "n < length ?ws" by simp
    have "worker_token (?ws ! n) \<noteq> Some i"
      using holders_unique [OF free(4) n k _ hold] False by blast
    from worker_ok_other [OF system_okD(5) [OF ok n] this rows(1,2)] False show ?thesis by simp
  qed
  show "Step_Invariants.create_ok rs' runs' (sy_requests ?s ! n)" if "n < length (sy_requests ?s)" for n
  proof -
    from that have n: "n < length (sy_requests s)" by simp
    have "create_token (sy_requests s ! n) \<noteq> Some i"
      using holders_nth [of n "sy_requests s" create_token i] n free(3) by auto
    from create_ok_other [OF system_okD(6) [OF ok n] this rows(1,2)] show ?thesis by simp
  qed
qed

text \<open>A worker that holds nothing changes to a state in which it holds nothing.\<close>

lemma tokens_worker_free:
  assumes "k < length (ps_workers (sy_pool s))"
    "worker_token (ps_workers (sy_pool s) ! k) = None" "worker_token pc = None"
  shows "tokens q (s\<lparr>sy_pool := (sy_pool s)\<lparr>ps_workers := (ps_workers (sy_pool s))[k := pc]\<rparr>\<rparr>) n = tokens q s n"
  using holders_update [OF assms(1), of worker_token n pc] assms(2,3) by (simp add: tokens_def)

lemma system_ok_worker_free:
  assumes ok: "system_ok rs q runs s" and k: "k < length (ps_workers (sy_pool s))"
    and new: "worker_token (ps_workers (sy_pool s) ! k) = None" "worker_token pc = None" "worker_ok rs runs pc"
  shows "system_ok rs q runs (s\<lparr>sy_pool := (sy_pool s)\<lparr>ps_workers := (ps_workers (sy_pool s))[k := pc]\<rparr>\<rparr>)"
proof (rule system_okI)
  show "tokens q (s\<lparr>sy_pool := (sy_pool s)\<lparr>ps_workers := (ps_workers (sy_pool s))[k := pc]\<rparr>\<rparr>) n \<le> 1" for n
    using system_okD(2) [OF ok, of n] tokens_worker_free [OF k new(1,2)] by simp
  show "worker_ok rs runs (ps_workers (sy_pool (s\<lparr>sy_pool := (sy_pool s)\<lparr>ps_workers := (ps_workers (sy_pool s))[k := pc]\<rparr>\<rparr>)) ! n)"
    if "n < length (ps_workers (sy_pool (s\<lparr>sy_pool := (sy_pool s)\<lparr>ps_workers := (ps_workers (sy_pool s))[k := pc]\<rparr>\<rparr>)))"
    for n
    using that new(3) system_okD(5) [OF ok, of n] by (cases "n = k") simp_all
qed (use system_okD [OF ok] in simp_all)

text \<open>The hand-over on the channel.\<close>

lemma tokens_sent:
  assumes "k < length (ps_workers (sy_pool s))" "ps_dispatcher (sy_pool s) = DSend i"
    "worker_token (ps_workers (sy_pool s) ! k) = None"
  shows "tokens q (s\<lparr>sy_pool := (sy_pool s)\<lparr>ps_dispatcher := DDequeue,
    ps_workers := (ps_workers (sy_pool s))[k := WBusy i (PStart i)]\<rparr>\<rparr>) n = tokens q s n"
  using holders_update [OF assms(1), of worker_token n "WBusy i (PStart i)"] assms(2,3) by (simp add: tokens_def)

lemma system_ok_sent:
  assumes ok: "system_ok rs q runs s" and k: "k < length (ps_workers (sy_pool s))"
    and d: "ps_dispatcher (sy_pool s) = DSend i" and w: "worker_token (ps_workers (sy_pool s) ! k) = None"
  shows "system_ok rs q runs (s\<lparr>sy_pool := (sy_pool s)\<lparr>ps_dispatcher := DDequeue,
    ps_workers := (ps_workers (sy_pool s))[k := WBusy i (PStart i)]\<rparr>\<rparr>)" (is "system_ok _ _ _ ?s")
proof (rule system_okI)
  show "tokens q ?s n \<le> 1" for n
    using system_okD(2) [OF ok, of n] tokens_sent [OF k d w] by simp
  have "pending_row rs runs i" using system_okD(4) [OF ok] d by simp
  then show "worker_ok rs runs (ps_workers (sy_pool ?s) ! n)" if "n < length (ps_workers (sy_pool ?s))" for n
    using that system_okD(5) [OF ok, of n] by (cases "n = k") simp_all
qed (use system_okD [OF ok] in simp_all)

text \<open>A request changes its state. It makes a new row, or it holds one whose row stays as it is.\<close>

lemma tokens_request:
  assumes k: "k < length (sy_requests s)"
    and mv: "create_moved (create_token (sy_requests s ! k)) rs q rs' runs q' c'"
    and there: "rs n \<noteq> None"
  shows "tokens q' (s\<lparr>sy_requests := (sy_requests s)[k := c']\<rparr>) n \<le> tokens q s n \<and> rs' n = rs n"
  using holders_update [OF k, of create_token n c'] mv there
  by (cases "create_token (sy_requests s ! k)") (auto simp: tokens_def create_moved_def split: if_splits)

lemma system_ok_request:
  assumes ok: "system_ok rs q runs s" and k: "k < length (sy_requests s)"
    and mv: "create_moved (create_token (sy_requests s ! k)) rs q rs' runs q' c'"
  shows "system_ok rs' q' runs (s\<lparr>sy_requests := (sy_requests s)[k := c']\<rparr>)"
proof (cases "create_token (sy_requests s ! k)")
  case (Some i)
  let ?rq = "sy_requests s" and ?s = "s\<lparr>sy_requests := (sy_requests s)[k := c']\<rparr>"
  from mv Some have h: "rs' = rs" "Step_Invariants.create_ok rs runs c'" "rows_ok rs runs"
    "create_token c' = Some i \<and> q' = q
      \<or> create_token c' = None \<and> (q' = q \<or> q' = q @ [i] \<and> pending_row rs runs i)"
    unfolding create_moved_def by auto
  show ?thesis
  proof (rule system_okI)
    show "tokens q' ?s n \<le> 1" for n
    proof -
      have "tokens q' ?s n \<le> tokens q s n"
        using holders_update [OF k, of create_token n c'] Some h(4)
        by (auto simp: tokens_def split: if_splits)
      then show ?thesis using system_okD(2) [OF ok, of n] by linarith
    qed
    show "pending_row rs' runs n" if "n \<in> set q'" for n
      using that h(1,4) system_okD(3) [OF ok, of n] by auto
    show "Step_Invariants.create_ok rs' runs (sy_requests ?s ! n)" if "n < length (sy_requests ?s)" for n
      using that h(1,2) system_okD(6) [OF ok, of n] by (cases "n = k") simp_all
  qed (use system_okD [OF ok] h in simp_all)
next
  case None
  let ?rq = "sy_requests s" and ?s = "s\<lparr>sy_requests := (sy_requests s)[k := c']\<rparr>"
  from mv None have h: "Step_Invariants.create_ok rs' runs c'" "rows_ok rs' runs" "q' = q"
    "rs' = rs \<and> create_token c' = None
      \<or> (\<exists>i j'. rs i = None \<and> rs' = rs(i \<mapsto> j') \<and> (create_token c' = Some i \<or> create_token c' = None))"
    unfolding create_moved_def by auto
  obtain i where i: "\<And>n. n \<noteq> i \<Longrightarrow> rs' n = rs n"
    "create_token c' = Some i \<and> tokens q s i = 0 \<or> create_token c' = None"
    "rs' = rs \<or> tokens q s i = 0"
    using h(4) tokens_there [OF ok] by (metis fun_upd_other neq0_conv)
  show ?thesis
  proof (cases "rs' = rs \<and> create_token c' = None")
    case True
    show ?thesis
    proof (rule system_okI)
      show "tokens q' ?s n \<le> 1" for n
        using holders_update [OF k, of create_token n c'] None True h(3) system_okD(2) [OF ok, of n]
        by (simp add: tokens_def)
      show "Step_Invariants.create_ok rs' runs (sy_requests ?s ! n)" if "n < length (sy_requests ?s)" for n
        using that h(1) True system_okD(6) [OF ok, of n] by (cases "n = k") simp_all
    qed (use system_okD [OF ok] h True in simp_all)
  next
    case False
    with i h(4) have zero: "tokens q s i = 0" by blast
    then have free: "i \<notin> set q" "dispatcher_token (ps_dispatcher (sy_pool s)) \<noteq> Some i"
      "holders create_token i ?rq = 0" "holders worker_token i (ps_workers (sy_pool s)) = 0"
      using count_list_pos [of q i] by (auto simp: tokens_def split: if_splits)
    show ?thesis
    proof (rule system_okI)
      show "tokens q' ?s n \<le> 1" for n
        using holders_update [OF k, of create_token n c'] None h(3) system_okD(2) [OF ok, of n] i(2) zero
        by (auto simp: tokens_def split: if_splits)
      show "pending_row rs' runs n" if "n \<in> set q'" for n
        using pending_row_other [OF system_okD(3) [OF ok, of n], of i rs' runs] that free h(3) i(1) by auto
      show "pending_row rs' runs n" if "dispatcher_token (ps_dispatcher (sy_pool ?s)) = Some n" for n
        using pending_row_other [OF system_okD(4) [OF ok, of n], of i rs' runs] that free i(1) by auto
      show "worker_ok rs' runs (ps_workers (sy_pool ?s) ! n)" if "n < length (ps_workers (sy_pool ?s))" for n
      proof -
        from that have n: "n < length (ps_workers (sy_pool s))" by simp
        have "worker_token (ps_workers (sy_pool s) ! n) \<noteq> Some i"
          using holders_nth [OF n, of worker_token i] free(4) by auto
        from worker_ok_other [OF system_okD(5) [OF ok n] this i(1)] show ?thesis by simp
      qed
      show "Step_Invariants.create_ok rs' runs (sy_requests ?s ! n)" if "n < length (sy_requests ?s)" for n
      proof (cases "n = k")
        case True
        with k h(1) show ?thesis by simp
      next
        case False
        from that have n: "n < length ?rq" by simp
        have "create_token (?rq ! n) \<noteq> Some i" using holders_nth [OF n, of create_token i] free(3) by auto
        from create_ok_other [OF system_okD(6) [OF ok n] this i(1)] False show ?thesis by simp
      qed
    qed (use h(2) in simp)
  qed
qed

lemma system_ok_restart:
  assumes ok: "system_ok rs q runs s"
    and p: "ps_dispatcher p = DDequeue" "\<forall>pc \<in> set (ps_workers p). pc = WIdle"
  shows "system_ok rs q runs (s\<lparr>sy_pool := p\<rparr>)"
proof (rule system_okI)
  have "holders worker_token i (ps_workers p) = 0" for i
    using holders_idle p(2) by blast
  then show "tokens q (s\<lparr>sy_pool := p\<rparr>) i \<le> 1" for i
    using system_okD(2) [OF ok, of i] p(1) by (simp add: tokens_def)
  show "worker_ok rs runs (ps_workers (sy_pool (s\<lparr>sy_pool := p\<rparr>)) ! n)"
    if "n < length (ps_workers (sy_pool (s\<lparr>sy_pool := p\<rparr>)))" for n
  proof -
    from that p(2) have "ps_workers p ! n = WIdle" by auto
    then show ?thesis by simp
  qed
qed (use system_okD [OF ok] p in simp_all)

end
