(* ===== verification/System_World.thy ===== *)
theory System_World imports System begin

text \<open>
  The system of \<open>System\<close> over stores and ports that keep the laws of \<open>Ports\<close>: every step keeps the
  invariant, moves every row along the state machine, and so every reachable state has it.
\<close>

section \<open>What is shown of a step\<close>

definition system_good ::
  "('w \<Rightarrow> job_id \<Rightarrow> job option) \<Rightarrow> ('w \<Rightarrow> job_id list) \<Rightarrow> (job_id \<Rightarrow> nat) \<Rightarrow> system \<times> 'w \<Rightarrow> bool" where
  "system_good rows contents runs x \<longleftrightarrow> system_ok (rows (snd x)) (contents (snd x)) runs (fst x)
     \<and> length (ps_workers (sy_pool (fst x))) = WorkerCount"

text \<open>A row appears as pending, or it stays, or it moves along an edge.\<close>

definition row_evolved :: "job option \<Rightarrow> job option \<Rightarrow> bool" where
  "row_evolved r r' \<longleftrightarrow> row_moved r r' \<or> r = None \<and> (\<exists>j. r' = Some j \<and> ent_status j = StatusPending)"

lemma row_evolved_refl [simp]: "row_evolved r r"
  by (simp add: row_evolved_def)

text \<open>A row whose identifier nobody holds is left alone, and nobody comes to hold it.\<close>

definition orphans_kept ::
  "row_view \<Rightarrow> job_id list \<Rightarrow> system \<Rightarrow> row_view \<Rightarrow> job_id list \<Rightarrow> system \<Rightarrow> bool" where
  "orphans_kept rs q s rs' q' s' \<longleftrightarrow>
     (\<forall>n. rs n \<noteq> None \<longrightarrow> tokens q s n = 0 \<longrightarrow> rs' n = rs n \<and> tokens q' s' n = 0)"

lemma orphans_kept_le:
  assumes "\<And>n. rs n \<noteq> None \<Longrightarrow> tokens q' s' n \<le> tokens q s n \<and> (tokens q s n = 0 \<longrightarrow> rs' n = rs n)"
  shows "orphans_kept rs q s rs' q' s'"
  unfolding orphans_kept_def using assms by (metis le_zero_eq)

text \<open>How often the executor has been run on a job.\<close>

definition runs_in :: "system_event list \<Rightarrow> job_id \<Rightarrow> nat" where
  "runs_in evs i = count_list evs (EvPool (EvRan i))"

lemma runs_in_snoc: "runs_in (evs @ [ev]) = count_event ev (runs_in evs)"
  by (cases "(ev, runs_in evs)" rule: count_event.cases) (auto simp: runs_in_def fun_eq_iff)

section \<open>The system in its world\<close>

text \<open>Both processes act on the same stores. Taking from the queue does not touch the rows; logging and
  the context touch neither.\<close>

locale system_world =
  api: creating_world cc rows contents + work: processing_world uc rows contents effects
  + consumer: consumer_laws dequeue contents
  for cc :: "'w create_job" and uc :: "'w process_job" and dequeue :: "'w consumer_port"
    and rows :: "'w \<Rightarrow> job_id \<Rightarrow> job option" and contents :: "'w \<Rightarrow> job_id list" and effects :: "'w \<Rightarrow> 'e" +
  fixes lg :: "'w logger" and cx :: "'w process_context"
  assumes dequeue_rows: "dequeue w = (r, w') \<Longrightarrow> rows w' = rows w"
    and log_rows: "rows (lg l w) = rows w" and log_contents: "contents (lg l w) = contents w"
    and cancel_rows: "rows (ctx_cancel cx w) = rows w" and cancel_contents: "contents (ctx_cancel cx w) = contents w"
    and new_rows: "rows (ctx_new cx w) = rows w" and new_contents: "contents (ctx_new cx w) = contents w"
begin

lemma log_keeps [simp]:
  "rows (log_attrs lg lvl msg attrs w) = rows w" "contents (log_attrs lg lvl msg attrs w) = contents w"
  by (simp_all add: log_attrs_def log_rows log_contents)

lemma worker_log_keeps [simp]:
  "rows (log_attrs (worker_logger \<lparr>wk_id = n, wk_processor = p, wk_logger = lg\<rparr>) lvl msg attrs w) = rows w"
  "contents (log_attrs (worker_logger \<lparr>wk_id = n, wk_processor = p, wk_logger = lg\<rparr>) lvl msg attrs w)
     = contents w"
  by (simp_all add: log_attrs_def worker_logger_def logger_with_def log_rows log_contents)

lemma dequeue_effect:
  assumes "dispatcher_dequeue \<lparr>qd_consumer = dequeue, qd_logger = lg\<rparr> d w = (pc, w')"
  shows "rows w' = rows w
    \<and> (dispatcher_token pc = None \<and> (contents w' = contents w \<or> contents w' = tl (contents w))
       \<or> (\<exists>i. dispatcher_token pc = Some i \<and> contents w = i # contents w'))"
proof -
  obtain r w1 where d: "dequeue w = (r, w1)" by force
  note f = dequeue_rows [OF d]
  show ?thesis
  proof (cases r)
    case (Inl e)
    with assms d f consumer.dequeue_error [of w e w1] show ?thesis
      by (auto simp: dispatcher_dequeue_def dispatcher_return_def split: if_splits)
  next
    case (Inr i)
    with assms d f consumer.dequeue_ok [of w i w1] show ?thesis by (auto simp: dispatcher_dequeue_def)
  qed
qed

lemma returned_effect:
  assumes "worker_returned \<lparr>wk_id = n, wk_processor = p, wk_logger = lg\<rparr> d i r w = (pc, w')"
  shows "rows w' = rows w \<and> contents w' = contents w \<and> (pc = WIdle \<or> pc = WStopped)"
  using assms
  by (auto simp: worker_returned_def Let_def worker_done_def split: option.splits prod.splits if_splits)

lemma pool_step_good:
  assumes st: "pool_step words cx (pool_for dequeue uc lg) (sy_pool s, w) ev (p', w')"
    and ok: "system_ok (rows w) (contents w) runs s" and n: "length (ps_workers (sy_pool s)) = WorkerCount"
  shows "system_ok (rows w') (contents w') (count_event (EvPool ev) runs) (s\<lparr>sy_pool := p'\<rparr>)
    \<and> length (ps_workers p') = WorkerCount \<and> (\<forall>i. row_moved (rows w i) (rows w' i))
    \<and> orphans_kept (rows w) (contents w) s (rows w') (contents w') (s\<lparr>sy_pool := p'\<rparr>)"
    (is ?goal)
proof -
  have same: ?goal if "rows w' = rows w" "system_ok (rows w) (contents w') runs (s\<lparr>sy_pool := p'\<rparr>)"
    "count_event (EvPool ev) runs = runs" "length (ps_workers p') = WorkerCount"
    "\<And>n. tokens (contents w') (s\<lparr>sy_pool := p'\<rparr>) n \<le> tokens (contents w) s n"
    using that orphans_kept_le [OF conjI [OF that(5)], of "rows w" "rows w'"] by simp
  have free: ?goal if "ev = EvStopped k \<or> ev = EvNext k" "p' = sy_pool s\<lparr>ps_workers := (ps_workers (sy_pool s))[k := pc]\<rparr>"
    "k < length (ps_workers (sy_pool s))" "worker_token (ps_workers (sy_pool s) ! k) = None"
    "pc = WIdle \<or> pc = WStopped" "rows w' = rows w" "contents w' = contents w" for k pc
  proof (rule same)
    show "system_ok (rows w) (contents w') runs (s\<lparr>sy_pool := p'\<rparr>)"
      unfolding that(2,7) by (rule system_ok_worker_free [OF ok that(3,4)]) (use that(5) in auto)
    show "tokens (contents w') (s\<lparr>sy_pool := p'\<rparr>) n \<le> tokens (contents w) s n" for n
      unfolding that(2,7) by (rule eq_refl, rule tokens_worker_free [OF that(3,4)]) (use that(5) in auto)
  qed (use that n in auto)
  have stopped: ?goal if "ev = EvReturned \<or> ev = EvDropped i" "p' = sy_pool s\<lparr>ps_dispatcher := pc\<rparr>"
    "dispatcher_return (pool_dispatcher (pool_for dequeue uc lg)) w = (pc, w')" for i pc
  proof (rule same)
    from that(3) have r: "pc = DStopped" "rows w' = rows w" "contents w' = contents w"
      by (auto simp: dispatcher_return_def)
    show "rows w' = rows w" by (rule r)
    show "system_ok (rows w) (contents w') runs (s\<lparr>sy_pool := p'\<rparr>)"
      unfolding that(2) r by (rule system_ok_dispatcher [OF ok]) simp
    show "tokens (contents w') (s\<lparr>sy_pool := p'\<rparr>) n \<le> tokens (contents w) s n" for n
      unfolding that(2) r by (rule tokens_dispatcher) simp
  qed (use that n in auto)
  from st show ?thesis
  proof (rule pool_stepE)
    fix pc
    assume h: "ev = EvDequeue" "p' = sy_pool s\<lparr>ps_dispatcher := pc\<rparr>" "ps_dispatcher (sy_pool s) = DDequeue"
      "dispatcher_dequeue (pool_dispatcher (pool_for dequeue uc lg)) (ctx_done cx) w = (pc, w')"
    from h(4) have "dispatcher_dequeue \<lparr>qd_consumer = dequeue, qd_logger = lg\<rparr> (ctx_done cx) w = (pc, w')" by simp
    note e = dequeue_effect [OF this]
    show ?thesis
    proof (rule same)
      show "system_ok (rows w) (contents w') runs (s\<lparr>sy_pool := p'\<rparr>)"
        unfolding h(2) by (rule system_ok_dispatcher [OF ok]) (use e h(3) in auto)
      show "tokens (contents w') (s\<lparr>sy_pool := p'\<rparr>) n \<le> tokens (contents w) s n" for n
        unfolding h(2) by (rule tokens_dispatcher) (use e h(3) in auto)
    qed (use e h n in simp_all)
  next
    assume h: "ev = EvWaited" "p' = sy_pool s\<lparr>ps_dispatcher := DDequeue\<rparr>" "w' = w"
    show ?thesis
    proof (rule same)
      show "system_ok (rows w) (contents w') runs (s\<lparr>sy_pool := p'\<rparr>)"
        unfolding h(2,3) by (rule system_ok_dispatcher [OF ok]) simp
      show "tokens (contents w') (s\<lparr>sy_pool := p'\<rparr>) n \<le> tokens (contents w) s n" for n
        unfolding h(2,3) by (rule tokens_dispatcher) simp
    qed (use h n in simp_all)
  next
    fix pc
    assume h: "ev = EvReturned" "p' = sy_pool s\<lparr>ps_dispatcher := pc\<rparr>"
      "dispatcher_return (pool_dispatcher (pool_for dequeue uc lg)) w = (pc, w')"
    show ?thesis by (rule stopped [of undefined]) (use h in simp_all)
  next
    fix i k wpc w1 pc
    assume h: "ev = EvSent k" "p' = sy_pool s\<lparr>ps_dispatcher := pc, ps_workers := (ps_workers (sy_pool s))[k := wpc]\<rparr>"
      "ps_dispatcher (sy_pool s) = DSend i" "k < length (ps_workers (sy_pool s))" "ps_workers (sy_pool s) ! k = WIdle"
      "worker_received (pool_workers (pool_for dequeue uc lg) ! k) i w = (wpc, w1)"
      "dispatcher_sent (pool_dispatcher (pool_for dequeue uc lg)) i w1 = (pc, w')"
    have r: "wpc = WBusy i (PStart i)" "pc = DDequeue" "rows w' = rows w" "contents w' = contents w"
      using h(4,6,7) n by (auto simp: worker_received_def dispatcher_sent_def)
    have idle: "worker_token (ps_workers (sy_pool s) ! k) = None" using h(5) by simp
    show ?thesis
    proof (rule same)
      show "system_ok (rows w) (contents w') runs (s\<lparr>sy_pool := p'\<rparr>)"
        unfolding h(2) r(1,2,4) by (rule system_ok_sent [OF ok h(4,3) idle])
      show "tokens (contents w') (s\<lparr>sy_pool := p'\<rparr>) n \<le> tokens (contents w) s n" for n
        unfolding h(2) r(1,2,4) by (rule eq_refl, rule tokens_sent [OF h(4,3) idle])
    qed (use r h n in simp_all)
  next
    fix i pc
    assume h: "ev = EvDropped i" "p' = sy_pool s\<lparr>ps_dispatcher := pc\<rparr>"
      "dispatcher_return (pool_dispatcher (pool_for dequeue uc lg)) w = (pc, w')"
    show ?thesis by (rule stopped [of i]) (use h in simp_all)
  next
    fix k wpc
    assume h: "ev = EvStopped k" "p' = sy_pool s\<lparr>ps_workers := (ps_workers (sy_pool s))[k := wpc]\<rparr>"
      "k < length (ps_workers (sy_pool s))" "ps_workers (sy_pool s) ! k = WIdle"
      "worker_done (pool_workers (pool_for dequeue uc lg) ! k) w = (wpc, w')"
    have "wpc = WStopped" "rows w' = rows w" "contents w' = contents w"
      using h(3,5) n by (auto simp: worker_done_def)
    then show ?thesis by (intro free [OF _ h(2,3)]) (use h(1,4) in simp_all)
  next
    fix k wpc
    assume h: "ev = EvStopped k" "p' = sy_pool s\<lparr>ps_workers := (ps_workers (sy_pool s))[k := wpc]\<rparr>"
      "k < length (ps_workers (sy_pool s))" "ps_workers (sy_pool s) ! k = WIdle"
      "worker_closed (pool_workers (pool_for dequeue uc lg) ! k) w = (wpc, w')"
    have "wpc = WStopped" "rows w' = rows w" "contents w' = contents w"
      using h(3,5) n by (auto simp: worker_closed_def)
    then show ?thesis by (intro free [OF _ h(2,3)]) (use h(1,4) in simp_all)
  next
    fix k i p q
    assume h: "ev = call_event k p" "p' = sy_pool s\<lparr>ps_workers := (ps_workers (sy_pool s))[k := WBusy i q]\<rparr>"
      "k < length (ps_workers (sy_pool s))" "ps_workers (sy_pool s) ! k = WBusy i p" "\<forall>r. p \<noteq> PDone r"
      "proc_step words (wk_processor (pool_workers (pool_for dequeue uc lg) ! k)) p w = (q, w')"
    have w: "proc_ok (rows w) runs p" "proc_token p = Some i"
      using system_okD(5) [OF ok h(3)] h(4,5) proc_token_None [of p] by auto
    have st: "proc_step words uc p w = (q, w')" using h(3,6) n by simp
    from work.proc_step_moved [OF st w(2,1) system_okD(1) [OF ok]]
    have m: "\<And>l. l \<noteq> i \<Longrightarrow> rows w' l = rows w l" "row_moved (rows w i) (rows w' i)"
      "rows_ok (rows w') (count_run p runs)" "proc_ok (rows w') (count_run p runs) q"
      "proc_token q = Some i \<and> contents w' = contents w
        \<or> proc_token q = None \<and> (contents w' = contents w
          \<or> contents w' = contents w @ [i] \<and> pending_row (rows w') (count_run p runs) i)"
      unfolding proc_moved_def by blast+
    have new: "worker_ok (rows w') (count_run p runs) (WBusy i q)"
      using m(4,5) by auto
    have "system_ok (rows w') (contents w') (count_run p runs)
        (s\<lparr>sy_pool := (sy_pool s)\<lparr>ps_workers := (ps_workers (sy_pool s))[k := WBusy i q]\<rparr>\<rparr>)"
      by (rule system_ok_worker [OF ok h(3) _ m(1) _ m(3) new])
        (use h(4) w(2) m(5) count_run_other [OF w(2)] in auto)
    moreover have "row_moved (rows w l) (rows w' l)" for l
      using m(1,2) by (cases "l = i") auto
    moreover have "orphans_kept (rows w) (contents w) s (rows w') (contents w')
        (s\<lparr>sy_pool := (sy_pool s)\<lparr>ps_workers := (ps_workers (sy_pool s))[k := WBusy i q]\<rparr>\<rparr>)"
    proof (rule orphans_kept_le, intro conjI impI)
      fix l
      have hold: "worker_token (ps_workers (sy_pool s) ! k) = Some i" using h(4) w(2) by simp
      show "tokens (contents w') (s\<lparr>sy_pool := (sy_pool s)\<lparr>ps_workers := (ps_workers (sy_pool s))[k := WBusy i q]\<rparr>\<rparr>) l
          \<le> tokens (contents w) s l"
        by (rule tokens_worker [OF h(3) hold]) (use m(5) in auto)
      show "rows w' l = rows w l" if "tokens (contents w) s l = 0"
        using that tokens_worker_held [OF h(3) hold, of "contents w"] m(1) by (cases "l = i") auto
    qed
    ultimately show ?thesis using h(1,2) n by (simp add: count_event_call)
  next
    fix k i r wpc
    assume h: "ev = EvNext k" "p' = sy_pool s\<lparr>ps_workers := (ps_workers (sy_pool s))[k := wpc]\<rparr>"
      "k < length (ps_workers (sy_pool s))" "ps_workers (sy_pool s) ! k = WBusy i (PDone r)"
      "worker_returned (pool_workers (pool_for dequeue uc lg) ! k) (ctx_done cx) i r w = (wpc, w')"
    have "worker_returned \<lparr>wk_id = int k + 1, wk_processor = uc, wk_logger = lg\<rparr> (ctx_done cx) i r w = (wpc, w')"
      using h(3,5) n by simp
    from returned_effect [OF this] show ?thesis by (intro free [OF _ h(2,3)]) (use h(1,4) in simp_all)
  next
    assume h: "ev = EvSignal" "p' = sy_pool s" "w' = ctx_cancel cx w"
    show ?thesis by (rule same) (use h ok n in \<open>simp_all add: cancel_rows cancel_contents\<close>)
  qed
qed

text \<open>Starting a pool gives a dispatcher about to dequeue and workers that are idle.\<close>

lemma workers_start_effect:
  assumes "\<forall>wk \<in> set wks. wk_logger wk = lg" "workers_start wks w = (pcs, w')"
  shows "length pcs = length wks \<and> (\<forall>pc \<in> set pcs. pc = WIdle) \<and> rows w' = rows w \<and> contents w' = contents w"
  using assms
proof (induction wks arbitrary: w w' pcs)
  case (Cons wk wks)
  obtain n p where wk: "wk = \<lparr>wk_id = n, wk_processor = p, wk_logger = lg\<rparr>"
    using Cons.prems(1) by (cases wk) auto
  let ?w1 = "log_attrs (worker_logger wk) LevelInfo ''processing worker started'' [] w"
  obtain pcs1 w1 where r: "workers_start wks ?w1 = (pcs1, w1)" by force
  have keeps: "rows ?w1 = rows w" "contents ?w1 = contents w" unfolding wk by simp_all
  have "pcs = WIdle # pcs1" "w' = w1" using Cons.prems(2) r by (simp_all add: worker_start_def)
  with Cons.IH [OF _ r] Cons.prems(1) keeps show ?case by simp
qed simp

lemma pool_start_effect:
  assumes "pool_start (pool_for dequeue uc lg) w = (p, w')"
  shows "ps_dispatcher p = DDequeue \<and> (\<forall>pc \<in> set (ps_workers p). pc = WIdle)
    \<and> length (ps_workers p) = WorkerCount \<and> rows w' = rows w \<and> contents w' = contents w"
proof -
  let ?w1 = "log_attrs lg LevelInfo ''worker pool started'' [AttrInt ''worker_count'' (int WorkerCount)] w"
  obtain pcs w2 where r: "workers_start (pool_workers (pool_for dequeue uc lg)) ?w1 = (pcs, w2)" by force
  have "\<forall>wk \<in> set (pool_workers (pool_for dequeue uc lg)). wk_logger wk = lg" by (simp add: pool_for_def)
  from workers_start_effect [OF this r]
  have e: "length pcs = WorkerCount" "\<forall>pc \<in> set pcs. pc = WIdle" "rows w2 = rows w" "contents w2 = contents w"
    by simp_all
  have "p = \<lparr>ps_dispatcher = DDequeue, ps_workers = pcs\<rparr>"
    "w' = log_attrs lg LevelInfo ''queue dispatcher started'' [] w2"
    using assms r by (simp_all add: pool_start_def Let_def dispatcher_start_def)
  with e show ?thesis by simp
qed

lemma create_moved_rows:
  assumes "create_moved t rs q rs' runs q' c'"
  shows "row_evolved (rs i) (rs' i)"
proof (cases t)
  case None
  with assms have "rs' = rs \<or> (\<exists>k j'. rs k = None \<and> rs' = rs(k \<mapsto> j') \<and> ent_status j' = StatusPending)"
    unfolding create_moved_def by auto
  then show ?thesis
  proof (elim disjE exE conjE)
    fix k j' assume "rs k = None" "rs' = rs(k \<mapsto> j')" "ent_status j' = StatusPending"
    then show ?thesis by (cases "i = k") (simp_all add: row_evolved_def)
  qed simp
next
  case (Some k)
  with assms show ?thesis by (simp add: create_moved_def)
qed

theorem system_step_good:
  assumes st: "system_step words cx (pool_for dequeue uc lg) cc (s, w) ev (s', w')"
    and good: "system_good rows contents runs (s, w)"
  shows "system_good rows contents (count_event ev runs) (s', w') \<and> (\<forall>i. row_evolved (rows w i) (rows w' i))
    \<and> orphans_kept (rows w) (contents w) s (rows w') (contents w') s'"
proof -
  from good have ok: "system_ok (rows w) (contents w) runs s" and n: "length (ps_workers (sy_pool s)) = WorkerCount"
    by (simp_all add: system_good_def)
  from st show ?thesis
  proof (rule system_stepE)
    fix pev p'
    assume h: "ev = EvPool pev" "s' = s\<lparr>sy_pool := p'\<rparr>"
      "pool_step words cx (pool_for dequeue uc lg) (sy_pool s, w) pev (p', w')"
    from pool_step_good [OF h(3) ok n] show ?thesis unfolding system_good_def h(1,2) row_evolved_def by simp
  next
    fix input
    assume h: "ev = EvRequest input" "s' = s\<lparr>sy_requests := sy_requests s @ [CStart input]\<rparr>" "w' = w"
    have "system_ok (rows w) (contents w) runs s'"
    proof (rule system_okI)
      show "tokens (contents w) s' i \<le> 1" for i
        using system_okD(2) [OF ok, of i] h(2) by (simp add: tokens_def)
      show "Step_Invariants.create_ok (rows w) runs (sy_requests s' ! k)" if "k < length (sy_requests s')" for k
        using system_okD(6) [OF ok, of k] h(2) that by (cases "k < length (sy_requests s)") (simp_all add: nth_append)
    qed (use system_okD [OF ok] h(2) in simp_all)
    moreover have "orphans_kept (rows w) (contents w) s (rows w) (contents w) s'"
      by (rule orphans_kept_le) (simp add: h(2) tokens_def)
    ultimately show ?thesis using h n unfolding system_good_def by simp
  next
    fix k c'
    assume h: "ev = EvHandled k" "s' = s\<lparr>sy_requests := (sy_requests s)[k := c']\<rparr>" "k < length (sy_requests s)"
      "create_step cc (sy_requests s ! k) w = (c', w')"
    note mv = api.create_step_moved [OF h(4) system_okD(6) [OF ok h(3)] system_okD(1) [OF ok]]
    show ?thesis
      using system_ok_request [OF ok h(3) mv] create_moved_rows [OF mv] n
        orphans_kept_le [of "rows w" "contents w'" "s\<lparr>sy_requests := (sy_requests s)[k := c']\<rparr>" "contents w" s "rows w'"]
        tokens_request [OF h(3) mv]
      unfolding system_good_def h(1,2) by simp
  next
    fix p'
    assume h: "ev = EvWorkerRestart" "s' = s\<lparr>sy_pool := p'\<rparr>"
      "pool_start (pool_for dequeue uc lg) (ctx_new cx w) = (p', w')"
    note e = pool_start_effect [OF h(3)]
    have k: "rows w' = rows w" "contents w' = contents w" using e by (simp_all add: new_rows new_contents)
    have "system_ok (rows w) (contents w) runs (s\<lparr>sy_pool := p'\<rparr>)"
      by (rule system_ok_restart [OF ok]) (use e in simp_all)
    moreover have "orphans_kept (rows w) (contents w) s (rows w) (contents w) (s\<lparr>sy_pool := p'\<rparr>)"
      by (rule orphans_kept_le) (use holders_idle [of "ps_workers p'"] e in \<open>simp add: tokens_def\<close>)
    ultimately show ?thesis using e k h unfolding system_good_def by simp
  next
    assume h: "ev = EvApiRestart" "s' = s\<lparr>sy_requests := []\<rparr>" "w' = w"
    have "system_ok (rows w) (contents w) runs s'"
    proof (rule system_okI)
      show "tokens (contents w) s' i \<le> 1" for i
        using system_okD(2) [OF ok, of i] h(2) by (simp add: tokens_def)
    qed (use system_okD [OF ok] h(2) in simp_all)
    moreover have "orphans_kept (rows w) (contents w) s (rows w) (contents w) s'"
      by (rule orphans_kept_le) (simp add: h(2) tokens_def)
    ultimately show ?thesis using h n unfolding system_good_def by simp
  qed
qed

theorem system_run_good:
  assumes "system_run words cx (pool_for dequeue uc lg) cc (s, w) evs (s', w')" "system_good rows contents (\<lambda>_. 0) (s, w)"
  shows "system_good rows contents (runs_in evs) (s', w')"
proof -
  have "system_good rows contents (runs_in evs) y"
    if "system_run words cx (pool_for dequeue uc lg) cc x evs y" "system_good rows contents (\<lambda>_. 0) x" for x y
    using that
  proof (induction rule: system_run.induct)
    case (srun_refl x)
    then show ?case by (simp add: runs_in_def)
  next
    case (srun_step x evs y ev z)
    obtain s1 w1 s2 w2 where yz: "y = (s1, w1)" "z = (s2, w2)" by (cases y, cases z)
    from srun_step system_step_good [of words s1 w1 ev s2 w2 "runs_in evs"] show ?case
      by (simp add: yz runs_in_snoc)
  qed
  from this [OF assms] show ?thesis .
qed

text \<open>A start: a pool just started, no request in progress, and the stores as some earlier run may have
  left them. Nothing is asked of the rows that are not queued.\<close>

lemma initial_good:
  assumes rows: "\<And>i j. rows w i = Some j \<Longrightarrow> wf_job j \<and> ent_id j = i \<and> max_retries j = DefaultMaxRetries"
    and queue: "distinct (contents w)"
      "\<And>i. i \<in> set (contents w) \<Longrightarrow> \<exists>j. rows w i = Some j \<and> ent_status j = StatusPending"
    and s: "sy_requests s = []" "pool_start (pool_for dequeue uc lg) w0 = (sy_pool s, w)"
  shows "system_good rows contents (\<lambda>_. 0) (s, w)"
proof -
  note e = pool_start_effect [OF s(2)]
  have "system_ok (rows w) (contents w) (\<lambda>_. 0) s"
  proof (rule system_okI)
    show "rows_ok (rows w) (\<lambda>_. 0)"
      unfolding rows_ok_def
    proof
      fix i
      have "0 \<le> retry_count j" if "rows w i = Some j" for j using rows [OF that] by (simp add: wf_job_def)
      with rows show "case rows w i of None \<Rightarrow> (0::nat) = 0
          | Some j \<Rightarrow> wf_job j \<and> max_retries j = DefaultMaxRetries \<and> int 0 \<le> retry_count j + 1"
        by (fastforce split: option.split)
    qed
    show "pending_row (rows w) (\<lambda>_. 0) i" if "i \<in> set (contents w)" for i
      unfolding pending_row_def using queue(2) [OF that] rows by (auto simp: wf_job_def)
    have "holders worker_token i (ps_workers (sy_pool s)) = 0" for i
      using holders_idle e by blast
    then show "tokens (contents w) s i \<le> 1" for i
      using distinct_count_le [OF queue(1), of i] e s(1) by (simp add: tokens_def)
    show "worker_ok (rows w) (\<lambda>_. 0) (ps_workers (sy_pool s) ! k)"
      if "k < length (ps_workers (sy_pool s))" for k
    proof -
      from that e have "ps_workers (sy_pool s) ! k = WIdle" by auto
      then show ?thesis by simp
    qed
  qed (use e s(1) in simp_all)
  then show ?thesis using e by (simp add: system_good_def)
qed

text \<open>An orphan stays one, whatever the system goes on to do.\<close>

theorem system_run_orphans:
  assumes "system_run words cx (pool_for dequeue uc lg) cc (s, w) evs (s', w')"
    "system_good rows contents runs (s, w)"
  shows "orphans_kept (rows w) (contents w) s (rows w') (contents w') s'
    \<and> (\<exists>runs'. system_good rows contents runs' (s', w'))"
proof -
  have "orphans_kept (rows (snd x)) (contents (snd x)) (fst x) (rows (snd y)) (contents (snd y)) (fst y)
      \<and> (\<exists>runs'. system_good rows contents runs' y)"
    if "system_run words cx (pool_for dequeue uc lg) cc x evs y" "system_good rows contents runs x" for x y
    using that
  proof (induction rule: system_run.induct)
    case (srun_refl x)
    then show ?case by (auto simp: orphans_kept_def)
  next
    case (srun_step x evs y ev z)
    obtain s1 w1 s2 w2 where yz: "y = (s1, w1)" "z = (s2, w2)" by (cases y, cases z)
    from srun_step(3,4) obtain runs' where g: "system_good rows contents runs' (s1, w1)"
      and o: "orphans_kept (rows (snd x)) (contents (snd x)) (fst x) (rows w1) (contents w1) s1"
      by (auto simp: yz)
    from system_step_good [OF srun_step(2) [unfolded yz] g] o show ?case
      unfolding yz orphans_kept_def by auto
  qed
  from this [OF assms] show ?thesis by simp
qed

end

end
