(* ===== verification/Mysql_Repository.thy ===== *)
theory Mysql_Repository imports Ports begin

text \<open>
  \<open>internal/adapters/mysql\<close>: the row of a job (\<open>job_model.go\<close>), the two mappings
  (\<open>job_mapper.go\<close>) and the repository (\<open>job_repository.go\<close>) over the GORM operations it calls,
  which are a parameter: \<open>Create\<close>, \<open>Where("id = ?").First\<close> and
  \<open>Where("id = ?").Select(columns).Updates\<close>, each with the request's context in the world.

  \<open>gorm_jobs\<close> states what the repository relies on of GORM, the driver and the table of
  \<open>migrations/\<close>; from it follow the repository's laws of \<open>Ports\<close>.
\<close>

section \<open>Rows\<close>

record job_record =
  rec_id :: gostring
  rec_type :: gostring
  rec_status :: gostring
  rec_payload :: gostring
  rec_retry_count :: int
  rec_max_retries :: int
  rec_last_error :: "gostring option"
  rec_created_at :: gotime
  rec_updated_at :: gotime
  rec_started_at :: "gotime option"
  rec_completed_at :: "gotime option"

definition job_record_from_domain :: "job option \<Rightarrow> goerror + job_record" where
  "job_record_from_domain entity =
     (case entity of
        None \<Rightarrow> Inl (Sentinel ErrNilJob)
      | Some j \<Rightarrow>
          Inr \<lparr>rec_id = ent_id j, rec_type = ent_type j, rec_status = ent_status j,
            rec_payload = ent_payload j, rec_retry_count = retry_count j,
            rec_max_retries = max_retries j, rec_last_error = last_error j,
            rec_created_at = created_at j, rec_updated_at = updated_at j,
            rec_started_at = started_at j, rec_completed_at = completed_at j\<rparr>)"

definition job_record_to_domain :: "job_record \<Rightarrow> goerror + job" where
  "job_record_to_domain r =
     (case parse_id (rec_id r) of Inl e \<Rightarrow> Inl (wrap ''map persisted job ID'' e)
      | Inr jobid \<Rightarrow>
     (case parse_type (rec_type r) of Inl e \<Rightarrow> Inl (wrap ''map persisted job type'' e)
      | Inr job_type \<Rightarrow>
     (case parse_status (rec_status r) of Inl e \<Rightarrow> Inl (wrap ''map persisted job status'' e)
      | Inr st \<Rightarrow>
     (case restore_job \<lparr>rp_id = jobid, rp_type = job_type, rp_status = st,
             rp_payload = rec_payload r, rp_retry_count = rec_retry_count r,
             rp_max_retries = rec_max_retries r, rp_last_error = rec_last_error r,
             rp_created_at = rec_created_at r, rp_updated_at = rec_updated_at r,
             rp_started_at = rec_started_at r, rp_completed_at = rec_completed_at r\<rparr>
      of Inl e \<Rightarrow> Inl (wrap ''restore persisted job'' e)
       | Inr entity \<Rightarrow> Inr entity))))"

section \<open>The repository\<close>

record 'w gorm =
  gorm_create :: "job_record \<Rightarrow> 'w \<Rightarrow> goerror option \<times> 'w"
  gorm_first :: "gostring \<Rightarrow> 'w \<Rightarrow> (goerror + job_record) \<times> 'w"
  gorm_updates :: "gostring \<Rightarrow> gostring list \<Rightarrow> job_record \<Rightarrow> 'w \<Rightarrow> (goerror option \<times> int) \<times> 'w"

definition new_job_repository :: "'w gorm option \<Rightarrow> goerror + 'w gorm" where
  "new_job_repository db =
     (case db of None \<Rightarrow> Inl (NewError ''GORM database must not be nil'') | Some g \<Rightarrow> Inr g)"

definition repository_create :: "'w gorm \<Rightarrow> job option \<Rightarrow> 'w \<Rightarrow> goerror option \<times> 'w" where
  "repository_create db entity w =
     (case job_record_from_domain entity of
        Inl e \<Rightarrow> (Some (wrap ''map job for creation'' e), w)
      | Inr r \<Rightarrow>
     (case gorm_create db r w of
        (Some e, w) \<Rightarrow>
          if errors_is e ErrDuplicatedKey
          then (Some (Errorf [Arg_w (Sentinel ErrJobAlreadyExists), Lit '': '', Arg_s (rec_id r)]), w)
          else (Some (Errorf [Lit ''create job '', Arg_s (rec_id r), Lit '': '', Arg_w e]), w)
      | (None, w) \<Rightarrow> (None, w)))"

definition repository_get_by_id :: "'w gorm \<Rightarrow> job_id \<Rightarrow> 'w \<Rightarrow> (goerror + job) \<times> 'w" where
  "repository_get_by_id db i w =
     (if \<not> id_is_valid i
      then (Inl (Errorf [Arg_w (Sentinel ErrInvalidID), Lit '': '', Arg_q i]), w)
      else
     (case gorm_first db i w of
        (Inl e, w) \<Rightarrow>
          if errors_is e ErrRecordNotFound
          then (Inl (Errorf [Arg_w (Sentinel ErrJobNotFound), Lit '': '', Arg_s i]), w)
          else (Inl (Errorf [Lit ''get job '', Arg_s i, Lit '': '', Arg_w e]), w)
      | (Inr r, w) \<Rightarrow>
     (case job_record_to_domain r of
        Inl e \<Rightarrow> (Inl (Errorf [Lit ''map job '', Arg_s i, Lit '' from persistence: '', Arg_w e]), w)
      | Inr entity \<Rightarrow> (Inr entity, w))))"

definition updated_columns :: "gostring list" where
  "updated_columns = [''status'', ''retry_count'', ''max_retries'', ''last_error'', ''updated_at'',
     ''started_at'', ''completed_at'']"

definition repository_update :: "'w gorm \<Rightarrow> job option \<Rightarrow> 'w \<Rightarrow> goerror option \<times> 'w" where
  "repository_update db entity w =
     (case job_record_from_domain entity of
        Inl e \<Rightarrow> (Some (wrap ''map job for update'' e), w)
      | Inr r \<Rightarrow>
     (case gorm_updates db (rec_id r) updated_columns r w of
        ((Some e, n), w) \<Rightarrow>
          (Some (Errorf [Lit ''update job '', Arg_s (rec_id r), Lit '': '', Arg_w e]), w)
      | ((None, n), w) \<Rightarrow>
          if n = 0
          then (Some (Errorf [Arg_w (Sentinel ErrJobNotFound), Lit '': '', Arg_s (rec_id r)]), w)
          else (None, w)))"

definition mysql_repository :: "'w gorm \<Rightarrow> 'w repository_port" where
  "mysql_repository db =
     \<lparr>repo_create = \<lambda>j. repository_create db (Some j), repo_get = repository_get_by_id db,
      repo_update = \<lambda>j. repository_update db (Some j)\<rparr>"

section \<open>Round trip of the mappings\<close>

lemma from_domain_Some: "job_record_from_domain (Some j) = Inr r \<longleftrightarrow>
    r = \<lparr>rec_id = ent_id j, rec_type = ent_type j, rec_status = ent_status j,
            rec_payload = ent_payload j, rec_retry_count = retry_count j,
            rec_max_retries = max_retries j, rec_last_error = last_error j,
            rec_created_at = created_at j, rec_updated_at = updated_at j,
            rec_started_at = started_at j, rec_completed_at = completed_at j\<rparr>"
  by (auto simp: job_record_from_domain_def)

lemma to_domain_ok:
  assumes "job_record_to_domain r = Inr j"
  shows "wf_job j \<and> id_is_valid (ent_id j) \<and> ent_id j = trim_space (rec_id r)
    \<and> parse_type (rec_type r) = Inr (ent_type j) \<and> parse_status (rec_status r) = Inr (ent_status j)
    \<and> ent_payload j = rec_payload r \<and> retry_count j = rec_retry_count r
    \<and> max_retries j = rec_max_retries r \<and> last_error j = rec_last_error r
    \<and> created_at j = utc (rec_created_at r) \<and> updated_at j = utc (rec_updated_at r)
    \<and> started_at j = map_option utc (rec_started_at r)
    \<and> completed_at j = map_option utc (rec_completed_at r)"
proof -
  from assms obtain i t st p where p: "parse_id (rec_id r) = Inr i" "parse_type (rec_type r) = Inr t"
    "parse_status (rec_status r) = Inr st" "restore_job p = Inr j"
    "p = \<lparr>rp_id = i, rp_type = t, rp_status = st,
             rp_payload = rec_payload r, rp_retry_count = rec_retry_count r,
             rp_max_retries = rec_max_retries r, rp_last_error = rec_last_error r,
             rp_created_at = rec_created_at r, rp_updated_at = rec_updated_at r,
             rp_started_at = rec_started_at r, rp_completed_at = rec_completed_at r\<rparr>"
    by (auto simp: job_record_to_domain_def split: sum.splits)
  have "params_of j = p\<lparr>rp_created_at := utc (rp_created_at p), rp_updated_at := utc (rp_updated_at p),
     rp_started_at := map_option utc (rp_started_at p),
     rp_completed_at := map_option utc (rp_completed_at p)\<rparr>"
    using p(4) by (auto simp: restore_job_def params_of_def split: if_splits option.splits)
  with p wf_restore_job [OF p(4)] parse_id_ok [OF p(1)] show ?thesis
    by (auto simp: params_of_def)
qed

text \<open>Reading a row back succeeds on every row whose fields are those of a well-formed job.\<close>

lemma to_domain_complete:
  assumes "wf_job j" "rec_id r = ent_id j" "parse_type (rec_type r) = Inr (ent_type j)"
    "parse_status (rec_status r) = Inr (ent_status j)" "rec_payload r = ent_payload j"
    "rec_retry_count r = retry_count j" "rec_max_retries r = max_retries j"
    "rec_last_error r = last_error j" "utc (rec_created_at r) = created_at j"
    "utc (rec_updated_at r) = updated_at j" "map_option utc (rec_started_at r) = started_at j"
    "map_option utc (rec_completed_at r) = completed_at j"
  shows "job_record_to_domain r = Inr j"
proof -
  let ?p = "\<lparr>rp_id = ent_id j, rp_type = ent_type j, rp_status = ent_status j,
             rp_payload = rec_payload r, rp_retry_count = rec_retry_count r,
             rp_max_retries = rec_max_retries r, rp_last_error = rec_last_error r,
             rp_created_at = rec_created_at r, rp_updated_at = rec_updated_at r,
             rp_started_at = rec_started_at r, rp_completed_at = rec_completed_at r\<rparr>"
  have id: "parse_id (rec_id r) = Inr (ent_id j)"
    using assms(1,2) by (simp add: parse_id_valid wf_job_def)
  have zero: "is_zero (rec_created_at r) = is_zero (created_at j)"
    "is_zero (rec_updated_at r) = is_zero (updated_at j)"
    "before (rec_updated_at r) (rec_created_at r) = before (updated_at j) (created_at j)"
    by (simp_all flip: assms(9,10))
  have opt: "\<not> is_zero t" if "rec_started_at r = Some t \<or> rec_completed_at r = Some t" for t
    using assms(1) that unfolding wf_job_def by (auto simp flip: assms(11,12))
  have "restore_job ?p = Inr j"
    using assms zero opt unfolding wf_job_def restore_job_def
    by (auto split: option.splits)
  then show ?thesis using assms(3,4) id by (simp add: job_record_to_domain_def)
qed

lemma mapping_round_trip:
  assumes "wf_job j" "job_record_from_domain (Some j) = Inr r"
  shows "job_record_to_domain r = Inr j"
proof (rule to_domain_complete [OF assms(1)])
  show "map_option utc (rec_started_at r) = started_at j"
    "map_option utc (rec_completed_at r) = completed_at j"
    using assms by (cases "started_at j"; cases "completed_at j";
        auto simp: from_domain_Some wf_job_def utc_id)+
qed (use assms in \<open>auto simp: from_domain_Some wf_job_def parse_type_valid parse_status_valid utc_id\<close>)

section \<open>What the repository relies on\<close>

text \<open>The row that an update of the given columns asks for.\<close>

definition merge_columns :: "gostring list \<Rightarrow> job_record \<Rightarrow> job_record \<Rightarrow> job_record" where
  "merge_columns cols r r0 =
     \<lparr>rec_id = rec_id r0,
      rec_type = (if ''type'' \<in> set cols then rec_type r else rec_type r0),
      rec_status = (if ''status'' \<in> set cols then rec_status r else rec_status r0),
      rec_payload = (if ''payload'' \<in> set cols then rec_payload r else rec_payload r0),
      rec_retry_count = (if ''retry_count'' \<in> set cols then rec_retry_count r else rec_retry_count r0),
      rec_max_retries = (if ''max_retries'' \<in> set cols then rec_max_retries r else rec_max_retries r0),
      rec_last_error = (if ''last_error'' \<in> set cols then rec_last_error r else rec_last_error r0),
      rec_created_at = (if ''created_at'' \<in> set cols then rec_created_at r else rec_created_at r0),
      rec_updated_at = (if ''updated_at'' \<in> set cols then rec_updated_at r else rec_updated_at r0),
      rec_started_at = (if ''started_at'' \<in> set cols then rec_started_at r else rec_started_at r0),
      rec_completed_at =
        (if ''completed_at'' \<in> set cols then rec_completed_at r else rec_completed_at r0)\<rparr>"

text \<open>
  What a row keeps of the values written to it. Text and numbers are stored as they are; a JSON column
  normalises its document, which stays a valid one; a \<open>DATETIME(6)\<close> column rounds, which keeps
  the zero time apart from the others and the order of two times of one row, and GORM
  stamps \<open>updated_at\<close> with its own clock, which is not behind the row's \<open>created_at\<close>.
\<close>

definition column_kept :: "job_record \<Rightarrow> job_record \<Rightarrow> bool" where
  "column_kept r s \<longleftrightarrow>
     rec_id s = rec_id r \<and> rec_type s = rec_type r \<and> rec_status s = rec_status r
     \<and> rec_retry_count s = rec_retry_count r \<and> rec_max_retries s = rec_max_retries r
     \<and> rec_last_error s = rec_last_error r
     \<and> (validate_payload (rec_payload r) = None \<longrightarrow> validate_payload (rec_payload s) = None)
     \<and> (is_zero (rec_created_at s) \<longrightarrow> is_zero (rec_created_at r))
     \<and> (is_zero (rec_updated_at s) \<longrightarrow> is_zero (rec_updated_at r))
     \<and> (before (rec_updated_at s) (rec_created_at s) \<longrightarrow> before (rec_updated_at r) (rec_created_at r))
     \<and> rel_option (\<lambda>t u. is_zero u \<longrightarrow> is_zero t) (rec_started_at r) (rec_started_at s)
     \<and> rel_option (\<lambda>t u. is_zero u \<longrightarrow> is_zero t) (rec_completed_at r) (rec_completed_at s)"

text \<open>An error from below the repository is none of the program's own sentinels.\<close>

definition foreign_error :: "goerror \<Rightarrow> bool" where
  "foreign_error e \<longleftrightarrow> adapter_error e \<and> \<not> errors_is e ErrJobNotFound \<and> \<not> errors_is e ErrJobAlreadyExists"

locale gorm_jobs =
  fixes db :: "'w gorm"
    and table :: "'w \<Rightarrow> gostring \<Rightarrow> job_record option"
  assumes key: "table w i = Some r \<Longrightarrow> rec_id r = i"
    and insert_ok: "gorm_create db r w = (None, w') \<Longrightarrow> table w (rec_id r) = None
      \<and> (\<exists>s. column_kept r s \<and> table w' = (table w)(rec_id r \<mapsto> s))"
    and insert_error: "gorm_create db r w = (Some e, w') \<Longrightarrow> foreign_error e
      \<and> (errors_is e ErrDuplicatedKey \<longrightarrow> table w (rec_id r) \<noteq> None \<and> table w' = table w)
      \<and> (table w' = table w
         \<or> table w (rec_id r) = None \<and> (\<exists>s. column_kept r s \<and> table w' = (table w)(rec_id r \<mapsto> s)))"
    and first_ok: "gorm_first db i w = (Inr r, w') \<Longrightarrow> table w i = Some r \<and> table w' = table w"
    and first_error: "gorm_first db i w = (Inl e, w') \<Longrightarrow> foreign_error e \<and> table w' = table w
      \<and> (errors_is e ErrRecordNotFound \<longrightarrow> table w i = None)"
    and updates_none: "gorm_updates db i cols r w = ((res, 0), w') \<Longrightarrow> res = None \<Longrightarrow> table w' = table w"
    and updates_some: "gorm_updates db i cols r w = ((None, n), w') \<Longrightarrow> n \<noteq> 0 \<Longrightarrow>
      \<exists>r0 s. table w i = Some r0 \<and> column_kept (merge_columns cols r r0) s
        \<and> (''payload'' \<notin> set cols \<longrightarrow> rec_payload s = rec_payload r0)
        \<and> (''created_at'' \<notin> set cols \<longrightarrow> rec_created_at s = rec_created_at r0)
        \<and> table w' = (table w)(i \<mapsto> s)"
    and updates_error: "gorm_updates db i cols r w = ((Some e, n), w') \<Longrightarrow> foreign_error e
      \<and> (table w' = table w
         \<or> (\<exists>r0 s. table w i = Some r0 \<and> column_kept (merge_columns cols r r0) s
              \<and> (''payload'' \<notin> set cols \<longrightarrow> rec_payload s = rec_payload r0)
              \<and> (''created_at'' \<notin> set cols \<longrightarrow> rec_created_at s = rec_created_at r0)
              \<and> table w' = (table w)(i \<mapsto> s)))"

section \<open>The repository's laws\<close>

text \<open>The jobs of the table: its rows, read the way \<open>GetByID\<close> reads them.\<close>

definition job_rows :: "(gostring \<Rightarrow> job_record option) \<Rightarrow> job_id \<Rightarrow> job option" where
  "job_rows tab i =
     (case tab i of None \<Rightarrow> None
      | Some r \<Rightarrow>
          (case job_record_to_domain r of
             Inl _ \<Rightarrow> None
           | Inr j \<Rightarrow> if ent_id j = i then Some j else None))"

lemma job_rows_upd:
  "job_record_to_domain s = Inr j' \<Longrightarrow> ent_id j' = i \<Longrightarrow> job_rows (tab(i \<mapsto> s)) = (job_rows tab)(i \<mapsto> j')"
  by (rule ext) (simp add: job_rows_def)

lemma job_rows_Some: "job_rows tab i = Some j \<longleftrightarrow>
    ent_id j = i \<and> (\<exists>r. tab i = Some r \<and> job_record_to_domain r = Inr j)"
  by (auto simp: job_rows_def split: option.splits sum.splits if_splits)

text \<open>What a kept row is read as.\<close>

definition read_as :: "job_record \<Rightarrow> job \<Rightarrow> job" where
  "read_as s j = j\<lparr>ent_payload := rec_payload s, created_at := utc (rec_created_at s),
     updated_at := utc (rec_updated_at s), started_at := map_option utc (rec_started_at s),
     completed_at := map_option utc (rec_completed_at s)\<rparr>"

lemma kept_time:
  assumes "rel_option (\<lambda>t u. is_zero u \<longrightarrow> is_zero t) a b" "map_option utc a = c"
    "\<forall>t. c = Some t \<longrightarrow> \<not> is_zero t \<and> location t = LocUTC"
  shows "(\<forall>u. b = Some u \<longrightarrow> \<not> is_zero u) \<and> (b = None \<longleftrightarrow> c = None)"
  using assms by (cases a; cases b) auto

lemma kept_row_read:
  assumes j: "wf_job j" and kept: "column_kept r s" and id: "rec_id r = ent_id j"
    and r: "parse_type (rec_type r) = Inr (ent_type j)" "rec_status r = ent_status j"
      "rec_payload r = ent_payload j" "rec_retry_count r = retry_count j"
      "rec_max_retries r = max_retries j" "rec_last_error r = last_error j"
      "utc (rec_created_at r) = created_at j" "utc (rec_updated_at r) = updated_at j"
      "map_option utc (rec_started_at r) = started_at j"
      "map_option utc (rec_completed_at r) = completed_at j"
  shows "job_record_to_domain s = Inr (read_as s j)" "stored_as j (read_as s j)"
proof -
  have zero: "is_zero (rec_created_at r) = is_zero (created_at j)"
    "is_zero (rec_updated_at r) = is_zero (updated_at j)"
    "before (rec_updated_at r) (rec_created_at r) = before (updated_at j) (created_at j)"
    by (simp_all flip: r(7,8))
  have opt: "(\<forall>u. rec_started_at s = Some u \<longrightarrow> \<not> is_zero u) \<and> (rec_started_at s = None \<longleftrightarrow> started_at j = None)"
    "(\<forall>u. rec_completed_at s = Some u \<longrightarrow> \<not> is_zero u) \<and> (rec_completed_at s = None \<longleftrightarrow> completed_at j = None)"
    by (rule kept_time [OF _ r(9)] kept_time [OF _ r(10)]; use kept j in \<open>simp add: column_kept_def wf_job_def\<close>)+
  have wf: "wf_job (read_as s j)"
    using j kept zero opt r(3) by (auto simp: wf_job_def read_as_def column_kept_def)
  show "job_record_to_domain s = Inr (read_as s j)"
    using wf by (rule to_domain_complete)
      (use kept id r j in \<open>auto simp: read_as_def column_kept_def wf_job_def parse_status_valid\<close>)
  show "stored_as j (read_as s j)"
    using wf opt by (auto simp: stored_as_def read_as_def)
qed

lemma inserted_row:
  assumes "wf_job j" "job_record_from_domain (Some j) = Inr r" "column_kept r s"
  shows "rec_id r = ent_id j" "row_written j (job_rows tab) (job_rows (tab(ent_id j \<mapsto> s)))"
proof -
  from assms(2) show id: "rec_id r = ent_id j" by (simp add: from_domain_Some)
  have "map_option utc (started_at j) = started_at j" "map_option utc (completed_at j) = completed_at j"
    using assms(1) by (cases "started_at j"; cases "completed_at j"; auto simp: wf_job_def utc_id)+
  with assms have "job_record_to_domain s = Inr (read_as s j) \<and> stored_as j (read_as s j)"
    by (intro conjI kept_row_read [of j r s])
       (auto simp: from_domain_Some wf_job_def parse_type_valid utc_id)
  moreover have "ent_id (read_as s j) = ent_id j" by (simp add: read_as_def)
  ultimately show "row_written j (job_rows tab) (job_rows (tab(ent_id j \<mapsto> s)))"
    unfolding row_written_def using job_rows_upd by blast
qed

lemma updated_row:
  assumes j: "wf_job j" and r: "job_record_from_domain (Some j) = Inr r"
    and row: "job_rows tab (ent_id j) = Some j0" and frame: "same_frame j j0"
    and r0: "tab (ent_id j) = Some r0" and key: "rec_id r0 = ent_id j"
    and kept: "column_kept (merge_columns updated_columns r r0) s"
    and s: "rec_payload s = rec_payload r0" "rec_created_at s = rec_created_at r0"
  shows "row_updated j (job_rows tab) (job_rows (tab(ent_id j \<mapsto> s)))"
proof -
  from row r0 have "job_record_to_domain r0 = Inr j0" by (simp add: job_rows_Some)
  from to_domain_ok [OF this] frame
  have d: "parse_type (rec_type r0) = Inr (ent_type j)" "rec_payload r0 = ent_payload j"
    "utc (rec_created_at r0) = created_at j"
    by (auto simp: same_frame_def)
  have cols: "merge_columns updated_columns r r0 = r\<lparr>rec_id := rec_id r0, rec_type := rec_type r0,
      rec_payload := rec_payload r0, rec_created_at := rec_created_at r0\<rparr>"
    by (simp add: merge_columns_def updated_columns_def)
  have "map_option utc (started_at j) = started_at j" "map_option utc (completed_at j) = completed_at j"
    using j by (cases "started_at j"; cases "completed_at j"; auto simp: wf_job_def utc_id)+
  with j r d key have "job_record_to_domain s = Inr (read_as s j) \<and> stored_as j (read_as s j)"
    using kept unfolding cols
    by (intro conjI kept_row_read [OF j kept [unfolded cols]])
       (auto simp: from_domain_Some wf_job_def utc_id)
  moreover have "ent_id (read_as s j) = ent_id j" "same_frame j (read_as s j)"
    using s d by (simp_all add: read_as_def same_frame_def)
  ultimately show ?thesis unfolding row_updated_def using job_rows_upd by blast
qed

lemma to_domain_error:
  "job_record_to_domain r = Inl e \<Longrightarrow> adapter_error e \<and> \<not> errors_is e ErrJobNotFound"
  by (auto simp: job_record_to_domain_def parse_id_def parse_type_def parse_status_def restore_job_def
      validate_payload_def invalid_payload_def adapter_error_def Let_def wrap_def
      split: if_splits sum.splits option.splits)

lemma foreign_errors_is [simp]:
  "foreign_error e \<Longrightarrow> \<not> errors_is e ErrJobRetryScheduled"
  "foreign_error e \<Longrightarrow> \<not> errors_is e ErrJobRetriesExhausted"
  "foreign_error e \<Longrightarrow> \<not> errors_is e ErrJobNotFound"
  "foreign_error e \<Longrightarrow> \<not> errors_is e ErrJobAlreadyExists"
  by (simp_all add: foreign_error_def adapter_error_def)

text \<open>Inversion of the three operations: which GORM call was made, and what its result became.\<close>

lemma repository_create_Some:
  assumes "repository_create db (Some j) w = (res, w')" "job_record_from_domain (Some j) = Inr r"
  obtains "gorm_create db r w = (None, w')" "res = None"
  | e where "gorm_create db r w = (Some e, w')" "errors_is e ErrDuplicatedKey"
      "res = Some (Errorf [Arg_w (Sentinel ErrJobAlreadyExists), Lit '': '', Arg_s (rec_id r)])"
  | e where "gorm_create db r w = (Some e, w')" "\<not> errors_is e ErrDuplicatedKey"
      "res = Some (Errorf [Lit ''create job '', Arg_s (rec_id r), Lit '': '', Arg_w e])"
  using assms by (auto simp: repository_create_def split: prod.splits option.splits if_splits)

lemma repository_get_Inr:
  "repository_get_by_id db i w = (Inr j, w') \<longleftrightarrow> id_is_valid i
     \<and> (\<exists>r. gorm_first db i w = (Inr r, w') \<and> job_record_to_domain r = Inr j)"
  by (auto simp: repository_get_by_id_def split: prod.splits sum.splits)

lemma repository_get_Inl:
  assumes "repository_get_by_id db i w = (Inl e, w')"
  obtains "\<not> id_is_valid i" "w' = w" "e = Errorf [Arg_w (Sentinel ErrInvalidID), Lit '': '', Arg_q i]"
  | e0 where "id_is_valid i" "gorm_first db i w = (Inl e0, w')" "errors_is e0 ErrRecordNotFound"
      "e = Errorf [Arg_w (Sentinel ErrJobNotFound), Lit '': '', Arg_s i]"
  | e0 where "id_is_valid i" "gorm_first db i w = (Inl e0, w')" "\<not> errors_is e0 ErrRecordNotFound"
      "e = Errorf [Lit ''get job '', Arg_s i, Lit '': '', Arg_w e0]"
  | r e0 where "id_is_valid i" "gorm_first db i w = (Inr r, w')" "job_record_to_domain r = Inl e0"
      "e = Errorf [Lit ''map job '', Arg_s i, Lit '' from persistence: '', Arg_w e0]"
  using assms
  by (auto simp: repository_get_by_id_def split: prod.splits sum.splits if_splits)

lemma repository_update_Some:
  assumes "repository_update db (Some j) w = (res, w')" "job_record_from_domain (Some j) = Inr r"
  obtains n where "gorm_updates db (rec_id r) updated_columns r w = ((None, n), w')" "n \<noteq> 0" "res = None"
  | "gorm_updates db (rec_id r) updated_columns r w = ((None, 0), w')"
      "res = Some (Errorf [Arg_w (Sentinel ErrJobNotFound), Lit '': '', Arg_s (rec_id r)])"
  | e n where "gorm_updates db (rec_id r) updated_columns r w = ((Some e, n), w')"
      "res = Some (Errorf [Lit ''update job '', Arg_s (rec_id r), Lit '': '', Arg_w e])"
  using assms by (auto simp: repository_update_def split: prod.splits option.splits if_splits)

context gorm_jobs begin

lemma repository_create_law:
  assumes h: "repository_create db (Some j) w = (res, w')" and j: "wf_job j"
  shows "(case res of
      None \<Rightarrow> job_rows (table w) (ent_id j) = None \<and> row_written j (job_rows (table w)) (job_rows (table w'))
    | Some e \<Rightarrow> adapter_error e \<and> (job_rows (table w') = job_rows (table w)
        \<or> job_rows (table w) (ent_id j) = None
          \<and> row_written j (job_rows (table w)) (job_rows (table w'))))"
proof -
  obtain r where r: "job_record_from_domain (Some j) = Inr r" by (simp add: from_domain_Some)
  note ins = inserted_row [OF j r]
  have none: "job_rows (table w) (ent_id j) = None" if "table w (ent_id j) = None"
    using that by (simp add: job_rows_def)
  have id: "rec_id r = ent_id j" using r by (simp add: from_domain_Some)
  show ?thesis
  proof (rule repository_create_Some [OF h r])
    assume "gorm_create db r w = (None, w')" "res = None"
    with insert_ok [of r w w'] ins none id show ?thesis by auto
  next
    fix e
    assume "gorm_create db r w = (Some e, w')" "errors_is e ErrDuplicatedKey"
      "res = Some (Errorf [Arg_w (Sentinel ErrJobAlreadyExists), Lit '': '', Arg_s (rec_id r)])"
    with insert_error [of r w e w'] show ?thesis by (simp add: adapter_error_def)
  next
    fix e
    assume g: "gorm_create db r w = (Some e, w')"
      and "res = Some (Errorf [Lit ''create job '', Arg_s (rec_id r), Lit '': '', Arg_w e])"
    with insert_error [OF g] ins none id show ?thesis by (auto simp: adapter_error_def)
  qed
qed

lemma repository_update_law:
  assumes h: "repository_update db (Some j) w = (res, w')" and j: "wf_job j"
    and row: "job_rows (table w) (ent_id j) = Some j0" and frame: "same_frame j j0"
  shows "(case res of
      None \<Rightarrow> row_updated j (job_rows (table w)) (job_rows (table w'))
    | Some e \<Rightarrow> adapter_error e \<and> (job_rows (table w') = job_rows (table w)
        \<or> row_updated j (job_rows (table w)) (job_rows (table w'))))"
proof -
  obtain r where r: "job_record_from_domain (Some j) = Inr r" by (simp add: from_domain_Some)
  have id: "rec_id r = ent_id j" using r by (simp add: from_domain_Some)
  have upd: "row_updated j (job_rows (table w)) (job_rows ((table w)(ent_id j \<mapsto> s)))"
    if "table w (ent_id j) = Some r0" "column_kept (merge_columns updated_columns r r0) s"
      "rec_payload s = rec_payload r0" "rec_created_at s = rec_created_at r0" for r0 s
    using that key by (intro updated_row [OF j r row frame]) auto
  have cols: "''payload'' \<notin> set updated_columns" "''created_at'' \<notin> set updated_columns"
    by (simp_all add: updated_columns_def)
  show ?thesis
  proof (rule repository_update_Some [OF h r])
    fix n
    assume "gorm_updates db (rec_id r) updated_columns r w = ((None, n), w')" "n \<noteq> 0" "res = None"
    with updates_some [of "rec_id r" updated_columns r w n w'] id cols upd show ?thesis by auto
  next
    assume "gorm_updates db (rec_id r) updated_columns r w = ((None, 0), w')"
      "res = Some (Errorf [Arg_w (Sentinel ErrJobNotFound), Lit '': '', Arg_s (rec_id r)])"
    with updates_none [of "rec_id r" updated_columns r w None w'] show ?thesis
      by (simp add: adapter_error_def)
  next
    fix e n
    assume "gorm_updates db (rec_id r) updated_columns r w = ((Some e, n), w')"
      "res = Some (Errorf [Lit ''update job '', Arg_s (rec_id r), Lit '': '', Arg_w e])"
    with updates_error [of "rec_id r" updated_columns r w e n w'] id cols upd show ?thesis
      by (auto simp: adapter_error_def)
  qed
qed

lemma repository_get_law:
  assumes h: "repository_get_by_id db i w = (res, w')"
  shows "(case res of
      Inr j \<Rightarrow> job_rows (table w) i = Some j \<and> table w' = table w \<and> ent_id j = i \<and> wf_job j
    | Inl e \<Rightarrow> adapter_error e \<and> table w' = table w
        \<and> (errors_is e ErrJobNotFound \<longrightarrow> job_rows (table w) i = None))"
proof (cases res)
  case (Inr j)
  with h obtain r where r: "id_is_valid i" "gorm_first db i w = (Inr r, w')" "job_record_to_domain r = Inr j"
    by (auto simp: repository_get_Inr)
  note f = first_ok [OF r(2)] to_domain_ok [OF r(3)]
  moreover from f have "rec_id r = i" using key by blast
  ultimately show ?thesis using r(1,3) Inr by (simp add: job_rows_def trim_space_valid_id)
next
  case (Inl e)
  show ?thesis
  proof (rule repository_get_Inl [OF h [unfolded Inl]])
    assume "\<not> id_is_valid i" "w' = w" "e = Errorf [Arg_w (Sentinel ErrInvalidID), Lit '': '', Arg_q i]"
    with Inl show ?thesis by (simp add: adapter_error_def)
  next
    fix e0
    assume "gorm_first db i w = (Inl e0, w')" "errors_is e0 ErrRecordNotFound"
      "e = Errorf [Arg_w (Sentinel ErrJobNotFound), Lit '': '', Arg_s i]"
    with Inl first_error [of i w e0 w'] show ?thesis by (simp add: adapter_error_def job_rows_def)
  next
    fix e0
    assume "gorm_first db i w = (Inl e0, w')" "e = Errorf [Lit ''get job '', Arg_s i, Lit '': '', Arg_w e0]"
    with Inl first_error [of i w e0 w'] show ?thesis by (auto simp: adapter_error_def)
  next
    fix r e0
    assume "gorm_first db i w = (Inr r, w')" "job_record_to_domain r = Inl e0"
      "e = Errorf [Lit ''map job '', Arg_s i, Lit '' from persistence: '', Arg_w e0]"
    with Inl first_ok [of i w r w'] to_domain_error [of r e0] show ?thesis
      by (simp add: adapter_error_def)
  qed
qed

end

sublocale gorm_jobs \<subseteq> repo: repository_laws "mysql_repository db" "\<lambda>w. job_rows (table w)"
proof (unfold_locales, unfold mysql_repository_def repository_port.simps)
qed (use repository_create_law repository_update_law repository_get_law in fastforce)+

end
