(* ===== verification/Redis_Queue.thy ===== *)
theory Redis_Queue imports Ports begin

text \<open>
  \<open>internal/adapters/redis/job_queue.go\<close>: the queue over the two commands of the Redis client that
  it calls, \<open>LPUSH\<close> and \<open>BRPOP\<close> without a timeout, which are a parameter (a call of the latter
  gives its result once it returns). \<open>redis_lists\<close> states what the queue relies on of Redis;
  from it follow the laws of a queue and of a consumer, so what is enqueued is dequeued in order.
\<close>

section \<open>The queue\<close>

record 'w redis_client =
  lpush :: "gostring \<Rightarrow> gostring \<Rightarrow> 'w \<Rightarrow> goerror option \<times> 'w"
  brpop :: "gostring \<Rightarrow> 'w \<Rightarrow> (goerror + gostring list) \<times> 'w"

record 'w job_queue =
  jq_client :: "'w redis_client"
  queue_name :: gostring

definition new_job_queue :: "'w redis_client option \<Rightarrow> gostring \<Rightarrow> goerror + 'w job_queue" where
  "new_job_queue client qname =
     (case client of
        None \<Rightarrow> Inl (NewError ''Redis client must not be nil'')
      | Some c \<Rightarrow>
          let normalized = trim_space qname in
          if normalized = [] then Inl (NewError ''Redis queue name must not be empty'')
          else Inr \<lparr>jq_client = c, queue_name = normalized\<rparr>)"

definition queue_enqueue :: "'w job_queue \<Rightarrow> job_id \<Rightarrow> 'w \<Rightarrow> goerror option \<times> 'w" where
  "queue_enqueue q i w =
     (if \<not> id_is_valid i
      then (Some (Errorf [Arg_w (Sentinel ErrInvalidID), Lit '': '', Arg_q i]), w)
      else
     (case lpush (jq_client q) (queue_name q) i w of
        (Some e, w) \<Rightarrow>
          (Some (Errorf [Arg_w (Sentinel ErrJobQueueUnavailable), Lit '': enqueue job '', Arg_s i,
             Lit '': '', Arg_w e]), w)
      | (None, w) \<Rightarrow> (None, w)))"

definition queue_dequeue :: "'w job_queue \<Rightarrow> 'w \<Rightarrow> (goerror + job_id) \<times> 'w" where
  "queue_dequeue q w =
     (case brpop (jq_client q) (queue_name q) w of
        (Inl e, w) \<Rightarrow>
          if errors_is e Canceled \<or> errors_is e DeadlineExceeded then (Inl e, w)
          else (Inl (Errorf [Arg_w (Sentinel ErrJobQueueUnavailable), Lit '': dequeue from '',
             Arg_s (queue_name q), Lit '': '', Arg_w e]), w)
      | (Inr result, w) \<Rightarrow>
          if length result \<noteq> 2
          then (Inl (Errorf [Arg_w (Sentinel ErrJobQueueUnavailable),
             Lit '': unexpected Redis response length '', Arg_d (int (length result))]), w)
          else (case parse_id (result ! 1) of
             Inl e \<Rightarrow>
               (Inl (Errorf [Lit ''invalid job ID received from queue '', Arg_s (queue_name q),
                  Lit '': '', Arg_w e]), w)
           | Inr i \<Rightarrow> (Inr i, w)))"

section \<open>What the queue relies on\<close>

text \<open>The list under a key, its left end first. A command that reports an error may have run.\<close>

locale redis_lists =
  fixes client :: "'w redis_client"
    and keys :: "'w \<Rightarrow> gostring \<Rightarrow> gostring list"
  assumes lpush_ok: "lpush client k v w = (None, w') \<Longrightarrow> keys w' = (keys w)(k := v # keys w k)"
    and lpush_error: "lpush client k v w = (Some e, w') \<Longrightarrow>
      adapter_error e \<and> (keys w' = keys w \<or> keys w' = (keys w)(k := v # keys w k))"
    and brpop_ok: "brpop client k w = (Inr res, w') \<Longrightarrow>
      \<exists>v vs. keys w k = vs @ [v] \<and> res = [k, v] \<and> keys w' = (keys w)(k := vs)"
    and brpop_error: "brpop client k w = (Inl e, w') \<Longrightarrow>
      keys w' = keys w \<or> keys w' = (keys w)(k := butlast (keys w k))"

section \<open>The queue's laws\<close>

text \<open>The identifiers in a list, oldest first, trimmed as \<open>Dequeue\<close> trims them.\<close>

definition queued_ids :: "gostring list \<Rightarrow> job_id list" where
  "queued_ids vs = map trim_space (rev vs)"

lemma queued_ids_push: "id_is_valid i \<Longrightarrow> queued_ids (i # vs) = queued_ids vs @ [i]"
  by (simp add: queued_ids_def trim_space_valid_id)

lemma queued_ids_pop: "queued_ids (vs @ [v]) = trim_space v # queued_ids vs"
  by (simp add: queued_ids_def)

lemma queued_ids_butlast: "queued_ids (butlast vs) = tl (queued_ids vs)"
  by (cases vs rule: rev_cases) (simp_all add: queued_ids_def)

context redis_lists begin

lemma queue_enqueue_law:
  assumes h: "queue_enqueue \<lparr>jq_client = client, queue_name = k\<rparr> i w = (res, w')"
  shows "case res of
      None \<Rightarrow> id_is_valid i \<and> queued_ids (keys w' k) = queued_ids (keys w k) @ [i]
    | Some e \<Rightarrow> adapter_error e \<and> (queued_ids (keys w' k) = queued_ids (keys w k) \<or> queued_ids (keys w' k) = queued_ids (keys w k) @ [i])"
proof (cases "id_is_valid i")
  case False
  with h show ?thesis by (auto simp: queue_enqueue_def adapter_error_def)
next
  case True
  obtain rp w1 where p: "lpush client k i w = (rp, w1)" by force
  with h True lpush_ok [of k i w w1] lpush_error [of k i w _ w1] show ?thesis
    by (cases rp) (auto simp: queue_enqueue_def adapter_error_def queued_ids_push)
qed

lemma queue_dequeue_law:
  assumes h: "queue_dequeue \<lparr>jq_client = client, queue_name = k\<rparr> w = (res, w')"
  shows "case res of
      Inr i \<Rightarrow> id_is_valid i \<and> queued_ids (keys w k) = i # queued_ids (keys w' k)
    | Inl e \<Rightarrow> queued_ids (keys w' k) = queued_ids (keys w k) \<or> queued_ids (keys w' k) = tl (queued_ids (keys w k))"
proof -
  obtain rp w1 where p: "brpop client k w = (rp, w1)" by force
  show ?thesis
  proof (cases rp)
    case (Inl e)
    with h p brpop_error [of k w e w1] show ?thesis
      by (auto simp: queue_dequeue_def queued_ids_butlast split: if_splits)
  next
    case (Inr result)
    with brpop_ok [of k w result w1] p obtain v vs
      where v: "keys w k = vs @ [v]" "result = [k, v]" "keys w1 = (keys w)(k := vs)" by blast
    have "res = (case parse_id v of Inl e \<Rightarrow> Inl (Errorf [Lit ''invalid job ID received from queue '',
        Arg_s k, Lit '': '', Arg_w e]) | Inr i \<Rightarrow> Inr i)" "w' = w1"
      using h p Inr v(2) by (auto simp: queue_dequeue_def split: sum.splits)
    with v parse_id_ok [of v] show ?thesis
      by (auto simp: queued_ids_pop split: sum.splits)
  qed
qed

end

sublocale redis_lists \<subseteq> queue: queue_laws "queue_enqueue \<lparr>jq_client = client, queue_name = k\<rparr>" "\<lambda>w. queued_ids (keys w k)"
  for k
  using queue_enqueue_law by unfold_locales fastforce+

sublocale redis_lists \<subseteq> consumer: consumer_laws "queue_dequeue \<lparr>jq_client = client, queue_name = k\<rparr>" "\<lambda>w. queued_ids (keys w k)"
  for k
  using queue_dequeue_law by unfold_locales fastforce+

end
