(* ===== verification/Executor.thy ===== *)
theory Executor imports Logging begin

text \<open>
  \<open>internal/adapters/executor\<close>: strict decoding of a handler's payload, the three handlers, the
  dispatcher that routes a job to the handler of its type, and the simulated executor. What is not
  the repository's own is a parameter: \<open>net/mail.ParseAddress\<close> (\<open>parse_address\<close>), and the wait of
  a handler, a \<open>select\<close> between a timer and the context (\<open>pause\<close>), whose outcome is None when the timer
  fires and the context's error otherwise.
\<close>

type_synonym 'w pause = "int \<Rightarrow> 'w \<Rightarrow> goerror option \<times> 'w"

type_synonym 'w handler = "job option \<Rightarrow> 'w \<Rightarrow> goerror option \<times> 'w"

section \<open>Strict decoding\<close>

definition handler_payload_error :: "gostring \<Rightarrow> goerror" where
  "handler_payload_error why = Errorf [Arg_w (Sentinel ErrInvalidHandlerPayload), Lit ('': '' @ why)]"

text \<open>Two calls of the decoder: the payload, and then a second value, for which only \<open>io.EOF\<close> will
  do.\<close>

definition decode_strict_payload :: "'a fields \<Rightarrow> 'a \<Rightarrow> gostring \<Rightarrow> goerror + 'a" where
  "decode_strict_payload flds zero raw =
     (let invalid = (\<lambda>e. Inl (Errorf [Arg_w (Sentinel ErrInvalidHandlerPayload), Lit '': '',
            Arg_v (JsonError e)])) in
      case decode_stream raw of Inl e \<Rightarrow> invalid e
      | Inr (v, rest) \<Rightarrow>
     (case decode_struct flds zero v of Inl e \<Rightarrow> invalid e
      | Inr payload \<Rightarrow>
          if decode_stream rest = Inl JsonEOF then Inr payload
          else Inl (handler_payload_error ''payload must contain one JSON object'')))"

section \<open>E-mail\<close>

definition maximumEmailSubjectLength :: nat where
  "maximumEmailSubjectLength = 200"

record send_email_payload =
  em_to :: gostring
  em_subject :: gostring
  em_body :: gostring

definition send_email_fields :: "send_email_payload fields" where
  "send_email_fields =
     [(''to'', string_field (\<lambda>s. em_to_update (\<lambda>_. s))),
      (''subject'', string_field (\<lambda>s. em_subject_update (\<lambda>_. s))),
      (''body'', string_field (\<lambda>s. em_body_update (\<lambda>_. s)))]"

definition validate_send_email_payload ::
  "(gostring \<Rightarrow> goerror + gostring) \<Rightarrow> send_email_payload \<Rightarrow> goerror option" where
  "validate_send_email_payload parse_address p =
     (if em_to p = [] then Some (handler_payload_error ''to is required'')
      else if parse_address (em_to p) \<noteq> Inr (em_to p)
      then Some (handler_payload_error ''to must be a valid email address'')
      else if em_subject p = [] then Some (handler_payload_error ''subject is required'')
      else if length (em_subject p) > maximumEmailSubjectLength
      then Some (Errorf [Arg_w (Sentinel ErrInvalidHandlerPayload), Lit '': subject must not exceed '',
        Arg_d (int maximumEmailSubjectLength), Lit '' characters''])
      else if em_body p = [] then Some (handler_payload_error ''body is required'')
      else None)"

definition decode_send_email_payload ::
  "(gostring \<Rightarrow> goerror + gostring) \<Rightarrow> gostring \<Rightarrow> goerror + send_email_payload" where
  "decode_send_email_payload parse_address raw =
     (case decode_strict_payload send_email_fields \<lparr>em_to = [], em_subject = [], em_body = []\<rparr> raw of
        Inl e \<Rightarrow> Inl e
      | Inr p \<Rightarrow>
          let p = p\<lparr>em_to := trim_space (em_to p), em_subject := trim_space (em_subject p),
                em_body := trim_space (em_body p)\<rparr>
          in (case validate_send_email_payload parse_address p of Some e \<Rightarrow> Inl e | None \<Rightarrow> Inr p))"

section \<open>Reports\<close>

definition maximumReportNameLength :: nat where
  "maximumReportNameLength = 100"

record report_generation_payload =
  rg_report :: gostring
  rg_format :: gostring

definition report_generation_fields :: "report_generation_payload fields" where
  "report_generation_fields =
     [(''report'', string_field (\<lambda>s. rg_report_update (\<lambda>_. s))),
      (''format'', string_field (\<lambda>s. rg_format_update (\<lambda>_. s)))]"

definition is_supported_report_format :: "gostring \<Rightarrow> bool" where
  "is_supported_report_format f \<longleftrightarrow> f = ''csv'' \<or> f = ''json'' \<or> f = ''pdf''"

definition validate_report_generation_payload :: "report_generation_payload \<Rightarrow> goerror option" where
  "validate_report_generation_payload p =
     (if rg_report p = [] then Some (handler_payload_error ''report is required'')
      else if length (rg_report p) > maximumReportNameLength
      then Some (Errorf [Arg_w (Sentinel ErrInvalidHandlerPayload), Lit '': report must not exceed '',
        Arg_d (int maximumReportNameLength), Lit '' characters''])
      else if rg_format p = [] then Some (handler_payload_error ''format is required'')
      else if \<not> is_supported_report_format (rg_format p)
      then Some (handler_payload_error ''format must be csv, json, or pdf'')
      else None)"

definition decode_report_generation_payload :: "gostring \<Rightarrow> goerror + report_generation_payload" where
  "decode_report_generation_payload raw =
     (case decode_strict_payload report_generation_fields \<lparr>rg_report = [], rg_format = []\<rparr> raw of
        Inl e \<Rightarrow> Inl e
      | Inr p \<Rightarrow>
          let p = p\<lparr>rg_report := trim_space (rg_report p),
                rg_format := to_lower (trim_space (rg_format p))\<rparr>
          in (case validate_report_generation_payload p of Some e \<Rightarrow> Inl e | None \<Rightarrow> Inr p))"

section \<open>Clean-up\<close>

definition maximumCleanupScopeLength :: nat where
  "maximumCleanupScopeLength = 100"

definition maximumCleanupAgeDays :: int where
  "maximumCleanupAgeDays = 3650"

record data_cleanup_payload =
  dc_scope :: gostring
  older_than_days :: int

definition data_cleanup_fields :: "data_cleanup_payload fields" where
  "data_cleanup_fields =
     [(''scope'', string_field (\<lambda>s. dc_scope_update (\<lambda>_. s))),
      (''older_than_days'', int_field (\<lambda>n. older_than_days_update (\<lambda>_. n)))]"

definition validate_data_cleanup_payload :: "data_cleanup_payload \<Rightarrow> goerror option" where
  "validate_data_cleanup_payload p =
     (if dc_scope p = [] then Some (handler_payload_error ''scope is required'')
      else if length (dc_scope p) > maximumCleanupScopeLength
      then Some (Errorf [Arg_w (Sentinel ErrInvalidHandlerPayload), Lit '': scope must not exceed '',
        Arg_d (int maximumCleanupScopeLength), Lit '' characters''])
      else if older_than_days p \<le> 0
      then Some (handler_payload_error ''older_than_days must be greater than zero'')
      else if older_than_days p > maximumCleanupAgeDays
      then Some (Errorf [Arg_w (Sentinel ErrInvalidHandlerPayload),
        Lit '': older_than_days must not exceed '', Arg_d maximumCleanupAgeDays])
      else None)"

definition decode_data_cleanup_payload :: "gostring \<Rightarrow> goerror + data_cleanup_payload" where
  "decode_data_cleanup_payload raw =
     (case decode_strict_payload data_cleanup_fields \<lparr>dc_scope = [], older_than_days = 0\<rparr> raw of
        Inl e \<Rightarrow> Inl e
      | Inr p \<Rightarrow>
          let p = p\<lparr>dc_scope := trim_space (dc_scope p)\<rparr>
          in (case validate_data_cleanup_payload p of Some e \<Rightarrow> Inl e | None \<Rightarrow> Inr p))"

section \<open>Handlers\<close>

record 'w handler_config =
  hc_duration :: int
  hc_logger :: "'w logger"

text \<open>The three constructors have the same body: \<open>NewSendEmailHandler\<close>,
  \<open>NewReportGenerationHandler\<close>, \<open>NewDataCleanupHandler\<close>.\<close>

definition new_handler :: "int \<Rightarrow> 'w logger option \<Rightarrow> goerror + 'w handler_config" where
  "new_handler duration lg =
     (if duration \<le> 0 then Inl (NewError ''processing duration must be greater than zero'')
      else case lg of None \<Rightarrow> Inl (NewError ''logger must not be nil'')
      | Some l \<Rightarrow> Inr \<lparr>hc_duration = duration, hc_logger = l\<rparr>)"

definition handle_send_email ::
  "(gostring \<Rightarrow> goerror + gostring) \<Rightarrow> 'w pause \<Rightarrow> 'w handler_config \<Rightarrow> 'w handler" where
  "handle_send_email parse_address pause h entity w =
     (case entity of None \<Rightarrow> (Some (NewError ''job must not be nil''), w)
      | Some j \<Rightarrow>
          if ent_type j \<noteq> TypeSendEmail
          then (Some (Errorf [Arg_w (Sentinel ErrUnexpectedJobType), Lit '': send-email handler received '',
                  Arg_s (ent_type j)]), w)
          else
     (case decode_send_email_payload parse_address (ent_payload j) of
        Inl e \<Rightarrow> (Some (Errorf [Lit ''decode send-email job '', Arg_s (ent_id j), Lit '': '', Arg_w e]), w)
      | Inr payload \<Rightarrow>
          let attributes = job_attributes (Some j) @ [AttrString ''recipient'' (em_to payload)];
              w = log_attrs (hc_logger h) LevelInfo ''email delivery started'' attributes w in
     (case pause (hc_duration h) w of
        (Some e, w) \<Rightarrow>
          (Some (Errorf [Lit ''deliver email for job '', Arg_s (ent_id j), Lit '': '', Arg_w e]), w)
      | (None, w) \<Rightarrow>
          (None, log_attrs (hc_logger h) LevelInfo ''email delivery completed'' attributes w))))"

definition handle_report_generation :: "'w pause \<Rightarrow> 'w handler_config \<Rightarrow> 'w handler" where
  "handle_report_generation pause h entity w =
     (case entity of None \<Rightarrow> (Some (NewError ''job must not be nil''), w)
      | Some j \<Rightarrow>
          if ent_type j \<noteq> TypeReportGeneration
          then (Some (Errorf [Arg_w (Sentinel ErrUnexpectedJobType),
                  Lit '': report-generation handler received '', Arg_s (ent_type j)]), w)
          else
     (case decode_report_generation_payload (ent_payload j) of
        Inl e \<Rightarrow>
          (Some (Errorf [Lit ''decode report-generation job '', Arg_s (ent_id j), Lit '': '', Arg_w e]), w)
      | Inr payload \<Rightarrow>
          let attributes = job_attributes (Some j)
                @ [AttrString ''report'' (rg_report payload), AttrString ''format'' (rg_format payload)];
              w = log_attrs (hc_logger h) LevelInfo ''report generation started'' attributes w in
     (case pause (hc_duration h) w of
        (Some e, w) \<Rightarrow>
          (Some (Errorf [Lit ''generate report for job '', Arg_s (ent_id j), Lit '': '', Arg_w e]), w)
      | (None, w) \<Rightarrow>
          (None, log_attrs (hc_logger h) LevelInfo ''report generation completed'' attributes w))))"

definition handle_data_cleanup :: "'w pause \<Rightarrow> 'w handler_config \<Rightarrow> 'w handler" where
  "handle_data_cleanup pause h entity w =
     (case entity of None \<Rightarrow> (Some (NewError ''job must not be nil''), w)
      | Some j \<Rightarrow>
          if ent_type j \<noteq> TypeDataCleanup
          then (Some (Errorf [Arg_w (Sentinel ErrUnexpectedJobType), Lit '': data-cleanup handler received '',
                  Arg_s (ent_type j)]), w)
          else
     (case decode_data_cleanup_payload (ent_payload j) of
        Inl e \<Rightarrow> (Some (Errorf [Lit ''decode data-cleanup job '', Arg_s (ent_id j), Lit '': '', Arg_w e]), w)
      | Inr payload \<Rightarrow>
          let attributes = job_attributes (Some j)
                @ [AttrString ''scope'' (dc_scope payload),
                   AttrInt ''older_than_days'' (older_than_days payload)];
              w = log_attrs (hc_logger h) LevelInfo ''data cleanup started'' attributes w in
     (case pause (hc_duration h) w of
        (Some e, w) \<Rightarrow>
          (Some (Errorf [Lit ''clean data for job '', Arg_s (ent_id j), Lit '': '', Arg_w e]), w)
      | (None, w) \<Rightarrow>
          (None, log_attrs (hc_logger h) LevelInfo ''data cleanup completed'' attributes w))))"

section \<open>The dispatcher\<close>

definition required_job_types :: "job_type list" where
  "required_job_types = [TypeSendEmail, TypeReportGeneration, TypeDataCleanup]"

text \<open>The loop over the given map; its entries come in the order in which Go happens to visit them. A
  nil handler is None.\<close>

fun copy_handlers ::
  "(job_type \<times> 'w handler option) list \<Rightarrow> (job_type \<Rightarrow> 'w handler option)
     \<Rightarrow> goerror + (job_type \<Rightarrow> 'w handler option)" where
  "copy_handlers [] copied = Inr copied"
| "copy_handlers ((t, h) # hs) copied =
     (if \<not> type_is_valid t then Inl (Errorf [Arg_w (Sentinel ErrInvalidType), Lit '': '', Arg_q t])
      else case h of
        None \<Rightarrow> Inl (Errorf [Arg_w (Sentinel ErrHandlerNotRegistered), Lit '': nil handler for '', Arg_s t])
      | Some f \<Rightarrow> copy_handlers hs (copied(t \<mapsto> f)))"

definition new_dispatcher ::
  "(job_type \<times> 'w handler option) list \<Rightarrow> goerror + (job_type \<Rightarrow> 'w handler option)" where
  "new_dispatcher handlers =
     (case copy_handlers handlers (\<lambda>_. None) of Inl e \<Rightarrow> Inl e
      | Inr copied \<Rightarrow>
          (case find (\<lambda>t. copied t = None) required_job_types of
             Some t \<Rightarrow> Inl (Errorf [Arg_w (Sentinel ErrHandlerNotRegistered), Lit '': '', Arg_s t])
           | None \<Rightarrow> Inr copied))"

definition dispatcher_execute :: "(job_type \<Rightarrow> 'w handler option) \<Rightarrow> 'w handler" where
  "dispatcher_execute handlers entity w =
     (case entity of None \<Rightarrow> (Some (NewError ''job must not be nil''), w)
      | Some j \<Rightarrow>
     (case handlers (ent_type j) of
        None \<Rightarrow> (Some (Errorf [Arg_w (Sentinel ErrHandlerNotRegistered), Lit '': '', Arg_s (ent_type j)]), w)
      | Some handle \<Rightarrow>
     (case handle (Some j) w of
        (Some e, w) \<Rightarrow>
          (Some (Errorf [Lit ''handle '', Arg_s (ent_type j), Lit '' job '', Arg_s (ent_id j),
             Lit '': '', Arg_w e]), w)
      | (None, w) \<Rightarrow> (None, w))))"

section \<open>The simulated executor\<close>

definition new_simulated :: "int \<Rightarrow> goerror + int" where
  "new_simulated duration =
     (if duration \<le> 0 then Inl (NewError ''processing duration must be greater than zero'')
      else Inr duration)"

definition simulated_execute :: "'w pause \<Rightarrow> int \<Rightarrow> 'w handler" where
  "simulated_execute pause duration entity w =
     (case entity of None \<Rightarrow> (Some (NewError ''job must not be nil''), w)
      | Some j \<Rightarrow> pause duration w)"

end
