(* ===== verification/Id_Generator.thy ===== *)
theory Id_Generator imports Ports begin

text \<open>
  \<open>internal/platform/idgen/uuid.go\<close> and \<open>internal/platform/clock/system.go\<close>. The random bytes of
  \<open>crypto/rand.Read\<close> and the reading of \<open>time.Now\<close> are parameters; the mask of the version and
  variant bits is on 8-bit words.
\<close>

unbundle bit_operations_syntax

section \<open>The generator\<close>

definition set_version :: "8 word list \<Rightarrow> 8 word list" where
  "set_version v =
     (let v = v[6 := (v ! 6) AND 0x0F OR 0x40] in v[8 := (v ! 8) AND 0x3F OR 0x80])"

text \<open>\<open>fmt.Sprintf("%x-%x-%x-%x-%x", value[0:4], value[4:6], value[6:8], value[8:10], value[10:16])\<close>.\<close>

definition format_uuid :: "8 word list \<Rightarrow> gostring" where
  "format_uuid v =
     hex_bytes (take 4 v) @ ''-'' @ hex_bytes (take 2 (drop 4 v)) @ ''-''
     @ hex_bytes (take 2 (drop 6 v)) @ ''-'' @ hex_bytes (take 2 (drop 8 v)) @ ''-''
     @ hex_bytes (take 6 (drop 10 v))"

definition new_id :: "('w \<Rightarrow> (goerror + 8 word list) \<times> 'w) \<Rightarrow> 'w id_port" where
  "new_id rand_read w =
     (case rand_read w of
        (Inl e, w) \<Rightarrow> (Inl (wrap ''generate random UUID bytes'' e), w)
      | (Inr v, w) \<Rightarrow>
     (case parse_id (format_uuid (set_version v)) of
        Inl e \<Rightarrow> (Inl (wrap ''parse generated UUID'' e), w)
      | Inr i \<Rightarrow> (Inr i, w)))"

text \<open>\<open>SystemClock.Now\<close>.\<close>

definition system_now :: "('w \<Rightarrow> gotime \<times> 'w) \<Rightarrow> 'w clock_port" where
  "system_now time_now w = (case time_now w of (t, w) \<Rightarrow> (utc t, w))"

section \<open>Bytes in hexadecimal\<close>

lemma hex_digit_byte: "n < 16 \<Longrightarrow> byte (hex_digit n) = (if n < 10 then 48 + n else 87 + n)"
  by (simp add: hex_digit_def of_char_of)

lemma is_hex_hex_digit: "n < 16 \<Longrightarrow> is_hex (hex_digit n)"
  by (simp add: is_hex_def hex_digit_byte)

lemma hex_digit_inj:
  assumes "m < 16" "n < 16" "hex_digit m = hex_digit n"
  shows "m = n"
proof -
  have "(if m < 10 then 48 + m else 87 + m) = (if n < 10 then 48 + n else 87 + n)"
    by (simp only: hex_digit_byte [OF assms(1), symmetric] hex_digit_byte [OF assms(2), symmetric] assms(3))
  then show ?thesis by (simp split: if_splits)
qed

lemma unat_byte_div: "unat (b :: 8 word) div 16 < 16"
  using unsigned_less [of b, where ?'a = nat] by simp

lemma hex_byte_inj: "hex_byte a = hex_byte b \<Longrightarrow> a = b"
proof -
  assume "hex_byte a = hex_byte b"
  then have "unat a div 16 = unat b div 16" "unat a mod 16 = unat b mod 16"
    using unat_byte_div by (auto simp: hex_byte_def intro: hex_digit_inj)
  then have "unat a = unat b" by (metis div_mult_mod_eq)
  then show "a = b" by (rule word_unat_eq_iff [THEN iffD2])
qed

lemma hex_bytes_hex: "list_all is_hex (hex_bytes v)"
  using unat_byte_div by (induction v) (auto simp: hex_bytes_def hex_byte_def is_hex_hex_digit)

lemma hex_bytes_inj: "hex_bytes u = hex_bytes v \<Longrightarrow> u = v"
proof (induction u arbitrary: v)
  case Nil
  then show ?case by (cases v) (simp_all add: hex_bytes_def hex_byte_def)
next
  case (Cons a u)
  then obtain b v' where v: "v = b # v'"
    by (cases v) (simp_all add: hex_bytes_def hex_byte_def)
  with Cons show ?case by (auto simp: hex_bytes_def hex_byte_def intro: hex_byte_inj [unfolded hex_byte_def])
qed

section \<open>Generated identifiers\<close>

lemma length_set_version [simp]: "length (set_version v) = length v"
  by (simp add: set_version_def Let_def)

lemma split_uuid:
  assumes "length v = 16"
  shows "take 4 v @ take 2 (drop 4 v) @ take 2 (drop 6 v) @ take 2 (drop 8 v) @ take 6 (drop 10 v) = v"
proof -
  have "drop 4 v = take 2 (drop 4 v) @ drop 6 v" "drop 6 v = take 2 (drop 6 v) @ drop 8 v"
    "drop 8 v = take 2 (drop 8 v) @ drop 10 v" "take 6 (drop 10 v) = drop 10 v"
    using assms append_take_drop_id [of 2 "drop 4 v"] append_take_drop_id [of 2 "drop 6 v"]
      append_take_drop_id [of 2 "drop 8 v"] by simp_all
  then show ?thesis by (metis append_take_drop_id)
qed

lemma byte_range_append: "byte_range i (s @ t) = byte_range i s @ byte_range (i + length s) t"
  by (induction s arbitrary: i) simp_all

lemma hex_part_ok:
  "list_all is_hex s \<Longrightarrow> \<forall>k \<in> uuid_dashes. k < i \<or> i + length s \<le> k \<Longrightarrow>
    list_all id_rune_ok (byte_range i s)"
proof (induction s arbitrary: i)
  case (Cons c s)
  then have i: "i \<notin> uuid_dashes" by auto
  have "is_hex c" using Cons.prems by simp
  with i have "id_rune_ok (i, byte c)"
    by (simp add: id_rune_ok_def uuid_dashes_def is_hexadecimal_def is_hex_def)
  moreover have "list_all id_rune_ok (byte_range (Suc i) s)"
  proof (rule Cons.IH)
    show "list_all is_hex s" using Cons.prems by simp
    show "\<forall>k\<in>uuid_dashes. k < Suc i \<or> Suc i + length s \<le> k" using Cons.prems(2) by force
  qed
  ultimately show ?case by simp
qed simp

lemma uuid_shape:
  assumes "length a = 8" "length b = 4" "length c = 4" "length d = 4" "length e = 12"
    "list_all is_hex (a @ b @ c @ d @ e)"
  shows "id_is_valid (a @ ''-'' @ b @ ''-'' @ c @ ''-'' @ d @ ''-'' @ e)"
proof -
  have p: "list_all id_rune_ok (byte_range 0 a)" "list_all id_rune_ok (byte_range 9 b)"
    "list_all id_rune_ok (byte_range 14 c)" "list_all id_rune_ok (byte_range 19 d)"
    "list_all id_rune_ok (byte_range 24 e)"
    by (rule hex_part_ok; use assms in \<open>simp add: uuid_dashes_def\<close>)+
  have d: "id_rune_ok (8, 45)" "id_rune_ok (13, 45)" "id_rune_ok (18, 45)" "id_rune_ok (23, 45)"
    by (simp_all add: id_rune_ok_def)
  have "list_all id_rune_ok (byte_range 0 (a @ ''-'' @ b @ ''-'' @ c @ ''-'' @ d @ ''-'' @ e))"
    using p d assms(1-5) by (simp add: byte_range_append)
  moreover have "list_all id_rune_ok (byte_range 0 s) = list_all id_rune_ok (go_range 0 s)" for s
    by (rule go_range_ascii_test [symmetric]) (rule id_rune_ok_ascii)
  ultimately show ?thesis using assms(1-5) by (simp add: id_is_valid_def)
qed

lemma format_uuid_valid:
  assumes "length v = 16"
  shows "id_is_valid (format_uuid v)"
  unfolding format_uuid_def using assms hex_bytes_hex by (intro uuid_shape) simp_all

lemma format_uuid_inj:
  assumes "length u = 16" "length v = 16" "format_uuid u = format_uuid v"
  shows "u = v"
proof -
  have l: "length (hex_bytes (take n (drop k u))) = length (hex_bytes (take n (drop k v)))" for n k
    using assms(1,2) by simp
  have e: "hex_bytes (take 4 u) @ ''-'' @ s = hex_bytes (take 4 v) @ ''-'' @ t \<longleftrightarrow>
      hex_bytes (take 4 u) = hex_bytes (take 4 v) \<and> s = t" for s t
    using l [of 4 0] by simp
  have f: "hex_bytes (take n (drop k u)) @ ''-'' @ s = hex_bytes (take n (drop k v)) @ ''-'' @ t \<longleftrightarrow>
      hex_bytes (take n (drop k u)) = hex_bytes (take n (drop k v)) \<and> s = t" for n k s t
    using l [of n k] by simp
  from assms(3) have "hex_bytes (take 4 u) = hex_bytes (take 4 v)
    \<and> hex_bytes (take 2 (drop 4 u)) = hex_bytes (take 2 (drop 4 v))
    \<and> hex_bytes (take 2 (drop 6 u)) = hex_bytes (take 2 (drop 6 v))
    \<and> hex_bytes (take 2 (drop 8 u)) = hex_bytes (take 2 (drop 8 v))
    \<and> hex_bytes (take 6 (drop 10 u)) = hex_bytes (take 6 (drop 10 v))"
    unfolding format_uuid_def e f by blast
  then show ?thesis
    using split_uuid [OF assms(1)] split_uuid [OF assms(2)] hex_bytes_inj by metis
qed

lemma new_id_ok:
  assumes "rand_read w = (Inr v, w')" "length v = 16"
  shows "new_id rand_read w = (Inr (format_uuid (set_version v)), w')"
  using assms format_uuid_valid [of "set_version v"]
  by (simp add: new_id_def parse_id_valid)

text \<open>The masks, on the word's value.\<close>

lemma mask_version: "unat ((b AND 0x0F OR 0x40) :: 8 word) div 16 = 4"
proof -
  have "drop_bit 4 ((b AND 0x0F OR 0x40) :: 8 word) = drop_bit 4 b AND drop_bit 4 0x0F OR drop_bit 4 0x40"
    by (simp only: drop_bit_or drop_bit_and)
  also have "\<dots> = 4" by simp
  finally have "unat (drop_bit 4 ((b AND 0x0F OR 0x40) :: 8 word)) = 4" by simp
  then show ?thesis by (simp add: drop_bit_eq_div unat_div)
qed

lemma mask_variant: "unat ((b AND 0x3F OR 0x80) :: 8 word) div 16 \<in> {8, 9, 10, 11}"
proof -
  let ?d = "drop_bit 4 b AND (3 :: 8 word)"
  have "drop_bit 4 ((b AND 0x3F OR 0x80) :: 8 word) = drop_bit 4 b AND drop_bit 4 0x3F OR drop_bit 4 0x80"
    by (simp only: drop_bit_or drop_bit_and)
  also have "\<dots> = ?d OR 8" by simp
  finally have "drop_bit 4 ((b AND 0x3F OR 0x80) :: 8 word) = ?d OR 8" .
  moreover have "unat (drop_bit 4 ((b AND 0x3F OR 0x80) :: 8 word)) = unat (b AND 0x3F OR 0x80) div 16"
    by (simp add: drop_bit_eq_div unat_div)
  ultimately have d: "unat ((b AND 0x3F OR 0x80) :: 8 word) div 16 = unat (?d OR 8)" by metis
  have "?d = take_bit 2 (drop_bit 4 b)"
    by (simp add: take_bit_eq_mask mask_eq_exp_minus_1)
  then have "unat ?d < 4"
    using take_bit_nat_less_exp [of 2 "unat (drop_bit 4 b)"] by (simp add: unsigned_take_bit_eq)
  then have "unat ?d \<in> {0, 1, 2, 3}" by auto
  then have "?d \<in> {0, 1, 2, 3}" by (auto simp: word_unat_eq_iff)
  then have "unat (?d OR 8) \<in> {8, 9, 10, 11}" by auto
  with d show ?thesis by simp
qed

end
