(* ===== verification/Wiring.thy ===== *)
theory Wiring imports Use_Case_Laws Mysql_Repository Redis_Queue Executor Id_Generator begin

text \<open>
  How \<open>cmd/worker/main.go\<close> and \<open>cmd/api/main.go\<close> put the adapters and the use cases together, from
  the constructors on (opening the connections comes before). A \<open>platform\<close> holds what is not the
  repository's own: the database, the broker, the clock, the random source, the log, the timer and the
  mail address parser. \<open>program_world\<close> is what the program relies on of them together; in it the wired
  use cases satisfy the laws of \<open>Use_Case_Laws\<close>.
\<close>

record 'w platform =
  pf_db :: "'w gorm"
  pf_redis :: "'w redis_client"
  pf_queue_name :: gostring
  pf_now :: "'w \<Rightarrow> gotime \<times> 'w"
  pf_random :: "'w \<Rightarrow> (goerror + 8 word list) \<times> 'w"
  pf_logger :: "'w logger"
  pf_pause :: "'w pause"
  pf_parse_address :: "gostring \<Rightarrow> goerror + gostring"

section \<open>The two programs\<close>

text \<open>\<open>handlerProcessingDuration\<close>, two seconds in nanoseconds.\<close>

definition handlerProcessingDuration :: int where
  "handlerProcessingDuration = 2000000000"

definition worker_process_job :: "'w platform \<Rightarrow> goerror + 'w process_job" where
  "worker_process_job pf =
     (case new_job_repository (Some (pf_db pf)) of Inl e \<Rightarrow> Inl e
      | Inr db \<Rightarrow>
     (case new_job_queue (Some (pf_redis pf)) (pf_queue_name pf) of Inl e \<Rightarrow> Inl e
      | Inr queue \<Rightarrow>
     (case new_job_lifecycle_observer (Some (pf_logger pf)) of Inl e \<Rightarrow> Inl e
      | Inr obs \<Rightarrow>
     (case new_handler handlerProcessingDuration (Some (pf_logger pf)) of Inl e \<Rightarrow> Inl e
      | Inr send_email \<Rightarrow>
     (case new_handler handlerProcessingDuration (Some (pf_logger pf)) of Inl e \<Rightarrow> Inl e
      | Inr report_generation \<Rightarrow>
     (case new_handler handlerProcessingDuration (Some (pf_logger pf)) of Inl e \<Rightarrow> Inl e
      | Inr data_cleanup \<Rightarrow>
     (case new_dispatcher
         [(TypeSendEmail, Some (handle_send_email (pf_parse_address pf) (pf_pause pf) send_email)),
          (TypeReportGeneration, Some (handle_report_generation (pf_pause pf) report_generation)),
          (TypeDataCleanup, Some (handle_data_cleanup (pf_pause pf) data_cleanup))] of Inl e \<Rightarrow> Inl e
      | Inr handlers \<Rightarrow>
          new_process_job (Some (mysql_repository db)) (Some (queue_enqueue queue))
            (Some (\<lambda>j. dispatcher_execute handlers (Some j))) (Some (system_now (pf_now pf)))
            [Some (status_persisted obs)])))))))"

definition api_create_job :: "'w platform \<Rightarrow> goerror + 'w create_job" where
  "api_create_job pf =
     (case new_job_repository (Some (pf_db pf)) of Inl e \<Rightarrow> Inl e
      | Inr db \<Rightarrow>
     (case new_job_queue (Some (pf_redis pf)) (pf_queue_name pf) of Inl e \<Rightarrow> Inl e
      | Inr queue \<Rightarrow>
     (case new_job_lifecycle_observer (Some (pf_logger pf)) of Inl e \<Rightarrow> Inl e
      | Inr obs \<Rightarrow>
          new_create_job (Some (mysql_repository db)) (Some (queue_enqueue queue))
            (Some (new_id (pf_random pf))) (Some (system_now (pf_now pf)))
            [Some (status_persisted obs)])))"

definition api_get_job :: "'w platform \<Rightarrow> goerror + 'w repository_port" where
  "api_get_job pf =
     (case new_job_repository (Some (pf_db pf)) of Inl e \<Rightarrow> Inl e
      | Inr db \<Rightarrow> new_get_job (Some (mysql_repository db)))"

section \<open>What comes out\<close>

definition wired_queue :: "'w platform \<Rightarrow> 'w job_queue" where
  "wired_queue pf = \<lparr>jq_client = pf_redis pf, queue_name = trim_space (pf_queue_name pf)\<rparr>"

definition wired_handlers :: "'w platform \<Rightarrow> job_type \<Rightarrow> 'w handler option" where
  "wired_handlers pf =
     (let h = \<lparr>hc_duration = handlerProcessingDuration, hc_logger = pf_logger pf\<rparr> in
      [TypeSendEmail \<mapsto> handle_send_email (pf_parse_address pf) (pf_pause pf) h,
       TypeReportGeneration \<mapsto> handle_report_generation (pf_pause pf) h,
       TypeDataCleanup \<mapsto> handle_data_cleanup (pf_pause pf) h])"

lemma type_valid_simps [simp]:
  "type_is_valid TypeSendEmail" "type_is_valid TypeReportGeneration" "type_is_valid TypeDataCleanup"
  by (simp_all add: type_is_valid_def)

lemma type_distinct [simp]:
  "TypeSendEmail \<noteq> TypeReportGeneration" "TypeReportGeneration \<noteq> TypeSendEmail"
  "TypeSendEmail \<noteq> TypeDataCleanup" "TypeDataCleanup \<noteq> TypeSendEmail"
  "TypeReportGeneration \<noteq> TypeDataCleanup" "TypeDataCleanup \<noteq> TypeReportGeneration"
  by (simp_all add: TypeSendEmail_def TypeReportGeneration_def TypeDataCleanup_def)

lemma worker_process_job_eq:
  "worker_process_job pf =
     (if trim_space (pf_queue_name pf) = [] then Inl (NewError ''Redis queue name must not be empty'')
      else Inr \<lparr>pj_repository = mysql_repository (pf_db pf),
        pj_queue = queue_enqueue (wired_queue pf),
        pj_executor = \<lambda>j. dispatcher_execute (wired_handlers pf) (Some j),
        pj_clock = system_now (pf_now pf),
        pj_observer = status_persisted (pf_logger pf)\<rparr>)"
  by (simp add: worker_process_job_def new_job_repository_def new_job_queue_def Let_def
      new_job_lifecycle_observer_def new_handler_def handlerProcessingDuration_def new_dispatcher_def
      required_job_types_def new_process_job_def wired_queue_def wired_handlers_def)

lemma api_create_job_eq:
  "api_create_job pf =
     (if trim_space (pf_queue_name pf) = [] then Inl (NewError ''Redis queue name must not be empty'')
      else Inr \<lparr>cj_repository = mysql_repository (pf_db pf),
        cj_queue = queue_enqueue (wired_queue pf), cj_id_generator = new_id (pf_random pf),
        cj_clock = system_now (pf_now pf), cj_observer = status_persisted (pf_logger pf)\<rparr>)"
  by (simp add: api_create_job_def new_job_repository_def new_job_queue_def Let_def
      new_job_lifecycle_observer_def new_create_job_def wired_queue_def)

lemma api_get_job_eq: "api_get_job pf = Inr (mysql_repository (pf_db pf))"
  by (simp add: api_get_job_def new_job_repository_def new_get_job_def)

section \<open>Frames\<close>

text \<open>What the log and the timer keep true of the world is kept true by every handler.\<close>

lemma handlers_keep:
  assumes "\<And>l w. P w \<Longrightarrow> P (hc_logger h l w)" "\<And>d w r w'. P w \<Longrightarrow> pause d w = (r, w') \<Longrightarrow> P w'" "P w"
  shows "handle_send_email pa pause h e w = (r, w') \<Longrightarrow> P w'"
    and "handle_report_generation pause h e w = (r, w') \<Longrightarrow> P w'"
    and "handle_data_cleanup pause h e w = (r, w') \<Longrightarrow> P w'"
  using assms(3)
  by (auto simp: handle_send_email_def handle_report_generation_def handle_data_cleanup_def Let_def
      log_attrs_def assms(1) dest!: assms(2) [OF assms(1) [OF assms(3)]] split: option.splits if_splits sum.splits prod.splits)

lemma dispatcher_keeps:
  assumes "\<And>t f j w r w'. handlers t = Some f \<Longrightarrow> P w \<Longrightarrow> f j w = (r, w') \<Longrightarrow> P w'"
    and "P w" "dispatcher_execute handlers e w = (r, w')"
  shows "P w'"
  using assms(2,3)
  by (auto simp: dispatcher_execute_def dest: assms(1) split: option.splits prod.splits)

lemma wired_executor_keeps:
  assumes "\<And>l w. P w \<Longrightarrow> P (pf_logger pf l w)"
    and "\<And>d w r w'. P w \<Longrightarrow> pf_pause pf d w = (r, w') \<Longrightarrow> P w'"
    and "P w" "dispatcher_execute (wired_handlers pf) e w = (r, w')"
  shows "P w'"
proof (rule dispatcher_keeps [where P = P, OF _ assms(3,4)])
  fix t f j w r w'
  let ?h = "\<lparr>hc_duration = handlerProcessingDuration, hc_logger = pf_logger pf\<rparr>"
  assume f: "wired_handlers pf t = Some f" and h: "f j w = (r, w')" and P: "P w"
  have log: "P w \<Longrightarrow> P (hc_logger ?h l w)" for l w using assms(1) by simp
  from f consider "f = handle_send_email (pf_parse_address pf) (pf_pause pf) ?h"
    | "f = handle_report_generation (pf_pause pf) ?h" | "f = handle_data_cleanup (pf_pause pf) ?h"
    unfolding wired_handlers_def Let_def by (auto split: if_splits)
  then show "P w'"
  proof cases
    case 1
    show ?thesis by (rule handlers_keep(1) [OF log assms(2) P h [unfolded 1]])
  next
    case 2
    show ?thesis by (rule handlers_keep(2) [OF log assms(2) P h [unfolded 2]])
  next
    case 3
    show ?thesis by (rule handlers_keep(3) [OF log assms(2) P h [unfolded 3]])
  qed
qed

section \<open>Errors of the executor\<close>

definition payload_error :: "goerror \<Rightarrow> bool" where
  "payload_error e \<longleftrightarrow> errors_is e ErrInvalidHandlerPayload \<and> adapter_error e"

lemma payload_error_handler [simp]: "payload_error (handler_payload_error why)"
  by (simp add: payload_error_def handler_payload_error_def adapter_error_def)

lemma payload_error_Errorf [simp]:
  "payload_error (Errorf [Arg_w (Sentinel ErrInvalidHandlerPayload), Lit s, Arg_v e])"
  "payload_error (Errorf [Arg_w (Sentinel ErrInvalidHandlerPayload), Lit s, Arg_d n, Lit s'])"
  "payload_error (Errorf [Arg_w (Sentinel ErrInvalidHandlerPayload), Lit s, Arg_d n])"
  by (simp_all add: payload_error_def adapter_error_def)

lemma decode_strict_error: "decode_strict_payload flds zero raw = Inl e \<Longrightarrow> payload_error e"
  by (auto simp: decode_strict_payload_def Let_def split: sum.splits prod.splits if_splits)

lemma validate_errors:
  "validate_send_email_payload pa p = Some e \<Longrightarrow> payload_error e"
  "validate_report_generation_payload q = Some e \<Longrightarrow> payload_error e"
  "validate_data_cleanup_payload c = Some e \<Longrightarrow> payload_error e"
  by (auto simp: validate_send_email_payload_def validate_report_generation_payload_def
      validate_data_cleanup_payload_def split: if_splits)

lemma decode_errors:
  "decode_send_email_payload pa raw = Inl e \<Longrightarrow> payload_error e"
  "decode_report_generation_payload raw = Inl e \<Longrightarrow> payload_error e"
  "decode_data_cleanup_payload raw = Inl e \<Longrightarrow> payload_error e"
  by (auto simp: decode_send_email_payload_def decode_report_generation_payload_def
      decode_data_cleanup_payload_def Let_def dest: decode_strict_error validate_errors
      split: sum.splits option.splits)

lemma payload_error_adapter: "payload_error e \<Longrightarrow> adapter_error e"
  by (simp add: payload_error_def)

lemma adapter_error_parts [simp]:
  "adapter_error (NewError s)"
  "adapter_error (Errorf [Lit a, Arg_s b, Lit c, Arg_w e]) = adapter_error e"
  "adapter_error (Errorf [Lit a, Arg_s b, Lit c, Arg_s d, Lit f, Arg_w e]) = adapter_error e"
  "adapter_error (Errorf [Arg_w (Sentinel ErrUnexpectedJobType), Lit a, Arg_s b])"
  "adapter_error (Errorf [Arg_w (Sentinel ErrHandlerNotRegistered), Lit a, Arg_s b])"
  by (simp_all add: adapter_error_def)

lemma handler_errors:
  assumes "\<And>d w e w'. pause d w = (Some e, w') \<Longrightarrow> adapter_error e"
  shows "handle_send_email pa pause h en w = (Some e, w') \<Longrightarrow> adapter_error e"
    and "handle_report_generation pause h en w = (Some e, w') \<Longrightarrow> adapter_error e"
    and "handle_data_cleanup pause h en w = (Some e, w') \<Longrightarrow> adapter_error e"
  by (auto simp: handle_send_email_def handle_report_generation_def handle_data_cleanup_def Let_def
      dest: assms payload_error_adapter [OF decode_errors(1)] payload_error_adapter [OF decode_errors(2)]
        payload_error_adapter [OF decode_errors(3)]
      split: option.splits if_splits sum.splits prod.splits)

lemma wired_executor_error:
  assumes "\<And>d w e w'. pf_pause pf d w = (Some e, w') \<Longrightarrow> adapter_error e"
    and "dispatcher_execute (wired_handlers pf) en w = (Some e, w')"
  shows "adapter_error e"
proof -
  have "adapter_error e" if "wired_handlers pf t = Some f" "f en w = (Some e, w')" for t f en w e w'
    using that by (auto simp: wired_handlers_def Let_def split: if_splits intro: handler_errors [OF assms(1)])
  then show ?thesis
    using assms(2) by (auto simp: dispatcher_execute_def split: option.splits prod.splits)
qed

section \<open>The world of the program\<close>

text \<open>
  The database and the broker do not touch each other's data; reading the clock, drawing random bytes,
  logging and waiting touch neither; and a wait that is cut short gives the context's error.
\<close>

locale program_world = gorm_jobs "pf_db pf" table + redis_lists "pf_redis pf" keys
  for pf :: "'w platform" and table :: "'w \<Rightarrow> gostring \<Rightarrow> job_record option"
    and keys :: "'w \<Rightarrow> gostring \<Rightarrow> gostring list" +
  fixes effects :: "'w \<Rightarrow> 'e"
  assumes db_create_keeps: "gorm_create (pf_db pf) r w = (res, w') \<Longrightarrow>
      keys w' = keys w \<and> effects w' = effects w"
    and db_first_keeps: "gorm_first (pf_db pf) i w = (res', w') \<Longrightarrow>
      keys w' = keys w \<and> effects w' = effects w"
    and db_updates_keeps: "gorm_updates (pf_db pf) i cols r w = (res'', w') \<Longrightarrow>
      keys w' = keys w \<and> effects w' = effects w"
    and redis_push_keeps: "lpush (pf_redis pf) k v w = (res, w') \<Longrightarrow>
      table w' = table w \<and> effects w' = effects w"
    and now_keeps: "pf_now pf w = (t, w') \<Longrightarrow>
      table w' = table w \<and> keys w' = keys w \<and> effects w' = effects w"
    and random_keeps: "pf_random pf w = (bs, w') \<Longrightarrow> table w' = table w \<and> keys w' = keys w"
    and log_keeps: "table (pf_logger pf l w) = table w" "keys (pf_logger pf l w) = keys w"
      "effects (pf_logger pf l w) = effects w"
    and pause_keeps: "pf_pause pf d w = (res, w') \<Longrightarrow> table w' = table w \<and> keys w' = keys w"
    and pause_error: "pf_pause pf d w = (Some e, w') \<Longrightarrow>
      e = Sentinel Canceled \<or> e = Sentinel DeadlineExceeded"
begin

lemma repository_keeps:
  "repository_create (pf_db pf) j w = (r, w') \<Longrightarrow> keys w' = keys w \<and> effects w' = effects w"
  "repository_get_by_id (pf_db pf) i w = (r', w') \<Longrightarrow> keys w' = keys w \<and> effects w' = effects w"
  "repository_update (pf_db pf) j w = (r, w') \<Longrightarrow> keys w' = keys w \<and> effects w' = effects w"
  by (auto simp: repository_create_def repository_get_by_id_def repository_update_def
      dest: db_create_keeps db_first_keeps db_updates_keeps
      split: sum.splits prod.splits option.splits if_splits)

lemma enqueue_keeps:
  "queue_enqueue \<lparr>jq_client = pf_redis pf, queue_name = k\<rparr> i w = (r, w') \<Longrightarrow>
     table w' = table w \<and> effects w' = effects w"
  by (auto simp: queue_enqueue_def dest: redis_push_keeps split: prod.splits option.splits if_splits)

lemma clock_keeps:
  "system_now (pf_now pf) w = (t, w') \<Longrightarrow>
     table w' = table w \<and> keys w' = keys w \<and> effects w' = effects w"
  by (auto simp: system_now_def dest: now_keeps split: prod.splits)

lemma new_id_keeps:
  "new_id (pf_random pf) w = (r, w') \<Longrightarrow> table w' = table w \<and> keys w' = keys w"
  by (auto simp: new_id_def dest: random_keeps split: prod.splits sum.splits)

lemma observer_keeps:
  "table (status_persisted (pf_logger pf) j st w) = table w"
  "keys (status_persisted (pf_logger pf) j st w) = keys w"
  "effects (status_persisted (pf_logger pf) j st w) = effects w"
  by (simp_all add: status_persisted_def log_attrs_def Let_def log_keeps)

lemma executor_keeps:
  assumes "dispatcher_execute (wired_handlers pf) en w = (r, w')"
  shows "table w' = table w \<and> keys w' = keys w"
  by (rule wired_executor_keeps [where P = "\<lambda>x. table x = table w \<and> keys x = keys w", OF _ _ _ assms])
     (auto simp: log_keeps dest: pause_keeps)

lemma executor_error:
  "dispatcher_execute (wired_handlers pf) en w = (Some e, w') \<Longrightarrow> adapter_error e"
  by (rule wired_executor_error) (auto dest: pause_error simp: adapter_error_def)

lemma wired_storage:
  "storage_laws (mysql_repository (pf_db pf)) (\<lambda>w. job_rows (table w)) (queue_enqueue (wired_queue pf))
     (\<lambda>w. queued_ids (keys w (trim_space (pf_queue_name pf))))"
  unfolding wired_queue_def
proof (intro storage_laws.intro storage_laws_axioms.intro)
  show "repository_laws (mysql_repository (pf_db pf)) (\<lambda>w. job_rows (table w))"
    by (rule repo.repository_laws_axioms)
  show "queue_laws (queue_enqueue \<lparr>jq_client = pf_redis pf, queue_name = trim_space (pf_queue_name pf)\<rparr>)
      (\<lambda>w. queued_ids (keys w (trim_space (pf_queue_name pf))))"
    by (rule queue.queue_laws_axioms)
qed (auto simp: mysql_repository_def dest: repository_keeps enqueue_keeps)

lemma wired_processing:
  assumes "worker_process_job pf = Inr uc"
  shows "processing_world uc (\<lambda>w. job_rows (table w))
    (\<lambda>w. queued_ids (keys w (trim_space (pf_queue_name pf)))) effects"
proof -
  from assms have uc: "uc = \<lparr>pj_repository = mysql_repository (pf_db pf),
        pj_queue = queue_enqueue (wired_queue pf),
        pj_executor = \<lambda>j. dispatcher_execute (wired_handlers pf) (Some j),
        pj_clock = system_now (pf_now pf), pj_observer = status_persisted (pf_logger pf)\<rparr>"
    by (simp add: worker_process_job_eq split: if_splits)
  show ?thesis
    unfolding uc
    by (intro processing_world.intro use_case_world.intro use_case_world_axioms.intro
        processing_world_axioms.intro; unfold process_job.simps)
       (auto simp: observer_keeps mysql_repository_def wired_queue_def
          intro: wired_storage [unfolded mysql_repository_def wired_queue_def]
          dest: clock_keeps executor_keeps executor_error repository_keeps enqueue_keeps)
qed

lemma wired_creating:
  assumes "api_create_job pf = Inr uc"
  shows "creating_world uc (\<lambda>w. job_rows (table w))
    (\<lambda>w. queued_ids (keys w (trim_space (pf_queue_name pf))))"
proof -
  from assms have uc: "uc = \<lparr>cj_repository = mysql_repository (pf_db pf),
        cj_queue = queue_enqueue (wired_queue pf), cj_id_generator = new_id (pf_random pf),
        cj_clock = system_now (pf_now pf), cj_observer = status_persisted (pf_logger pf)\<rparr>"
    by (simp add: api_create_job_eq split: if_splits)
  show ?thesis
    unfolding uc
    by (intro creating_world.intro use_case_world.intro use_case_world_axioms.intro
        creating_world_axioms.intro; unfold create_job.simps)
       (auto simp: observer_keeps intro: wired_storage dest: clock_keeps new_id_keeps)
qed

end

end
