(* ===== verification/Durable_Rows.thy ===== *)
theory Durable_Rows imports Mysql_Repository begin

text \<open>
  The values that a row keeps. \<open>gorm_jobs\<close> is deliberately weak: it says of a payload and of times only what
  the use cases need, so that they are proved for any store with that much. \<open>durable_rows\<close> adds what MySQL
  documents about the values: a JSON column gives back the document in its normal form (a parameter), a
  \<open>DATETIME(6)\<close> column gives a time back to the microsecond, and a column that an update does not select
  keeps its value. GORM stamps \<open>updated_at\<close> of an update, and a zero \<open>created_at\<close> or \<open>updated_at\<close> of an
  insert, with its own clock, so nothing is said of those.
\<close>

definition same_microsecond :: "gotime \<Rightarrow> gotime \<Rightarrow> bool" where
  "same_microsecond t u \<longleftrightarrow> \<bar>instant u - instant t\<bar> < 1000"

lemma same_microsecond_utc [simp]:
  "same_microsecond (utc t) u = same_microsecond t u" "same_microsecond t (utc u) = same_microsecond t u"
  by (simp_all add: same_microsecond_def)

lemma same_microsecond_refl [simp]: "same_microsecond t t"
  by (simp add: same_microsecond_def)

lemma rel_same_microsecond_utc [simp]:
  "rel_option same_microsecond (map_option utc a) b = rel_option same_microsecond a b"
  "rel_option same_microsecond a (map_option utc b) = rel_option same_microsecond a b"
  by (cases a; cases b; simp)+

locale durable_rows = gorm_jobs db table
  for db :: "'w gorm" and table :: "'w \<Rightarrow> gostring \<Rightarrow> job_record option" +
  fixes norm :: "gostring \<Rightarrow> gostring"
  assumes insert_values: "gorm_create db r w = (None, w') \<Longrightarrow> \<not> is_zero (rec_created_at r) \<Longrightarrow>
      \<not> is_zero (rec_updated_at r) \<Longrightarrow>
      \<exists>s. table w' (rec_id r) = Some s \<and> rec_payload s = norm (rec_payload r)
        \<and> same_microsecond (rec_created_at r) (rec_created_at s)
        \<and> same_microsecond (rec_updated_at r) (rec_updated_at s)
        \<and> rel_option same_microsecond (rec_started_at r) (rec_started_at s)
        \<and> rel_option same_microsecond (rec_completed_at r) (rec_completed_at s)"
    and updates_values: "gorm_updates db i cols r w = ((None, n), w') \<Longrightarrow> n \<noteq> 0 \<Longrightarrow> table w i = Some r0 \<Longrightarrow>
      \<exists>s. table w' i = Some s
        \<and> (if ''started_at'' \<in> set cols
           then rel_option same_microsecond (rec_started_at r) (rec_started_at s)
           else rec_started_at s = rec_started_at r0)
        \<and> (if ''completed_at'' \<in> set cols
           then rel_option same_microsecond (rec_completed_at r) (rec_completed_at s)
           else rec_completed_at s = rec_completed_at r0)"
begin

text \<open>What \<open>GetByID\<close> reads after a \<open>Create\<close> that succeeded.\<close>

lemma created_row_read:
  assumes j: "wf_job j" and create: "repository_create db (Some j) w = (None, w1)"
    and get: "repository_get_by_id db (ent_id j) w1 = (Inr k, w2)"
  shows "stored_as j k \<and> ent_payload k = norm (ent_payload j)
    \<and> same_microsecond (created_at j) (created_at k) \<and> same_microsecond (updated_at j) (updated_at k)
    \<and> rel_option same_microsecond (started_at j) (started_at k)
    \<and> rel_option same_microsecond (completed_at j) (completed_at k)"
proof -
  obtain r where r: "job_record_from_domain (Some j) = Inr r" by (simp add: from_domain_Some)
  have c: "gorm_create db r w = (None, w1)"
    using create r by (auto simp: repository_create_def split: prod.splits option.splits if_splits)
  have k: "job_rows (table w1) (ent_id j) = Some k" using repository_get_law [OF get] by simp
  then obtain s where s: "table w1 (ent_id j) = Some s" "job_record_to_domain s = Inr k"
    by (auto simp: job_rows_Some)
  have "row_written j (job_rows (table w)) (job_rows (table w1))"
    using repository_create_law [OF create j] by simp
  with k have "stored_as j k" by (auto dest: row_written_row)
  moreover have "rec_payload s = norm (ent_payload j) \<and> same_microsecond (created_at j) (rec_created_at s)
      \<and> same_microsecond (updated_at j) (rec_updated_at s)
      \<and> rel_option same_microsecond (started_at j) (rec_started_at s)
      \<and> rel_option same_microsecond (completed_at j) (rec_completed_at s)"
    using insert_values [OF c] r s(1) j by (auto simp: from_domain_Some wf_job_def)
  ultimately show ?thesis using to_domain_ok [OF s(2)] by simp
qed

text \<open>It fails only if GORM does.\<close>

lemma created_row_error:
  assumes j: "wf_job j" and create: "repository_create db (Some j) w = (None, w1)"
    and get: "repository_get_by_id db (ent_id j) w1 = (Inl e, w2)"
  shows "\<not> errors_is e ErrJobNotFound \<and> \<not> is_ok (fst (gorm_first db (ent_id j) w1))"
proof -
  have "row_written j (job_rows (table w)) (job_rows (table w1))"
    using repository_create_law [OF create j] by simp
  then obtain k where k: "job_rows (table w1) (ent_id j) = Some k" by (auto simp: row_written_def)
  have valid: "id_is_valid (ent_id j)" using j by (simp add: wf_job_def)
  show ?thesis
  proof (rule repository_get_Inl [OF get])
    fix r e0
    assume f: "gorm_first db (ent_id j) w1 = (Inr r, w2)" "job_record_to_domain r = Inl e0"
    with first_ok [OF f(1)] k show ?thesis by (auto simp: job_rows_Some)
  qed (use valid k repository_get_law [OF get] in auto)
qed

text \<open>What \<open>GetByID\<close> reads after an \<open>Update\<close> that succeeded.\<close>

lemma updated_row_read:
  assumes j: "wf_job j" and row: "job_rows (table w) (ent_id j) = Some j0" and frame: "same_frame j j0"
    and update: "repository_update db (Some j) w = (None, w1)"
    and get: "repository_get_by_id db (ent_id j) w1 = (Inr k, w2)"
  shows "stored_as j k \<and> same_frame j0 k
    \<and> rel_option same_microsecond (started_at j) (started_at k)
    \<and> rel_option same_microsecond (completed_at j) (completed_at k)"
proof -
  obtain r where r: "job_record_from_domain (Some j) = Inr r" by (simp add: from_domain_Some)
  have id: "rec_id r = ent_id j" using r by (simp add: from_domain_Some)
  obtain n where u: "gorm_updates db (ent_id j) updated_columns r w = ((None, n), w1)" "n \<noteq> 0"
    using repository_update_Some [OF update r] id by (metis option.distinct(1))
  have k: "job_rows (table w1) (ent_id j) = Some k" using repository_get_law [OF get] by simp
  then obtain s where s: "table w1 (ent_id j) = Some s" "job_record_to_domain s = Inr k"
    by (auto simp: job_rows_Some)
  from row obtain r0 where r0: "table w (ent_id j) = Some r0" by (auto simp: job_rows_Some)
  have "''started_at'' \<in> set updated_columns" "''completed_at'' \<in> set updated_columns"
    by (simp_all add: updated_columns_def)
  with updates_values [OF u r0] s(1) r
  have "rel_option same_microsecond (started_at j) (rec_started_at s)
      \<and> rel_option same_microsecond (completed_at j) (rec_completed_at s)"
    by (simp add: from_domain_Some)
  moreover have "row_updated j (job_rows (table w)) (job_rows (table w1))"
    using repository_update_law [OF update j row frame] by simp
  with k have "stored_as j k \<and> same_frame j k" by (auto dest: row_updated_row)
  ultimately show ?thesis
    using to_domain_ok [OF s(2)] same_frame_trans [OF same_frame_sym [OF frame]] by simp
qed

end

end
