(* ===== verification/Job_Properties.thy ===== *)
theory Job_Properties imports Job_Runs begin

text \<open>
  The properties of the job domain, stated over the definitions of \<open>Job\<close> and \<open>Job_Types\<close>, with a
  concrete job for the witnesses.
\<close>

section \<open>A concrete job\<close>

definition sample_id :: job_id where
  "sample_id = ''6d3d991b-8270-4ea3-8e5c-8e8d692d6c5e''"

definition sample_payload :: gostring where
  "sample_payload = [CHR ''{'', CHR 0x22, CHR ''a'', CHR 0x22, CHR '':'', CHR ''1'', CHR ''}'']"

definition at_ns :: "int \<Rightarrow> gotime" where
  "at_ns n = \<lparr>instant = n, location = LocUTC\<rparr>"

definition sample_params :: new_params where
  "sample_params = \<lparr>np_id = sample_id, np_type = TypeSendEmail, np_payload = sample_payload,
     np_created_at = at_ns 10\<rparr>"

definition sample_job :: job where
  "sample_job = \<lparr>ent_id = sample_id, ent_type = TypeSendEmail, ent_status = StatusPending,
     ent_payload = sample_payload, retry_count = 0, max_retries = 3, last_error = None,
     created_at = at_ns 10, updated_at = at_ns 10, started_at = None, completed_at = None\<rparr>"

lemma sample_id_valid: "id_is_valid sample_id"
  by code_simp

lemmas parse_numeral =
  parse_value.simps(2) [of "pred_numeral k" for k, folded numeral_eq_Suc]
  parse_elements.simps(2) [of "pred_numeral k" for k, folded numeral_eq_Suc]
  parse_members.simps(2) [of "pred_numeral k" for k, folded numeral_eq_Suc]

lemmas json_eval =
  parse_json_def json_fuel_def max_nesting_depth_def skip_ws_def is_ws_def is_digit_def
  scan_number_def scan_int_part_def scan_digits_def scan_fraction_def scan_exponent_def

lemma sample_payload_valid: "validate_payload sample_payload = None"
proof -
  have "trim_space sample_payload = sample_payload"
    by (rule trim_space_id) (simp_all add: sample_payload_def is_space_def)
  then show ?thesis
    by (simp add: validate_payload_def unmarshal_raw_map_def unmarshal_value_def raw_map_Nil
        sample_payload_def json_eval parse_numeral)
qed

lemma sample_new_job: "new_job sample_params = Inr sample_job"
  by (simp add: new_job_def sample_params_def sample_job_def sample_id_valid sample_payload_valid
      type_is_valid_def is_zero_def at_ns_def utc_def DefaultMaxRetries_def Let_def)

lemma sample_run: "job_run sample_job [EvStart (at_ns 20)]
    (sample_job\<lparr>ent_status := StatusProcessing, started_at := Some (at_ns 20), updated_at := at_ns 20\<rparr>)"
proof -
  have "job_step sample_job (EvStart (at_ns 20))
    (sample_job\<lparr>ent_status := StatusProcessing, started_at := Some (at_ns 20), updated_at := at_ns 20\<rparr>)"
    by (simp add: job_step_start mark_processing_ok sample_job_def at_ns_def is_zero_def before_def utc_def)
  from job_run.snoc [OF job_run.nil this] show ?thesis by simp
qed

section \<open>Identifiers and payloads\<close>

text \<open>C33. A string is accepted as a job identifier exactly when, after trimming white space, it has
  36 bytes, a dash at the offsets 8, 13, 18 and 23 and an ASCII hexadecimal digit at every other one;
  the identifier is the trimmed string, in the case it was written in. Every other string gives an
  error that is \<open>ErrInvalidID\<close>. The source's loop ranges over decoded runes; the statement is about
  bytes, so no multi-byte rune can slip through.\<close>

theorem parse_id_grammar:
  "case parse_id s of
     Inr i \<Rightarrow> i = trim_space s \<and> length i = 36
       \<and> list_all (\<lambda>k. if k \<in> {8, 13, 18, 23} then i ! k = CHR ''-'' else is_hex (i ! k)) [0..<36]
   | Inl e \<Rightarrow> errors_is e ErrInvalidID
       \<and> \<not> (length (trim_space s) = 36
          \<and> list_all (\<lambda>k. if k \<in> {8, 13, 18, 23} then trim_space s ! k = CHR ''-''
               else is_hex (trim_space s ! k)) [0..<36])"
proof -
  have "id_is_valid i \<longleftrightarrow> length i = 36
    \<and> list_all (\<lambda>k. if k \<in> {8, 13, 18, 23} then i ! k = CHR ''-'' else is_hex (i ! k)) [0..<36]" for i
    unfolding id_is_valid_iff uuid_dashes_def list_all_iff set_upt Ball_def atLeastLessThan_iff
    by (simp only: le0 simp_thms)
  then show ?thesis unfolding parse_id_def Let_def
    by (simp only: split: if_splits) (simp del: upt_rec_numeral)
qed

text \<open>C34. The parsers of the three string types accept the constants of the source and undo their
  printing: parsing any valid identifier, type or status gives it back, so what the repository stores
  as text is read as the value that was stored.\<close>

theorem parse_round_trips:
  "(parse_id i = Inr i \<longleftrightarrow> id_is_valid i)
   \<and> (parse_type t = Inr t \<longleftrightarrow> type_is_valid t)
   \<and> (parse_status st = Inr st \<longleftrightarrow> status_is_valid st)"
  using parse_id_valid parse_id_ok parse_type_valid parse_type_ok parse_status_valid parse_status_ok
  by blast

text \<open>C32. A payload is accepted exactly when, after trimming, it is one JSON object with at least one
  member, followed by nothing but JSON white space; every other payload gives an error that is
  \<open>ErrInvalidPayload\<close>.\<close>

theorem payload_is_nonempty_object:
  "case validate_payload p of
     None \<Rightarrow> \<exists>m ms r. parse_json (trim_space p) = Inr (JObject (m # ms), r) \<and> skip_ws r = []
   | Some e \<Rightarrow> errors_is e ErrInvalidPayload
       \<and> \<not> (\<exists>m ms r. parse_json (trim_space p) = Inr (JObject (m # ms), r) \<and> skip_ws r = [])"
proof -
  have empty: "parse_json [] = Inl JsonUnexpectedEOF"
    by (simp add: parse_json_def json_fuel_def skip_ws_def numeral_2_eq_2)
  show ?thesis
    by (cases "parse_json (trim_space p)")
       (auto simp: validate_payload_def Let_def invalid_payload_def unmarshal_raw_map_def
        unmarshal_value_def raw_map_Nil empty neq_Nil_conv split: json.splits)
qed

section \<open>Constructors\<close>

text \<open>C31. \<open>New\<close> succeeds if and only if the identifier is valid, the type is known, the payload is valid
  and the time is not zero, and then gives a pending job with no retries used and both times equal to
  the creation time in UTC: an error is given only if one of the four checks really fails, and it is the
  sentinel of the first of them that does, in the order identifier, type, payload, time.\<close>

theorem new_job_outcome:
  "case new_job p of
     Inr j \<Rightarrow> id_is_valid (np_id p) \<and> type_is_valid (np_type p) \<and> validate_payload (np_payload p) = None
       \<and> \<not> is_zero (np_created_at p)
       \<and> j = \<lparr>ent_id = np_id p, ent_type = np_type p, ent_status = StatusPending,
           ent_payload = np_payload p, retry_count = 0, max_retries = 3, last_error = None,
           created_at = utc (np_created_at p), updated_at = utc (np_created_at p),
           started_at = None, completed_at = None\<rparr>
   | Inl e \<Rightarrow> \<not> (id_is_valid (np_id p) \<and> type_is_valid (np_type p) \<and> validate_payload (np_payload p) = None
         \<and> \<not> is_zero (np_created_at p))
       \<and> errors_is e
           (if \<not> id_is_valid (np_id p) then ErrInvalidID
            else if \<not> type_is_valid (np_type p) then ErrInvalidType
            else if validate_payload (np_payload p) \<noteq> None then ErrInvalidPayload
            else ErrInvalidCreatedAt)"
proof -
  have "validate_payload x = Some e \<Longrightarrow> errors_is e ErrInvalidPayload" for x e
    by (auto simp: validate_payload_def Let_def invalid_payload_def split: if_splits sum.splits option.splits)
  then show ?thesis
    by (auto simp: new_job_def Let_def DefaultMaxRetries_def split: option.splits)
qed

text \<open>The fields as \<open>Restore\<close> keeps them: every time in UTC.\<close>

definition utc_params :: "restore_params \<Rightarrow> restore_params" where
  "utc_params p = p\<lparr>rp_created_at := utc (rp_created_at p), rp_updated_at := utc (rp_updated_at p),
     rp_started_at := map_option utc (rp_started_at p),
     rp_completed_at := map_option utc (rp_completed_at p)\<rparr>"

lemma restore_utc_params: "is_ok (restore_job (utc_params p)) = is_ok (restore_job p)"
  by (simp add: restore_job_def utc_params_def split: option.splits)

lemma restore_ok_params: "restore_job p = Inr j \<Longrightarrow> params_of j = utc_params p"
  by (auto simp: restore_job_def params_of_def utc_params_def split: if_splits option.splits)

text \<open>C30. \<open>Restore\<close> inverts reading a job's fields on exactly the jobs that satisfy the entity
  invariant, and it accepts exactly the fields of such a job: a stored combination of fields comes
  back as a job if some job that satisfies the invariant has those fields (with times in UTC), and as
  an error otherwise.\<close>

theorem restore_inverse:
  "(restore_job (params_of j) = Inr j \<longleftrightarrow> wf_job j)
   \<and> (case restore_job p of
        Inr j' \<Rightarrow> wf_job j' \<and> params_of j' = utc_params p
      | Inl e \<Rightarrow> \<not> (\<exists>j'. wf_job j' \<and> params_of j' = utc_params p))"
proof -
  have "\<not> (wf_job j' \<and> params_of j' = utc_params p)" if "restore_job p = Inl e" for e j'
    using restore_utc_params [of p] restore_params_of [of j'] that by auto
  then show ?thesis
    using restore_params_of wf_restore_job restore_ok_params
    by (auto split: sum.splits)
qed

section \<open>Transitions\<close>

text \<open>C27. The guards of the four transitions are exact. A transition succeeds if and only if the status is
  the right one, the reason of a failure is not blank, and the time is neither zero nor before the last
  update: a result is given only if every guard holds, an error only if one of them does not. The error
  names the first guard that fails: \<open>ErrInvalidTransition\<close> for the status,
  \<open>ErrInvalidFailureReason\<close> for the reason, \<open>ErrInvalidEventTime\<close> for the time.\<close>

theorem transition_guards:
  "(case mark_processing t j of
      Inr j' \<Rightarrow> ent_status j = StatusPending \<and> \<not> is_zero t \<and> \<not> before t (updated_at j)
    | Inl e \<Rightarrow> \<not> (ent_status j = StatusPending \<and> \<not> is_zero t \<and> \<not> before t (updated_at j))
        \<and> errors_is e (if ent_status j \<noteq> StatusPending then ErrInvalidTransition
            else ErrInvalidEventTime))
   \<and> (case mark_success t j of
      Inr j' \<Rightarrow> ent_status j = StatusProcessing \<and> \<not> is_zero t \<and> \<not> before t (updated_at j)
    | Inl e \<Rightarrow> \<not> (ent_status j = StatusProcessing \<and> \<not> is_zero t \<and> \<not> before t (updated_at j))
        \<and> errors_is e (if ent_status j \<noteq> StatusProcessing then ErrInvalidTransition
            else ErrInvalidEventTime))
   \<and> (case mark_failed t why j of
      Inr j' \<Rightarrow> ent_status j = StatusProcessing \<and> trim_space why \<noteq> []
        \<and> \<not> is_zero t \<and> \<not> before t (updated_at j)
    | Inl e \<Rightarrow> \<not> (ent_status j = StatusProcessing \<and> trim_space why \<noteq> []
        \<and> \<not> is_zero t \<and> \<not> before t (updated_at j))
        \<and> errors_is e (if ent_status j \<noteq> StatusProcessing then ErrInvalidTransition
            else if trim_space why = [] then ErrInvalidFailureReason else ErrInvalidEventTime))
   \<and> (case record_failure t why j of
      Inr (oc, j') \<Rightarrow> ent_status j = StatusProcessing \<and> trim_space why \<noteq> []
        \<and> \<not> is_zero t \<and> \<not> before t (updated_at j)
        \<and> oc = (if can_retry j then FailureOutcomeRetryScheduled else FailureOutcomeTerminalFailure)
        \<and> retry_count j' = retry_count j + (if can_retry j then 1 else 0)
    | Inl e \<Rightarrow> \<not> (ent_status j = StatusProcessing \<and> trim_space why \<noteq> []
        \<and> \<not> is_zero t \<and> \<not> before t (updated_at j))
        \<and> errors_is e (if ent_status j \<noteq> StatusProcessing then ErrInvalidTransition
            else if trim_space why = [] then ErrInvalidFailureReason else ErrInvalidEventTime))"
  by (intro conjI; simp add: mark_processing_def mark_success_def mark_failed_def record_failure_def
      can_retry_def transition_time_def invalid_transition_def Let_def)

section \<open>Lifecycles\<close>

text \<open>C16. Whatever transitions succeed on a job that \<open>New\<close> made, in whatever order, the entity
  invariant and the agreement of status, counters, last error and times hold after them: a pending
  job has no completion time, a processing one was started at its last update, a finished one was
  completed at it, a failed one has a trimmed, non-empty reason and a successful one has none.\<close>

theorem reachable_job_invariant:
  assumes "new_job p = Inr j0" "job_run j0 es j"
  shows "wf_job j \<and> lifecycle_ok j"
  using assms wf_new_job lifecycle_new job_run_wf job_run_lifecycle by blast

lemma reachable_job_invariant_witness:
  "lifecycle_ok (sample_job\<lparr>ent_status := StatusProcessing, started_at := Some (at_ns 20),
     updated_at := at_ns 20\<rparr>)"
  using reachable_job_invariant [OF sample_new_job sample_run] by blast

text \<open>C26. A transition follows one of the four edges pending to processing, processing to success, to
  failed or back to pending; it keeps the identity, type, payload, creation time and retry limit, and
  never moves the last update back. A job that is successful or failed stays as it is: the only run
  from it is the empty one.\<close>

theorem status_machine:
  assumes "job_run j0 es j"
  shows "(job_step j e j' \<longrightarrow> (ent_status j, ent_status j') \<in> {(StatusPending, StatusProcessing),
       (StatusProcessing, StatusSuccess), (StatusProcessing, StatusPending),
       (StatusProcessing, StatusFailed)})
   \<and> ent_id j = ent_id j0 \<and> ent_type j = ent_type j0 \<and> ent_payload j = ent_payload j0
   \<and> created_at j = created_at j0 \<and> max_retries j = max_retries j0
   \<and> \<not> before (updated_at j) (updated_at j0)
   \<and> (ent_status j0 = StatusSuccess \<or> ent_status j0 = StatusFailed \<longrightarrow> es = [] \<and> j = j0)"
proof -
  have "es = [] \<and> j = j0" if "ent_status j0 = StatusSuccess \<or> ent_status j0 = StatusFailed"
    using assms that by (induction rule: job_run.induct) (auto simp: terminal_no_step)
  then show ?thesis
    using job_step_edge [of j e j'] job_run_frame [OF assms] job_run_time [OF assms]
    unfolding status_edges_def by blast
qed

lemma status_machine_witness:
  "ent_status (sample_job\<lparr>ent_status := StatusProcessing, started_at := Some (at_ns 20),
      updated_at := at_ns 20\<rparr>) = StatusProcessing
   \<and> max_retries (sample_job\<lparr>ent_status := StatusProcessing, started_at := Some (at_ns 20),
      updated_at := at_ns 20\<rparr>) = 3"
  using status_machine [OF sample_run, of "EvStart (at_ns 30)" sample_job]
  by (simp add: sample_job_def)

text \<open>C25. The attempts a new job has had are the retries it has used plus the one in flight or just
  finished, so it never starts more than four times, and no run from it is longer than eight
  transitions: every job's life ends.\<close>

theorem attempt_accounting:
  assumes "new_job p = Inr j0" "job_run j0 es j"
  shows "int (attempts es) = retry_count j + (if ent_status j = StatusPending then 0 else 1)
    \<and> attempts es \<le> 4 \<and> length es \<le> 8"
proof -
  note j0 = new_job_ok [OF assms(1)]
  have wf: "wf_job j0" "wf_job j" using assms wf_new_job job_run_wf by blast+
  moreover have "max_retries j = 3" using job_run_frame [OF assms(2)] j0 by simp
  ultimately have "0 \<le> retry_count j" "retry_count j \<le> 3" by (simp_all add: wf_job_def)
  with job_run_count [OF assms(2) wf(1)] j0 show ?thesis
    by (auto simp: in_flight_def events_done_def split: if_splits)
qed

lemma attempt_accounting_witness: "attempts [EvStart (at_ns 20)] \<le> 4"
  using attempt_accounting [OF sample_new_job sample_run] by blast

text \<open>C17. Retries are used up and not one more: when every attempt at a pending job fails, at times that
  do not go back and with a reason that is not blank, the first failures each schedule a retry, as
  many as are left, and the next one ends the job as failed, completed at the time and with the
  trimmed reason of that last failure.\<close>

theorem retries_exhaust:
  assumes "wf_job j" "ent_status j = StatusPending"
    "rounds_ok (updated_at j) rs" "length rs = Suc (nat (max_retries j - retry_count j))"
  shows "\<exists>j'. failing_rounds j rs
      = Inr (replicate (nat (max_retries j - retry_count j)) FailureOutcomeRetryScheduled
           @ [FailureOutcomeTerminalFailure], j')
    \<and> ent_status j' = StatusFailed \<and> retry_count j' = max_retries j
    \<and> completed_at j' = Some (utc (fst (snd (last rs))))
    \<and> last_error j' = Some (trim_space (snd (snd (last rs))))"
proof -
  have "retry_count j + int (nat (max_retries j - retry_count j)) = max_retries j"
    using assms(1) by (simp add: wf_job_def)
  with assms(2-) show ?thesis by (intro failing_rounds_exhaust)
qed

lemma retries_exhaust_witness:
  "\<exists>j'. failing_rounds sample_job
      [(at_ns 20, at_ns 30, ''a''), (at_ns 40, at_ns 50, ''b''), (at_ns 60, at_ns 70, ''c''),
       (at_ns 80, at_ns 90, ''d'')]
      = Inr (replicate 3 FailureOutcomeRetryScheduled @ [FailureOutcomeTerminalFailure], j')
    \<and> ent_status j' = StatusFailed \<and> last_error j' = Some ''d''"
proof -
  have trim: "trim_space ''a'' = ''a'' \<and> trim_space ''b'' = ''b'' \<and> trim_space ''c'' = ''c''
    \<and> trim_space ''d'' = ''d''"
    by (intro conjI trim_space_id) (simp_all add: is_space_def)
  show ?thesis
    using retries_exhaust [OF wf_new_job [OF sample_new_job], of
      "[(at_ns 20, at_ns 30, ''a''), (at_ns 40, at_ns 50, ''b''), (at_ns 60, at_ns 70, ''c''),
       (at_ns 80, at_ns 90, ''d'')]"] trim
    by (auto simp: sample_job_def at_ns_def is_zero_def before_def)
qed

end
