(* ===== verification/Reference_World.thy ===== *)
theory Reference_World imports Wiring Durable_Rows Job_Properties begin

text \<open>
  A concrete platform, to run the program on and to show that its hypotheses can hold: the table of
  \<open>migrations/\<close> with its constraints as a list of rows, the broker as lists under keys, a clock that
  ticks, random bytes from a tape, a timer and faults from scripts. A fault loses a request before it
  takes effect or the reply after it did.
\<close>

section \<open>The table's constraints\<close>

text \<open>
  What \<open>000001_create_jobs_table.up.sql\<close> accepts in a row, in the words of the SQL: the column types (a
  CHAR(36) key in ASCII, VARCHARs, unsigned bytes for the counters, 65535 bytes of TEXT) and the five CHECK
  constraints. A VARCHAR's limit counts characters, which are not more than the bytes counted here.
  Comparison in the table's collation is case-insensitive; every value the program writes is lower
  case, and only that is accepted here. Left out are the limits of a JSON document (its depth, its size and its
  encoding) and the range of DATETIME.
\<close>

definition max_text_bytes :: nat where
  "max_text_bytes = 65535"

text \<open>\<open>JSON_TYPE(payload) = 'OBJECT' AND JSON_LENGTH(payload) > 0\<close>.\<close>

definition is_json_object :: "gostring \<Rightarrow> bool" where
  "is_json_object p =
     (case parse_json p of
        Inr (JObject ms, rest) \<Rightarrow> ms \<noteq> [] \<and> skip_ws rest = []
      | _ \<Rightarrow> False)"

definition table_accepts :: "job_record \<Rightarrow> bool" where
  "table_accepts r \<longleftrightarrow>
     length (rec_id r) \<le> 36 \<and> list_all (\<lambda>c. byte c < 0x80) (rec_id r)
     \<and> length (rec_type r) \<le> 50 \<and> length (rec_status r) \<le> 20
     \<and> 0 \<le> rec_retry_count r \<and> rec_retry_count r \<le> 255
     \<and> 0 \<le> rec_max_retries r \<and> rec_max_retries r \<le> 255
     \<and> (case rec_last_error r of None \<Rightarrow> True | Some s \<Rightarrow> length s \<le> max_text_bytes)
     \<and> rec_type r \<in> {''send_email'', ''report_generation'', ''data_cleanup''}
     \<and> rec_status r \<in> {''pending'', ''processing'', ''success'', ''failed''}
     \<and> is_json_object (rec_payload r)
     \<and> rec_max_retries r > 0 \<and> rec_retry_count r \<le> rec_max_retries r"

lemma sample_payload_object: "is_json_object sample_payload"
  by (simp add: is_json_object_def sample_payload_def json_eval parse_numeral)

section \<open>The world\<close>

datatype fault = NoFault | LostRequest | LostReply

record world =
  w_rows :: "job_record list"
  w_lists :: "gostring \<Rightarrow> gostring list"
  w_clock :: int
  w_tape :: "8 word list list"
  w_faults :: "fault list"
  w_waits :: "goerror option list"
  w_delivered :: "int list"
  w_log :: "log_line list"
  w_cancelled :: bool
  w_held :: "gostring list"

fun next_fault :: "world \<Rightarrow> fault \<times> world" where
  "next_fault w = (case w_faults w of [] \<Rightarrow> (NoFault, w) | f # fs \<Rightarrow> (f, w\<lparr>w_faults := fs\<rparr>))"

definition connection_lost :: goerror where
  "connection_lost = NewError ''connection lost''"

definition ref_table :: "world \<Rightarrow> gostring \<Rightarrow> job_record option" where
  "ref_table w i = find (\<lambda>r. rec_id r = i) (w_rows w)"

definition replied :: "fault \<Rightarrow> goerror option" where
  "replied f = (if f = LostReply then Some connection_lost else None)"

definition ref_create :: "job_record \<Rightarrow> world \<Rightarrow> goerror option \<times> world" where
  "ref_create r w =
     (case next_fault w of (f, w) \<Rightarrow>
        if f = LostRequest then (Some connection_lost, w)
        else if ref_table w (rec_id r) \<noteq> None then (Some (Sentinel ErrDuplicatedKey), w)
        else if \<not> table_accepts r then (Some (NewError ''constraint violated''), w)
        else (replied f, w\<lparr>w_rows := r # w_rows w\<rparr>))"

definition ref_first :: "gostring \<Rightarrow> world \<Rightarrow> (goerror + job_record) \<times> world" where
  "ref_first i w =
     (case next_fault w of (f, w) \<Rightarrow>
        if f \<noteq> NoFault then (Inl connection_lost, w)
        else case ref_table w i of
          None \<Rightarrow> (Inl (Sentinel ErrRecordNotFound), w)
        | Some r \<Rightarrow> (Inr r, w))"

definition ref_updates ::
  "gostring \<Rightarrow> gostring list \<Rightarrow> job_record \<Rightarrow> world \<Rightarrow> (goerror option \<times> int) \<times> world" where
  "ref_updates i cols r w =
     (case next_fault w of (f, w) \<Rightarrow>
        if f = LostRequest then ((Some connection_lost, 0), w)
        else case ref_table w i of
          None \<Rightarrow> ((None, 0), w)
        | Some r0 \<Rightarrow>
            if \<not> table_accepts (merge_columns cols r r0)
            then ((Some (NewError ''constraint violated''), 0), w)
            else ((replied f, 1),
              w\<lparr>w_rows := map (\<lambda>x. if rec_id x = i then merge_columns cols r x else x) (w_rows w)\<rparr>))"

definition ref_lpush :: "gostring \<Rightarrow> gostring \<Rightarrow> world \<Rightarrow> goerror option \<times> world" where
  "ref_lpush k v w =
     (case next_fault w of (f, w) \<Rightarrow>
        if f = LostRequest then (Some connection_lost, w)
        else (replied f, w\<lparr>w_lists := (w_lists w)(k := v # w_lists w k)\<rparr>))"

text \<open>A pop of an empty list waits until the context is cancelled.\<close>

definition ref_brpop :: "gostring \<Rightarrow> world \<Rightarrow> (goerror + gostring list) \<times> world" where
  "ref_brpop k w =
     (case next_fault w of (f, w) \<Rightarrow>
        if f = LostRequest then (Inl connection_lost, w)
        else if w_cancelled w then (Inl (Sentinel Canceled), w)
        else if w_lists w k = [] then (Inl (Sentinel Canceled), w\<lparr>w_cancelled := True\<rparr>)
        else
          let v = last (w_lists w k); w = w\<lparr>w_lists := (w_lists w)(k := butlast (w_lists w k))\<rparr> in
          if f = LostReply then (Inl connection_lost, w) else (Inr [k, v], w))"

definition ref_now :: "world \<Rightarrow> gotime \<times> world" where
  "ref_now w = (at_ns (w_clock w), w\<lparr>w_clock := w_clock w + 1\<rparr>)"

definition ref_random :: "world \<Rightarrow> (goerror + 8 word list) \<times> world" where
  "ref_random w =
     (case w_tape w of [] \<Rightarrow> (Inr (replicate 16 0), w) | v # vs \<Rightarrow> (Inr v, w\<lparr>w_tape := vs\<rparr>))"

definition ref_log :: "world logger" where
  "ref_log l w = w\<lparr>w_log := l # w_log w\<rparr>"

definition ref_pause :: "world pause" where
  "ref_pause d w =
     (case w_waits w of
        Some e # ws \<Rightarrow> (Some (Sentinel Canceled), w\<lparr>w_waits := ws\<rparr>)
      | None # ws \<Rightarrow> (None, w\<lparr>w_waits := ws, w_delivered := d # w_delivered w\<rparr>)
      | [] \<Rightarrow> (None, w\<lparr>w_delivered := d # w_delivered w\<rparr>))"

definition ref_platform :: "world platform" where
  "ref_platform =
     \<lparr>pf_db = \<lparr>gorm_create = ref_create, gorm_first = ref_first, gorm_updates = ref_updates\<rparr>,
      pf_redis = \<lparr>lpush = ref_lpush, brpop = ref_brpop\<rparr>, pf_queue_name = ''jobs'',
      pf_now = ref_now, pf_random = ref_random, pf_logger = ref_log, pf_pause = ref_pause,
      pf_parse_address = Inr\<rparr>"

section \<open>It is a world of the program\<close>

lemma column_kept_refl: "column_kept r r"
  by (simp add: column_kept_def option.rel_refl)

lemma find_key: "find (\<lambda>r. rec_id r = i) rs = Some r \<Longrightarrow> rec_id r = i"
  by (induction rs) (auto split: if_splits)

lemma find_map_key:
  assumes "\<And>x. rec_id (f x) = rec_id x" "find (\<lambda>r. rec_id r = i) rs = Some r0"
  shows "(\<lambda>k. find (\<lambda>r. rec_id r = k) (map (\<lambda>x. if rec_id x = i then f x else x) rs))
    = (\<lambda>k. find (\<lambda>r. rec_id r = k) rs)(i \<mapsto> f r0)"
proof
  fix k
  from assms(2) show "find (\<lambda>r. rec_id r = k) (map (\<lambda>x. if rec_id x = i then f x else x) rs)
    = ((\<lambda>k. find (\<lambda>r. rec_id r = k) rs)(i \<mapsto> f r0)) k"
  proof (induction rs)
    case (Cons x rs)
    show ?case
    proof (cases "rec_id x = i")
      case True
      have "find (\<lambda>r. rec_id r = k) (map (\<lambda>x. if rec_id x = i then f x else x) rs)
        = find (\<lambda>r. rec_id r = k) rs" if "k \<noteq> i"
        using that assms(1) by (induction rs) auto
      with True Cons.prems assms(1) show ?thesis by auto
    next
      case False
      with Cons assms(1) show ?thesis by auto
    qed
  qed simp
qed

lemma ref_table_cons: "find (\<lambda>x. rec_id x = k) (r # rs)
    = ((\<lambda>k. find (\<lambda>x. rec_id x = k) rs)(rec_id r \<mapsto> r)) k"
  by simp

lemma rec_id_merge [simp]: "rec_id (merge_columns cols r r0) = rec_id r0"
  by (simp add: merge_columns_def)

lemma foreign_lost [simp]: "foreign_error connection_lost" "foreign_error (NewError m)"
  "foreign_error (Sentinel ErrDuplicatedKey)" "foreign_error (Sentinel ErrRecordNotFound)"
  by (simp_all add: foreign_error_def adapter_error_def connection_lost_def)

lemma connection_lost_is [simp]: "\<not> errors_is connection_lost s"
  by (simp add: connection_lost_def)

lemma replied_None [simp]: "replied f = None \<longleftrightarrow> f \<noteq> LostReply"
  and replied_Some [simp]: "replied f = Some e \<longleftrightarrow> f = LostReply \<and> e = connection_lost"
  by (auto simp: replied_def)

lemma ref_table_fault: "next_fault w = (f, w1) \<Longrightarrow> ref_table w1 = ref_table w \<and> w_lists w1 = w_lists w
    \<and> w_delivered w1 = w_delivered w \<and> w_rows w1 = w_rows w"
  by (auto simp: ref_table_def fun_eq_iff split: list.splits)

lemma ref_platform_simps [simp]:
  "pf_db ref_platform = \<lparr>gorm_create = ref_create, gorm_first = ref_first, gorm_updates = ref_updates\<rparr>"
  "pf_redis ref_platform = \<lparr>lpush = ref_lpush, brpop = ref_brpop\<rparr>"
  "pf_queue_name ref_platform = ''jobs''" "pf_now ref_platform = ref_now"
  "pf_random ref_platform = ref_random" "pf_logger ref_platform = ref_log"
  "pf_pause ref_platform = ref_pause" "pf_parse_address ref_platform = Inr"
  by (simp_all add: ref_platform_def)

lemma ref_create_spec:
  assumes "ref_create r w = (res, w')"
  shows "w_lists w' = w_lists w \<and> w_delivered w' = w_delivered w
    \<and> (res = None \<longrightarrow> ref_table w (rec_id r) = None \<and> ref_table w' = (ref_table w)(rec_id r \<mapsto> r))
    \<and> (\<forall>e. res = Some e \<longrightarrow> foreign_error e
        \<and> (errors_is e ErrDuplicatedKey \<longrightarrow> ref_table w (rec_id r) \<noteq> None \<and> ref_table w' = ref_table w)
        \<and> (ref_table w' = ref_table w
           \<or> ref_table w (rec_id r) = None \<and> ref_table w' = (ref_table w)(rec_id r \<mapsto> r)))"
proof -
  obtain f w1 where f: "next_fault w = (f, w1)" by force
  have t: "ref_table (w1\<lparr>w_rows := r # w_rows w1\<rparr>) = (ref_table w1)(rec_id r \<mapsto> r)"
    by (simp add: ref_table_def fun_eq_iff)
  from assms f t ref_table_fault [OF f] show ?thesis
    by (auto simp: ref_create_def simp del: next_fault.simps split: if_splits)
qed

lemma ref_first_spec:
  assumes "ref_first i w = (res, w')"
  shows "w_lists w' = w_lists w \<and> w_delivered w' = w_delivered w \<and> ref_table w' = ref_table w
    \<and> (\<forall>r. res = Inr r \<longrightarrow> ref_table w i = Some r)
    \<and> (\<forall>e. res = Inl e \<longrightarrow> foreign_error e \<and> (errors_is e ErrRecordNotFound \<longrightarrow> ref_table w i = None))"
proof -
  obtain f w1 where f: "next_fault w = (f, w1)" by force
  with assms ref_table_fault [OF f] show ?thesis
    by (auto simp: ref_first_def simp del: next_fault.simps split: if_splits option.splits)
qed

lemma ref_updates_spec:
  assumes "ref_updates i cols r w = ((res, n), w')"
  shows "w_lists w' = w_lists w \<and> w_delivered w' = w_delivered w
    \<and> (n = 0 \<longrightarrow> ref_table w' = ref_table w)
    \<and> (n \<noteq> 0 \<longrightarrow> (\<exists>r0. ref_table w i = Some r0
          \<and> ref_table w' = (ref_table w)(i \<mapsto> merge_columns cols r r0)))
    \<and> (\<forall>e. res = Some e \<longrightarrow> foreign_error e)"
proof -
  obtain f w1 where f: "next_fault w = (f, w1)" by force
  have t: "ref_table (w1\<lparr>w_rows := map (\<lambda>x. if rec_id x = i then merge_columns cols r x else x) (w_rows w1)\<rparr>)
      = (ref_table w1)(i \<mapsto> merge_columns cols r r0)" if "ref_table w1 i = Some r0" for r0
    using find_map_key [of "merge_columns cols r" i "w_rows w1" r0] that
    by (simp add: ref_table_def fun_eq_iff)
  from assms f t ref_table_fault [OF f] show ?thesis
    by (auto simp: ref_updates_def simp del: next_fault.simps split: if_splits option.splits)
qed

lemma ref_lpush_spec:
  assumes "ref_lpush k v w = (res, w')"
  shows "ref_table w' = ref_table w \<and> w_delivered w' = w_delivered w
    \<and> (res = None \<longrightarrow> w_lists w' = (w_lists w)(k := v # w_lists w k))
    \<and> (\<forall>e. res = Some e \<longrightarrow> e = connection_lost
        \<and> (w_lists w' = w_lists w \<or> w_lists w' = (w_lists w)(k := v # w_lists w k)))"
proof -
  obtain f w1 where f: "next_fault w = (f, w1)" by force
  have t: "ref_table (w1\<lparr>w_lists := q\<rparr>) = ref_table w1" for q
    by (simp add: ref_table_def fun_eq_iff)
  from assms f t ref_table_fault [OF f] show ?thesis
    by (auto simp: ref_lpush_def simp del: next_fault.simps split: if_splits)
qed

lemma ref_brpop_spec:
  assumes "ref_brpop k w = (res, w')"
  shows "(\<forall>xs. res = Inr xs \<longrightarrow>
      (\<exists>v vs. w_lists w k = vs @ [v] \<and> xs = [k, v] \<and> w_lists w' = (w_lists w)(k := vs)))
    \<and> (\<forall>e. res = Inl e \<longrightarrow> w_lists w' = w_lists w \<or> w_lists w' = (w_lists w)(k := butlast (w_lists w k)))"
proof -
  obtain f w1 where f: "next_fault w = (f, w1)" by force
  have l: "w_lists w k \<noteq> [] \<Longrightarrow> w_lists w k = butlast (w_lists w k) @ [last (w_lists w k)]"
    by simp
  from assms f l ref_table_fault [OF f] show ?thesis
    by (auto simp: ref_brpop_def Let_def simp del: next_fault.simps append_butlast_last_id split: if_splits)
qed

lemma ref_pause_spec:
  "ref_pause d w = (res, w') \<Longrightarrow> ref_table w' = ref_table w \<and> w_lists w' = w_lists w
     \<and> (\<forall>e. res = Some e \<longrightarrow> e = Sentinel Canceled)"
  by (auto simp: ref_pause_def ref_table_def fun_eq_iff split: list.splits option.splits)

interpretation ref_db: gorm_jobs "pf_db ref_platform" ref_table
proof (unfold_locales, unfold ref_platform_simps gorm.simps)
  fix w w' :: world and r r0 :: job_record and i :: gostring and cols :: "gostring list"
    and e :: goerror and n :: int and res :: "goerror option"
  show "ref_table w i = Some r \<Longrightarrow> rec_id r = i"
    unfolding ref_table_def by (rule find_key)
  show "ref_table w (rec_id r) = None
      \<and> (\<exists>s. column_kept r s \<and> ref_table w' = (ref_table w)(rec_id r \<mapsto> s))"
    if "ref_create r w = (None, w')"
    using ref_create_spec [OF that] column_kept_refl by blast
  show "foreign_error e
      \<and> (errors_is e ErrDuplicatedKey \<longrightarrow> ref_table w (rec_id r) \<noteq> None \<and> ref_table w' = ref_table w)
      \<and> (ref_table w' = ref_table w \<or> ref_table w (rec_id r) = None
         \<and> (\<exists>s. column_kept r s \<and> ref_table w' = (ref_table w)(rec_id r \<mapsto> s)))"
    if "ref_create r w = (Some e, w')"
    using ref_create_spec [OF that] column_kept_refl by blast
  show "ref_table w i = Some r \<and> ref_table w' = ref_table w" if "ref_first i w = (Inr r, w')"
    using ref_first_spec [OF that] by blast
  show "foreign_error e \<and> ref_table w' = ref_table w \<and> (errors_is e ErrRecordNotFound \<longrightarrow> ref_table w i = None)"
    if "ref_first i w = (Inl e, w')"
    using ref_first_spec [OF that] by blast
  show "ref_table w' = ref_table w" if "ref_updates i cols r w = ((res, 0), w')" "res = None"
    using ref_updates_spec [OF that(1)] by blast
  have merged: "(''payload'' \<notin> set cols \<longrightarrow> rec_payload (merge_columns cols r x) = rec_payload x)
      \<and> (''created_at'' \<notin> set cols \<longrightarrow> rec_created_at (merge_columns cols r x) = rec_created_at x)" for x
    by (simp add: merge_columns_def)
  show "\<exists>r0 s. ref_table w i = Some r0 \<and> column_kept (merge_columns cols r r0) s
        \<and> (''payload'' \<notin> set cols \<longrightarrow> rec_payload s = rec_payload r0)
        \<and> (''created_at'' \<notin> set cols \<longrightarrow> rec_created_at s = rec_created_at r0)
        \<and> ref_table w' = (ref_table w)(i \<mapsto> s)"
    if "ref_updates i cols r w = ((None, n), w')" "n \<noteq> 0"
    using ref_updates_spec [OF that(1)] that(2) column_kept_refl merged by blast
  show "foreign_error e \<and> (ref_table w' = ref_table w
      \<or> (\<exists>r0 s. ref_table w i = Some r0 \<and> column_kept (merge_columns cols r r0) s
        \<and> (''payload'' \<notin> set cols \<longrightarrow> rec_payload s = rec_payload r0)
        \<and> (''created_at'' \<notin> set cols \<longrightarrow> rec_created_at s = rec_created_at r0)
        \<and> ref_table w' = (ref_table w)(i \<mapsto> s)))"
    if "ref_updates i cols r w = ((Some e, n), w')"
    using ref_updates_spec [OF that] column_kept_refl merged by (cases "n = 0") blast+
qed

text \<open>It keeps every value exactly.\<close>

interpretation ref_durable: durable_rows "pf_db ref_platform" ref_table "\<lambda>p. p"
proof (unfold_locales, unfold ref_platform_simps gorm.simps)
  fix w w' :: world and r r0 :: job_record and i :: gostring and cols :: "gostring list" and n :: int
  show "\<exists>s. ref_table w' (rec_id r) = Some s \<and> rec_payload s = rec_payload r
      \<and> same_microsecond (rec_created_at r) (rec_created_at s)
      \<and> same_microsecond (rec_updated_at r) (rec_updated_at s)
      \<and> rel_option same_microsecond (rec_started_at r) (rec_started_at s)
      \<and> rel_option same_microsecond (rec_completed_at r) (rec_completed_at s)"
    if "ref_create r w = (None, w')"
    using ref_create_spec [OF that] by (auto simp: option.rel_refl)
  show "\<exists>s. ref_table w' i = Some s
      \<and> (if ''started_at'' \<in> set cols
         then rel_option same_microsecond (rec_started_at r) (rec_started_at s)
         else rec_started_at s = rec_started_at r0)
      \<and> (if ''completed_at'' \<in> set cols
         then rel_option same_microsecond (rec_completed_at r) (rec_completed_at s)
         else rec_completed_at s = rec_completed_at r0)"
    if "ref_updates i cols r w = ((None, n), w')" "n \<noteq> 0" "ref_table w i = Some r0"
    using ref_updates_spec [OF that(1)] that(2,3)
    by (auto simp: option.rel_refl merge_columns_def)
qed

interpretation ref_redis: redis_lists "pf_redis ref_platform" w_lists
proof (unfold_locales, unfold ref_platform_simps redis_client.simps)
  fix w w' :: world and k v :: gostring and e :: goerror and xs :: "gostring list"
  show "w_lists w' = (w_lists w)(k := v # w_lists w k)" if "ref_lpush k v w = (None, w')"
    using ref_lpush_spec [OF that] by blast
  have "adapter_error connection_lost" by (simp add: connection_lost_def)
  then show "adapter_error e \<and> (w_lists w' = w_lists w \<or> w_lists w' = (w_lists w)(k := v # w_lists w k))"
    if "ref_lpush k v w = (Some e, w')"
    using ref_lpush_spec [OF that] by blast
  show "\<exists>v vs. w_lists w k = vs @ [v] \<and> xs = [k, v] \<and> w_lists w' = (w_lists w)(k := vs)"
    if "ref_brpop k w = (Inr xs, w')"
    using ref_brpop_spec [OF that] by blast
  show "w_lists w' = w_lists w \<or> w_lists w' = (w_lists w)(k := butlast (w_lists w k))"
    if "ref_brpop k w = (Inl e, w')"
    using ref_brpop_spec [OF that] by blast
qed

lemma ref_quiet:
  "ref_now w = (t, w') \<Longrightarrow> ref_table w' = ref_table w \<and> w_lists w' = w_lists w \<and> w_delivered w' = w_delivered w"
  "ref_random w = (bs, w') \<Longrightarrow> ref_table w' = ref_table w \<and> w_lists w' = w_lists w"
  "ref_table (ref_log l w) = ref_table w \<and> w_lists (ref_log l w) = w_lists w
     \<and> w_delivered (ref_log l w) = w_delivered w"
  by (auto simp: ref_now_def ref_random_def ref_log_def ref_table_def fun_eq_iff split: list.splits)

interpretation ref: program_world ref_platform ref_table w_lists w_delivered
proof (unfold_locales, unfold ref_platform_simps gorm.simps redis_client.simps)
  fix w w' :: world and r :: job_record and i k v :: gostring and cols :: "gostring list" and d :: int
    and e :: goerror and res :: "goerror option" and resf :: "goerror + job_record"
    and resu :: "goerror option \<times> int" and t :: gotime and bs :: "goerror + 8 word list" and l :: log_line
  show "w_lists w' = w_lists w \<and> w_delivered w' = w_delivered w" if "ref_create r w = (res, w')"
    using ref_create_spec [OF that] by blast
  show "w_lists w' = w_lists w \<and> w_delivered w' = w_delivered w" if "ref_first i w = (resf, w')"
    using ref_first_spec [OF that] by blast
  show "w_lists w' = w_lists w \<and> w_delivered w' = w_delivered w" if "ref_updates i cols r w = (resu, w')"
    using ref_updates_spec [of i cols r w "fst resu" "snd resu" w'] that by simp
  show "ref_table w' = ref_table w \<and> w_delivered w' = w_delivered w" if "ref_lpush k v w = (res, w')"
    using ref_lpush_spec [OF that] by blast
  show "ref_table w' = ref_table w \<and> w_lists w' = w_lists w \<and> w_delivered w' = w_delivered w"
    if "ref_now w = (t, w')"
    using ref_quiet(1) [OF that] .
  show "ref_table w' = ref_table w \<and> w_lists w' = w_lists w" if "ref_random w = (bs, w')"
    using ref_quiet(2) [OF that] .
  show "ref_table (ref_log l w) = ref_table w" "w_lists (ref_log l w) = w_lists w"
    "w_delivered (ref_log l w) = w_delivered w"
    using ref_quiet(3) [of l w] by blast+
  show "ref_table w' = ref_table w \<and> w_lists w' = w_lists w" if "ref_pause d w = (res, w')"
    using ref_pause_spec [OF that] by blast
  show "e = Sentinel Canceled \<or> e = Sentinel DeadlineExceeded" if "ref_pause d w = (Some e, w')"
    using ref_pause_spec [OF that] by blast
qed

end
