(* ===== verification/Use_Case_Properties.thy ===== *)
theory Use_Case_Properties imports Reference_World begin

text \<open>
  The properties of the use cases and their adapters, stated over the interfaces of \<open>Use_Case_Laws\<close>
  and of \<open>Wiring\<close>. The witnesses run the wired program in the reference world.
\<close>

section \<open>A concrete run\<close>

definition sample_words :: wording where
  "sample_words = \<lparr>printable = (\<lambda>r. r < 0x80), json_wording = (\<lambda>e. ''json'')\<rparr>"

definition sample_record :: job_record where
  "sample_record = \<lparr>rec_id = sample_id, rec_type = TypeSendEmail, rec_status = StatusPending,
     rec_payload = sample_payload, rec_retry_count = 0, rec_max_retries = 3, rec_last_error = None,
     rec_created_at = at_ns 10, rec_updated_at = at_ns 10, rec_started_at = None,
     rec_completed_at = None\<rparr>"

definition sample_world :: world where
  "sample_world = \<lparr>w_rows = [sample_record], w_lists = (\<lambda>_. []), w_clock = 20, w_tape = [],
     w_faults = [], w_waits = [], w_delivered = [], w_log = [], w_cancelled = False, w_held = []\<rparr>"

definition ref_worker :: "world process_job" where
  "ref_worker = \<lparr>pj_repository = mysql_repository (pf_db ref_platform),
     pj_queue = queue_enqueue (wired_queue ref_platform),
     pj_executor = \<lambda>j. dispatcher_execute (wired_handlers ref_platform) (Some j),
     pj_clock = system_now ref_now, pj_observer = status_persisted ref_log\<rparr>"

definition ref_api :: "world create_job" where
  "ref_api = \<lparr>cj_repository = mysql_repository (pf_db ref_platform),
     cj_queue = queue_enqueue (wired_queue ref_platform), cj_id_generator = new_id ref_random,
     cj_clock = system_now ref_now, cj_observer = status_persisted ref_log\<rparr>"

lemma trim_jobs: "trim_space ''jobs'' = ''jobs''"
  by (rule trim_space_id) (simp_all add: is_space_def)

lemma ref_worker_wired: "worker_process_job ref_platform = Inr ref_worker"
  by (simp add: worker_process_job_eq ref_worker_def trim_jobs)

lemma ref_api_wired: "api_create_job ref_platform = Inr ref_api"
  by (simp add: api_create_job_eq ref_api_def trim_jobs)

lemma sample_row_read: "job_record_to_domain sample_record = Inr sample_job"
proof (rule mapping_round_trip)
  show "wf_job sample_job" by (rule wf_new_job [OF sample_new_job])
qed (simp add: from_domain_Some sample_record_def sample_job_def)

lemma sample_row: "job_rows (ref_table sample_world) sample_id = Some sample_job"
proof -
  have "rec_id sample_record = sample_id" "ent_id sample_job = sample_id"
    by (simp_all add: sample_record_def sample_job_def)
  then show ?thesis by (simp add: job_rows_def sample_row_read ref_table_def sample_world_def)
qed

lemmas ref_processing = ref.wired_processing [OF ref_worker_wired]

lemmas ref_creating = ref.wired_creating [OF ref_api_wired]

section \<open>Adapters and wiring\<close>

text \<open>C24. The constructors that \<open>main\<close> of the worker and of the API call succeed for every
  platform unless the configured queue name is blank; what they build satisfies the interface that the
  use cases are verified against, whenever the database, the broker and the rest of the platform
  behave as documented. Its rows are the rows of the table, read by the repository's own mapping, and its
  queue is the list of the broker under the trimmed name.\<close>

theorem wired_programs_meet_interface:
  assumes "program_world pf table keys effects" "trim_space (pf_queue_name pf) \<noteq> []"
  shows "\<exists>uc cc. worker_process_job pf = Inr uc \<and> api_create_job pf = Inr cc
    \<and> processing_world uc (\<lambda>w. job_rows (table w))
        (\<lambda>w. queued_ids (keys w (trim_space (pf_queue_name pf)))) effects
    \<and> creating_world cc (\<lambda>w. job_rows (table w))
        (\<lambda>w. queued_ids (keys w (trim_space (pf_queue_name pf))))"
proof -
  obtain uc cc where "worker_process_job pf = Inr uc" "api_create_job pf = Inr cc"
    using assms(2) by (simp add: worker_process_job_eq api_create_job_eq)
  with program_world.wired_processing [OF assms(1)] program_world.wired_creating [OF assms(1)]
  show ?thesis by blast
qed

lemma wired_programs_meet_interface_witness:
  "\<exists>uc cc. worker_process_job ref_platform = Inr uc \<and> api_create_job ref_platform = Inr cc
    \<and> processing_world uc (\<lambda>w. job_rows (ref_table w)) (\<lambda>w. queued_ids (w_lists w ''jobs'')) w_delivered
    \<and> creating_world cc (\<lambda>w. job_rows (ref_table w)) (\<lambda>w. queued_ids (w_lists w ''jobs''))"
  using wired_programs_meet_interface [OF ref.program_world_axioms] by (simp add: trim_jobs)

section \<open>Processing\<close>

text \<open>C2. What an execution of \<open>ProcessJob\<close> reports is what it did. Nil: the job was pending and is
  now successful, with no error kept, and nothing was queued. \<open>ErrJobRetryScheduled\<close>: the job was
  pending with a retry left, is pending again with one more retry used and an error kept, and its
  identifier was added to the end of the queue. \<open>ErrJobRetriesExhausted\<close>: the job was
  pending with no retry left and is failed. Rows of other jobs never change.\<close>

theorem process_job_reports_truth:
  assumes "processing_world uc rows contents effects"
    "process_job_execute words uc i w = (r, w')"
  shows "(r = None \<longrightarrow> (\<exists>j j'. rows w i = Some j \<and> ent_status j = StatusPending
        \<and> rows w' i = Some j' \<and> ent_status j' = StatusSuccess \<and> last_error j' = None
        \<and> same_frame j j' \<and> contents w' = contents w))
    \<and> (\<forall>e. r = Some e \<longrightarrow> errors_is e ErrJobRetryScheduled \<longrightarrow>
        (\<exists>j j'. rows w i = Some j \<and> ent_status j = StatusPending \<and> retry_count j < max_retries j
        \<and> rows w' i = Some j' \<and> ent_status j' = StatusPending \<and> retry_count j' = retry_count j + 1
        \<and> last_error j' \<noteq> None \<and> same_frame j j' \<and> contents w' = contents w @ [i]))
    \<and> (\<forall>e. r = Some e \<longrightarrow> errors_is e ErrJobRetriesExhausted \<longrightarrow>
        (\<exists>j j'. rows w i = Some j \<and> ent_status j = StatusPending \<and> retry_count j = max_retries j
        \<and> rows w' i = Some j' \<and> ent_status j' = StatusFailed \<and> last_error j' \<noteq> None
        \<and> same_frame j j' \<and> contents w' = contents w))
    \<and> (\<forall>k. k \<noteq> i \<longrightarrow> rows w' k = rows w k)"
proof (intro conjI allI impI)
  note eff = processing_world.process_job_effect [OF assms]
  have not_adapter: "\<not> adapter_error e"
    if "errors_is e ErrJobRetryScheduled \<or> errors_is e ErrJobRetriesExhausted" for e
    using that by (auto simp: adapter_error_def)
  show "rows w' k = rows w k" if "k \<noteq> i" for k
    using eff that not_run_other run_once_other by metis
  show "\<exists>j j'. rows w i = Some j \<and> ent_status j = StatusPending \<and> rows w' i = Some j'
      \<and> ent_status j' = StatusSuccess \<and> last_error j' = None \<and> same_frame j j' \<and> contents w' = contents w"
    if "r = None"
    using eff run_once_succeeded unfolding that not_run_def by blast
  have failed: "\<exists>j j'. rows w i = Some j \<and> wf_job j \<and> ent_status j = StatusPending
    \<and> rows w' i = Some j' \<and> last_error j' \<noteq> None \<and> same_frame j j'
    \<and> (if can_retry j then ent_status j' = StatusPending \<and> retry_count j' = retry_count j + 1
         \<and> errors_is e ErrJobRetryScheduled \<and> \<not> errors_is e ErrJobRetriesExhausted
         \<and> contents w' = contents w @ [i]
       else ent_status j' = StatusFailed \<and> retry_count j' = retry_count j
         \<and> errors_is e ErrJobRetriesExhausted \<and> \<not> errors_is e ErrJobRetryScheduled
         \<and> contents w' = contents w)"
    if "r = Some e" "\<not> adapter_error e" for e
    using eff that run_once_failed unfolding not_run_def by blast
  show "\<exists>j j'. rows w i = Some j \<and> ent_status j = StatusPending \<and> retry_count j < max_retries j
      \<and> rows w' i = Some j' \<and> ent_status j' = StatusPending \<and> retry_count j' = retry_count j + 1
      \<and> last_error j' \<noteq> None \<and> same_frame j j' \<and> contents w' = contents w @ [i]"
    if "r = Some e" "errors_is e ErrJobRetryScheduled" for e
    using failed [OF that(1)] not_adapter that(2) by (auto simp: can_retry_def split: if_splits)
  show "\<exists>j j'. rows w i = Some j \<and> ent_status j = StatusPending \<and> retry_count j = max_retries j
      \<and> rows w' i = Some j' \<and> ent_status j' = StatusFailed \<and> last_error j' \<noteq> None
      \<and> same_frame j j' \<and> contents w' = contents w"
    if "r = Some e" "errors_is e ErrJobRetriesExhausted" for e
    using failed [OF that(1)] not_adapter that(2)
    by (auto simp: can_retry_def wf_job_def split: if_splits)
qed


lemma sample_decode:
  "decode_send_email_payload pa sample_payload
     = Inl (Errorf [Arg_w (Sentinel ErrInvalidHandlerPayload), Lit '': '',
         Arg_v (JsonError (JsonUnknownField ''a''))])"
proof -
  have keys: "fold_name ''a'' = [65]" "fold_name ''to'' = [84, 79]"
    "fold_name ''subject'' = [83, 85, 66, 74, 69, 67, 84]" "fold_name ''body'' = [66, 79, 68, 89]"
    "unquote ''a'' = ''a''"
    by code_simp+
  have "decode_stream sample_payload
    = Inr (JObject [(''a'', ''1'', JNumber ''1'')], [])"
    by (simp add: decode_stream_def sample_payload_def json_eval parse_numeral)
  moreover have "decode_struct send_email_fields z (JObject [(''a'', ''1'', JNumber ''1'')])
     = Inl (JsonUnknownField ''a'')" for z
    by (simp add: decode_struct_def keys find_field_def send_email_fields_def save_error_def)
  ultimately show ?thesis
    by (simp add: decode_send_email_payload_def decode_strict_payload_def Let_def)
qed


definition sample_execution_error :: goerror where
  "sample_execution_error =
     Errorf [Lit ''handle '', Arg_s TypeSendEmail, Lit '' job '', Arg_s sample_id, Lit '': '',
       Arg_w (Errorf [Lit ''decode send-email job '', Arg_s sample_id, Lit '': '',
         Arg_w (Errorf [Arg_w (Sentinel ErrInvalidHandlerPayload), Lit '': '',
           Arg_v (JsonError (JsonUnknownField ''a''))])])]"

lemma sample_execute:
  assumes "ent_type j = TypeSendEmail" "ent_payload j = sample_payload" "ent_id j = sample_id"
  shows "dispatcher_execute (wired_handlers pf) (Some j) w = (Some sample_execution_error, w)"
  using assms by (simp add: dispatcher_execute_def wired_handlers_def handle_send_email_def sample_decode
      sample_execution_error_def Let_def)

lemma sample_reason:
  "trim_space (error_text sample_words sample_execution_error)
    = error_text sample_words sample_execution_error"
  by (rule trim_space_id)
     (simp_all add: sample_execution_error_def sample_words_def TypeSendEmail_def sample_id_def is_space_def)

lemma sample_get:
  "repository_get_by_id (pf_db ref_platform) sample_id sample_world = (Inr sample_job, sample_world)"
proof -
  have "rec_id sample_record = sample_id" by (simp add: sample_record_def)
  then have "ref_first sample_id sample_world = (Inr sample_record, sample_world)"
    by (simp add: ref_first_def ref_table_def sample_world_def)
  then show ?thesis by (simp add: repository_get_by_id_def sample_id_valid sample_row_read)
qed

text \<open>A write of a quiet reference world goes through.\<close>

definition quiet :: "world \<Rightarrow> job_record list \<Rightarrow> int \<Rightarrow> bool" where
  "quiet w rs t \<longleftrightarrow> w_faults w = [] \<and> w_rows w = rs \<and> w_clock w = t \<and> w_lists w = (\<lambda>_. [])"

lemma quiet_update:
  assumes "quiet w [r0] t" "rec_id r0 = ent_id j" "job_record_from_domain (Some j) = Inr r"
    "table_accepts (merge_columns updated_columns r r0)"
  obtains w' where "repository_update (pf_db ref_platform) (Some j) w = (None, w')"
    "quiet w' [merge_columns updated_columns r r0] t"
  using assms
  by (simp add: repository_update_def ref_updates_def quiet_def ref_table_def replied_def from_domain_Some)

lemma quiet_log: "quiet w rs t \<Longrightarrow> quiet (status_persisted ref_log j st w) rs t"
  by (simp add: quiet_def status_persisted_def log_attrs_def ref_log_def Let_def)

lemma quiet_now: "quiet w rs t \<Longrightarrow> \<exists>w'. system_now ref_now w = (at_ns t, w') \<and> quiet w' rs (t + 1)"
  by (simp add: quiet_def system_now_def ref_now_def at_ns_def utc_def)

lemma quiet_enqueue:
  assumes "quiet w rs t" "id_is_valid i"
  shows "\<exists>w'. queue_enqueue (wired_queue ref_platform) i w = (None, w') \<and> w_lists w' ''jobs'' = [i]"
  using assms
  by (simp add: queue_enqueue_def wired_queue_def trim_jobs ref_lpush_def quiet_def replied_def)

definition sample_started :: job where
  "sample_started = sample_job\<lparr>ent_status := StatusProcessing, started_at := Some (at_ns 20),
     completed_at := None, updated_at := at_ns 20\<rparr>"

definition sample_retried :: job where
  "sample_retried = retried (at_ns 21) (error_text sample_words sample_execution_error) sample_started"

lemma sample_transitions:
  "mark_processing (at_ns 20) sample_job = Inr sample_started"
  "record_failure (at_ns 21) (error_text sample_words sample_execution_error) sample_started
     = Inr (FailureOutcomeRetryScheduled, sample_retried)"
proof -
  have utc: "utc (at_ns t) = at_ns t" for t by (simp add: at_ns_def utc_def)
  show "mark_processing (at_ns 20) sample_job = Inr sample_started"
    by (simp add: mark_processing_ok sample_started_def utc)
       (simp add: sample_job_def at_ns_def is_zero_def before_def)
  have "error_text sample_words sample_execution_error \<noteq> []"
    by (simp add: sample_execution_error_def)
  then show "record_failure (at_ns 21) (error_text sample_words sample_execution_error) sample_started
     = Inr (FailureOutcomeRetryScheduled, sample_retried)"
    by (simp add: record_failure_ok sample_retried_def can_retry_def sample_reason)
       (simp add: sample_started_def sample_job_def at_ns_def is_zero_def before_def)
qed

lemma sample_id_ascii: "length sample_id \<le> 36 \<and> list_all (\<lambda>c. byte c < 0x80) sample_id"
  by (simp add: sample_id_def)

lemma sample_rows_accepted:
  assumes "job_record_from_domain (Some sample_started) = Inr r1"
    "job_record_from_domain (Some sample_retried) = Inr r2"
  shows "table_accepts (merge_columns updated_columns r1 sample_record)"
    "table_accepts (merge_columns updated_columns r2 (merge_columns updated_columns r1 sample_record))"
proof -
  have "length (error_text sample_words sample_execution_error) \<le> max_text_bytes"
    by (simp add: sample_execution_error_def sample_words_def TypeSendEmail_def sample_id_def
        max_text_bytes_def)
  then show "table_accepts (merge_columns updated_columns r1 sample_record)"
    "table_accepts (merge_columns updated_columns r2 (merge_columns updated_columns r1 sample_record))"
    using assms sample_id_ascii sample_payload_object
    by (simp_all add: from_domain_Some table_accepts_def merge_columns_def updated_columns_def
        TypeSendEmail_def StatusPending_def StatusProcessing_def sample_started_def sample_retried_def retried_def sample_job_def sample_record_def sample_reason)
qed

text \<open>One execution of the wired worker on the pending job, whose payload its handler refuses: the first
  retry is scheduled.\<close>

lemma sample_processing:
  "\<exists>e w'. process_job_execute sample_words ref_worker sample_id sample_world = (Some e, w')
    \<and> errors_is e ErrJobRetryScheduled \<and> w_lists w' ''jobs'' = [sample_id]"
proof -
  obtain r1 r2 where r: "job_record_from_domain (Some sample_started) = Inr r1"
    "job_record_from_domain (Some sample_retried) = Inr r2"
    by (simp add: from_domain_Some)
  note acc = sample_rows_accepted [OF r]
  let ?r1 = "merge_columns updated_columns r1 sample_record"
  have ids: "rec_id sample_record = ent_id sample_started" "rec_id ?r1 = ent_id sample_retried"
    "ent_id sample_started = sample_id" "ent_id sample_retried = sample_id"
    by (simp_all add: sample_record_def sample_started_def sample_retried_def retried_def sample_job_def)
  have "quiet sample_world [sample_record] 20" by (simp add: quiet_def sample_world_def)
  then obtain w1 where clk: "system_now ref_now sample_world = (at_ns 20, w1)" "quiet w1 [sample_record] 21"
    using quiet_now by fastforce
  obtain w2 where u1: "repository_update (pf_db ref_platform) (Some sample_started) w1 = (None, w2)"
    "quiet w2 [?r1] 21"
    using quiet_update [OF clk(2) ids(1) r(1) acc(1)] .
  let ?w3 = "status_persisted ref_log sample_started (ent_status sample_job) w2"
  obtain w4 where clk2: "system_now ref_now ?w3 = (at_ns 21, w4)" "quiet w4 [?r1] 22"
    using quiet_now [OF quiet_log [OF u1(2)]] by fastforce
  obtain w5 where u2: "repository_update (pf_db ref_platform) (Some sample_retried) w4 = (None, w5)"
    "quiet w5 [merge_columns updated_columns r2 ?r1] 22"
    using quiet_update [OF clk2(2) ids(2) r(2) acc(2)] .
  let ?w6 = "status_persisted ref_log sample_retried (ent_status sample_started) w5"
  obtain w7 where enq: "queue_enqueue (wired_queue ref_platform) sample_id ?w6 = (None, w7)"
    "w_lists w7 ''jobs'' = [sample_id]"
    using quiet_enqueue [OF quiet_log [OF u2(2)] sample_id_valid] by blast
  have "process_job_execute sample_words ref_worker sample_id sample_world
      = execute_and_finish sample_words ref_worker sample_id sample_started
          (pj_observer ref_worker sample_started (ent_status sample_job) w2)"
    by (rule process_job_started [OF sample_id_valid _ _ sample_transitions(1)])
       (use sample_get clk u1 in \<open>simp_all add: ref_worker_def mysql_repository_def\<close>)
  also have "\<dots> = handle_execution_failure sample_words ref_worker sample_started sample_execution_error ?w3"
    using sample_execute [of sample_started ref_platform ?w3] ids(3)
    by (simp add: execute_and_finish_def ref_worker_def sample_started_def sample_job_def)
  also have "\<dots> = (Some (retry_scheduled_error sample_retried sample_execution_error), w7)"
    using clk2(1) sample_transitions(2) u2(1) enq(1) ids
    by (simp add: handle_execution_failure_def Let_def ref_worker_def mysql_repository_def)
  finally show ?thesis using enq(2) by simp
qed

lemma process_job_reports_truth_witness:
  "\<exists>e w' j'. process_job_execute sample_words ref_worker sample_id sample_world = (Some e, w')
    \<and> job_rows (ref_table w') sample_id = Some j' \<and> ent_status j' = StatusPending
    \<and> retry_count j' = 1 \<and> queued_ids (w_lists w' ''jobs'') = [sample_id]"
proof -
  from sample_processing obtain e w' where p:
    "process_job_execute sample_words ref_worker sample_id sample_world = (Some e, w')"
    "errors_is e ErrJobRetryScheduled" by blast
  from process_job_reports_truth [OF ref_processing p(1)] p(2) sample_row
  obtain j' where "job_rows (ref_table w') sample_id = Some j'" "ent_status j' = StatusPending"
    "retry_count j' = 1"
    "queued_ids (w_lists w' ''jobs'') = queued_ids (w_lists sample_world ''jobs'') @ [sample_id]"
    by (auto simp: trim_jobs sample_job_def)
  with p(1) show ?thesis by (auto simp: sample_world_def queued_ids_def)
qed

text \<open>C7. A second delivery of an identifier does no harm: when the job's row is missing or is not
  pending, the execution ends with an error that is neither of the retry outcomes, the executor is not
  run, and rows and queue stay as they are. So a job that is being processed, or is over, is never
  executed again.\<close>

theorem duplicate_delivery_harmless:
  assumes "processing_world uc rows contents effects"
    "process_job_execute words uc i w = (r, w')"
    "\<forall>j. rows w i = Some j \<longrightarrow> ent_status j \<noteq> StatusPending"
  shows "(\<exists>e. r = Some e \<and> adapter_error e) \<and> rows w' = rows w \<and> contents w' = contents w
    \<and> effects w' = effects w"
proof -
  have "\<not> run_once words i r (rows w) (rows w') (contents w) (contents w') j1 rx" for j1 rx
    using assms(3) by (auto elim!: run_onceE)
  then have "effects w' = effects w" "contents w' = contents w" "not_run i r (rows w) (rows w')"
    using processing_world.process_job_effect [OF assms(1,2)] by blast+
  with assms(3) show ?thesis
    by (auto simp: not_run_def mark_processing_ok)
qed

definition finished_world :: world where
  "finished_world = sample_world\<lparr>w_rows := [sample_record\<lparr>rec_status := StatusSuccess\<rparr>]\<rparr>"

lemma duplicate_delivery_harmless_witness:
  "\<exists>e w'. process_job_execute sample_words ref_worker sample_id finished_world = (Some e, w')
    \<and> w_delivered w' = [] \<and> queued_ids (w_lists w' ''jobs'') = []"
proof -
  obtain r w' where p: "process_job_execute sample_words ref_worker sample_id finished_world = (r, w')"
    by force
  have row: "\<forall>j. job_rows (ref_table finished_world) sample_id = Some j \<longrightarrow> ent_status j \<noteq> StatusPending"
  proof (intro allI impI)
    fix j assume "job_rows (ref_table finished_world) sample_id = Some j"
    then have "job_record_to_domain (sample_record\<lparr>rec_status := StatusSuccess\<rparr>) = Inr j"
      by (auto simp: job_rows_Some ref_table_def finished_world_def split: if_splits)
    from to_domain_ok [OF this] show "ent_status j \<noteq> StatusPending"
      by (auto simp: parse_status_valid)
  qed
  from duplicate_delivery_harmless [OF ref_processing p row] p show ?thesis
    by (auto simp: finished_world_def sample_world_def queued_ids_def trim_jobs)
qed

text \<open>C8. A retry is persisted before it is published: if an execution of \<open>ProcessJob\<close> changes the
  queue at all, then only by adding the job's identifier to its end, and the row of that job is then
  pending with one more retry used. This holds for every way a call can fail, so no worker can receive
  an identifier whose row still says processing.\<close>

theorem retry_persisted_before_published:
  assumes "processing_world uc rows contents effects"
    "process_job_execute words uc i w = (r, w')"
  shows "contents w' = contents w
    \<or> (contents w' = contents w @ [i] \<and> (\<exists>j'. rows w' i = Some j' \<and> ent_status j' = StatusPending))"
  using processing_world.process_job_effect [OF assms] run_once_published by metis

lemma retry_persisted_before_published_witness:
  "\<exists>w' j'. snd (process_job_execute sample_words ref_worker sample_id sample_world) = w'
    \<and> job_rows (ref_table w') sample_id = Some j' \<and> ent_status j' = StatusPending"
proof -
  from sample_processing obtain e w' where p:
    "process_job_execute sample_words ref_worker sample_id sample_world = (Some e, w')"
    "w_lists w' ''jobs'' = [sample_id]" by blast
  from retry_persisted_before_published [OF ref_processing p(1)] p show ?thesis
    by (auto simp: trim_jobs queued_ids_def sample_world_def)
qed

section \<open>Creating and reading\<close>

text \<open>C6. What \<open>CreateJob\<close> answers. A job: its row did not exist, is there now as the store
  keeps that job, pending and well formed with no retries used, and its identifier was added to the end
  of the queue. An error: either nothing was stored or queued, or the row of one new pending job was, and its
  identifier was queued at most once; the second happens when publishing fails or a reply is lost, and
  then a job that nobody will process can be left behind.\<close>

theorem create_job_outcome:
  assumes "creating_world uc rows contents" "create_job_execute uc input w = (r, w')"
  shows "(\<not> is_ok r \<and> rows w' = rows w \<and> contents w' = contents w)
    \<or> (\<exists>j j'. wf_job j \<and> lifecycle_ok j \<and> ent_status j = StatusPending \<and> retry_count j = 0
        \<and> parse_type (in_type input) = Inr (ent_type j) \<and> ent_payload j = in_payload input
        \<and> rows w (ent_id j) = None \<and> stored_as j j' \<and> rows w' = (rows w)(ent_id j \<mapsto> j')
        \<and> (case r of Inr k \<Rightarrow> k = j \<and> contents w' = contents w @ [ent_id j]
           | Inl e \<Rightarrow> contents w' = contents w \<or> contents w' = contents w @ [ent_id j]))"
  using creating_world.create_job_effect [OF assms]
  by (cases r) (auto simp: row_written_def)

definition fresh_id :: job_id where
  "fresh_id = ''00000000-0000-4000-8000-000000000000''"

lemma fresh_id_format: "format_uuid (set_version (replicate 16 0)) = fresh_id"
  by code_simp

lemma fresh_id_valid: "id_is_valid fresh_id"
  using format_uuid_valid [of "set_version (replicate 16 0)"] by (simp add: fresh_id_format)

definition fresh_job :: job where
  "fresh_job = sample_job\<lparr>ent_id := fresh_id, created_at := at_ns 20, updated_at := at_ns 20\<rparr>"

lemma fresh_new_job:
  "new_job \<lparr>np_id = fresh_id, np_type = TypeSendEmail, np_payload = sample_payload, np_created_at = at_ns 20\<rparr>
     = Inr fresh_job"
  by (simp add: new_job_def fresh_job_def sample_job_def sample_payload_valid fresh_id_valid at_ns_def utc_def
      is_zero_def type_is_valid_def DefaultMaxRetries_def Let_def)

text \<open>The wired API creates a job in the reference world.\<close>

lemma quiet_create:
  assumes "quiet w rs t" "job_record_from_domain (Some j) = Inr r" "table_accepts r"
    "find (\<lambda>x. rec_id x = ent_id j) rs = None" "wf_job j"
  obtains w' where "repository_create (pf_db ref_platform) (Some j) w = (None, w')" "quiet w' (r # rs) t"
  using assms
  by (simp add: repository_create_def ref_create_def quiet_def ref_table_def replied_def from_domain_Some)

lemma sample_creation:
  "\<exists>w'. create_job_execute ref_api \<lparr>in_type = TypeSendEmail, in_payload = sample_payload\<rparr> sample_world
      = (Inr fresh_job, w') \<and> w_lists w' ''jobs'' = [fresh_id]"
proof -
  have q: "quiet sample_world [sample_record] 20" by (simp add: quiet_def sample_world_def)
  obtain w1 where clk: "system_now ref_now sample_world = (at_ns 20, w1)" "quiet w1 [sample_record] 21"
    using quiet_now [OF q] by auto
  have id: "ent_id fresh_job = fresh_id" "ent_type fresh_job = TypeSendEmail" by (simp_all add: fresh_job_def sample_job_def)
  obtain r where r: "job_record_from_domain (Some fresh_job) = Inr r" by (simp add: from_domain_Some)
  have "table_accepts r"
    using r sample_payload_object
    by (simp add: from_domain_Some table_accepts_def fresh_job_def sample_job_def fresh_id_def
        TypeSendEmail_def StatusPending_def)
  moreover have "find (\<lambda>x. rec_id x = ent_id fresh_job) [sample_record] = None"
    by (simp add: id sample_record_def sample_id_def fresh_id_def)
  moreover have "wf_job fresh_job" by (rule wf_new_job [OF fresh_new_job])
  ultimately obtain w2 where c: "repository_create (pf_db ref_platform) (Some fresh_job) w1 = (None, w2)"
    "quiet w2 [r, sample_record] 21"
    using quiet_create [OF clk(2) r] by metis
  obtain w3 where e: "queue_enqueue (wired_queue ref_platform) fresh_id (status_persisted ref_log fresh_job [] w2) = (None, w3)"
    "w_lists w3 ''jobs'' = [fresh_id]"
    using quiet_enqueue [OF quiet_log [OF c(2)] fresh_id_valid] by blast
  have new: "new_id ref_random sample_world = (Inr fresh_id, sample_world)"
    using new_id_ok [of ref_random sample_world "replicate 16 0" sample_world]
    by (simp add: ref_random_def sample_world_def fresh_id_format)
  have "parse_type TypeSendEmail = Inr TypeSendEmail" by (simp add: parse_type_valid)
  then show ?thesis
    using new clk(1) fresh_new_job c(1) e id
    by (simp add: create_job_execute_def ref_api_def mysql_repository_def)
qed

lemma create_job_outcome_witness:
  "\<exists>w' j'. create_job_execute ref_api \<lparr>in_type = TypeSendEmail, in_payload = sample_payload\<rparr> sample_world
      = (Inr fresh_job, w') \<and> job_rows (ref_table w') fresh_id = Some j' \<and> ent_status j' = StatusPending
    \<and> queued_ids (w_lists w' ''jobs'') = [fresh_id]"
proof -
  obtain w' where p: "create_job_execute ref_api \<lparr>in_type = TypeSendEmail, in_payload = sample_payload\<rparr>
      sample_world = (Inr fresh_job, w')"
    using sample_creation by blast
  from create_job_outcome [OF ref_creating p] obtain j j' where "fresh_job = j" "stored_as j j'"
    "ent_status j = StatusPending" "job_rows (ref_table w') = (job_rows (ref_table sample_world))(ent_id j \<mapsto> j')"
    "queued_ids (w_lists w' (trim_space ''jobs'')) = queued_ids (w_lists sample_world (trim_space ''jobs'')) @ [ent_id j]"
    by auto
  with p show ?thesis
    by (auto simp: stored_as_def trim_jobs fresh_job_def sample_world_def queued_ids_def)
qed

text \<open>C35. \<open>GetJob\<close> gives exactly the stored job of the identifier that the request parses to and
  changes no row. A malformed identifier is \<open>ErrInvalidID\<close> and never reaches the store; an error that is
  \<open>ErrJobNotFound\<close> means that no such row exists.\<close>

theorem get_job_outcome:
  assumes "repository_laws repo rows" "get_job_execute repo input w = (r, w')"
  shows "rows w' = rows w
    \<and> (case r of
         Inr j \<Rightarrow> parse_id input = Inr (ent_id j) \<and> rows w (ent_id j) = Some j
       | Inl e \<Rightarrow> (case parse_id input of
           Inl _ \<Rightarrow> errors_is e ErrInvalidID \<and> w' = w
         | Inr i \<Rightarrow> errors_is e ErrJobNotFound \<longrightarrow> rows w i = None))"
  using repository_laws.get_job_effect [OF assms] assms(2)
  by (auto simp: get_job_execute_def split: sum.splits)

lemma get_job_outcome_witness:
  "\<exists>w'. get_job_execute (mysql_repository (pf_db ref_platform)) sample_id sample_world = (Inr sample_job, w')
    \<and> job_rows (ref_table w') sample_id = Some sample_job"
proof -
  have p: "get_job_execute (mysql_repository (pf_db ref_platform)) sample_id sample_world
      = (Inr sample_job, sample_world)"
    using sample_get parse_id_valid [OF sample_id_valid]
    by (simp add: get_job_execute_def mysql_repository_def)
  from get_job_outcome [OF ref_db.repo.repository_laws_axioms p] p sample_row
  show ?thesis by auto
qed

end
