(* ===== verification/Deployment.thy ===== *)
theory Deployment imports System_World Use_Case_Properties begin

text \<open>
  The wired worker and API of \<open>Wiring\<close> as the system of \<open>System\<close>: \<open>deployed_world\<close> is what the program
  relies on of its platform together with the context of the worker process; in it the wired programs
  make a \<open>system_world\<close>, and a cancelled context stays so. The reference world is one.
\<close>

section \<open>The worker program\<close>

text \<open>\<open>cmd/worker/main.go\<close>, from the constructors to the pool.\<close>

definition worker_pool :: "'w platform \<Rightarrow> goerror + ('w, 'w process_job) pool" where
  "worker_pool pf =
     (case new_job_queue (Some (pf_redis pf)) (pf_queue_name pf) of Inl e \<Rightarrow> Inl e
      | Inr queue \<Rightarrow>
     (case worker_process_job pf of Inl e \<Rightarrow> Inl e
      | Inr processor \<Rightarrow> new_pool (Some (queue_dequeue queue)) (Some processor) (Some (pf_logger pf))))"

lemma worker_pool_eq:
  "worker_pool pf =
     (case worker_process_job pf of Inl e \<Rightarrow> Inl e
      | Inr uc \<Rightarrow> Inr (pool_for (queue_dequeue (wired_queue pf)) uc (pf_logger pf)))"
  by (simp add: worker_pool_def worker_process_job_eq new_job_queue_def Let_def wired_queue_def new_pool_eq)

section \<open>Its world\<close>

locale deployed_world = program_world pf table keys effects
  for pf :: "'w platform" and table :: "'w \<Rightarrow> gostring \<Rightarrow> job_record option"
    and keys :: "'w \<Rightarrow> gostring \<Rightarrow> gostring list" and effects :: "'w \<Rightarrow> 'e" +
  fixes cx :: "'w process_context"
  assumes redis_pop_keeps: "brpop (pf_redis pf) k w = (bp, w') \<Longrightarrow> table w' = table w"
    and signal_keeps: "table (ctx_cancel cx w) = table w" "keys (ctx_cancel cx w) = keys w"
      "table (ctx_new cx w) = table w" "keys (ctx_new cx w) = keys w"
    and pop_done: "ctx_done cx w \<Longrightarrow> brpop (pf_redis pf) k w = (bp, w') \<Longrightarrow> \<not> is_ok bp \<and> ctx_done cx w'"
    and first_done: "ctx_done cx w \<Longrightarrow> gorm_first (pf_db pf) i w = (rf, w') \<Longrightarrow> ctx_done cx w'"
    and updates_done: "ctx_done cx w \<Longrightarrow> gorm_updates (pf_db pf) i cols r w = (ru, w') \<Longrightarrow> ctx_done cx w'"
    and push_done: "ctx_done cx w \<Longrightarrow> lpush (pf_redis pf) k v w = (rl, w') \<Longrightarrow> ctx_done cx w'"
    and now_done: "ctx_done cx w \<Longrightarrow> pf_now pf w = (t, w') \<Longrightarrow> ctx_done cx w'"
    and pause_done: "ctx_done cx w \<Longrightarrow> pf_pause pf d w = (rp, w') \<Longrightarrow> ctx_done cx w'"
    and log_done: "ctx_done cx (pf_logger pf l w) = ctx_done cx w"
begin

lemma pool_dequeue_rows:
  "queue_dequeue (wired_queue pf) w = (r, w') \<Longrightarrow> table w' = table w"
  by (auto simp: queue_dequeue_def wired_queue_def dest: redis_pop_keeps split: prod.splits sum.splits if_splits)

lemma wired_system:
  assumes "worker_process_job pf = Inr uc" "api_create_job pf = Inr cc"
  shows "system_world cc uc (queue_dequeue (wired_queue pf)) (\<lambda>w. job_rows (table w))
    (\<lambda>w. queued_ids (keys w (trim_space (pf_queue_name pf)))) effects (pf_logger pf) cx"
proof (intro system_world.intro system_world_axioms.intro)
  show "creating_world cc (\<lambda>w. job_rows (table w)) (\<lambda>w. queued_ids (keys w (trim_space (pf_queue_name pf))))"
    by (rule wired_creating [OF assms(2)])
  show "processing_world uc (\<lambda>w. job_rows (table w)) (\<lambda>w. queued_ids (keys w (trim_space (pf_queue_name pf)))) effects"
    by (rule wired_processing [OF assms(1)])
  show "consumer_laws (queue_dequeue (wired_queue pf)) (\<lambda>w. queued_ids (keys w (trim_space (pf_queue_name pf))))"
    unfolding wired_queue_def by (rule consumer.consumer_laws_axioms)
qed (simp_all add: pool_dequeue_rows log_keeps signal_keeps)

lemma wired_executor_done:
  assumes "ctx_done cx w" "dispatcher_execute (wired_handlers pf) en w = (r, w')"
  shows "ctx_done cx w'"
  by (rule wired_executor_keeps [where P = "ctx_done cx", OF _ _ assms]) (auto simp: log_done dest: pause_done)

lemma wired_cancellation:
  assumes "worker_process_job pf = Inr uc"
  shows "cancellation cx (queue_dequeue (wired_queue pf)) uc (pf_logger pf)"
proof -
  from assms have uc: "uc = \<lparr>pj_repository = mysql_repository (pf_db pf),
        pj_queue = queue_enqueue (wired_queue pf),
        pj_executor = \<lambda>j. dispatcher_execute (wired_handlers pf) (Some j),
        pj_clock = system_now (pf_now pf), pj_observer = status_persisted (pf_logger pf)\<rparr>"
    by (simp add: worker_process_job_eq split: if_splits)
  show ?thesis
  proof (unfold_locales, unfold uc process_job.simps)
    fix w w' :: 'w and r :: "goerror + job_id" and l :: log_line and i :: job_id and rg :: "goerror + job"
      and ru :: "goerror option" and j :: job and t :: gotime and st :: status
    assume d: "ctx_done cx w"
    show "\<not> is_ok r \<and> ctx_done cx w'" if "queue_dequeue (wired_queue pf) w = (r, w')"
      using that d pop_done [OF d, of "queue_name (wired_queue pf)"]
      by (auto simp: queue_dequeue_def wired_queue_def is_ok_def split: prod.splits sum.splits if_splits)
    show "ctx_done cx (pf_logger pf l w)" using d by (simp add: log_done)
    show "ctx_done cx w'" if "repo_get (mysql_repository (pf_db pf)) i w = (rg, w')"
      using that first_done [OF d] d
      by (auto simp: mysql_repository_def repository_get_by_id_def split: prod.splits sum.splits if_splits)
    show "ctx_done cx w'" if "repo_update (mysql_repository (pf_db pf)) j w = (ru, w')"
      using that updates_done [OF d] d
      by (auto simp: mysql_repository_def repository_update_def split: prod.splits sum.splits option.splits if_splits)
    show "ctx_done cx w'" if "queue_enqueue (wired_queue pf) i w = (ru, w')"
      using that push_done [OF d] d
      by (auto simp: queue_enqueue_def wired_queue_def split: prod.splits option.splits if_splits)
    show "ctx_done cx w'" if "dispatcher_execute (wired_handlers pf) (Some j) w = (ru, w')"
      by (rule wired_executor_done [OF d that])
    show "ctx_done cx w'" if "system_now (pf_now pf) w = (t, w')"
      using that now_done [OF d] d by (auto simp: system_now_def split: prod.splits)
    show "ctx_done cx (status_persisted (pf_logger pf) j st w)"
      using d by (simp add: status_persisted_def log_attrs_def Let_def log_done)
  qed
qed

end

section \<open>The reference world is one\<close>

definition ref_context :: "world process_context" where
  "ref_context = \<lparr>ctx_done = w_cancelled, ctx_cancel = (\<lambda>w. w\<lparr>w_cancelled := True\<rparr>),
     ctx_new = (\<lambda>w. w\<lparr>w_cancelled := False\<rparr>)\<rparr>"

interpretation ref_deployed: deployed_world ref_platform ref_table w_lists w_delivered ref_context
proof (unfold_locales, unfold ref_platform_simps gorm.simps redis_client.simps)
  fix w w' :: world and r :: job_record and i k v :: gostring and cols :: "gostring list" and d :: int
    and bp :: "goerror + gostring list" and rf :: "goerror + job_record" and ru :: "goerror option \<times> int"
    and rl :: "goerror option" and t :: gotime and l :: log_line
  have fault: "w_cancelled w1 = w_cancelled w" if "next_fault w = (f, w1)" for w w1 f
    using that by (auto split: list.splits)
  have pop: "ref_table w' = ref_table w \<and> (w_cancelled w \<longrightarrow> \<not> is_ok bp \<and> w_cancelled w')"
    if "ref_brpop k w = (bp, w')"
  proof -
    obtain f w1 where f: "next_fault w = (f, w1)" by force
    from that f fault [OF f] ref_table_fault [OF f] show ?thesis
      by (auto simp: ref_brpop_def Let_def ref_table_def fun_eq_iff simp del: next_fault.simps split: if_splits)
  qed
  show "ref_table w' = ref_table w" if "ref_brpop k w = (bp, w')" using pop [OF that] by blast
  show "ref_table (ctx_cancel ref_context w) = ref_table w" "w_lists (ctx_cancel ref_context w) = w_lists w"
    "ref_table (ctx_new ref_context w) = ref_table w" "w_lists (ctx_new ref_context w) = w_lists w"
    by (simp_all add: ref_context_def ref_table_def fun_eq_iff)
  assume "ctx_done ref_context w"
  then have c: "w_cancelled w" by (simp add: ref_context_def)
  have goal: "ctx_done ref_context w' = w_cancelled w'" by (simp add: ref_context_def)
  show "\<not> is_ok bp \<and> ctx_done ref_context w'" if "ref_brpop k w = (bp, w')"
    using pop [OF that] c goal by blast
  obtain f w1 where f: "next_fault w = (f, w1)" by force
  note c1 = fault [OF f]
  show "ctx_done ref_context w'" if "ref_first i w = (rf, w')"
    using that c c1 f unfolding goal
    by (auto simp: ref_first_def simp del: next_fault.simps split: if_splits option.splits)
  show "ctx_done ref_context w'" if "ref_updates i cols r w = (ru, w')"
    using that c c1 f unfolding goal
    by (auto simp: ref_updates_def simp del: next_fault.simps split: if_splits option.splits)
  show "ctx_done ref_context w'" if "ref_lpush k v w = (rl, w')"
    using that c c1 f unfolding goal by (auto simp: ref_lpush_def simp del: next_fault.simps split: if_splits)
  show "ctx_done ref_context w'" if "ref_now w = (t, w')"
    using that c unfolding goal by (auto simp: ref_now_def)
  show "ctx_done ref_context w'" if "ref_pause d w = (rl, w')"
    using that c unfolding goal by (auto simp: ref_pause_def split: list.splits option.splits)
next
  fix l and w :: world
  show "ctx_done ref_context (ref_log l w) = ctx_done ref_context w"
    by (simp add: ref_context_def ref_log_def)
qed

lemmas ref_system = ref_deployed.wired_system [OF ref_worker_wired ref_api_wired]

interpretation ref_sys: system_world ref_api ref_worker "queue_dequeue (wired_queue ref_platform)"
  "\<lambda>w. job_rows (ref_table w)" "\<lambda>w. queued_ids (w_lists w (trim_space ''jobs''))" w_delivered ref_log ref_context
  using ref_system by simp

interpretation ref_cancel: cancellation ref_context "queue_dequeue (wired_queue ref_platform)" ref_worker ref_log
  using ref_deployed.wired_cancellation [OF ref_worker_wired] by simp

end
