(* ===== verification/Adapter_Properties.thy ===== *)
theory Adapter_Properties imports Use_Case_Properties begin

text \<open>
  The properties of the adapters: the repository over the table, the queue over the broker's list, the
  identifier generator, the payload decoders and the dispatcher of the executor.
\<close>

section \<open>The repository\<close>

lemma dom_overwrite: "m i = Some x \<Longrightarrow> m' = m(i \<mapsto> y) \<Longrightarrow> dom m' = dom m"
  by (simp add: insert_absorb domI)

text \<open>C28. The two mappings between a job and its row are inverse on well-formed jobs, and reading a row
  never makes a job that violates the entity invariant: a row with an unknown status, a broken payload, bad
  counters or bad times is an error.\<close>

theorem row_mapping_round_trip:
  "(wf_job j \<longrightarrow> (case job_record_from_domain (Some j) of
      Inr r \<Rightarrow> job_record_to_domain r = Inr j | Inl _ \<Rightarrow> False))
   \<and> (case job_record_to_domain s of
        Inr k \<Rightarrow> wf_job k \<and> ent_id k = trim_space (rec_id s) \<and> ent_payload k = rec_payload s
          \<and> retry_count k = rec_retry_count s \<and> last_error k = rec_last_error s
      | Inl e \<Rightarrow> adapter_error e)"
proof -
  have "case job_record_from_domain (Some j) of
      Inr r \<Rightarrow> job_record_to_domain r = Inr j | Inl _ \<Rightarrow> False" if "wf_job j"
    using mapping_round_trip [OF that] by (simp add: job_record_from_domain_def)
  then show ?thesis using to_domain_ok [of s] to_domain_error [of s] by (auto split: sum.splits)
qed

lemma row_mapping_round_trip_witness:
  "job_record_from_domain (Some sample_job) = Inr sample_record
   \<and> job_record_to_domain sample_record = Inr sample_job"
proof -
  have "job_record_from_domain (Some sample_job) = Inr sample_record"
    by (simp add: from_domain_Some sample_record_def sample_job_def)
  with row_mapping_round_trip [of sample_job sample_record] wf_new_job [OF sample_new_job]
  show ?thesis by simp
qed

text \<open>C18. The repository gives back what was written. After a \<open>Create\<close> that succeeded, \<open>GetByID\<close> gives a
  job with the same identifier, type, status, counters and last error, the payload in the column's normal form
  and the four times to the microsecond; it fails only if GORM's own read fails, and never with
  \<open>ErrJobNotFound\<close>. After an \<open>Update\<close> of that job the next read has the new status, counters and
  error, the new start and completion times to the microsecond, and exactly the identity, type, payload
  and creation time that were read before, which an update does not write. (GORM stamps the update time itself.)\<close>

theorem repository_reads_what_it_wrote:
  assumes "durable_rows db table norm" "wf_job j"
    "repository_create db (Some j) w = (None, w1)"
    "repository_get_by_id db (ent_id j) w1 = (res, w2)"
  shows "case res of
      Inl e \<Rightarrow> \<not> errors_is e ErrJobNotFound \<and> \<not> is_ok (fst (gorm_first db (ent_id j) w1))
    | Inr k \<Rightarrow>
        wf_job k \<and> ent_id k = ent_id j \<and> ent_type k = ent_type j \<and> ent_status k = ent_status j
        \<and> ent_payload k = norm (ent_payload j)
        \<and> retry_count k = retry_count j \<and> max_retries k = max_retries j \<and> last_error k = last_error j
        \<and> same_microsecond (created_at j) (created_at k) \<and> same_microsecond (updated_at j) (updated_at k)
        \<and> rel_option same_microsecond (started_at j) (started_at k)
        \<and> rel_option same_microsecond (completed_at j) (completed_at k)
        \<and> (wf_job j' \<and> same_frame j' k \<and> repository_update db (Some j') w2 = (None, w3)
             \<and> repository_get_by_id db (ent_id j) w3 = (Inr k', w4)
           \<longrightarrow> wf_job k' \<and> ent_id k' = ent_id j \<and> ent_type k' = ent_type j
             \<and> ent_payload k' = ent_payload k \<and> created_at k' = created_at k
             \<and> ent_status k' = ent_status j' \<and> retry_count k' = retry_count j'
             \<and> max_retries k' = max_retries j' \<and> last_error k' = last_error j'
             \<and> rel_option same_microsecond (started_at j') (started_at k')
             \<and> rel_option same_microsecond (completed_at j') (completed_at k'))"
proof (cases res)
  case (Inl e)
  with durable_rows.created_row_error [OF assms(1-3)] assms(4) show ?thesis by simp
next
  case (Inr k)
  note durable = assms(1)
  have gorm: "gorm_jobs db table" using durable by (rule durable_rows.axioms)
  note get = assms(4) [unfolded Inr]
  note read = durable_rows.created_row_read [OF durable assms(2,3) get]
  have k: "job_rows (table w2) (ent_id k) = Some k" "ent_id k = ent_id j"
    using gorm_jobs.repository_get_law [OF gorm get] by simp_all
  have update: "wf_job k' \<and> ent_id k' = ent_id j \<and> ent_type k' = ent_type j
      \<and> ent_payload k' = ent_payload k \<and> created_at k' = created_at k
      \<and> ent_status k' = ent_status j' \<and> retry_count k' = retry_count j'
      \<and> max_retries k' = max_retries j' \<and> last_error k' = last_error j'
      \<and> rel_option same_microsecond (started_at j') (started_at k')
      \<and> rel_option same_microsecond (completed_at j') (completed_at k')"
    if h: "wf_job j'" "same_frame j' k" "repository_update db (Some j') w2 = (None, w3)"
      "repository_get_by_id db (ent_id j) w3 = (Inr k', w4)"
  proof -
    have "ent_id j' = ent_id j" using h(2) k(2) by (simp add: same_frame_def)
    with h k have "stored_as j' k' \<and> same_frame k k'
        \<and> rel_option same_microsecond (started_at j') (started_at k')
        \<and> rel_option same_microsecond (completed_at j') (completed_at k')"
      by (intro durable_rows.updated_row_read [OF durable h(1) _ h(2,3)]) simp_all
    moreover have "ent_type k = ent_type j" "ent_id j' = ent_id j" "ent_type j' = ent_type j"
      using read h(2) by (simp_all add: stored_as_def same_frame_def)
    ultimately show ?thesis using k(2) by (simp add: stored_as_def same_frame_def)
  qed
  have "wf_job k \<and> ent_id k = ent_id j \<and> ent_type k = ent_type j \<and> ent_status k = ent_status j
      \<and> retry_count k = retry_count j \<and> max_retries k = max_retries j \<and> last_error k = last_error j"
    using read by (simp add: stored_as_def)
  with read update show ?thesis unfolding Inr sum.case by blast
qed

definition empty_world :: world where
  "empty_world = sample_world\<lparr>w_rows := []\<rparr>"

lemma sample_accepted: "table_accepts sample_record"
  using sample_id_ascii sample_payload_object
  by (simp add: table_accepts_def sample_record_def TypeSendEmail_def StatusPending_def)

lemma repository_reads_what_it_wrote_witness:
  "\<exists>k w1 w2. repository_create (pf_db ref_platform) (Some sample_job) empty_world = (None, w1)
    \<and> repository_get_by_id (pf_db ref_platform) sample_id w1 = (Inr k, w2)
    \<and> ent_payload k = sample_payload \<and> same_microsecond (at_ns 10) (created_at k)"
proof -
  have rec: "job_record_from_domain (Some sample_job) = Inr sample_record"
    by (simp add: from_domain_Some sample_record_def sample_job_def)
  have "sample_world = empty_world\<lparr>w_rows := [sample_record]\<rparr>"
    by (simp add: empty_world_def sample_world_def)
  then have c: "repository_create (pf_db ref_platform) (Some sample_job) empty_world = (None, sample_world)"
    by (simp add: repository_create_def rec ref_create_def sample_accepted ref_table_def replied_def
        empty_world_def sample_world_def)
  have j: "ent_id sample_job = sample_id" "ent_payload sample_job = sample_payload" "created_at sample_job = at_ns 10"
    by (simp_all add: sample_job_def)
  from repository_reads_what_it_wrote [OF ref_durable.durable_rows_axioms wf_new_job [OF sample_new_job] c,
      unfolded j, OF sample_get]
  have "ent_payload sample_job = sample_payload \<and> same_microsecond (at_ns 10) (created_at sample_job)" by simp
  with c sample_get show ?thesis by blast
qed

text \<open>The three operations over GORM's results.\<close>

lemma create_exact:
  assumes "gorm_jobs db table" "job_record_from_domain (Some j) = Inr r"
  shows "case gorm_create db r w of (g, w1) \<Rightarrow> case repository_create db (Some j) w of (res, w') \<Rightarrow>
       w' = w1 \<and> (res = None \<longleftrightarrow> g = None) \<and> (table w (ent_id j) \<noteq> None \<longrightarrow> res \<noteq> None)
       \<and> (\<forall>e. res = Some e \<longrightarrow>
            (errors_is e ErrJobAlreadyExists \<longleftrightarrow> (\<exists>e0. g = Some e0 \<and> errors_is e0 ErrDuplicatedKey))
            \<and> (errors_is e ErrJobAlreadyExists \<longrightarrow> table w (ent_id j) \<noteq> None \<and> table w' = table w)
            \<and> (\<not> errors_is e ErrJobAlreadyExists \<longrightarrow> (\<exists>e0. g = Some e0 \<and> errors_is e = errors_is e0)))"
proof -
  obtain g w1 where g: "gorm_create db r w = (g, w1)" by force
  have id: "rec_id r = ent_id j" using assms(2) by (simp add: from_domain_Some)
  show ?thesis
  proof (cases g)
    case None
    with gorm_jobs.insert_ok [OF assms(1), of r w w1] g id assms(2) show ?thesis
      by (simp add: repository_create_def)
  next
    case (Some e)
    with gorm_jobs.insert_error [OF assms(1), of r w e w1] g id assms(2) show ?thesis
      by (auto simp: repository_create_def fun_eq_iff)
  qed
qed

lemma get_exact:
  assumes "gorm_jobs db table"
  shows "case gorm_first db i w of (g, w1) \<Rightarrow> case repository_get_by_id db i w of (res, w') \<Rightarrow>
       table w' = table w
       \<and> (if \<not> id_is_valid i then w' = w \<and> (\<exists>e. res = Inl e \<and> errors_is e ErrInvalidID)
          else w' = w1 \<and> (is_ok res \<longleftrightarrow> (\<exists>s. g = Inr s \<and> is_ok (job_record_to_domain s)))
            \<and> (\<forall>e. res = Inl e \<longrightarrow>
                 (errors_is e ErrJobNotFound \<longleftrightarrow> (\<exists>e0. g = Inl e0 \<and> errors_is e0 ErrRecordNotFound))
                 \<and> (errors_is e ErrJobNotFound \<longrightarrow> table w i = None)))"
proof -
  obtain g w1 where g: "gorm_first db i w = (g, w1)" by force
  show ?thesis
  proof (cases g)
    case (Inl e)
    with gorm_jobs.first_error [OF assms, of i w e w1] g show ?thesis
      by (auto simp: repository_get_by_id_def)
  next
    case (Inr s)
    with gorm_jobs.first_ok [OF assms, of i w s w1] g to_domain_error [of s] show ?thesis
      by (auto simp: repository_get_by_id_def split: sum.splits)
  qed
qed

lemma update_exact:
  assumes "gorm_jobs db table" "job_record_from_domain (Some j) = Inr r"
  shows "case gorm_updates db (ent_id j) updated_columns r w of ((g, n), w1) \<Rightarrow>
       case repository_update db (Some j) w of (res, w') \<Rightarrow>
       w' = w1 \<and> (res = None \<longleftrightarrow> g = None \<and> n \<noteq> 0)
       \<and> dom (table w') = dom (table w) \<and> (table w (ent_id j) = None \<longrightarrow> res \<noteq> None)
       \<and> (\<forall>e. res = Some e \<longrightarrow>
            (errors_is e ErrJobNotFound \<longleftrightarrow> g = None \<and> n = 0)
            \<and> (errors_is e ErrJobNotFound \<longrightarrow> table w' = table w)
            \<and> (\<not> errors_is e ErrJobNotFound \<longrightarrow> (\<exists>e0. g = Some e0 \<and> errors_is e = errors_is e0)))"
proof -
  obtain g n w1 where g: "gorm_updates db (ent_id j) updated_columns r w = ((g, n), w1)" by (metis prod.collapse)
  have id: "rec_id r = ent_id j" using assms(2) by (simp add: from_domain_Some)
  have change: "dom (table w1) = dom (table w) \<and> table w (ent_id j) \<noteq> None"
    if "\<exists>r0 s. table w (ent_id j) = Some r0 \<and> P r0 s \<and> table w1 = (table w)(ent_id j \<mapsto> s)" for P
    using that dom_overwrite by (metis option.distinct(1))
  show ?thesis
  proof (cases g)
    case (Some e)
    from g Some have e: "gorm_updates db (ent_id j) updated_columns r w = ((Some e, n), w1)" by simp
    have "foreign_error e" "dom (table w1) = dom (table w)"
      using gorm_jobs.updates_error [OF assms(1) e] dom_overwrite by metis+
    with e id assms(2) show ?thesis by (simp add: repository_update_def fun_eq_iff)
  next
    case None
    show ?thesis
    proof (cases "n = 0")
      case True
      with gorm_jobs.updates_none [OF assms(1), of "ent_id j" updated_columns r w None w1] g None id assms(2)
      show ?thesis by (simp add: repository_update_def)
    next
      case False
      from gorm_jobs.updates_some [OF assms(1) g [unfolded None] False] have "dom (table w1) = dom (table w)"
        "table w (ent_id j) \<noteq> None"
        using dom_overwrite by (metis, metis option.distinct(1))
      with g None id assms(2) False show ?thesis by (simp add: repository_update_def)
    qed
  qed
qed

text \<open>C29. The errors of the repository say what happened, in both directions. \<open>Create\<close> and \<open>Update\<close> fail
  exactly if GORM does or, for \<open>Update\<close>, if no row was affected. \<open>Create\<close> reports \<open>ErrJobAlreadyExists\<close>
  exactly if GORM reports a duplicated key; the row was there then and is untouched, and creating an
  identifier that has a row never succeeds. \<open>GetByID\<close> refuses a malformed identifier with
  \<open>ErrInvalidID\<close> and no call; otherwise it succeeds exactly if GORM finds a row that can be mapped, and reports
  \<open>ErrJobNotFound\<close> exactly if GORM finds no record, and then there is no such row. \<open>Update\<close> reports
  \<open>ErrJobNotFound\<close> exactly if GORM reports no error and no affected row, and nothing was changed; no \<open>Update\<close>
  adds or removes a row, and one for a missing row does not succeed. Every other error of the two writes is
  GORM's, wrapped.\<close>

theorem repository_errors:
  assumes "gorm_jobs db table" "job_record_from_domain (Some j) = Inr r"
  shows "(case gorm_create db r w of (g, w1) \<Rightarrow> case repository_create db (Some j) w of (res, w') \<Rightarrow>
       w' = w1 \<and> (res = None \<longleftrightarrow> g = None) \<and> (table w (ent_id j) \<noteq> None \<longrightarrow> res \<noteq> None)
       \<and> (\<forall>e. res = Some e \<longrightarrow>
            (errors_is e ErrJobAlreadyExists \<longleftrightarrow> (\<exists>e0. g = Some e0 \<and> errors_is e0 ErrDuplicatedKey))
            \<and> (errors_is e ErrJobAlreadyExists \<longrightarrow> table w (ent_id j) \<noteq> None \<and> table w' = table w)
            \<and> (\<not> errors_is e ErrJobAlreadyExists \<longrightarrow> (\<exists>e0. g = Some e0 \<and> errors_is e = errors_is e0))))
   \<and> (case gorm_first db i w of (g, w1) \<Rightarrow> case repository_get_by_id db i w of (res, w') \<Rightarrow>
       table w' = table w
       \<and> (if \<not> id_is_valid i then w' = w \<and> (\<exists>e. res = Inl e \<and> errors_is e ErrInvalidID)
          else w' = w1 \<and> (is_ok res \<longleftrightarrow> (\<exists>s. g = Inr s \<and> is_ok (job_record_to_domain s)))
            \<and> (\<forall>e. res = Inl e \<longrightarrow>
                 (errors_is e ErrJobNotFound \<longleftrightarrow> (\<exists>e0. g = Inl e0 \<and> errors_is e0 ErrRecordNotFound))
                 \<and> (errors_is e ErrJobNotFound \<longrightarrow> table w i = None))))
   \<and> (case gorm_updates db (ent_id j) updated_columns r w of ((g, n), w1) \<Rightarrow>
       case repository_update db (Some j) w of (res, w') \<Rightarrow>
       w' = w1 \<and> (res = None \<longleftrightarrow> g = None \<and> n \<noteq> 0)
       \<and> dom (table w') = dom (table w) \<and> (table w (ent_id j) = None \<longrightarrow> res \<noteq> None)
       \<and> (\<forall>e. res = Some e \<longrightarrow>
            (errors_is e ErrJobNotFound \<longleftrightarrow> g = None \<and> n = 0)
            \<and> (errors_is e ErrJobNotFound \<longrightarrow> table w' = table w)
            \<and> (\<not> errors_is e ErrJobNotFound \<longrightarrow> (\<exists>e0. g = Some e0 \<and> errors_is e = errors_is e0))))"
  by (rule conjI [OF create_exact [OF assms] conjI [OF get_exact [OF assms(1)] update_exact [OF assms]]])

lemma repository_errors_witness:
  "\<exists>e w'. repository_create (pf_db ref_platform) (Some sample_job) sample_world = (Some e, w')
    \<and> errors_is e ErrJobAlreadyExists \<and> ref_table w' = ref_table sample_world"
proof -
  have rec: "job_record_from_domain (Some sample_job) = Inr sample_record"
    by (simp add: from_domain_Some sample_record_def sample_job_def)
  have g: "gorm_create (pf_db ref_platform) sample_record sample_world = (Some (Sentinel ErrDuplicatedKey), sample_world)"
    by (simp add: ref_create_def ref_table_def sample_world_def)
  obtain res w' where c: "repository_create (pf_db ref_platform) (Some sample_job) sample_world = (res, w')"
    by force
  from repository_errors [OF ref_db.gorm_jobs_axioms rec, of sample_world, THEN conjunct1, unfolded g c prod.case]
  obtain e where "res = Some e" "errors_is e ErrJobAlreadyExists" "ref_table w' = ref_table sample_world"
    by (cases res) auto
  with c show ?thesis by blast
qed

section \<open>The queue\<close>

text \<open>Putting several identifiers into the queue, and taking several out.\<close>

fun enqueue_all :: "'w job_queue \<Rightarrow> job_id list \<Rightarrow> 'w \<Rightarrow> goerror option \<times> 'w" where
  "enqueue_all q [] w = (None, w)"
| "enqueue_all q (i # is) w =
     (case queue_enqueue q i w of (Some e, w) \<Rightarrow> (Some e, w) | (None, w) \<Rightarrow> enqueue_all q is w)"

fun dequeue_n :: "'w job_queue \<Rightarrow> nat \<Rightarrow> 'w \<Rightarrow> (goerror + job_id list) \<times> 'w" where
  "dequeue_n q 0 w = (Inr [], w)"
| "dequeue_n q (Suc n) w =
     (case queue_dequeue q w of
        (Inl e, w) \<Rightarrow> (Inl e, w)
      | (Inr i, w) \<Rightarrow>
          (case dequeue_n q n w of (Inl e, w) \<Rightarrow> (Inl e, w) | (Inr is, w) \<Rightarrow> (Inr (i # is), w)))"

lemma enqueue_all_appends:
  assumes "redis_lists client keys"
    "enqueue_all \<lparr>jq_client = client, queue_name = k\<rparr> is w = (None, w')"
  shows "queued_ids (keys w' k) = queued_ids (keys w k) @ is \<and> list_all id_is_valid is"
  using assms(2)
proof (induction "is" arbitrary: w)
  case (Cons i "is")
  then obtain w1 where "queue_enqueue \<lparr>jq_client = client, queue_name = k\<rparr> i w = (None, w1)"
    "enqueue_all \<lparr>jq_client = client, queue_name = k\<rparr> is w1 = (None, w')"
    by (auto split: prod.splits option.splits)
  with redis_lists.queue_enqueue_law [OF assms(1)] Cons.IH show ?case by fastforce
qed simp

lemma dequeue_n_takes:
  assumes "redis_lists client keys"
    "dequeue_n \<lparr>jq_client = client, queue_name = k\<rparr> n w = (Inr is, w')"
  shows "queued_ids (keys w k) = is @ queued_ids (keys w' k) \<and> length is = n"
  using assms(2)
proof (induction n arbitrary: w "is")
  case (Suc n)
  then obtain i is' w1 where "queue_dequeue \<lparr>jq_client = client, queue_name = k\<rparr> w = (Inr i, w1)"
    "dequeue_n \<lparr>jq_client = client, queue_name = k\<rparr> n w1 = (Inr is', w')" "is = i # is'"
    by (auto split: prod.splits sum.splits)
  with redis_lists.queue_dequeue_law [OF assms(1)] Suc.IH show ?case by fastforce
qed simp

text \<open>C19. The queue is first in, first out and loses or alters nothing: identifiers that were
  enqueued after those already waiting come out after them, in the order they were enqueued, exactly as they
  were given; only valid identifiers get in.\<close>

theorem queue_is_fifo:
  assumes "redis_lists client keys"
    "enqueue_all \<lparr>jq_client = client, queue_name = k\<rparr> is w = (None, w1)"
    "dequeue_n \<lparr>jq_client = client, queue_name = k\<rparr> n w1 = (Inr js, w2)"
  shows "js = take n (queued_ids (keys w k) @ is)
    \<and> queued_ids (keys w2 k) = drop n (queued_ids (keys w k) @ is) \<and> list_all id_is_valid is"
  using enqueue_all_appends [OF assms(1,2)] dequeue_n_takes [OF assms(1,3)]
  by (metis append_eq_conv_conj)

lemma queue_is_fifo_witness:
  "\<exists>w1 w2. enqueue_all \<lparr>jq_client = pf_redis ref_platform, queue_name = ''q''\<rparr> [sample_id] empty_world
      = (None, w1)
    \<and> dequeue_n \<lparr>jq_client = pf_redis ref_platform, queue_name = ''q''\<rparr> 1 w1 = (Inr [sample_id], w2)"
proof -
  let ?q = "\<lparr>jq_client = pf_redis ref_platform, queue_name = ''q''\<rparr>"
  obtain w1 where e: "enqueue_all ?q [sample_id] empty_world = (None, w1)" "w_lists w1 ''q'' = [sample_id]"
    "w_faults w1 = []" "\<not> w_cancelled w1"
    by (simp add: queue_enqueue_def sample_id_valid ref_lpush_def empty_world_def sample_world_def replied_def)
  obtain i w2 where d: "dequeue_n ?q 1 w1 = (Inr [i], w2)"
    using e(2-4) by (simp add: queue_dequeue_def ref_brpop_def Let_def parse_id_valid sample_id_valid)
  have "[i] = [sample_id]"
    using queue_is_fifo [OF ref_redis.redis_lists_axioms e(1) d]
    by (simp add: queued_ids_def empty_world_def sample_world_def)
  with e d show ?thesis by blast
qed

section \<open>Identifiers\<close>

lemma take2_drop: "k + 1 < length v \<Longrightarrow> take 2 (drop k v) = [v ! k, v ! (k + 1)]"
  by (simp add: numeral_2_eq_2 take_Suc hd_drop_conv_nth tl_drop nth_tl drop_Suc [symmetric])

lemma uuid_chars:
  assumes "length v = 16"
  shows "format_uuid v ! 14 = hex_digit (unat (v ! 6) div 16)"
    and "format_uuid v ! 19 = hex_digit (unat (v ! 8) div 16)"
proof -
  have "take 2 (drop 6 v) = [v ! 6, v ! 7]" "take 2 (drop 8 v) = [v ! 8, v ! 9]"
    using assms take2_drop [of 6 v] take2_drop [of 8 v] by simp_all
  moreover have "hex_bytes [x, y] = [hex_digit (unat x div 16), hex_digit (unat x mod 16),
      hex_digit (unat y div 16), hex_digit (unat y mod 16)]" for x y
    by (simp add: hex_bytes_def hex_byte_def)
  ultimately show "format_uuid v ! 14 = hex_digit (unat (v ! 6) div 16)"
    "format_uuid v ! 19 = hex_digit (unat (v ! 8) div 16)"
    using assms by (simp_all add: format_uuid_def nth_append)
qed

text \<open>C36. Whatever sixteen bytes the random source gives, the generator returns a valid identifier (its
  own check of it never fails), marked as version 4 and with the RFC 4122 variant; and two draws give the
  same identifier only if they agree on every bit but the six that the marks overwrite.\<close>

theorem generated_ids:
  assumes "rand_read w = (Inr v, w')" "length v = 16"
  shows "\<exists>i. new_id rand_read w = (Inr i, w') \<and> id_is_valid i \<and> i ! 14 = CHR ''4''
    \<and> i ! 19 \<in> {CHR ''8'', CHR ''9'', CHR ''a'', CHR ''b''}
    \<and> (length u = 16 \<and> format_uuid (set_version u) = i \<longrightarrow> set_version u = set_version v)"
proof (intro exI conjI impI)
  let ?v = "set_version v"
  have len: "length ?v = 16" using assms(2) by simp
  have b6: "?v ! 6 = (v ! 6) AND 0x0F OR 0x40" and b8: "?v ! 8 = (v ! 8) AND 0x3F OR 0x80"
    using assms(2) by (simp_all add: set_version_def Let_def)
  show "new_id rand_read w = (Inr (format_uuid ?v), w')" using assms by (rule new_id_ok)
  show "id_is_valid (format_uuid ?v)" by (rule format_uuid_valid [OF len])
  show "format_uuid ?v ! 14 = CHR ''4''"
    unfolding uuid_chars(1) [OF len] b6 mask_version by (simp add: hex_digit_def char_of_eq_iff)
  show "format_uuid ?v ! 19 \<in> {CHR ''8'', CHR ''9'', CHR ''a'', CHR ''b''}"
    using mask_variant [of "v ! 8"] unfolding uuid_chars(2) [OF len] b8 by (auto simp: hex_digit_def char_of_eq_iff)
  show "set_version u = ?v" if "length u = 16 \<and> format_uuid (set_version u) = format_uuid ?v"
    using that format_uuid_inj [of "set_version u" ?v] len by simp
qed

lemma generated_ids_witness:
  "\<exists>i. new_id ref_random sample_world = (Inr i, sample_world) \<and> id_is_valid i"
  using generated_ids [of ref_random sample_world "replicate 16 0" sample_world "[]"]
  by (auto simp: ref_random_def sample_world_def)

section \<open>Payloads of the handlers\<close>

text \<open>What a handler's fields decoder accepts: one JSON value and white space around it, an object with
  known keys only, or null.\<close>

lemma decode_strict_ok:
  assumes "decode_strict_payload flds zero raw = Inr p"
  obtains v rest where "parse_json raw = Inr (v, rest)" "skip_ws rest = []"
    "decode_struct flds zero v = Inr p"
proof -
  from assms obtain v rest where "decode_stream raw = Inr (v, rest)" "decode_stream rest = Inl JsonEOF"
    "decode_struct flds zero v = Inr p"
    by (auto simp: decode_strict_payload_def Let_def split: sum.splits if_splits)
  then show thesis using that by (auto simp: decode_stream_EOF) (auto simp: decode_stream_def split: if_splits)
qed

lemma decode_struct_ok:
  assumes "decode_struct flds zero v = Inr p"
  shows "(v = JNull \<and> p = zero)
    \<or> (\<exists>ms. v = JObject ms \<and> decode_members flds ms None zero = (None, p)
         \<and> list_all (\<lambda>(key, raw, x). find_field flds (unquote key) \<noteq> None) ms)"
proof (cases v)
  case (JObject ms)
  with assms have d: "decode_members flds ms None zero = (None, p)"
    by (auto simp: decode_struct_def split: prod.splits option.splits)
  have "find_field flds (unquote key) \<noteq> None" if "(key, raw, x) \<in> set ms" for key raw x
    using decode_members_ok [OF d that] by (metis option.distinct(1))
  with JObject d show ?thesis by (auto simp: list_all_iff)
qed (use assms in \<open>auto simp: decode_struct_def\<close>)

text \<open>C38. Decoding a handler's payload is strict: it succeeds only on a single JSON value with
  nothing but white space around it, an object all of whose keys are fields of the handler (or null, which
  leaves every field empty); an unknown key, a second value or trailing text is an error, and every
  error is \<open>ErrInvalidHandlerPayload\<close>.\<close>

theorem strict_payload_decoding:
  "case decode_strict_payload flds zero raw of
     Inr p \<Rightarrow> \<exists>v rest. parse_json raw = Inr (v, rest) \<and> skip_ws rest = []
       \<and> ((v = JNull \<and> p = zero)
          \<or> (\<exists>ms. v = JObject ms \<and> decode_members flds ms None zero = (None, p)
              \<and> list_all (\<lambda>(key, raw, x). find_field flds (unquote key) \<noteq> None) ms))
   | Inl e \<Rightarrow> errors_is e ErrInvalidHandlerPayload"
proof (cases "decode_strict_payload flds zero raw")
  case (Inl e)
  with decode_strict_error [OF Inl] show ?thesis by (simp add: payload_error_def)
next
  case (Inr p)
  then obtain v rest where "parse_json raw = Inr (v, rest)" "skip_ws rest = []"
    "decode_struct flds zero v = Inr p" by (rule decode_strict_ok)
  with decode_struct_ok [of flds zero v p] Inr show ?thesis by auto
qed

lemma email_limits:
  "decode_send_email_payload parse_address raw = Inr p \<Longrightarrow>
     em_to p \<noteq> [] \<and> parse_address (em_to p) = Inr (em_to p)
     \<and> em_subject p \<noteq> [] \<and> length (em_subject p) \<le> 200 \<and> em_body p \<noteq> []
     \<and> trim_space (em_to p) = em_to p \<and> trim_space (em_subject p) = em_subject p
     \<and> trim_space (em_body p) = em_body p"
  by (auto simp: decode_send_email_payload_def validate_send_email_payload_def Let_def
      maximumEmailSubjectLength_def trim_space_idem split: sum.splits option.splits if_splits)

lemma report_limits:
  "decode_report_generation_payload raw = Inr p \<Longrightarrow>
     rg_report p \<noteq> [] \<and> length (rg_report p) \<le> 100 \<and> trim_space (rg_report p) = rg_report p
     \<and> rg_format p \<in> {''csv'', ''json'', ''pdf''}"
  by (auto simp: decode_report_generation_payload_def validate_report_generation_payload_def Let_def
      maximumReportNameLength_def is_supported_report_format_def trim_space_idem
      split: sum.splits option.splits if_splits)

lemma cleanup_limits:
  "decode_data_cleanup_payload raw = Inr p \<Longrightarrow>
     dc_scope p \<noteq> [] \<and> length (dc_scope p) \<le> 100 \<and> trim_space (dc_scope p) = dc_scope p
     \<and> 1 \<le> older_than_days p \<and> older_than_days p \<le> 3650"
  by (auto simp: decode_data_cleanup_payload_def validate_data_cleanup_payload_def Let_def
      maximumCleanupScopeLength_def maximumCleanupAgeDays_def trim_space_idem
      split: sum.splits option.splits if_splits)

lemmas invalid_payload_errors =
  decode_errors(1) [unfolded payload_error_def, THEN conjunct1]
  decode_errors(2) [unfolded payload_error_def, THEN conjunct1]
  decode_errors(3) [unfolded payload_error_def, THEN conjunct1]

text \<open>C37. What the three handlers run on is within their limits, whatever was submitted: a recipient
  that the mail parser gives back unchanged, a subject of 1 to 200 bytes and a body; a report name of 1 to
  100 bytes and one of three formats; a scope of 1 to 100 bytes and an age of 1 to 3650 days. Texts are
  trimmed. Anything else is \<open>ErrInvalidHandlerPayload\<close>.\<close>

theorem handler_payload_limits:
  "(case decode_send_email_payload parse_address raw of
      Inr p \<Rightarrow> em_to p \<noteq> [] \<and> parse_address (em_to p) = Inr (em_to p)
        \<and> em_subject p \<noteq> [] \<and> length (em_subject p) \<le> 200 \<and> em_body p \<noteq> []
        \<and> trim_space (em_to p) = em_to p \<and> trim_space (em_subject p) = em_subject p
        \<and> trim_space (em_body p) = em_body p
    | Inl e \<Rightarrow> errors_is e ErrInvalidHandlerPayload)
   \<and> (case decode_report_generation_payload raw of
      Inr p \<Rightarrow> rg_report p \<noteq> [] \<and> length (rg_report p) \<le> 100 \<and> trim_space (rg_report p) = rg_report p
        \<and> rg_format p \<in> {''csv'', ''json'', ''pdf''}
    | Inl e \<Rightarrow> errors_is e ErrInvalidHandlerPayload)
   \<and> (case decode_data_cleanup_payload raw of
      Inr p \<Rightarrow> dc_scope p \<noteq> [] \<and> length (dc_scope p) \<le> 100 \<and> trim_space (dc_scope p) = dc_scope p
        \<and> 1 \<le> older_than_days p \<and> older_than_days p \<le> 3650
    | Inl e \<Rightarrow> errors_is e ErrInvalidHandlerPayload)"
  using email_limits report_limits cleanup_limits invalid_payload_errors
  by (simp split: sum.split)

section \<open>The dispatcher of the executor\<close>

definition put_handler :: "'k \<times> 'v option \<Rightarrow> ('k \<Rightarrow> 'v option) \<Rightarrow> 'k \<Rightarrow> 'v option" where
  "put_handler p c = c(fst p := snd p)"

lemma copy_handlers_ok:
  "copy_handlers hs copied = Inr m \<longleftrightarrow>
     list_all (\<lambda>p. type_is_valid (fst p) \<and> snd p \<noteq> None) hs \<and> m = fold put_handler hs copied"
  by (induction hs copied rule: copy_handlers.induct)
     (auto simp: put_handler_def simp del: fun_upd_apply split: option.splits)

lemma fold_put_handler:
  "distinct (map fst hs) \<Longrightarrow>
     fold put_handler hs c x = (if x \<in> fst ` set hs then the (map_of hs x) else c x)"
proof (induction hs arbitrary: c)
  case (Cons p hs)
  then show ?case by (auto simp: put_handler_def image_iff)
qed simp

text \<open>The exact result of building a dispatcher.\<close>

lemma new_dispatcher_ok:
  "new_dispatcher hs = Inr m \<longleftrightarrow>
     list_all (\<lambda>p. type_is_valid (fst p) \<and> snd p \<noteq> None) hs
     \<and> m = fold put_handler hs (\<lambda>_. None) \<and> list_all (\<lambda>t. m t \<noteq> None) required_job_types"
proof (cases "copy_handlers hs (\<lambda>_. None)")
  case (Inl e)
  then show ?thesis using copy_handlers_ok [of hs "\<lambda>_. None"] by (auto simp: new_dispatcher_def)
next
  case (Inr c)
  moreover have "find (\<lambda>t. c t = None) required_job_types = None \<longleftrightarrow> list_all (\<lambda>t. c t \<noteq> None) required_job_types"
    by (auto simp: find_None_iff list_all_iff)
  ultimately show ?thesis
    using copy_handlers_ok [of hs "\<lambda>_. None" c] by (auto simp: new_dispatcher_def split: option.splits)
qed

lemma copy_handlers_error:
  "copy_handlers hs c = Inl e \<Longrightarrow>
     errors_is e ErrInvalidType \<and> \<not> list_all (\<lambda>p. type_is_valid (fst p)) hs
     \<or> errors_is e ErrHandlerNotRegistered \<and> \<not> list_all (\<lambda>p. snd p \<noteq> None) hs"
  by (induction hs c rule: copy_handlers.induct) (auto split: if_splits option.splits)

lemma type_is_valid_required: "type_is_valid t \<longleftrightarrow> t \<in> set required_job_types"
  by (auto simp: type_is_valid_def required_job_types_def)

lemma put_all_keys:
  assumes "distinct (map fst hs)" "(t, h) \<in> set hs"
  shows "fold put_handler hs (\<lambda>_. None) t = h"
  using assms map_of_is_SomeI [OF assms] by (force simp: fold_put_handler)

lemma put_handler_keys:
  assumes "distinct (map fst hs)" "list_all (\<lambda>p. type_is_valid (fst p) \<and> snd p \<noteq> None) hs"
  shows "fold put_handler hs (\<lambda>_. None) t \<noteq> None \<longleftrightarrow> t \<in> set (map fst hs)"
proof (cases "t \<in> fst ` set hs")
  case True
  then obtain h where h: "(t, h) \<in> set hs" by auto
  with assms(2) have "h \<noteq> None" by (auto simp: list_all_iff)
  with True put_all_keys [OF assms(1) h] show ?thesis by simp
qed (simp add: fold_put_handler [OF assms(1)])

text \<open>C39. Building the dispatcher succeeds if and only if every entry of the given map has a known type
  and a handler and all three types are there, whatever the order in which Go visits the entries; the
  dispatcher that is built is then the same for every order: it routes each type to the handler that was
  given for it, and has handlers for the three types only. (Which of several errors is reported may depend
  on the order. It is \<open>ErrInvalidType\<close> only if some type is unknown, and else
  \<open>ErrHandlerNotRegistered\<close>.)\<close>

theorem dispatcher_independent_of_map_order:
  assumes "distinct (map fst hs)" "distinct (map fst hs')" "set hs' = set hs"
  shows "(is_ok (new_dispatcher hs) \<longleftrightarrow>
       list_all (\<lambda>(t, h). type_is_valid t \<and> h \<noteq> None) hs
       \<and> list_all (\<lambda>t. t \<in> set (map fst hs)) [TypeSendEmail, TypeReportGeneration, TypeDataCleanup])
   \<and> (case new_dispatcher hs of
        Inr m \<Rightarrow> new_dispatcher hs' = Inr m \<and> list_all (\<lambda>(t, h). m t = h) hs
          \<and> (\<forall>t. m t \<noteq> None \<longleftrightarrow> type_is_valid t)
      | Inl e \<Rightarrow> \<not> is_ok (new_dispatcher hs')
          \<and> (errors_is e ErrInvalidType \<and> \<not> list_all (\<lambda>(t, h). type_is_valid t) hs
             \<or> errors_is e ErrHandlerNotRegistered))"
proof -
  let ?f = "\<lambda>hs. fold put_handler hs (\<lambda>_. None)"
  have "map_of hs' = map_of hs"
    using assms by (intro map_of_eqI) (auto simp: map_of_eq_Some_iff)
  then have same: "?f hs' = ?f hs"
    using fold_put_handler [OF assms(1)] fold_put_handler [OF assms(2)] assms(3)
    by (simp add: fun_eq_iff)
  then have order: "new_dispatcher hs' = Inr m \<longleftrightarrow> new_dispatcher hs = Inr m" for m
    using assms(3) by (simp add: new_dispatcher_ok list_all_iff)
  have key: "?f hs t \<noteq> None \<longleftrightarrow> t \<in> set (map fst hs)"
    if "list_all (\<lambda>p. type_is_valid (fst p) \<and> snd p \<noteq> None) hs" for t
    using put_handler_keys [OF assms(1) that] .
  have ok: "is_ok (new_dispatcher hs) \<longleftrightarrow>
       list_all (\<lambda>(t, h). type_is_valid t \<and> h \<noteq> None) hs
       \<and> list_all (\<lambda>t. t \<in> set (map fst hs)) [TypeSendEmail, TypeReportGeneration, TypeDataCleanup]"
    using key unfolding is_ok_iff new_dispatcher_ok by (auto simp: required_job_types_def split_def)
  have built: "list_all (\<lambda>(t, h). m t = h) hs \<and> (\<forall>t. m t \<noteq> None \<longleftrightarrow> type_is_valid t)"
    if "new_dispatcher hs = Inr m" for m
    using that put_all_keys [OF assms(1)] key
    unfolding new_dispatcher_ok type_is_valid_required by (auto simp: list_all_iff)
  have failed: "errors_is e ErrInvalidType \<and> \<not> list_all (\<lambda>(t, h). type_is_valid t) hs
      \<or> errors_is e ErrHandlerNotRegistered" if "new_dispatcher hs = Inl e" for e
    using that copy_handlers_error [of hs "\<lambda>_. None"]
    by (auto simp: new_dispatcher_def split_def split: sum.splits option.splits)
  show ?thesis using ok built failed order by (cases "new_dispatcher hs") (auto simp: is_ok_iff)
qed

lemma dispatcher_independent_of_map_order_witness:
  "\<exists>m. new_dispatcher [(TypeDataCleanup, Some (simulated_execute ref_pause 3)),
       (TypeSendEmail, Some (simulated_execute ref_pause 1)),
       (TypeReportGeneration, Some (simulated_execute ref_pause 2))] = Inr m
     \<and> m TypeSendEmail = Some (simulated_execute ref_pause 1)"
proof -
  let ?e = "(TypeSendEmail, Some (simulated_execute ref_pause 1))"
  let ?r = "(TypeReportGeneration, Some (simulated_execute ref_pause 2))"
  let ?c = "(TypeDataCleanup, Some (simulated_execute ref_pause 3))"
  have "distinct (map fst [?e, ?r, ?c])" "distinct (map fst [?c, ?e, ?r])" "set [?c, ?e, ?r] = set [?e, ?r, ?c]"
    by auto
  note exact = dispatcher_independent_of_map_order [OF this]
  then have "is_ok (new_dispatcher [?e, ?r, ?c])" by (simp add: type_is_valid_def)
  then obtain m where m: "new_dispatcher [?e, ?r, ?c] = Inr m" by (auto simp: is_ok_iff)
  with exact show ?thesis by simp
qed

end
