(* ===== verification/System_Sample.thy ===== *)
theory System_Sample imports Deployment Adapter_Properties begin

text \<open>
  A run of the deployed system in the reference world, step by step: a queued job is dequeued, handed to
  a worker, loaded, marked and executed; and one in which the process is told to stop at the wrong
  moment. The witnesses of \<open>System_Properties\<close> are about these runs.
\<close>

section \<open>Starting\<close>

definition system_start :: "('w, 'w process_job) pool \<Rightarrow> 'w \<Rightarrow> system \<times> 'w" where
  "system_start pl w = (case pool_start pl w of (p, w) \<Rightarrow> (\<lparr>sy_pool = p, sy_requests = []\<rparr>, w))"

definition ref_pool :: "(world, world process_job) pool" where
  "ref_pool = pool_for (queue_dequeue (wired_queue ref_platform)) ref_worker ref_log"

lemma ref_pool_wired: "worker_pool ref_platform = Inr ref_pool"
  by (simp add: worker_pool_eq ref_worker_wired ref_pool_def)

definition queued_world :: world where
  "queued_world = sample_world\<lparr>w_lists := (\<lambda>_. [])(''jobs'' := [sample_id])\<rparr>"

definition one_worker :: "dispatcher_pc \<Rightarrow> worker_pc \<Rightarrow> system" where
  "one_worker d pc = \<lparr>sy_pool = \<lparr>ps_dispatcher = d, ps_workers = [pc, WIdle, WIdle, WIdle, WIdle]\<rparr>, sy_requests = []\<rparr>"

text \<open>What a log line leaves as it is: everything but the log.\<close>

definition same_but_log :: "world \<Rightarrow> world \<Rightarrow> bool" where
  "same_but_log w w' \<longleftrightarrow> (\<exists>ls. w' = w\<lparr>w_log := ls\<rparr>)"

lemma same_but_log_refl [simp]: "same_but_log w w"
  unfolding same_but_log_def by (rule exI [of _ "w_log w"]) simp

lemma same_but_log_step: "same_but_log w w' \<Longrightarrow> same_but_log w (log_attrs ref_log lvl msg attrs w')"
  "same_but_log w w' \<Longrightarrow>
     same_but_log w (log_attrs (worker_logger \<lparr>wk_id = n, wk_processor = p, wk_logger = ref_log\<rparr>) lvl msg attrs w')"
  by (auto simp: same_but_log_def log_attrs_def ref_log_def worker_logger_def logger_with_def)

lemma quiet_same: "same_but_log w w' \<Longrightarrow> quiet w' rs t = quiet w rs t"
  by (auto simp: same_but_log_def quiet_def)

lemma sample_start:
  obtains w where "system_start ref_pool queued_world = (one_worker DDequeue WIdle, w)" "same_but_log queued_world w"
proof -
  have "[0..<WorkerCount] = [0, 1, 2, 3, 4]" by (simp add: WorkerCount_def upt_rec)
  then have "\<exists>w. system_start ref_pool queued_world = (one_worker DDequeue WIdle, w) \<and> same_but_log queued_world w"
    by (simp add: system_start_def pool_start_def ref_pool_def pool_for_def Let_def worker_start_def
        dispatcher_start_def one_worker_def same_but_log_step)
  with that show thesis by blast
qed

section \<open>The steps\<close>

lemma run_pool_step:
  assumes "system_run words cx pl cc x evs (s, w)" "pool_step words cx pl (sy_pool s, w) ev (p', w')"
    "s' = s\<lparr>sy_pool := p'\<rparr>"
  shows "system_run words cx pl cc x (evs @ [EvPool ev]) (s', w')"
  using srun_step [OF assms(1) system_step.pool [OF assms(2)]] assms(3) by simp

abbreviation sample_reaches :: "system_event list \<Rightarrow> system \<Rightarrow> world \<Rightarrow> bool" where
  "sample_reaches evs s w \<equiv>
     system_run sample_words ref_context ref_pool ref_api (system_start ref_pool queued_world) evs (s, w)"

lemma sample_dequeued:
  obtains w where "sample_reaches [EvPool EvDequeue] (one_worker (DSend sample_id) WIdle) w"
    "same_but_log sample_world w"
proof -
  obtain w0 where s: "system_start ref_pool queued_world = (one_worker DDequeue WIdle, w0)" "same_but_log queued_world w0"
    by (rule sample_start)
  have lists: "(\<lambda>_. [])(''jobs'' := [sample_id], ''jobs'' := []) = (\<lambda>_. [] :: gostring list)" by (simp add: fun_eq_iff)
  obtain w1 where d: "dispatcher_dequeue (pool_dispatcher ref_pool) (ctx_done ref_context) w0 = (DSend sample_id, w1)"
    "same_but_log sample_world w1"
  proof -
    from s(2) obtain ls where w0: "w0 = queued_world\<lparr>w_log := ls\<rparr>" by (auto simp: same_but_log_def)
    have "queue_dequeue (wired_queue ref_platform) w0 = (Inr sample_id, sample_world\<lparr>w_log := ls\<rparr>)"
      unfolding w0
      by (simp add: queue_dequeue_def wired_queue_def trim_jobs ref_brpop_def Let_def parse_id_valid
          sample_id_valid queued_world_def sample_world_def fun_eq_iff)
    moreover have "same_but_log sample_world (sample_world\<lparr>w_log := ls\<rparr>)" by (auto simp: same_but_log_def)
    ultimately show thesis
      by (intro that [of "log_attrs ref_log LevelInfo ''job dequeued from Redis'' [job_id_attribute sample_id]
            (sample_world\<lparr>w_log := ls\<rparr>)"])
         (simp_all add: ref_pool_def dispatcher_dequeue_def same_but_log_step)
  qed
  have "pool_step sample_words ref_context ref_pool (sy_pool (one_worker DDequeue WIdle), w0) EvDequeue
      (sy_pool (one_worker DDequeue WIdle)\<lparr>ps_dispatcher := DSend sample_id\<rparr>, w1)"
    by (rule pool_step.dequeue [OF _ d(1)]) (simp add: one_worker_def)
  from run_pool_step [OF srun_refl [of _ _ _ _ "(one_worker DDequeue WIdle, w0)"] this, of "one_worker (DSend sample_id) WIdle" ref_api]
  show thesis by (intro that [OF _ d(2)]) (simp add: s(1) one_worker_def)
qed

lemma sample_sent:
  obtains w where "sample_reaches [EvPool EvDequeue, EvPool (EvSent 0)] (one_worker DDequeue (WBusy sample_id (PStart sample_id))) w"
    "same_but_log sample_world w"
proof -
  obtain w0 where r: "sample_reaches [EvPool EvDequeue] (one_worker (DSend sample_id) WIdle) w0"
    "same_but_log sample_world w0" by (rule sample_dequeued)
  obtain w1 where w1: "worker_received (pool_workers ref_pool ! 0) sample_id w0 = (WBusy sample_id (PStart sample_id), w1)"
    "same_but_log sample_world w1"
    using r(2) by (simp add: worker_received_def ref_pool_def WorkerCount_def same_but_log_step)
  obtain w2 where w2: "dispatcher_sent (pool_dispatcher ref_pool) sample_id w1 = (DDequeue, w2)" "same_but_log sample_world w2"
    using w1(2) by (simp add: dispatcher_sent_def ref_pool_def same_but_log_step)
  have "pool_step sample_words ref_context ref_pool (sy_pool (one_worker (DSend sample_id) WIdle), w0) (EvSent 0)
      (sy_pool (one_worker (DSend sample_id) WIdle)\<lparr>ps_dispatcher := DDequeue,
        ps_workers := (ps_workers (sy_pool (one_worker (DSend sample_id) WIdle)))[0 := WBusy sample_id (PStart sample_id)]\<rparr>, w2)"
    by (rule pool_step.sent [OF _ _ _ w1(1) w2(1)]) (simp_all add: one_worker_def)
  from run_pool_step [OF r(1) this, of "one_worker DDequeue (WBusy sample_id (PStart sample_id))"]
  show thesis by (intro that [OF _ w2(2)]) (simp add: one_worker_def)
qed

lemma sample_call:
  assumes "sample_reaches evs (one_worker DDequeue (WBusy i p)) w" "\<forall>r. p \<noteq> PDone r"
    "proc_step sample_words ref_worker p w = (p', w')"
  shows "sample_reaches (evs @ [EvPool (call_event 0 p)]) (one_worker DDequeue (WBusy i p')) w'"
proof -
  have "pool_step sample_words ref_context ref_pool (sy_pool (one_worker DDequeue (WBusy i p)), w) (call_event 0 p)
      (sy_pool (one_worker DDequeue (WBusy i p))\<lparr>ps_workers :=
        (ps_workers (sy_pool (one_worker DDequeue (WBusy i p))))[0 := WBusy i p']\<rparr>, w')"
    by (rule pool_step.call) (use assms(2,3) in \<open>simp_all add: one_worker_def ref_pool_def WorkerCount_def\<close>)
  from run_pool_step [OF assms(1) this, of "one_worker DDequeue (WBusy i p')"] show ?thesis
    by (simp add: one_worker_def)
qed

text \<open>Loaded, marked, persisted, observed, and run: the executor refuses the payload.\<close>

definition sample_events :: "system_event list" where
  "sample_events = [EvPool EvDequeue, EvPool (EvSent 0), EvPool (EvCall 0), EvPool (EvCall 0), EvPool (EvCall 0),
     EvPool (EvCall 0), EvPool (EvRan sample_id)]"

lemma sample_executed:
  obtains r1 w where "sample_reaches sample_events
      (one_worker DDequeue (WBusy sample_id (PFailed sample_started sample_execution_error))) w"
    "job_record_from_domain (Some sample_started) = Inr r1" "quiet w [merge_columns updated_columns r1 sample_record] 21"
proof -
  obtain w0 where r: "sample_reaches [EvPool EvDequeue, EvPool (EvSent 0)] (one_worker DDequeue (WBusy sample_id (PStart sample_id))) w0"
    "same_but_log sample_world w0" by (rule sample_sent)
  obtain r1 r2 where rr: "job_record_from_domain (Some sample_started) = Inr r1"
    "job_record_from_domain (Some sample_retried) = Inr r2" by (simp add: from_domain_Some)
  let ?r1 = "merge_columns updated_columns r1 sample_record"
  have ids: "rec_id sample_record = ent_id sample_started" "ent_id sample_started = sample_id"
    by (simp_all add: sample_record_def sample_started_def sample_job_def)
  have "quiet sample_world [sample_record] 20" by (simp add: quiet_def sample_world_def)
  then have q0: "quiet w0 [sample_record] 20" using quiet_same [OF r(2)] by simp
  have get: "repository_get_by_id (pf_db ref_platform) sample_id w0 = (Inr sample_job, w0)"
  proof -
    have "rec_id sample_record = sample_id" by (simp add: sample_record_def)
    then have "ref_first sample_id w0 = (Inr sample_record, w0)"
      using q0 by (simp add: ref_first_def ref_table_def quiet_def)
    then show ?thesis by (simp add: repository_get_by_id_def sample_id_valid sample_row_read)
  qed
  have "proc_step sample_words ref_worker (PStart sample_id) w0 = (PLoaded sample_id sample_job, w0)"
    using get by (simp add: ref_worker_def mysql_repository_def sample_id_valid)
  note r1 = sample_call [OF r(1) _ this, simplified]
  obtain w1 where clk: "system_now ref_now w0 = (at_ns 20, w1)" "quiet w1 [sample_record] 21"
    using quiet_now [OF q0] by fastforce
  have "proc_step sample_words ref_worker (PLoaded sample_id sample_job) w0
      = (PMarked sample_id (ent_status sample_job) sample_started, w1)"
    using clk(1) sample_transitions(1) by (simp add: ref_worker_def)
  note r2 = sample_call [OF r1 _ this, simplified]
  obtain w2 where u: "repository_update (pf_db ref_platform) (Some sample_started) w1 = (None, w2)" "quiet w2 [?r1] 21"
    using quiet_update [OF clk(2) ids(1) rr(1) sample_rows_accepted(1) [OF rr]] .
  have "proc_step sample_words ref_worker (PMarked sample_id (ent_status sample_job) sample_started) w1
      = (PStarted sample_id (ent_status sample_job) sample_started, w2)"
    using u(1) by (simp add: ref_worker_def mysql_repository_def)
  note r3 = sample_call [OF r2 _ this, simplified]
  let ?w3 = "status_persisted ref_log sample_started (ent_status sample_job) w2"
  have "proc_step sample_words ref_worker (PStarted sample_id (ent_status sample_job) sample_started) w2
      = (PReady sample_id sample_started, ?w3)"
    by (simp add: ref_worker_def)
  note r4 = sample_call [OF r3 _ this, simplified]
  have "proc_step sample_words ref_worker (PReady sample_id sample_started) ?w3
      = (PFailed sample_started sample_execution_error, ?w3)"
    using sample_execute [of sample_started ref_platform ?w3] ids(2)
    by (simp add: ref_worker_def sample_started_def sample_job_def)
  note r5 = sample_call [OF r4 _ this, simplified]
  show thesis
    by (rule that [OF _ rr(1) quiet_log [OF u(2)]]) (use r5 in \<open>simp add: sample_events_def\<close>)
qed

section \<open>Stopping at the wrong moment\<close>

lemma run_of_one_worker:
  assumes "sample_reaches evs s w" "k < WorkerCount" "length (ps_workers (sy_pool s)) = WorkerCount"
    "ps_workers (sy_pool s) ! k = WIdle" "w_cancelled w"
  obtains w' where "sample_reaches (evs @ [EvPool (EvStopped k)])
      (s\<lparr>sy_pool := (sy_pool s)\<lparr>ps_workers := (ps_workers (sy_pool s))[k := WStopped]\<rparr>\<rparr>) w'" "same_but_log w w'"
proof -
  obtain w' where d: "worker_done (pool_workers ref_pool ! k) w = (WStopped, w')" "same_but_log w w'"
    using assms(2) by (simp add: worker_done_def ref_pool_def same_but_log_step)
  have "pool_step sample_words ref_context ref_pool (sy_pool s, w) (EvStopped k)
      ((sy_pool s)\<lparr>ps_workers := (ps_workers (sy_pool s))[k := WStopped]\<rparr>, w')"
    by (rule pool_step.idle_done [OF _ assms(4) _ d(1)]) (use assms in \<open>simp_all add: ref_context_def\<close>)
  from run_pool_step [OF assms(1) this refl] d(2) show thesis by (rule that)
qed

lemma same_but_log_trans: "same_but_log u v \<Longrightarrow> same_but_log v w \<Longrightarrow> same_but_log u w"
  by (auto simp: same_but_log_def)

lemma same_but_log_cancelled: "same_but_log v w \<Longrightarrow> w_cancelled w = w_cancelled v"
  by (auto simp: same_but_log_def)

definition stop_events :: "system_event list" where
  "stop_events = [EvPool EvDequeue, EvPool EvSignal, EvPool (EvDropped sample_id), EvPool (EvStopped 0),
     EvPool (EvStopped 1), EvPool (EvStopped 2), EvPool (EvStopped 3), EvPool (EvStopped 4)]"

definition stopped_system :: system where
  "stopped_system = \<lparr>sy_pool = \<lparr>ps_dispatcher = DStopped, ps_workers = replicate 5 WStopped\<rparr>, sy_requests = []\<rparr>"

lemma sample_stopped:
  obtains w where "sample_reaches stop_events stopped_system w" "same_but_log (sample_world\<lparr>w_cancelled := True\<rparr>) w"
proof -
  let ?cw = "sample_world\<lparr>w_cancelled := True\<rparr>"
  obtain w0 where r: "sample_reaches [EvPool EvDequeue] (one_worker (DSend sample_id) WIdle) w0"
    "same_but_log sample_world w0" by (rule sample_dequeued)
  let ?w1 = "w0\<lparr>w_cancelled := True\<rparr>"
  have c1: "same_but_log ?cw ?w1" using r(2) by (auto simp: same_but_log_def sample_world_def)
  have "\<not> w_cancelled w0" using r(2) by (auto simp: same_but_log_def sample_world_def)
  then have "pool_step sample_words ref_context ref_pool (sy_pool (one_worker (DSend sample_id) WIdle), w0) EvSignal
      (sy_pool (one_worker (DSend sample_id) WIdle), ?w1)"
    using pool_step.signal [of ref_context w0 sample_words ref_pool] by (simp add: ref_context_def)
  from run_pool_step [OF r(1) this, of "one_worker (DSend sample_id) WIdle"]
  have r1: "sample_reaches [EvPool EvDequeue, EvPool EvSignal] (one_worker (DSend sample_id) WIdle) ?w1"
    by simp
  obtain w2 where d: "dispatcher_return (pool_dispatcher ref_pool) ?w1 = (DStopped, w2)" "same_but_log ?cw w2"
    using c1 by (simp add: dispatcher_return_def ref_pool_def same_but_log_step)
  have "pool_step sample_words ref_context ref_pool (sy_pool (one_worker (DSend sample_id) WIdle), ?w1)
      (EvDropped sample_id) (sy_pool (one_worker DStopped WIdle), w2)"
    using pool_step.dropped [OF _ _ d(1), of "sy_pool (one_worker (DSend sample_id) WIdle)" sample_id ref_context sample_words]
    by (simp add: one_worker_def ref_context_def)
  from run_pool_step [OF r1 this, of "one_worker DStopped WIdle"]
  have r2: "sample_reaches [EvPool EvDequeue, EvPool EvSignal, EvPool (EvDropped sample_id)] (one_worker DStopped WIdle) w2"
    by (simp add: one_worker_def)
  have five: "(0::nat) < WorkerCount" "1 < WorkerCount" "2 < WorkerCount" "3 < WorkerCount" "4 < WorkerCount"
    by (simp_all add: WorkerCount_def)
  have c: "w_cancelled w" if "same_but_log ?cw w" for w using same_but_log_cancelled [OF that] by simp
  note s = one_worker_def WorkerCount_def
  obtain w3 where r3: "sample_reaches ([EvPool EvDequeue, EvPool EvSignal, EvPool (EvDropped sample_id)] @ [EvPool (EvStopped 0)])
      (\<lparr>sy_pool = \<lparr>ps_dispatcher = DStopped, ps_workers = [WStopped, WIdle, WIdle, WIdle, WIdle]\<rparr>, sy_requests = []\<rparr>) w3"
      "same_but_log ?cw w3"
    using run_of_one_worker [OF r2 five(1) _ _ c [OF d(2)]] same_but_log_trans [OF d(2)] by (auto simp: s)
  obtain w4 where r4: "sample_reaches ([EvPool EvDequeue, EvPool EvSignal, EvPool (EvDropped sample_id), EvPool (EvStopped 0)] @ [EvPool (EvStopped 1)])
      (\<lparr>sy_pool = \<lparr>ps_dispatcher = DStopped, ps_workers = [WStopped, WStopped, WIdle, WIdle, WIdle]\<rparr>, sy_requests = []\<rparr>) w4"
      "same_but_log ?cw w4"
    using run_of_one_worker [OF r3(1) five(2) _ _ c [OF r3(2)]] same_but_log_trans [OF r3(2)] by (auto simp: s)
  obtain w5 where r5: "sample_reaches ([EvPool EvDequeue, EvPool EvSignal, EvPool (EvDropped sample_id), EvPool (EvStopped 0), EvPool (EvStopped 1)] @ [EvPool (EvStopped 2)])
      (\<lparr>sy_pool = \<lparr>ps_dispatcher = DStopped, ps_workers = [WStopped, WStopped, WStopped, WIdle, WIdle]\<rparr>, sy_requests = []\<rparr>) w5"
      "same_but_log ?cw w5"
    using run_of_one_worker [OF r4(1) five(3) _ _ c [OF r4(2)]] same_but_log_trans [OF r4(2)] by (auto simp: s)
  obtain w6 where r6: "sample_reaches ([EvPool EvDequeue, EvPool EvSignal, EvPool (EvDropped sample_id), EvPool (EvStopped 0), EvPool (EvStopped 1),
        EvPool (EvStopped 2)] @ [EvPool (EvStopped 3)])
      (\<lparr>sy_pool = \<lparr>ps_dispatcher = DStopped, ps_workers = [WStopped, WStopped, WStopped, WStopped, WIdle]\<rparr>, sy_requests = []\<rparr>) w6"
      "same_but_log ?cw w6"
    using run_of_one_worker [OF r5(1) five(4) _ _ c [OF r5(2)]] same_but_log_trans [OF r5(2)] by (auto simp: s)
  obtain w7 where "sample_reaches stop_events stopped_system w7" "same_but_log ?cw w7"
    using run_of_one_worker [OF r6(1) five(5) _ _ c [OF r6(2)]] same_but_log_trans [OF r6(2)]
    by (auto simp: s stop_events_def stopped_system_def numeral_eq_Suc)
  then show thesis by (rule that)
qed

end
