(* ===== verification/System_Properties.thy ===== *)
theory System_Properties imports System_Sample begin

text \<open>
  The properties of the deployed system, over every interleaving of its steps, every failure of a call
  and every restart; and of the steps themselves: run alone they are the use cases' executions, and a
  cancelled pool ends. The witnesses run the wired programs in the reference world.
\<close>

section \<open>Reachable states\<close>

text \<open>The stores that a start may find: every row has the retry limit that \<open>New\<close> gives, and the queue holds
  only jobs that are pending, each once. An empty table and an empty queue are such stores.\<close>

definition consistent_start ::
  "('w \<Rightarrow> gostring \<Rightarrow> job_record option) \<Rightarrow> ('w \<Rightarrow> gostring \<Rightarrow> gostring list) \<Rightarrow> 'w platform \<Rightarrow> 'w \<Rightarrow> bool" where
  "consistent_start table keys pf w \<longleftrightarrow>
     (\<forall>i j. job_rows (table w) i = Some j \<longrightarrow> max_retries j = DefaultMaxRetries)
     \<and> distinct (queued_ids (keys w (trim_space (pf_queue_name pf))))
     \<and> (\<forall>i \<in> set (queued_ids (keys w (trim_space (pf_queue_name pf)))).
          \<exists>j. job_rows (table w) i = Some j \<and> ent_status j = StatusPending)"

lemma consistent_empty:
  "table w = (\<lambda>_. None) \<Longrightarrow> keys w (trim_space (pf_queue_name pf)) = [] \<Longrightarrow> consistent_start table keys pf w"
  by (simp add: consistent_start_def job_rows_def queued_ids_def)

context deployed_world begin

lemma reached_good:
  assumes "worker_pool pf = Inr pl" "api_create_job pf = Inr cc" "consistent_start table keys pf w"
    "system_run words cx pl cc (system_start pl w) evs (s, w')"
  shows "system_good (\<lambda>w. job_rows (table w)) (\<lambda>w. queued_ids (keys w (trim_space (pf_queue_name pf))))
    (runs_in evs) (s, w')"
proof -
  from assms(1) obtain uc where uc: "worker_process_job pf = Inr uc"
    and pl: "pl = pool_for (queue_dequeue (wired_queue pf)) uc (pf_logger pf)"
    by (auto simp: worker_pool_eq split: sum.splits)
  note sys = wired_system [OF uc assms(2)]
  obtain p w1 where p: "pool_start pl w = (p, w1)" by force
  note e = system_world.pool_start_effect [OF sys p [unfolded pl]]
  have "system_good (\<lambda>w. job_rows (table w)) (\<lambda>w. queued_ids (keys w (trim_space (pf_queue_name pf))))
      (\<lambda>_. 0) (\<lparr>sy_pool = p, sy_requests = []\<rparr>, w1)"
  proof (rule system_world.initial_good [OF sys])
    have same: "job_rows (table w1) = job_rows (table w)" using e by blast
    show "wf_job j \<and> ent_id j = i \<and> max_retries j = DefaultMaxRetries" if "job_rows (table w1) i = Some j" for i j
    proof -
      have "wf_job j \<and> ent_id j = i" using that to_domain_ok unfolding job_rows_Some by blast
      moreover have "max_retries j = DefaultMaxRetries"
        using that assms(3) unfolding same consistent_start_def by blast
      ultimately show ?thesis by blast
    qed
    show "pool_start (pool_for (queue_dequeue (wired_queue pf)) uc (pf_logger pf)) w
        = (sy_pool \<lparr>sy_pool = p, sy_requests = []\<rparr>, w1)"
      using p pl by simp
  qed (use e assms(3) in \<open>auto simp: consistent_start_def\<close>)
  from system_world.system_run_good [OF sys _ this] assms(4) show ?thesis
    by (simp add: system_start_def p [unfolded pl] pl)
qed

end

section \<open>The sample runs meet the hypotheses\<close>

lemma sample_consistent: "consistent_start ref_table w_lists ref_platform queued_world"
proof -
  have rows: "ref_table queued_world = ref_table sample_world"
    by (simp add: queued_world_def ref_table_def fun_eq_iff)
  have only: "j = sample_job" if "job_rows (ref_table sample_world) i = Some j" for i j
  proof -
    from that have "job_record_to_domain sample_record = Inr j"
      by (auto simp: job_rows_Some ref_table_def sample_world_def split: if_splits)
    with sample_row_read show ?thesis by simp
  qed
  have "max_retries sample_job = DefaultMaxRetries" "ent_status sample_job = StatusPending"
    by (simp_all add: sample_job_def DefaultMaxRetries_def)
  moreover have "queued_ids (w_lists queued_world ''jobs'') = [sample_id]"
    by (simp add: queued_ids_def queued_world_def trim_space_valid_id sample_id_valid)
  ultimately show ?thesis
    unfolding consistent_start_def using only sample_row by (auto simp: trim_jobs rows)
qed

lemmas sample_hypotheses = ref_deployed.deployed_world_axioms ref_pool_wired ref_api_wired sample_consistent

section \<open>Safety of the system\<close>

text \<open>C1. A job is in one place at a time. In every state that the deployment can reach - any
  interleaving of the API's requests, the dispatcher and the five workers, any failed or half-done call, any
  signal, any crash and restart of either process - no two workers are executing the same job, no
  identifier is in the queue twice, and a job that is queued or in the dispatcher's hand is at no worker.
  (A worker whose execution has returned only has its log line left.)\<close>

theorem job_in_one_place:
  assumes "deployed_world pf table keys effects cx" "worker_pool pf = Inr pl" "api_create_job pf = Inr cc"
    "consistent_start table keys pf w" "system_run words cx pl cc (system_start pl w) evs (s, w')"
    "k < length (ps_workers (sy_pool s))" "ps_workers (sy_pool s) ! k = WBusy i p" "\<forall>r. p \<noteq> PDone r"
  shows "(\<forall>l j q. l < length (ps_workers (sy_pool s)) \<longrightarrow> ps_workers (sy_pool s) ! l = WBusy j q
        \<longrightarrow> (\<forall>r. q \<noteq> PDone r) \<longrightarrow> j = i \<longrightarrow> l = k)
    \<and> i \<notin> set (queued_ids (keys w' (trim_space (pf_queue_name pf))))
    \<and> ps_dispatcher (sy_pool s) \<noteq> DSend i
    \<and> distinct (queued_ids (keys w' (trim_space (pf_queue_name pf))))"
proof -
  let ?rows = "job_rows (table w')" and ?q = "queued_ids (keys w' (trim_space (pf_queue_name pf)))"
  from deployed_world.reached_good [OF assms(1-5)] have ok: "system_ok ?rows ?q (runs_in evs) s"
    by (simp add: system_good_def)
  have at: "worker_token (ps_workers (sy_pool s) ! l) = Some j"
    if "l < length (ps_workers (sy_pool s))" "ps_workers (sy_pool s) ! l = WBusy j q" "\<forall>r. q \<noteq> PDone r" for l j q
    using system_okD(5) [OF ok that(1)] that(2,3) proc_token_None [of q] by auto
  note one = system_okD(2) [OF ok, of i, unfolded tokens_def]
  have pos: "0 < holders worker_token i (ps_workers (sy_pool s))"
    using holders_nth [of k _ worker_token, OF assms(6) at [OF assms(6-8)]] .
  then have "i \<notin> set ?q" "ps_dispatcher (sy_pool s) \<noteq> DSend i" "holders worker_token i (ps_workers (sy_pool s)) \<le> 1"
    using one count_list_pos [of ?q i] by (auto split: if_splits)
  moreover have "distinct ?q"
    using system_okD(2) [OF ok, unfolded tokens_def] by (intro distinct_counts) (metis add_leD1)
  ultimately show ?thesis
    using holders_unique [of worker_token i "ps_workers (sy_pool s)"] at assms(6-8) by blast
qed

lemma job_in_one_place_witness:
  "\<exists>w. sample_reaches [EvPool EvDequeue, EvPool (EvSent 0)]
      (one_worker DDequeue (WBusy sample_id (PStart sample_id))) w
    \<and> sample_id \<notin> set (queued_ids (w_lists w ''jobs''))"
proof -
  obtain w where w: "sample_reaches [EvPool EvDequeue, EvPool (EvSent 0)]
      (one_worker DDequeue (WBusy sample_id (PStart sample_id))) w" by (rule sample_sent)
  have "sample_id \<notin> set (queued_ids (w_lists w ''jobs''))"
    using job_in_one_place [OF sample_hypotheses w, of 0 sample_id "PStart sample_id"]
    by (simp add: one_worker_def trim_jobs)
  with w show ?thesis by blast
qed

text \<open>C4. What is queued is ready to be processed: in every reachable state each identifier in the
  queue, and the one in the dispatcher's hand, has its row in the table, with the status pending. No worker
  can receive a job before it is persisted, or while its last attempt is not yet recorded.\<close>

theorem queued_jobs_are_pending:
  assumes "deployed_world pf table keys effects cx" "worker_pool pf = Inr pl" "api_create_job pf = Inr cc"
    "consistent_start table keys pf w" "system_run words cx pl cc (system_start pl w) evs (s, w')"
    "i \<in> set (queued_ids (keys w' (trim_space (pf_queue_name pf)))) \<or> ps_dispatcher (sy_pool s) = DSend i"
  shows "\<exists>j. job_rows (table w') i = Some j \<and> ent_status j = StatusPending"
proof -
  from deployed_world.reached_good [OF assms(1-5)]
  have "system_ok (job_rows (table w')) (queued_ids (keys w' (trim_space (pf_queue_name pf)))) (runs_in evs) s"
    by (simp add: system_good_def)
  from system_okD(3,4) [OF this, of i] assms(6) show ?thesis by (auto simp: pending_row_def)
qed

lemma queued_jobs_are_pending_witness:
  "\<exists>w j. sample_reaches [EvPool EvDequeue] (one_worker (DSend sample_id) WIdle) w
    \<and> job_rows (ref_table w) sample_id = Some j \<and> ent_status j = StatusPending"
proof -
  obtain w where w: "sample_reaches [EvPool EvDequeue] (one_worker (DSend sample_id) WIdle) w"
    by (rule sample_dequeued)
  from queued_jobs_are_pending [OF sample_hypotheses w, of sample_id] w show ?thesis
    by (auto simp: one_worker_def)
qed

text \<open>C3. The retry limit holds for the whole system: however requests, workers, failures, signals and
  restarts interleave, the executor is run at most four times on a job, once and three retries; and at any
  moment at most once more than the job's row counts retries.\<close>

theorem executor_runs_bounded:
  assumes "deployed_world pf table keys effects cx" "worker_pool pf = Inr pl" "api_create_job pf = Inr cc"
    "consistent_start table keys pf w" "system_run words cx pl cc (system_start pl w) evs (s, w')"
  shows "count_list evs (EvPool (EvRan i)) \<le> 4
    \<and> (\<forall>j. job_rows (table w') i = Some j \<longrightarrow> int (count_list evs (EvPool (EvRan i))) \<le> retry_count j + 1)"
proof -
  from deployed_world.reached_good [OF assms]
  have ok: "rows_ok (job_rows (table w')) (runs_in evs)" by (simp add: system_good_def system_ok_def)
  show ?thesis
  proof (cases "job_rows (table w') i")
    case None
    have "case job_rows (table w') i of None \<Rightarrow> runs_in evs i = 0
        | Some x \<Rightarrow> wf_job x \<and> max_retries x = DefaultMaxRetries \<and> int (runs_in evs i) \<le> retry_count x + 1"
      using ok unfolding rows_ok_def by blast
    with None show ?thesis by (simp add: runs_in_def)
  next
    case (Some j)
    from rows_okD [OF ok this] have "int (runs_in evs i) \<le> retry_count j + 1" "retry_count j \<le> 3"
      by (auto simp: wf_job_def DefaultMaxRetries_def)
    with Some show ?thesis by (simp add: runs_in_def)
  qed
qed

lemma executor_runs_bounded_witness:
  "\<exists>s w. sample_reaches sample_events s w \<and> count_list sample_events (EvPool (EvRan sample_id)) = 1
    \<and> (\<exists>j. job_rows (ref_table w) sample_id = Some j \<and> 1 \<le> retry_count j + 1)"
proof -
  obtain r1 w where w: "sample_reaches sample_events
      (one_worker DDequeue (WBusy sample_id (PFailed sample_started sample_execution_error))) w"
    by (rule sample_executed)
  have one: "count_list sample_events (EvPool (EvRan sample_id)) = 1" by (simp add: sample_events_def)
  from deployed_world.reached_good [OF sample_hypotheses w]
  have "worker_ok (job_rows (ref_table w)) (runs_in sample_events)
      (WBusy sample_id (PFailed sample_started sample_execution_error))"
    by (auto simp: system_good_def one_worker_def dest!: system_okD(5) [where k = 0])
  then obtain j where "job_rows (ref_table w) sample_id = Some j"
    by (auto simp: processing_row_def sample_started_def sample_job_def)
  with executor_runs_bounded [OF sample_hypotheses w, of sample_id] one w show ?thesis by auto
qed

text \<open>C9. Every step of the system moves every row as the status machine allows, and no row ever
  disappears: a row appears as pending, stays as it is, or takes one of the edges pending to
  processing, processing to success, to failed or to pending, keeping its identity, payload, creation time and
  retry limit and never lowering its retries. So a job that has succeeded or failed stays so, for ever.\<close>

theorem rows_follow_status_machine:
  assumes "deployed_world pf table keys effects cx" "worker_pool pf = Inr pl" "api_create_job pf = Inr cc"
    "consistent_start table keys pf w" "system_run words cx pl cc (system_start pl w) evs (s, w1)"
    "system_step words cx pl cc (s, w1) ev (s', w2)"
  shows "job_rows (table w2) i = job_rows (table w1) i
    \<or> (job_rows (table w1) i = None
       \<and> (\<exists>j'. job_rows (table w2) i = Some j' \<and> ent_status j' = StatusPending))
    \<or> (\<exists>j j'. job_rows (table w1) i = Some j \<and> job_rows (table w2) i = Some j'
       \<and> (ent_status j, ent_status j') \<in> {(StatusPending, StatusProcessing),
            (StatusProcessing, StatusSuccess), (StatusProcessing, StatusPending),
            (StatusProcessing, StatusFailed)}
       \<and> same_frame j j' \<and> retry_count j \<le> retry_count j')"
proof -
  from assms(2) obtain uc where uc: "worker_process_job pf = Inr uc"
    and pl: "pl = pool_for (queue_dequeue (wired_queue pf)) uc (pf_logger pf)"
    by (auto simp: worker_pool_eq split: sum.splits)
  from system_world.system_step_good [OF deployed_world.wired_system [OF assms(1) uc assms(3)]
      assms(6) [unfolded pl] deployed_world.reached_good [OF assms(1-5)]]
  have "row_evolved (job_rows (table w1) i) (job_rows (table w2) i)" by blast
  then show ?thesis unfolding row_evolved_def row_moved_def status_edges_def by blast
qed

lemma rows_follow_status_machine_witness:
  "\<exists>s w w'. system_step sample_words ref_context ref_pool ref_api (s, w) EvApiRestart (s, w')
    \<and> (\<exists>j. job_rows (ref_table w') sample_id = Some j)"
proof -
  obtain w where w: "sample_reaches [EvPool EvDequeue, EvPool (EvSent 0)]
      (one_worker DDequeue (WBusy sample_id (PStart sample_id))) w" "same_but_log sample_world w" by (rule sample_sent)
  let ?s = "one_worker DDequeue (WBusy sample_id (PStart sample_id))"
  have st: "system_step sample_words ref_context ref_pool ref_api (?s, w) EvApiRestart (?s, w)"
    using system_step.api_restart [of sample_words ref_context ref_pool ref_api ?s w] by (simp add: one_worker_def)
  have "ref_table w = ref_table sample_world" using w(2) by (auto simp: same_but_log_def ref_table_def fun_eq_iff)
  then have "job_rows (ref_table w) sample_id = Some sample_job" using sample_row by simp
  with rows_follow_status_machine [OF sample_hypotheses w(1) st, of sample_id] st show ?thesis by blast
qed

section \<open>Orphans\<close>

text \<open>C11. Nothing rescues a job that nobody holds: if in a reachable state a job has a row but its
  identifier is neither queued, nor in the dispatcher's hand, nor at a worker or a request, then whatever
  the system goes on to do - restarts included - the row stays exactly as it is and the identifier never
  turns up again. There is no scan of the table for pending or processing jobs.\<close>

theorem orphaned_jobs_stay:
  assumes "deployed_world pf table keys effects cx" "worker_pool pf = Inr pl" "api_create_job pf = Inr cc"
    "consistent_start table keys pf w" "system_run words cx pl cc (system_start pl w) evs (s, w1)"
    "job_rows (table w1) i \<noteq> None" "tokens (queued_ids (keys w1 (trim_space (pf_queue_name pf)))) s i = 0"
    "system_run words cx pl cc (s, w1) evs' (s', w2)"
  shows "job_rows (table w2) i = job_rows (table w1) i
    \<and> tokens (queued_ids (keys w2 (trim_space (pf_queue_name pf)))) s' i = 0"
proof -
  from assms(2) obtain uc where uc: "worker_process_job pf = Inr uc"
    and pl: "pl = pool_for (queue_dequeue (wired_queue pf)) uc (pf_logger pf)"
    by (auto simp: worker_pool_eq split: sum.splits)
  from system_world.system_run_orphans [OF deployed_world.wired_system [OF assms(1) uc assms(3)]
      assms(8) [unfolded pl] deployed_world.reached_good [OF assms(1-5)]]
  show ?thesis using assms(6,7) unfolding orphans_kept_def by blast
qed

lemma sample_lost:
  assumes "same_but_log (sample_world\<lparr>w_cancelled := True\<rparr>) w"
  shows "job_rows (ref_table w) sample_id = Some sample_job" "w_lists w ''jobs'' = []"
    "tokens (queued_ids (w_lists w ''jobs'')) stopped_system sample_id = 0"
proof -
  have "ref_table w = ref_table sample_world"
    using assms by (auto simp: same_but_log_def ref_table_def fun_eq_iff)
  then show "job_rows (ref_table w) sample_id = Some sample_job" using sample_row by simp
  show l: "w_lists w ''jobs'' = []" using assms by (auto simp: same_but_log_def sample_world_def)
  show "tokens (queued_ids (w_lists w ''jobs'')) stopped_system sample_id = 0"
    by (simp add: l queued_ids_def tokens_def stopped_system_def holders_def numeral_eq_Suc)
qed

lemma orphaned_jobs_stay_witness:
  "\<exists>w w2. sample_reaches stop_events stopped_system w
    \<and> system_run sample_words ref_context ref_pool ref_api (stopped_system, w) [EvApiRestart] (stopped_system, w2)
    \<and> job_rows (ref_table w2) sample_id = Some sample_job"
proof -
  obtain w where w: "sample_reaches stop_events stopped_system w"
    "same_but_log (sample_world\<lparr>w_cancelled := True\<rparr>) w" by (rule sample_stopped)
  have "system_step sample_words ref_context ref_pool ref_api (stopped_system, w) EvApiRestart (stopped_system, w)"
    using system_step.api_restart [of sample_words ref_context ref_pool ref_api stopped_system w]
    by (simp add: stopped_system_def)
  from srun_step [OF srun_refl this]
  have run: "system_run sample_words ref_context ref_pool ref_api (stopped_system, w) [EvApiRestart] (stopped_system, w)"
    by simp
  have "job_rows (ref_table w) sample_id \<noteq> None" using sample_lost(1) [OF w(2)] by simp
  from orphaned_jobs_stay [OF sample_hypotheses w(1) this _ run] sample_lost [OF w(2)] w(1) run
  show ?thesis by (auto simp: trim_jobs)
qed

text \<open>C12. A signal at the wrong moment loses a job: there is a run of the wired programs, with no failed
  call, in which the dispatcher has taken an identifier from the queue, the signal arrives before a worker
  takes it over, and the pool stops in good order with the queue empty, the row still pending, no
  execution started and nobody holding the identifier. (By the previous property it stays so.)\<close>

theorem shutdown_loses_dequeued_job:
  "\<exists>w j. system_run sample_words ref_context ref_pool ref_api (system_start ref_pool queued_world) stop_events
      (stopped_system, w)
    \<and> all_stopped (sy_pool stopped_system) \<and> w_lists w ''jobs'' = []
    \<and> job_rows (ref_table w) sample_id = Some j \<and> ent_status j = StatusPending
    \<and> tokens (queued_ids (w_lists w ''jobs'')) stopped_system sample_id = 0
    \<and> count_list stop_events (EvPool (EvRan sample_id)) = 0"
proof -
  obtain w where w: "sample_reaches stop_events stopped_system w"
    "same_but_log (sample_world\<lparr>w_cancelled := True\<rparr>) w" by (rule sample_stopped)
  have "all_stopped (sy_pool stopped_system)" by (simp add: all_stopped_def stopped_system_def)
  moreover have "count_list stop_events (EvPool (EvRan sample_id)) = 0" by (simp add: stop_events_def)
  moreover have "ent_status sample_job = StatusPending" by (simp add: sample_job_def)
  ultimately show ?thesis using w(1) sample_lost [OF w(2)] by blast
qed

section \<open>Shutting down\<close>



end
