(* ===== verification/Config.thy ===== *)
theory Config imports Logging begin

text \<open>
  \<open>internal/platform/config\<close>: reading the configuration from the environment and checking it. The
  environment is a map from names to values. \<open>Validate\<close> ranges over a Go map, whose order is not
  defined; the order is an argument here, and nothing but the order of the joined messages depends on it.
\<close>

section \<open>Standard library\<close>

text \<open>\<open>strconv.Atoi\<close>, with the errors it gives.\<close>

definition atoi :: "gostring \<Rightarrow> goerror + int" where
  "atoi s =
     (case parse_int s of
        Inr v \<Rightarrow> Inr v
      | Inl e \<Rightarrow> Inl (Errorf [Lit ''strconv.Atoi: parsing '', Arg_q s, Lit '': '',
          Arg_w (NewError (case e of ErrSyntax \<Rightarrow> ''invalid syntax'' | ErrRange \<Rightarrow> ''value out of range''))]))"

text \<open>The offset of the first and of the last occurrence of a byte.\<close>

fun index_byte :: "char \<Rightarrow> gostring \<Rightarrow> nat option" where
  "index_byte c [] = None"
| "index_byte c (x # xs) = (if x = c then Some 0 else map_option Suc (index_byte c xs))"

fun last_index_byte :: "char \<Rightarrow> gostring \<Rightarrow> nat option" where
  "last_index_byte c [] = None"
| "last_index_byte c (x # xs) =
     (case last_index_byte c xs of
        Some n \<Rightarrow> Some (Suc n)
      | None \<Rightarrow> if x = c then Some 0 else None)"

text \<open>\<open>net.SplitHostPort\<close>.\<close>

definition addr_error :: "gostring \<Rightarrow> gostring \<Rightarrow> goerror" where
  "addr_error addr why = NewError (''address '' @ addr @ '': '' @ why)"

definition split_host_port :: "gostring \<Rightarrow> goerror + gostring \<times> gostring" where
  "split_host_port s =
     (case last_index_byte (CHR '':'') s of
        None \<Rightarrow> Inl (addr_error s ''missing port in address'')
      | Some i \<Rightarrow>
          let brackets = (\<lambda>host j k.
                if index_byte (CHR ''['') (drop j s) \<noteq> None
                then Inl (addr_error s (''unexpected '' @ [CHR 0x27, CHR ''['', CHR 0x27] @ '' in address''))
                else if index_byte (CHR '']'') (drop k s) \<noteq> None
                then Inl (addr_error s (''unexpected '' @ [CHR 0x27, CHR '']'', CHR 0x27] @ '' in address''))
                else Inr (host, drop (i + 1) s)) in
          if hd s = CHR ''['' then
            (case index_byte (CHR '']'') s of
               None \<Rightarrow>
                 Inl (addr_error s (''missing '' @ [CHR 0x27, CHR '']'', CHR 0x27] @ '' in address''))
             | Some e \<Rightarrow>
                 if e + 1 = length s then Inl (addr_error s ''missing port in address'')
                 else if e + 1 = i then brackets (take (e - 1) (drop 1 s)) 1 (e + 1)
                 else if s ! (e + 1) = CHR '':'' then Inl (addr_error s ''too many colons in address'')
                 else Inl (addr_error s ''missing port in address''))
          else if index_byte (CHR '':'') (take i s) \<noteq> None
          then Inl (addr_error s ''too many colons in address'')
          else brackets (take i s) 0 0)"

section \<open>The configuration\<close>

definition defaultAppEnvironment :: gostring where
  "defaultAppEnvironment = ''development''"

definition defaultHTTPAddress :: gostring where
  "defaultHTTPAddress = '':8080''"

definition defaultUIAssetsDir :: gostring where
  "defaultUIAssetsDir = ''web/dist''"

definition defaultLogLevel :: gostring where
  "defaultLogLevel = ''info''"

definition defaultMySQLPort :: int where
  "defaultMySQLPort = 3306"

definition defaultRedisPort :: int where
  "defaultRedisPort = 6379"

definition defaultRedisDB :: int where
  "defaultRedisDB = 0"

definition defaultRedisQueueName :: gostring where
  "defaultRedisQueueName = ''jobs:pending''"

record mysql_config =
  my_host :: gostring
  my_port :: int
  my_database :: gostring
  my_user :: gostring
  my_password :: gostring

record redis_config =
  rd_host :: gostring
  rd_port :: int
  rd_password :: gostring
  rd_db :: int
  rd_queue_name :: gostring

record config =
  cfg_environment :: gostring
  cfg_http_address :: gostring
  cfg_assets_directory :: gostring
  cfg_mysql :: mysql_config
  cfg_redis :: redis_config
  cfg_log_level :: gostring

section \<open>Reading\<close>

type_synonym environment = "gostring \<Rightarrow> gostring option"

text \<open>\<open>os.Getenv\<close>: a variable that is not set is empty.\<close>

definition getenv :: "environment \<Rightarrow> gostring \<Rightarrow> gostring" where
  "getenv env name = (case env name of None \<Rightarrow> [] | Some v \<Rightarrow> v)"

definition value_or_default :: "environment \<Rightarrow> gostring \<Rightarrow> gostring \<Rightarrow> gostring" where
  "value_or_default env name default_value =
     (case env name of
        None \<Rightarrow> default_value
      | Some v \<Rightarrow> if trim_space v = [] then default_value else trim_space v)"

definition int_from_environment :: "environment \<Rightarrow> gostring \<Rightarrow> int \<Rightarrow> goerror + int" where
  "int_from_environment env name default_value =
     (case env name of
        None \<Rightarrow> Inr default_value
      | Some raw \<Rightarrow>
          if trim_space raw = [] then Inr default_value
          else case atoi raw of
            Inl e \<Rightarrow> Inl (Errorf [Arg_s name, Lit '' must be a valid integer: '', Arg_w e])
          | Inr v \<Rightarrow> Inr v)"

section \<open>Checking\<close>

definition validate_port :: "gostring \<Rightarrow> int \<Rightarrow> goerror option" where
  "validate_port name port =
     (if port < 1 \<or> port > 65535 then Some (Errorf [Arg_s name, Lit '' must be between 1 and 65535''])
      else None)"

definition validate_http_address :: "gostring \<Rightarrow> goerror option" where
  "validate_http_address address =
     (case split_host_port address of
        Inl e \<Rightarrow> Some (Errorf [Lit ''HTTP_ADDRESS must have a host:port format such as :8080: '', Arg_w e])
      | Inr (_, port_value) \<Rightarrow>
     (case atoi port_value of
        Inl e \<Rightarrow> Some (Errorf [Lit ''HTTP_ADDRESS contains an invalid port: '', Arg_w e])
      | Inr port \<Rightarrow> validate_port ''HTTP_ADDRESS port'' port))"

definition is_supported_environment :: "gostring \<Rightarrow> bool" where
  "is_supported_environment s \<longleftrightarrow>
     to_lower s \<in> {''development'', ''test'', ''staging'', ''production''}"

definition is_supported_log_level :: "gostring \<Rightarrow> bool" where
  "is_supported_log_level s \<longleftrightarrow> to_lower s \<in> {''debug'', ''info'', ''warn'', ''error''}"

definition required_values :: "config \<Rightarrow> (gostring \<times> gostring) list" where
  "required_values cfg =
     [(''MYSQL_HOST'', my_host (cfg_mysql cfg)), (''MYSQL_DATABASE'', my_database (cfg_mysql cfg)),
      (''MYSQL_USER'', my_user (cfg_mysql cfg)), (''MYSQL_PASSWORD'', my_password (cfg_mysql cfg)),
      (''REDIS_HOST'', rd_host (cfg_redis cfg))]"

text \<open>An order in which Go may range over the map of the required values.\<close>

definition range_order :: "(config \<Rightarrow> (gostring \<times> gostring) list) \<Rightarrow> bool" where
  "range_order ord \<longleftrightarrow> (\<forall>cfg. distinct (ord cfg) \<and> set (ord cfg) = set (required_values cfg))"

definition config_validate :: "(config \<Rightarrow> (gostring \<times> gostring) list) \<Rightarrow> config \<Rightarrow> goerror option" where
  "config_validate ord cfg =
     errors_join
       (map (\<lambda>(name, v). Errorf [Arg_s name, Lit '' is required''])
          (filter (\<lambda>(name, v). trim_space v = []) (ord cfg))
        @ (case validate_port ''MYSQL_PORT'' (my_port (cfg_mysql cfg)) of Some e \<Rightarrow> [e] | None \<Rightarrow> [])
        @ (case validate_port ''REDIS_PORT'' (rd_port (cfg_redis cfg)) of Some e \<Rightarrow> [e] | None \<Rightarrow> [])
        @ (if rd_db (cfg_redis cfg) < 0 then [Errorf [Lit ''REDIS_DB must be zero or greater'']] else [])
        @ (if trim_space (rd_queue_name (cfg_redis cfg)) = []
           then [Errorf [Lit ''REDIS_QUEUE_NAME is required'']] else [])
        @ (case validate_http_address (cfg_http_address cfg) of Some e \<Rightarrow> [e] | None \<Rightarrow> [])
        @ (if trim_space (cfg_assets_directory cfg) = []
           then [Errorf [Lit ''UI_ASSETS_DIR is required'']] else [])
        @ (if \<not> is_supported_environment (cfg_environment cfg)
           then [Errorf [Lit ''APP_ENV must be one of development, test, staging, or production'']] else [])
        @ (if \<not> is_supported_log_level (cfg_log_level cfg)
           then [Errorf [Lit ''LOG_LEVEL must be one of debug, info, warn, or error'']] else []))"

definition config_load :: "(config \<Rightarrow> (gostring \<times> gostring) list) \<Rightarrow> environment \<Rightarrow> goerror + config" where
  "config_load ord env =
     (case int_from_environment env ''MYSQL_PORT'' defaultMySQLPort of Inl e \<Rightarrow> Inl e
      | Inr mysql_port \<Rightarrow>
     (case int_from_environment env ''REDIS_PORT'' defaultRedisPort of Inl e \<Rightarrow> Inl e
      | Inr redis_port \<Rightarrow>
     (case int_from_environment env ''REDIS_DB'' defaultRedisDB of Inl e \<Rightarrow> Inl e
      | Inr redis_db \<Rightarrow>
          let cfg =
            \<lparr>cfg_environment = value_or_default env ''APP_ENV'' defaultAppEnvironment,
             cfg_http_address = value_or_default env ''HTTP_ADDRESS'' defaultHTTPAddress,
             cfg_assets_directory = value_or_default env ''UI_ASSETS_DIR'' defaultUIAssetsDir,
             cfg_mysql =
               \<lparr>my_host = getenv env ''MYSQL_HOST'', my_port = mysql_port,
                my_database = getenv env ''MYSQL_DATABASE'', my_user = getenv env ''MYSQL_USER'',
                my_password = getenv env ''MYSQL_PASSWORD''\<rparr>,
             cfg_redis =
               \<lparr>rd_host = getenv env ''REDIS_HOST'', rd_port = redis_port,
                rd_password = getenv env ''REDIS_PASSWORD'', rd_db = redis_db,
                rd_queue_name = value_or_default env ''REDIS_QUEUE_NAME'' defaultRedisQueueName\<rparr>,
             cfg_log_level = value_or_default env ''LOG_LEVEL'' defaultLogLevel\<rparr>
          in (case config_validate ord cfg of
                Some e \<Rightarrow> Inl (wrap ''validate configuration'' e)
              | None \<Rightarrow> Inr cfg))))"

section \<open>What a valid configuration is\<close>

definition valid_config :: "config \<Rightarrow> bool" where
  "valid_config cfg \<longleftrightarrow>
     trim_space (my_host (cfg_mysql cfg)) \<noteq> [] \<and> trim_space (my_database (cfg_mysql cfg)) \<noteq> []
     \<and> trim_space (my_user (cfg_mysql cfg)) \<noteq> [] \<and> trim_space (my_password (cfg_mysql cfg)) \<noteq> []
     \<and> trim_space (rd_host (cfg_redis cfg)) \<noteq> []
     \<and> 1 \<le> my_port (cfg_mysql cfg) \<and> my_port (cfg_mysql cfg) \<le> 65535
     \<and> 1 \<le> rd_port (cfg_redis cfg) \<and> rd_port (cfg_redis cfg) \<le> 65535
     \<and> 0 \<le> rd_db (cfg_redis cfg) \<and> trim_space (rd_queue_name (cfg_redis cfg)) \<noteq> []
     \<and> (\<exists>host port p. split_host_port (cfg_http_address cfg) = Inr (host, port) \<and> atoi port = Inr p
          \<and> 1 \<le> p \<and> p \<le> 65535)
     \<and> trim_space (cfg_assets_directory cfg) \<noteq> []
     \<and> is_supported_environment (cfg_environment cfg) \<and> is_supported_log_level (cfg_log_level cfg)"

lemma validate_port_None: "validate_port name p = None \<longleftrightarrow> 1 \<le> p \<and> p \<le> 65535"
  by (auto simp: validate_port_def)

lemma validate_http_address_None:
  "validate_http_address a = None \<longleftrightarrow>
     (\<exists>host port p. split_host_port a = Inr (host, port) \<and> atoi port = Inr p \<and> 1 \<le> p \<and> p \<le> 65535)"
  by (auto simp: validate_http_address_def validate_port_None split: sum.splits)

lemma errors_join_None: "errors_join es = None \<longleftrightarrow> es = []"
  by (simp add: errors_join_def)

lemma option_list_Nil: "(case r of Some e \<Rightarrow> [e] | None \<Rightarrow> []) = [] \<longleftrightarrow> r = None"
  by (cases r) simp_all

lemma config_validate_None:
  assumes "range_order ord"
  shows "config_validate ord cfg = None \<longleftrightarrow> valid_config cfg"
proof -
  have "filter (\<lambda>(name, v). trim_space v = []) (ord cfg) = []
      \<longleftrightarrow> (\<forall>(name, v) \<in> set (required_values cfg). trim_space v \<noteq> [])"
    using assms unfolding range_order_def filter_empty_conv by auto
  then show ?thesis
    unfolding config_validate_def errors_join_None append_is_Nil_conv map_is_Nil_conv option_list_Nil
      validate_port_None validate_http_address_None valid_config_def
    by (auto simp: required_values_def)
qed

lemma config_load_ok:
  assumes "range_order ord" "config_load ord env = Inr cfg"
  shows "valid_config cfg"
  using assms(2) config_validate_None [OF assms(1)]
  by (auto simp: config_load_def Let_def split: sum.splits option.splits)

end
