(* ===== verification/Connections.thy ===== *)
theory Connections imports Config Mysql_Repository Redis_Queue begin

text \<open>
  \<open>internal/platform/database\<close> and \<open>internal/platform/cache\<close>: checking the options of a connection,
  opening it (which pings the server) and closing it. What the drivers give for a set of options is a
  parameter; a handle is the functions it has.
\<close>

section \<open>MySQL\<close>

definition validate_mysql_options :: "mysql_config \<Rightarrow> goerror option" where
  "validate_mysql_options opts =
     (if my_host opts = [] then Some (NewError ''MySQL host is required'')
      else if my_port opts < 1 \<or> my_port opts > 65535
      then Some (NewError ''MySQL port must be between 1 and 65535'')
      else if my_database opts = [] then Some (NewError ''MySQL database is required'')
      else if my_user opts = [] then Some (NewError ''MySQL user is required'')
      else if my_password opts = [] then Some (NewError ''MySQL password is required'')
      else None)"

text \<open>\<open>net.JoinHostPort\<close>.\<close>

definition join_host_port :: "gostring \<Rightarrow> gostring \<Rightarrow> gostring" where
  "join_host_port host port =
     (if CHR '':'' \<in> set host then ''['' @ host @ '']:'' @ port else host @ '':'' @ port)"

text \<open>The part of the driver's configuration that depends on the options; the rest is constant.\<close>

record mysql_driver_config =
  dr_user :: gostring
  dr_passwd :: gostring
  dr_addr :: gostring
  dr_db_name :: gostring

text \<open>The handle of a pool: \<open>sql.DB\<close>; and GORM's, which may fail to give its pool.\<close>

record 'w sql_db =
  sql_ping :: "'w \<Rightarrow> goerror option \<times> 'w"
  sql_close :: "'w \<Rightarrow> goerror option \<times> 'w"

record 'w gorm_handle =
  gh_gorm :: "'w gorm"
  gh_db :: "goerror + 'w sql_db"

definition driver_config :: "mysql_config \<Rightarrow> mysql_driver_config" where
  "driver_config opts =
     \<lparr>dr_user = my_user opts, dr_passwd = my_password opts,
      dr_addr = join_host_port (my_host opts) (itoa (my_port opts)), dr_db_name = my_database opts\<rparr>"

definition open_mysql ::
  "(mysql_driver_config \<Rightarrow> 'w \<Rightarrow> (goerror + 'w gorm_handle) \<times> 'w) \<Rightarrow> mysql_config \<Rightarrow> 'w
     \<Rightarrow> (goerror + 'w gorm_handle) \<times> 'w" where
  "open_mysql gorm_open opts w =
     (case validate_mysql_options opts of Some e \<Rightarrow> (Inl e, w)
      | None \<Rightarrow>
     (case gorm_open (driver_config opts) w of
        (Inl e, w) \<Rightarrow> (Inl (wrap ''open MySQL connection'' e), w)
      | (Inr h, w) \<Rightarrow>
     (case gh_db h of
        Inl e \<Rightarrow> (Inl (wrap ''access underlying MySQL connection'' e), w)
      | Inr db \<Rightarrow>
     (case sql_ping db w of
        (Some e, w) \<Rightarrow> (case sql_close db w of (_, w) \<Rightarrow> (Inl (wrap ''ping MySQL'' e), w))
      | (None, w) \<Rightarrow> (Inr h, w)))))"

definition mysql_ping :: "'w gorm_handle option \<Rightarrow> 'w \<Rightarrow> goerror option \<times> 'w" where
  "mysql_ping h w =
     (case h of None \<Rightarrow> (Some (NewError ''MySQL connection is not initialized''), w)
      | Some g \<Rightarrow>
     (case gh_db g of Inl e \<Rightarrow> (Some (wrap ''access underlying MySQL connection'' e), w)
      | Inr db \<Rightarrow>
     (case sql_ping db w of
        (Some e, w) \<Rightarrow> (Some (wrap ''ping MySQL'' e), w)
      | (None, w) \<Rightarrow> (None, w))))"

definition mysql_close :: "'w gorm_handle option \<Rightarrow> 'w \<Rightarrow> goerror option \<times> 'w" where
  "mysql_close h w =
     (case h of None \<Rightarrow> (None, w)
      | Some g \<Rightarrow>
     (case gh_db g of Inl e \<Rightarrow> (Some (wrap ''access underlying MySQL connection'' e), w)
      | Inr db \<Rightarrow>
     (case sql_close db w of
        (Some e, w) \<Rightarrow> (Some (wrap ''close MySQL connection'' e), w)
      | (None, w) \<Rightarrow> (None, w))))"

section \<open>Redis\<close>

definition validate_redis_options :: "redis_config \<Rightarrow> goerror option" where
  "validate_redis_options opts =
     (if trim_space (rd_host opts) = [] then Some (NewError ''Redis host is required'')
      else if rd_port opts < 1 \<or> rd_port opts > 65535
      then Some (NewError ''Redis port must be between 1 and 65535'')
      else if rd_db opts < 0 then Some (NewError ''Redis DB must be zero or greater'')
      else None)"

text \<open>The part of the client's options that depends on the configuration; the rest is constant.\<close>

record redis_driver_options =
  ro_addr :: gostring
  ro_password :: gostring
  ro_db :: int

record 'w redis_handle =
  rh_client :: "'w redis_client"
  rh_addr :: gostring
  rh_ping :: "'w \<Rightarrow> goerror option \<times> 'w"
  rh_close :: "'w \<Rightarrow> goerror option \<times> 'w"

definition open_redis ::
  "(redis_driver_options \<Rightarrow> 'w \<Rightarrow> 'w redis_handle \<times> 'w) \<Rightarrow> redis_config \<Rightarrow> 'w
     \<Rightarrow> (goerror + 'w redis_handle) \<times> 'w" where
  "open_redis new_client opts w =
     (case validate_redis_options opts of Some e \<Rightarrow> (Inl e, w)
      | None \<Rightarrow>
     (case new_client \<lparr>ro_addr = join_host_port (rd_host opts) (itoa (rd_port opts)),
             ro_password = rd_password opts, ro_db = rd_db opts\<rparr> w of
        (c, w) \<Rightarrow>
     (case rh_ping c w of
        (Some e, w) \<Rightarrow>
          (case rh_close c w of
             (_, w) \<Rightarrow>
               (Inl (Errorf [Lit ''ping Redis at '', Arg_s (rh_addr c), Lit '': '', Arg_w e]), w))
      | (None, w) \<Rightarrow> (Inr c, w))))"

definition redis_ping :: "'w redis_handle option \<Rightarrow> 'w \<Rightarrow> goerror option \<times> 'w" where
  "redis_ping h w =
     (case h of None \<Rightarrow> (Some (NewError ''Redis connection is not initialized''), w)
      | Some c \<Rightarrow>
     (case rh_ping c w of (Some e, w) \<Rightarrow> (Some (wrap ''ping Redis'' e), w) | (None, w) \<Rightarrow> (None, w)))"

definition redis_close :: "'w redis_handle option \<Rightarrow> 'w \<Rightarrow> goerror option \<times> 'w" where
  "redis_close h w =
     (case h of None \<Rightarrow> (None, w)
      | Some c \<Rightarrow>
     (case rh_close c w of (Some e, w) \<Rightarrow> (Some (wrap ''close Redis connection'' e), w) | (None, w) \<Rightarrow> (None, w)))"

text \<open>A valid configuration passes the connections' own checks.\<close>

lemma trim_space_Nil [simp]: "trim_space [] = []"
  by (simp add: trim_space_def trim_left_id trim_right_id)

lemma valid_config_options:
  assumes "valid_config cfg"
  shows "validate_mysql_options (cfg_mysql cfg) = None" "validate_redis_options (cfg_redis cfg) = None"
proof -
  have "s \<noteq> []" if "trim_space s \<noteq> []" for s using that by auto
  then show "validate_mysql_options (cfg_mysql cfg) = None"
    using assms unfolding valid_config_def validate_mysql_options_def by (auto simp: not_less)
  show "validate_redis_options (cfg_redis cfg) = None"
    using assms unfolding valid_config_def validate_redis_options_def by (auto simp: not_less)
qed

end
