(* ===== verification/Go_Mime.thy ===== *)
theory Go_Mime imports Go_Json_Decode Go_Errors begin

text \<open>
  What the HTTP handler uses of \<open>mime\<close> and \<open>strings\<close>: \<open>ParseMediaType\<close> as far as its media
  type and its error go (the values of the parameters are not used, but a malformed or a contradicting one
  is an error), and \<open>EqualFold\<close> against an ASCII string.
\<close>

section \<open>Tokens\<close>

definition is_tspecial :: "char \<Rightarrow> bool" where
  "is_tspecial c \<longleftrightarrow> c \<in> set ''()<>@,;:/[]?='' \<or> c = CHR 0x5C \<or> c = CHR 0x22"

definition is_token_char :: "char \<Rightarrow> bool" where
  "is_token_char c \<longleftrightarrow> 0x20 < byte c \<and> byte c < 0x7F \<and> \<not> is_tspecial c"

definition consume_token :: "gostring \<Rightarrow> gostring \<times> gostring" where
  "consume_token v = (takeWhile is_token_char v, dropWhile is_token_char v)"

definition check_media_type :: "gostring \<Rightarrow> goerror option" where
  "check_media_type s =
     (case consume_token s of (typ, rest) \<Rightarrow>
        if typ = [] then Some (NewError ''mime: no media type'')
        else if rest = [] then None
        else if hd rest \<noteq> CHR ''/'' then Some (NewError ''mime: expected slash after first token'')
        else (case consume_token (tl rest) of (subtype, rest) \<Rightarrow>
          if subtype = [] then Some (NewError ''mime: expected token after slash'')
          else if rest \<noteq> [] then Some (NewError ''mime: unexpected content after media subtype'')
          else None))"

section \<open>Parameters\<close>

text \<open>The inside of a quoted string, after its opening quote: its value and what follows the closing
  quote, or None if it has none.\<close>

fun quoted_value :: "gostring \<Rightarrow> (gostring \<times> gostring) option" where
  "quoted_value [] = None"
| "quoted_value (c # cs) =
     (if c = CHR 0x22 then Some ([], cs)
      else if c = CHR 0x5C \<and> cs \<noteq> [] \<and> is_tspecial (hd cs) then
        map_option (\<lambda>(v, r). (hd cs # v, r)) (quoted_value (tl cs))
      else if c = CHR 0x0D \<or> c = CHR 0x0A then None
      else map_option (\<lambda>(v, r). (c # v, r)) (quoted_value cs))"

definition consume_value :: "gostring \<Rightarrow> gostring \<times> gostring" where
  "consume_value v =
     (if v = [] then ([], [])
      else if hd v \<noteq> CHR 0x22 then consume_token v
      else case quoted_value (tl v) of None \<Rightarrow> ([], v) | Some r \<Rightarrow> r)"

text \<open>An empty name means that nothing was consumed.\<close>

definition consume_media_param :: "gostring \<Rightarrow> gostring \<times> gostring \<times> gostring" where
  "consume_media_param v =
     (let rest = trim_left v in
      if rest = [] \<or> hd rest \<noteq> CHR '';'' then ([], [], v)
      else (case consume_token (trim_left (tl rest)) of (param, rest) \<Rightarrow>
        if to_lower param = [] then ([], [], v)
        else
          let rest = trim_left rest in
          if rest = [] \<or> hd rest \<noteq> CHR ''='' then ([], [], v)
          else
            let rest = trim_left (tl rest) in
            (case consume_value rest of (val, rest2) \<Rightarrow>
               if val = [] \<and> rest2 = rest then ([], [], v) else (to_lower param, val, rest2))))"

lemma length_trim_left: "length (trim_left s) \<le> length s"
proof (induction s rule: trim_left.induct)
  case (1 s)
  then show ?case by (subst trim_left.simps) (auto intro: le_trans)
qed

lemma quoted_value_length: "quoted_value s = Some (v, r) \<Longrightarrow> length r \<le> length s"
proof (induction s arbitrary: v r rule: quoted_value.induct)
  case (2 c cs)
  then show ?case by (fastforce split: if_splits)
qed simp

lemma consume_token_length: "consume_token s = (t, r) \<Longrightarrow> length r \<le> length s"
  by (auto simp: consume_token_def length_dropWhile_le)

lemma consume_value_length: "consume_value s = (t, r) \<Longrightarrow> length r \<le> length s"
  by (auto simp: consume_value_def dest: consume_token_length quoted_value_length split: if_splits option.splits)

lemma consume_media_param_length:
  assumes "consume_media_param v = (key, val, rest)" "key \<noteq> []"
  shows "length rest < length v"
proof -
  let ?r1 = "trim_left v"
  obtain p r2 where p: "consume_token (trim_left (tl ?r1)) = (p, r2)" by force
  let ?r3 = "trim_left r2"
  obtain x r4 where x: "consume_value (trim_left (tl ?r3)) = (x, r4)" by force
  from assms p x have r: "?r1 \<noteq> []" "rest = r4"
    by (auto simp: consume_media_param_def Let_def split: if_splits)
  have "length r4 \<le> length (trim_left (tl ?r3))" using consume_value_length [OF x] .
  also have "\<dots> \<le> length (tl ?r3)" by (rule length_trim_left)
  also have "\<dots> \<le> length ?r3" by simp
  also have "\<dots> \<le> length r2" by (rule length_trim_left)
  also have "\<dots> \<le> length (trim_left (tl ?r1))" using consume_token_length [OF p] .
  also have "\<dots> \<le> length (tl ?r1)" by (rule length_trim_left)
  also have "\<dots> < length ?r1" using r(1) by (cases ?r1) simp_all
  also have "\<dots> \<le> length v" by (rule length_trim_left)
  finally show ?thesis using r(2) by simp
qed

lemma consume_media_param_shrinks:
  "(key, val, rest) = consume_media_param (trim_left v) \<Longrightarrow> key \<noteq> [] \<Longrightarrow> length rest < length v"
  using consume_media_param_length [of "trim_left v" key val rest] length_trim_left [of v] by simp

section \<open>\<open>ParseMediaType\<close>\<close>

text \<open>The loop over the parameters, with those found so far; its result is the error, if any. (A
  parameter whose name has an asterisk goes into a map of its own, which no other name shares.)\<close>

function media_params :: "gostring \<Rightarrow> (gostring \<times> gostring) list \<Rightarrow> goerror option" where
  "media_params v found =
     (let v = trim_left v in
      if v = [] then None
      else (case consume_media_param v of (key, val, rest) \<Rightarrow>
        if key = [] then
          (if trim_space rest = '';'' then None else Some (NewError ''mime: invalid media parameter''))
        else (case map_of found key of
          Some val0 \<Rightarrow> if val0 \<noteq> val then Some (NewError ''mime: duplicate parameter name'')
            else media_params rest found
        | None \<Rightarrow> media_params rest ((key, val) # found))))"
  by pat_completeness auto
termination
  by (relation "measure (length \<circ> fst)") (auto dest: consume_media_param_shrinks)

declare media_params.simps [simp del]

definition parse_media_type :: "gostring \<Rightarrow> goerror + gostring" where
  "parse_media_type v =
     (let base = takeWhile (\<lambda>c. c \<noteq> CHR '';'') v; media_type = trim_space (to_lower base) in
      case check_media_type media_type of
        Some e \<Rightarrow> Inl e
      | None \<Rightarrow>
          (case media_params (drop (length base) v) [] of Some e \<Rightarrow> Inl e | None \<Rightarrow> Inr media_type))"

text \<open>\<open>strings.EqualFold(s, t)\<close> for a \<open>t\<close> in ASCII.\<close>

definition equal_fold_ascii :: "gostring \<Rightarrow> gostring \<Rightarrow> bool" where
  "equal_fold_ascii s t \<longleftrightarrow> fold_name s = fold_name t"

end
