(* ===== verification/Http_Handler.thy ===== *)
theory Http_Handler imports Go_Mime Use_Cases Logging begin

text \<open>
  \<open>internal/adapters/http/handler\<close>: decoding a request to create a job, the two job handlers, the
  health handlers, and the answers they write. A request is what the handlers read of it; its body is
  the bytes a reader gives before it ends, and how it ends. A response is its status, the headers the
  handler sets and the value that \<open>encoding/json\<close> prints as its body.
\<close>

section \<open>Requests\<close>

datatype read_end = EndEOF | EndTooLarge | EndError goerror

record http_body =
  bd_bytes :: gostring
  bd_end :: read_end

record http_request =
  rq_method :: gostring
  rq_path :: gostring
  rq_header :: "gostring \<Rightarrow> gostring"
  rq_body :: http_body
  rq_job_id :: gostring
  rq_request_id :: gostring

text \<open>\<open>requestid.WithContext\<close> and \<open>FromContext\<close>; a request that did not pass the middleware has the
  empty identifier.\<close>

definition request_id_with_context :: "gostring \<Rightarrow> http_request \<Rightarrow> http_request" where
  "request_id_with_context i rq = rq\<lparr>rq_request_id := i\<rparr>"

definition request_id_from_context :: "http_request \<Rightarrow> gostring" where
  "request_id_from_context rq = rq_request_id rq"

text \<open>\<open>http.MaxBytesReader\<close>: the first \<open>n\<close> bytes, and its own error if there is another.\<close>

definition max_bytes_reader :: "nat \<Rightarrow> http_body \<Rightarrow> http_body" where
  "max_bytes_reader n b =
     (if length (bd_bytes b) > n then \<lparr>bd_bytes = take n (bd_bytes b), bd_end = EndTooLarge\<rparr> else b)"

text \<open>
  \<open>Decoder.Decode\<close> up to the conversion, over a reader that may end with an error of its own. An object
  or an array is complete with its last byte; every other value only with the byte, or the end of
  input, after it, so at a reader's error it is lost, as is anything unfinished.
\<close>

fun self_delimiting :: "json \<Rightarrow> bool" where
  "self_delimiting (JObject ms) = True"
| "self_delimiting (JArray vs) = True"
| "self_delimiting v = False"

definition decode_next :: "http_body \<Rightarrow> json_error + json \<times> http_body" where
  "decode_next b =
     (case decode_stream (bd_bytes b) of
        Inl e \<Rightarrow>
          Inl (if bd_end b \<noteq> EndEOF \<and> (e = JsonEOF \<or> e = JsonUnexpectedEOF) then JsonReader else e)
      | Inr (v, rest) \<Rightarrow>
          if bd_end b \<noteq> EndEOF \<and> rest = [] \<and> \<not> self_delimiting v then Inl JsonReader
          else Inr (v, b\<lparr>bd_bytes := rest\<rparr>))"

section \<open>Responses\<close>

record job_response =
  jr_id :: gostring
  jr_type :: gostring
  jr_status :: gostring
  jr_payload :: gostring
  jr_retry_count :: int
  jr_max_retries :: int
  jr_last_error :: "gostring option"
  jr_created_at :: gotime
  jr_updated_at :: gotime
  jr_started_at :: "gotime option"
  jr_completed_at :: "gotime option"

datatype response_body =
    JobBody job_response
  | ErrorBody gostring gostring
  | StatusBody gostring
  | TextBody gostring
  | FileBody gostring
  | NoBody

record http_response =
  rs_status :: int
  rs_headers :: "(gostring \<times> gostring) list"
  rs_body :: response_body

text \<open>\<open>writeJSON\<close>, with the headers set before.\<close>

definition write_json :: "(gostring \<times> gostring) list \<Rightarrow> int \<Rightarrow> response_body \<Rightarrow> http_response" where
  "write_json headers st body =
     \<lparr>rs_status = st, rs_headers = headers @ [(''Content-Type'', ''application/json; charset=utf-8'')],
      rs_body = body\<rparr>"

definition write_api_error :: "int \<Rightarrow> gostring \<Rightarrow> gostring \<Rightarrow> http_response" where
  "write_api_error st code message = write_json [] st (ErrorBody code message)"

definition job_response_from_domain :: "job \<Rightarrow> job_response" where
  "job_response_from_domain j =
     \<lparr>jr_id = ent_id j, jr_type = ent_type j, jr_status = ent_status j, jr_payload = ent_payload j,
      jr_retry_count = retry_count j, jr_max_retries = max_retries j, jr_last_error = last_error j,
      jr_created_at = created_at j, jr_updated_at = updated_at j, jr_started_at = started_at j,
      jr_completed_at = completed_at j\<rparr>"

section \<open>Decoding a request to create a job\<close>

definition maxCreateJobBodyBytes :: nat where
  "maxCreateJobBodyBytes = 1048576"

record create_job_request =
  cr_type :: gostring
  cr_payload :: gostring

definition create_job_request_fields :: "create_job_request fields" where
  "create_job_request_fields =
     [(''type'', string_field (\<lambda>s. cr_type_update (\<lambda>_. s))),
      (''payload'', raw_field (\<lambda>s. cr_payload_update (\<lambda>_. s)))]"

record request_decode_error =
  de_status :: int
  de_code :: gostring
  de_message :: gostring

definition decode_create_job_request :: "http_request \<Rightarrow> request_decode_error + create_job_request" where
  "decode_create_job_request rq =
     (if (case parse_media_type (rq_header rq ''Content-Type'') of
            Inl e \<Rightarrow> True | Inr media_type \<Rightarrow> \<not> equal_fold_ascii media_type ''application/json'')
      then Inl \<lparr>de_status = 415, de_code = ''unsupported_media_type'',
             de_message = ''Content-Type must be application/json''\<rparr>
      else
        let body = max_bytes_reader maxCreateJobBodyBytes (rq_body rq);
            failed = (\<lambda>e b.
              if e = JsonEOF
              then Inl \<lparr>de_status = 400, de_code = ''invalid_request'',
                     de_message = ''request body is required''\<rparr>
              else if e = JsonReader \<and> bd_end b = EndTooLarge
              then Inl \<lparr>de_status = 413, de_code = ''request_too_large'',
                     de_message = ''request body exceeds 1 MiB''\<rparr>
              else Inl \<lparr>de_status = 400, de_code = ''invalid_request'',
                     de_message = ''request body must contain valid job JSON''\<rparr>) in
        (case decode_next body of
           Inl e \<Rightarrow> failed e body
         | Inr (v, body) \<Rightarrow>
        (case decode_struct create_job_request_fields \<lparr>cr_type = [], cr_payload = []\<rparr> v of
           Inl e \<Rightarrow> failed e body
         | Inr decoded \<Rightarrow>
             if decode_next body = Inl JsonEOF then Inr decoded
             else Inl \<lparr>de_status = 400, de_code = ''invalid_request'',
                    de_message = ''request body must contain one JSON object''\<rparr>)))"

section \<open>The job handlers\<close>

record 'w job_handler =
  jh_create :: "create_job_input \<Rightarrow> 'w \<Rightarrow> (goerror + job) \<times> 'w"
  jh_get :: "gostring \<Rightarrow> 'w \<Rightarrow> (goerror + job) \<times> 'w"
  jh_logger :: "'w logger"

definition new_job_handler ::
  "(create_job_input \<Rightarrow> 'w \<Rightarrow> (goerror + job) \<times> 'w) option \<Rightarrow> (gostring \<Rightarrow> 'w \<Rightarrow> (goerror + job) \<times> 'w) option
     \<Rightarrow> 'w logger option \<Rightarrow> goerror + 'w job_handler" where
  "new_job_handler create_job get_job lg =
     (case create_job of None \<Rightarrow> Inl (NewError ''create-job use case must not be nil'')
      | Some c \<Rightarrow>
     (case get_job of None \<Rightarrow> Inl (NewError ''get-job use case must not be nil'')
      | Some g \<Rightarrow>
     (case lg of None \<Rightarrow> Inl (NewError ''logger must not be nil'')
      | Some l \<Rightarrow> Inr \<lparr>jh_create = c, jh_get = g, jh_logger = l\<rparr>)))"

definition write_application_error ::
  "'w job_handler \<Rightarrow> http_request \<Rightarrow> gostring \<Rightarrow> goerror \<Rightarrow> 'w \<Rightarrow> http_response \<times> 'w" where
  "write_application_error h rq operation e w =
     (let attrs = [AttrString ''operation'' operation,
            request_id_attribute (request_id_from_context rq), error_attribute e] in
      if errors_is e ErrInvalidType
      then (write_api_error 400 ''validation_error'' ''job type is not supported'', w)
      else if errors_is e ErrInvalidPayload
      then (write_api_error 400 ''validation_error'' ''payload must be a non-empty JSON object'', w)
      else if errors_is e ErrInvalidID
      then (write_api_error 400 ''validation_error'' ''job ID must be a valid UUID'', w)
      else if errors_is e ErrJobNotFound
      then (write_api_error 404 ''job_not_found'' ''job was not found'', w)
      else if errors_is e ErrJobAlreadyExists
      then (write_api_error 409 ''job_already_exists'' ''job already exists'', w)
      else if errors_is e ErrJobQueueUnavailable
      then (write_api_error 503 ''job_queue_unavailable'' ''job queue is temporarily unavailable'',
            log_attrs (jh_logger h) LevelError ''job could not be published to Redis'' attrs w)
      else (write_api_error 500 ''internal_error'' ''an unexpected error occurred'',
            log_attrs (jh_logger h) LevelError ''job request failed'' attrs w))"

definition handle_create :: "'w job_handler \<Rightarrow> http_request \<Rightarrow> 'w \<Rightarrow> http_response \<times> 'w" where
  "handle_create h rq w =
     (case decode_create_job_request rq of
        Inl de \<Rightarrow>
          (write_api_error (de_status de) (de_code de) (de_message de),
           log_attrs (jh_logger h) LevelWarn ''job request rejected''
             [request_id_attribute (request_id_from_context rq), AttrString ''operation'' ''create_job'',
              AttrString ''error_code'' (de_code de)] w)
      | Inr req \<Rightarrow>
     (case jh_create h \<lparr>in_type = cr_type req, in_payload = cr_payload req\<rparr> w of
        (Inl e, w) \<Rightarrow> write_application_error h rq ''create_job'' e w
      | (Inr j, w) \<Rightarrow>
          (write_json [(''Location'', ''/api/v1/jobs/'' @ ent_id j)] 202 (JobBody (job_response_from_domain j)),
           log_attrs (jh_logger h) LevelInfo ''job accepted''
             (job_attributes (Some j) @ [request_id_attribute (request_id_from_context rq)]) w)))"

definition handle_get_by_id :: "'w job_handler \<Rightarrow> http_request \<Rightarrow> 'w \<Rightarrow> http_response \<times> 'w" where
  "handle_get_by_id h rq w =
     (case jh_get h (rq_job_id rq) w of
        (Inl e, w) \<Rightarrow> write_application_error h rq ''get_job'' e w
      | (Inr j, w) \<Rightarrow>
          (write_json [] 200 (JobBody (job_response_from_domain j)),
           log_attrs (jh_logger h) LevelInfo ''job status returned''
             (job_attributes (Some j) @ [request_id_attribute (request_id_from_context rq)]) w))"

section \<open>The health handlers\<close>

text \<open>A checker that is nil is None. The context of \<open>Ready\<close> ends after \<open>readinessTimeout\<close>; a checker
  gives its result once it returns.\<close>

type_synonym 'w readiness_checker = "'w \<Rightarrow> goerror option \<times> 'w"

definition write_not_ready :: http_response where
  "write_not_ready = write_json [] 503 (StatusBody ''not_ready'')"

definition health_live :: http_response where
  "health_live = write_json [] 200 (StatusBody ''ok'')"

fun ready_loop :: "'w readiness_checker option list \<Rightarrow> 'w \<Rightarrow> http_response \<times> 'w" where
  "ready_loop [] w = (write_json [] 200 (StatusBody ''ready''), w)"
| "ready_loop (None # cs) w = (write_not_ready, w)"
| "ready_loop (Some c # cs) w =
     (case c w of (Some e, w) \<Rightarrow> (write_not_ready, w) | (None, w) \<Rightarrow> ready_loop cs w)"

definition health_ready :: "'w readiness_checker option list \<Rightarrow> 'w \<Rightarrow> http_response \<times> 'w" where
  "health_ready checkers w = (if checkers = [] then (write_not_ready, w) else ready_loop checkers w)"

end
