(* ===== verification/Http_Router.thy ===== *)
theory Http_Router imports Http_Handler Id_Generator begin

text \<open>
  \<open>internal/adapters/http\<close>: the request identifier's middleware, the handler of the web interface and
  the router. The matching rules of \<open>http.ServeMux\<close> are written out for the five patterns the router
  registers; the file system of the web interface and \<open>http.FileServer\<close> over it are parameters.
\<close>

section \<open>Paths\<close>

fun split_slash :: "gostring \<Rightarrow> gostring list" where
  "split_slash [] = [[]]"
| "split_slash (c # cs) =
     (if c = CHR ''/'' then [] # split_slash cs
      else (case split_slash cs of s # ss \<Rightarrow> (c # s) # ss | [] \<Rightarrow> [[c]]))"

fun join_slash :: "gostring list \<Rightarrow> gostring" where
  "join_slash [] = []"
| "join_slash [s] = s"
| "join_slash (s # t # ss) = s @ ''/'' @ join_slash (t # ss)"

text \<open>\<open>path.Clean\<close>: the segments kept so far, and the next one.\<close>

definition clean_segment :: "bool \<Rightarrow> gostring list \<Rightarrow> gostring \<Rightarrow> gostring list" where
  "clean_segment rooted acc seg =
     (if seg = [] \<or> seg = ''.'' then acc
      else if seg = ''..'' then
        (if acc \<noteq> [] \<and> last acc \<noteq> ''..'' then butlast acc else if rooted then acc else acc @ [seg])
      else acc @ [seg])"

definition path_clean :: "gostring \<Rightarrow> gostring" where
  "path_clean p =
     (let rooted = (p \<noteq> [] \<and> hd p = CHR ''/'');
          segs = foldl (clean_segment rooted) [] (split_slash p) in
      if rooted then ''/'' @ join_slash segs else if segs = [] then ''.'' else join_slash segs)"

text \<open>\<open>cleanPath\<close> of \<open>net/http\<close>: rooted, and with its final slash kept.\<close>

definition mux_clean_path :: "gostring \<Rightarrow> gostring" where
  "mux_clean_path p =
     (if p = [] then ''/''
      else
        let q = (if hd p = CHR ''/'' then p else ''/'' @ p); np = path_clean q in
        if last q = CHR ''/'' \<and> np \<noteq> ''/'' then np @ ''/'' else np)"

definition has_prefix :: "gostring \<Rightarrow> gostring \<Rightarrow> bool" where
  "has_prefix prefix s \<longleftrightarrow> take (length prefix) s = prefix"

section \<open>\<open>request_id.go\<close>\<close>

definition RequestIDHeader :: gostring where
  "RequestIDHeader = ''X-Request-ID''"

text \<open>On runes.\<close>

definition is_allowed_request_id_character :: "nat \<Rightarrow> bool" where
  "is_allowed_request_id_character r \<longleftrightarrow>
     97 \<le> r \<and> r \<le> 122 \<or> 65 \<le> r \<and> r \<le> 90 \<or> 48 \<le> r \<and> r \<le> 57 \<or> r \<in> {45, 95, 46}"

definition is_valid_request_id :: "gostring \<Rightarrow> bool" where
  "is_valid_request_id i \<longleftrightarrow>
     i \<noteq> [] \<and> length i \<le> 128 \<and> list_all is_allowed_request_id_character (runes i)"

definition new_request_id ::
  "('w \<Rightarrow> (goerror + 8 word list) \<times> 'w) \<Rightarrow> 'w \<Rightarrow> (goerror + gostring) \<times> 'w" where
  "new_request_id rand_read w =
     (case rand_read w of
        (Inl e, w) \<Rightarrow> (Inl (wrap ''generate request ID'' e), w)
      | (Inr v, w) \<Rightarrow> (Inr (format_uuid (set_version v)), w))"

text \<open>\<open>http.Error\<close>.\<close>

definition http_error :: "gostring \<Rightarrow> int \<Rightarrow> http_response" where
  "http_error message st =
     \<lparr>rs_status = st,
      rs_headers = [(''Content-Type'', ''text/plain; charset=utf-8''), (''X-Content-Type-Options'', ''nosniff'')],
      rs_body = TextBody message\<rparr>"

type_synonym 'w http_handler = "http_request \<Rightarrow> 'w \<Rightarrow> http_response \<times> 'w"

definition request_id_middleware ::
  "('w \<Rightarrow> (goerror + 8 word list) \<times> 'w) \<Rightarrow> 'w http_handler \<Rightarrow> 'w http_handler" where
  "request_id_middleware rand_read next rq w =
     (let serve = (\<lambda>i w.
            case next (request_id_with_context i rq) w of
              (rs, w) \<Rightarrow> (rs\<lparr>rs_headers := (RequestIDHeader, i) # rs_headers rs\<rparr>, w));
          given = trim_space (rq_header rq RequestIDHeader) in
      if \<not> is_valid_request_id given then
        (case new_request_id rand_read w of
           (Inl e, w) \<Rightarrow> (http_error ''failed to create request ID'' 500, w)
         | (Inr i, w) \<Rightarrow> serve i w)
      else serve given w)"

section \<open>\<open>ui_handler.go\<close>\<close>

text \<open>\<open>fs.Stat\<close> gives an error, or whether the name is a directory.\<close>

record 'w ui_handler =
  ui_stat :: "gostring \<Rightarrow> goerror + bool"
  ui_file_server :: "'w http_handler"

definition indexFile :: gostring where
  "indexFile = ''index.html''"

definition new_ui_handler ::
  "(gostring \<Rightarrow> goerror + bool) option \<Rightarrow> 'w http_handler \<Rightarrow> goerror + 'w ui_handler" where
  "new_ui_handler files file_server =
     (case files of None \<Rightarrow> Inl (NewError ''UI filesystem must not be nil'')
      | Some stat \<Rightarrow>
     (case stat indexFile of
        Inl e \<Rightarrow> Inl (wrap ''find UI entrypoint'' e)
      | Inr _ \<Rightarrow> Inr \<lparr>ui_stat = stat, ui_file_server = file_server\<rparr>))"

definition ui_security_headers :: "(gostring \<times> gostring) list" where
  "ui_security_headers =
     [(''Content-Security-Policy'',
       ''default-src '' @ [CHR 0x27] @ ''self'' @ [CHR 0x27] @ ''; connect-src '' @ [CHR 0x27] @ ''self'' @ [CHR 0x27]
       @ ''; img-src '' @ [CHR 0x27] @ ''self'' @ [CHR 0x27] @ '' data:; style-src '' @ [CHR 0x27] @ ''self''
       @ [CHR 0x27] @ ''; script-src '' @ [CHR 0x27] @ ''self'' @ [CHR 0x27]),
      (''Referrer-Policy'', ''no-referrer''), (''X-Content-Type-Options'', ''nosniff''),
      (''X-Frame-Options'', ''DENY'')]"

definition with_headers :: "(gostring \<times> gostring) list \<Rightarrow> http_response \<times> 'w \<Rightarrow> http_response \<times> 'w" where
  "with_headers hs x = (case x of (rs, w) \<Rightarrow> (rs\<lparr>rs_headers := hs @ rs_headers rs\<rparr>, w))"

definition ui_serve_index :: "'w ui_handler \<Rightarrow> 'w http_handler" where
  "ui_serve_index ui rq w =
     with_headers (ui_security_headers @ [(''Cache-Control'', ''no-cache'')])
       (ui_file_server ui (rq\<lparr>rq_path := ''/''\<rparr>) w)"

definition ui_serve :: "'w ui_handler \<Rightarrow> 'w http_handler" where
  "ui_serve ui rq w =
     (let cleaned = path_clean (rq_path rq);
          file_path = (if has_prefix ''/'' cleaned then tl cleaned else cleaned) in
      if file_path = ''.'' \<or> file_path = [] then ui_serve_index ui rq w
      else if has_prefix ''api/'' file_path \<or> has_prefix ''health/'' file_path
      then with_headers ui_security_headers (http_error ''404 page not found'' 404, w)
      else (case ui_stat ui file_path of
        Inr False \<Rightarrow>
          with_headers
            (ui_security_headers
             @ (if has_prefix ''assets/'' file_path
                then [(''Cache-Control'', ''public, max-age=31536000, immutable'')] else []))
            (ui_file_server ui rq w)
      | _ \<Rightarrow> ui_serve_index ui rq w))"

section \<open>\<open>router.go\<close>\<close>

text \<open>
  \<open>ServeMux\<close> on the five patterns. A pattern for GET also matches HEAD. The wildcard \<open>{jobID}\<close> is one
  segment that is not empty; every literal pattern is more specific than it and than \<open>GET /\<close>, which matches
  every path. Another method than those of the patterns that match the path is answered with 405.
\<close>

datatype route = RouteLive | RouteReady | RouteCreate | RouteGet gostring | RouteUI | RouteNotAllowed gostring

definition job_path :: "gostring \<Rightarrow> gostring option" where
  "job_path p =
     (if has_prefix ''/api/v1/jobs/'' p \<and> length p > 13 \<and> CHR ''/'' \<notin> set (drop 13 p)
      then Some (drop 13 p) else None)"

definition mux_route :: "gostring \<Rightarrow> gostring \<Rightarrow> route" where
  "mux_route m p =
     (if m = ''GET'' \<or> m = ''HEAD'' then
        (if p = ''/health/live'' then RouteLive
         else if p = ''/health/ready'' then RouteReady
         else (case job_path p of Some i \<Rightarrow> RouteGet i | None \<Rightarrow> RouteUI))
      else if m = ''POST'' \<and> p = ''/api/v1/jobs'' then RouteCreate
      else RouteNotAllowed (if p = ''/api/v1/jobs'' then ''GET, HEAD, POST'' else ''GET, HEAD''))"

definition mux_serve ::
  "'w job_handler \<Rightarrow> 'w ui_handler \<Rightarrow> 'w readiness_checker option list \<Rightarrow> 'w http_handler" where
  "mux_serve jobs ui checkers rq w =
     (let p = mux_clean_path (rq_path rq) in
      if p \<noteq> rq_path rq then (\<lparr>rs_status = 301, rs_headers = [(''Location'', p)], rs_body = NoBody\<rparr>, w)
      else (case mux_route (rq_method rq) p of
        RouteLive \<Rightarrow> (health_live, w)
      | RouteReady \<Rightarrow> health_ready checkers w
      | RouteCreate \<Rightarrow> handle_create jobs rq w
      | RouteGet i \<Rightarrow> handle_get_by_id jobs (rq\<lparr>rq_job_id := i\<rparr>) w
      | RouteUI \<Rightarrow> ui_serve ui rq w
      | RouteNotAllowed allow \<Rightarrow> with_headers [(''Allow'', allow)] (http_error ''Method Not Allowed'' 405, w)))"

definition new_router ::
  "('w \<Rightarrow> (goerror + 8 word list) \<times> 'w) \<Rightarrow> 'w job_handler \<Rightarrow> 'w ui_handler \<Rightarrow> 'w readiness_checker option list
     \<Rightarrow> 'w http_handler" where
  "new_router rand_read jobs ui checkers = request_id_middleware rand_read (mux_serve jobs ui checkers)"

end
