(* ===== verification/Http_Server.thy ===== *)
theory Http_Server imports Http_Router begin

text \<open>
  \<open>internal/platform/server\<close>: the life of the HTTP server. \<open>net/http\<close>'s server is the calls that
  \<open>Run\<close> makes on it, each with the result it returns; the \<open>select\<close> between the listener's goroutine and
  the context is one of them.
\<close>

record 'w http_server =
  srv_addr :: gostring
  srv_handler :: "'w http_handler"
  srv_logger :: "'w logger"

definition new_http_server :: "gostring \<Rightarrow> 'w http_handler \<Rightarrow> 'w logger \<Rightarrow> 'w http_server" where
  "new_http_server address router lg = \<lparr>srv_addr = address, srv_handler = router, srv_logger = lg\<rparr>"

text \<open>What ends the \<open>select\<close>: the error that \<open>ListenAndServe\<close> returned (it never returns nil), or the
  context. \<open>nt_returned\<close> waits for that error after \<open>Shutdown\<close>.\<close>

datatype select_end = ServerReturned goerror | ContextDone

record 'w net_server =
  nt_select :: "'w \<Rightarrow> select_end \<times> 'w"
  nt_shutdown :: "'w \<Rightarrow> goerror option \<times> 'w"
  nt_close :: "'w \<Rightarrow> goerror option \<times> 'w"
  nt_returned :: "'w \<Rightarrow> goerror \<times> 'w"

text \<open>What the goroutine sends on the channel.\<close>

definition listen_result :: "goerror \<Rightarrow> goerror option" where
  "listen_result e = (if errors_is e ErrServerClosed then None else Some e)"

definition http_server_run :: "'w http_server \<Rightarrow> 'w net_server \<Rightarrow> 'w \<Rightarrow> goerror option \<times> 'w" where
  "http_server_run srv net w =
     (let lg = srv_logger srv;
          w = log_attrs lg LevelInfo ''http server listening'' [AttrString ''address'' (srv_addr srv)] w in
      case nt_select net w of
        (ServerReturned e, w) \<Rightarrow> (map_option (wrap ''run HTTP server'') (listen_result e), w)
      | (ContextDone, w) \<Rightarrow>
          let w = log_attrs lg LevelInfo ''HTTP server shutdown requested'' [] w in
          (case nt_shutdown net w of
             (Some e, w) \<Rightarrow>
               (case nt_close net w of
                  (closed, w) \<Rightarrow>
                    (errors_join (wrap ''gracefully shut down HTTP server'' e
                       # (case closed of Some c \<Rightarrow> [c] | None \<Rightarrow> [])), w))
           | (None, w) \<Rightarrow>
               (case nt_returned net w of
                  (e, w) \<Rightarrow>
                    (case listen_result e of
                       Some e \<Rightarrow> (Some (wrap ''stop HTTP server'' e), w)
                     | None \<Rightarrow>
                         (None, log_attrs lg LevelInfo ''HTTP server stopped gracefully'' [] w)))))"

end
