(* ===== verification/Programs.thy ===== *)
theory Programs imports Deployment Connections Http_Server begin

text \<open>
  \<open>run\<close> of \<open>cmd/worker/main.go\<close> and of \<open>cmd/api/main.go\<close>: configuration, logger, connections,
  construction, the program's main loop, and the deferred closing of what was opened, on every path, with the
  exit code. The loops (\<open>Pool.Run\<close>, \<open>ListenAndServe\<close> and the signal) are arguments that give their
  result when they return; what they do is the subject of \<open>Pool_Steps\<close> and \<open>System\<close>.
\<close>

section \<open>The operating system's side\<close>

record 'w os =
  os_env :: environment
  os_range_order :: "config \<Rightarrow> (gostring \<times> gostring) list"
  os_bootstrap_logger :: "'w logger"
  os_logger :: "root_logger \<Rightarrow> 'w logger"
  os_gorm_open :: "mysql_driver_config \<Rightarrow> 'w \<Rightarrow> (goerror + 'w gorm_handle) \<times> 'w"
  os_redis_new :: "redis_driver_options \<Rightarrow> 'w \<Rightarrow> 'w redis_handle \<times> 'w"
  os_now :: "'w \<Rightarrow> gotime \<times> 'w"
  os_random :: "'w \<Rightarrow> (goerror + 8 word list) \<times> 'w"
  os_pause :: "'w pause"
  os_parse_address :: "gostring \<Rightarrow> goerror + gostring"
  os_dir_stat :: "gostring \<Rightarrow> gostring \<Rightarrow> goerror + bool"
  os_dir_server :: "gostring \<Rightarrow> 'w http_handler"

definition platform_of :: "'w os \<Rightarrow> 'w logger \<Rightarrow> config \<Rightarrow> 'w gorm_handle \<Rightarrow> 'w redis_handle \<Rightarrow> 'w platform" where
  "platform_of os lg cfg my rd =
     \<lparr>pf_db = gh_gorm my, pf_redis = rh_client rd, pf_queue_name = rd_queue_name (cfg_redis cfg),
      pf_now = os_now os, pf_random = os_random os, pf_logger = lg, pf_pause = os_pause os,
      pf_parse_address = os_parse_address os\<rparr>"

text \<open>A constructor's error is logged with a message of its own, and once with an attribute more.\<close>

type_synonym failure_line = "gostring \<times> log_attr list"

definition labelled_with :: "gostring \<Rightarrow> log_attr list \<Rightarrow> goerror + 'a \<Rightarrow> failure_line + 'a" where
  "labelled_with msg attrs r =
     (case r of Inl e \<Rightarrow> Inl (msg, attrs @ [error_attribute e]) | Inr v \<Rightarrow> Inr v)"

definition labelled :: "gostring \<Rightarrow> goerror + 'a \<Rightarrow> failure_line + 'a" where
  "labelled msg = labelled_with msg []"

definition then_with :: "'e + 'a \<Rightarrow> ('a \<Rightarrow> 'e + 'b) \<Rightarrow> 'e + 'b" where
  "then_with r f = (case r of Inl e \<Rightarrow> Inl e | Inr v \<Rightarrow> f v)"

section \<open>Construction\<close>

definition worker_build :: "'w platform \<Rightarrow> failure_line + ('w, 'w process_job) pool" where
  "worker_build pf =
     then_with (labelled ''failed to initialize job repository'' (new_job_repository (Some (pf_db pf)))) (\<lambda>db.
     then_with (labelled ''failed to initialize Redis job queue''
       (new_job_queue (Some (pf_redis pf)) (pf_queue_name pf))) (\<lambda>queue.
     then_with (labelled ''failed to initialize job lifecycle observer''
       (new_job_lifecycle_observer (Some (pf_logger pf)))) (\<lambda>obs.
     then_with (labelled ''failed to initialize send-email handler''
       (new_handler handlerProcessingDuration (Some (pf_logger pf)))) (\<lambda>send_email.
     then_with (labelled ''failed to initialize report-generation handler''
       (new_handler handlerProcessingDuration (Some (pf_logger pf)))) (\<lambda>report_generation.
     then_with (labelled ''failed to initialize data-cleanup handler''
       (new_handler handlerProcessingDuration (Some (pf_logger pf)))) (\<lambda>data_cleanup.
     then_with (labelled ''failed to initialize job executor dispatcher''
       (new_dispatcher
         [(TypeSendEmail, Some (handle_send_email (pf_parse_address pf) (pf_pause pf) send_email)),
          (TypeReportGeneration, Some (handle_report_generation (pf_pause pf) report_generation)),
          (TypeDataCleanup, Some (handle_data_cleanup (pf_pause pf) data_cleanup))])) (\<lambda>handlers.
     then_with (labelled ''failed to initialize process-job use case''
       (new_process_job (Some (mysql_repository db)) (Some (queue_enqueue queue))
         (Some (\<lambda>j. dispatcher_execute handlers (Some j))) (Some (system_now (pf_now pf)))
         [Some (status_persisted obs)])) (\<lambda>processor.
     labelled ''failed to initialize worker pool''
       (new_pool (Some (queue_dequeue queue)) (Some processor) (Some (pf_logger pf)))))))))))"

text \<open>The API's job handler, and then the whole handler of its server.\<close>

definition api_build ::
  "'w platform \<Rightarrow> (gostring \<Rightarrow> gostring \<Rightarrow> goerror + bool) \<Rightarrow> (gostring \<Rightarrow> 'w http_handler) \<Rightarrow> gostring
     \<Rightarrow> 'w readiness_checker option list
     \<Rightarrow> failure_line + 'w http_handler" where
  "api_build pf dir_stat dir_server assets checkers =
     then_with (labelled ''failed to initialize job repository'' (new_job_repository (Some (pf_db pf)))) (\<lambda>db.
     then_with (labelled ''failed to initialize Redis job queue''
       (new_job_queue (Some (pf_redis pf)) (pf_queue_name pf))) (\<lambda>queue.
     then_with (labelled ''failed to initialize job lifecycle observer''
       (new_job_lifecycle_observer (Some (pf_logger pf)))) (\<lambda>obs.
     then_with (labelled ''failed to initialize create-job use case''
       (new_create_job (Some (mysql_repository db)) (Some (queue_enqueue queue)) (Some (new_id (pf_random pf)))
         (Some (system_now (pf_now pf))) [Some (status_persisted obs)])) (\<lambda>create_job.
     then_with (labelled ''failed to initialize get-job use case''
       (new_get_job (Some (mysql_repository db)))) (\<lambda>get_job.
     then_with (labelled ''failed to initialize job handler''
       (new_job_handler (Some (create_job_execute create_job)) (Some (get_job_execute get_job))
         (Some (pf_logger pf)))) (\<lambda>jobs.
     then_with (labelled_with ''failed to initialize UI handler'' [AttrString ''assets_directory'' assets]
       (new_ui_handler (Some (dir_stat assets)) (dir_server assets))) (\<lambda>ui.
     Inr (new_router (pf_random pf) jobs ui checkers))))))))"

section \<open>\<open>run\<close>\<close>

definition fail_with :: "'w logger \<Rightarrow> failure_line \<Rightarrow> 'w \<Rightarrow> int \<times> 'w" where
  "fail_with lg line w = (1, log_attrs lg LevelError (fst line) (snd line) w)"

text \<open>The deferred functions: an error of closing is only logged.\<close>

definition deferred_close ::
  "'w logger \<Rightarrow> gostring \<Rightarrow> ('w \<Rightarrow> goerror option \<times> 'w) \<Rightarrow> int \<times> 'w \<Rightarrow> int \<times> 'w" where
  "deferred_close lg msg close x =
     (case x of (code, w) \<Rightarrow>
     (case close w of
        (Some e, w) \<Rightarrow> (code, log_attrs lg LevelError msg [error_attribute e] w)
      | (None, w) \<Rightarrow> (code, w)))"

text \<open>What both programs do before they construct anything; the rest gets the logger, the configuration
  and the two handles.\<close>

definition run_connected ::
  "'w os \<Rightarrow> gostring \<Rightarrow> gostring \<Rightarrow> gostring
     \<Rightarrow> ('w logger \<Rightarrow> config \<Rightarrow> 'w gorm_handle \<Rightarrow> 'w redis_handle \<Rightarrow> 'w \<Rightarrow> int \<times> 'w) \<Rightarrow> 'w \<Rightarrow> int \<times> 'w" where
  "run_connected os service config_message logger_message body w =
     (case labelled config_message (config_load (os_range_order os) (os_env os)) of
        Inl line \<Rightarrow> fail_with (os_bootstrap_logger os) line w
      | Inr cfg \<Rightarrow>
     (case labelled logger_message (new_logger True \<lparr>opt_level = cfg_log_level cfg,
             opt_environment = cfg_environment cfg, opt_service_name = service\<rparr>) of
        Inl line \<Rightarrow> fail_with (os_bootstrap_logger os) line w
      | Inr root \<Rightarrow>
          let lg = os_logger os root in
     (case open_mysql (os_gorm_open os) (cfg_mysql cfg) w of
        (Inl e, w) \<Rightarrow> fail_with lg (''failed to initialize MySQL'', [error_attribute e]) w
      | (Inr my, w) \<Rightarrow>
          deferred_close lg ''failed to close MySQL connection'' (mysql_close (Some my))
            (let w = log_attrs lg LevelInfo ''MySQL connection established'' [] w in
             case open_redis (os_redis_new os) (cfg_redis cfg) w of
               (Inl e, w) \<Rightarrow> fail_with lg (''failed to initialize Redis'', [error_attribute e]) w
             | (Inr rd, w) \<Rightarrow>
                 deferred_close lg ''failed to close Redis connection'' (redis_close (Some rd))
                   (let w = log_attrs lg LevelInfo ''Redis connection established''
                              [AttrInt ''database'' (rd_db (cfg_redis cfg))] w
                    in body lg cfg my rd w)))))"

text \<open>The main loop's end.\<close>

definition run_ends :: "'w logger \<Rightarrow> gostring \<Rightarrow> gostring \<Rightarrow> goerror option \<times> 'w \<Rightarrow> int \<times> 'w" where
  "run_ends lg unexpected stopped x =
     (case x of
        (Some e, w) \<Rightarrow> fail_with lg (unexpected, [error_attribute e]) w
      | (None, w) \<Rightarrow> (0, log_attrs lg LevelInfo stopped [] w))"

text \<open>From the constructors to the end of the main loop.\<close>

definition worker_body ::
  "'w os \<Rightarrow> (('w, 'w process_job) pool \<Rightarrow> 'w \<Rightarrow> goerror option \<times> 'w)
     \<Rightarrow> 'w logger \<Rightarrow> config \<Rightarrow> 'w gorm_handle \<Rightarrow> 'w redis_handle \<Rightarrow> 'w \<Rightarrow> int \<times> 'w" where
  "worker_body os pool_loop lg cfg my rd w =
     (case worker_build (platform_of os lg cfg my rd) of
        Inl line \<Rightarrow> fail_with lg line w
      | Inr pl \<Rightarrow>
          let w = log_attrs lg LevelInfo ''worker application starting''
                    [AttrString ''queue'' (rd_queue_name (cfg_redis cfg)),
                     AttrInt ''worker_count'' (int WorkerCount)] w in
          run_ends lg ''worker pool stopped unexpectedly'' ''worker application stopped'' (pool_loop pl w))"

definition worker_run ::
  "'w os \<Rightarrow> (('w, 'w process_job) pool \<Rightarrow> 'w \<Rightarrow> goerror option \<times> 'w) \<Rightarrow> 'w \<Rightarrow> int \<times> 'w" where
  "worker_run os pool_loop =
     run_connected os ''async-job-worker'' ''failed to load worker configuration''
       ''failed to initialize worker logger'' (worker_body os pool_loop)"

definition api_body ::
  "'w os \<Rightarrow> ('w http_server \<Rightarrow> 'w net_server)
     \<Rightarrow> 'w logger \<Rightarrow> config \<Rightarrow> 'w gorm_handle \<Rightarrow> 'w redis_handle \<Rightarrow> 'w \<Rightarrow> int \<times> 'w" where
  "api_body os net lg cfg my rd w =
     (case api_build (platform_of os lg cfg my rd) (os_dir_stat os) (os_dir_server os)
         (cfg_assets_directory cfg) [Some (mysql_ping (Some my)), Some (redis_ping (Some rd))] of
        Inl line \<Rightarrow> fail_with lg line w
      | Inr router \<Rightarrow>
          let srv = new_http_server (cfg_http_address cfg) router lg;
              w = log_attrs lg LevelInfo ''application starting'' [] w in
          run_ends lg ''application stopped unexpectedly'' ''application stopped''
            (http_server_run srv (net srv) w))"

definition api_run :: "'w os \<Rightarrow> ('w http_server \<Rightarrow> 'w net_server) \<Rightarrow> 'w \<Rightarrow> int \<times> 'w" where
  "api_run os net =
     run_connected os ''async-job-api'' ''failed to load application configuration''
       ''failed to initialize application logger'' (api_body os net)"

end
