(* ===== verification/Program_Laws.thy ===== *)
theory Program_Laws imports Programs begin

text \<open>
  What the two programs construct, in terms of \<open>Wiring\<close> and \<open>Deployment\<close>, and how they hold and
  release the connections they open: \<open>held_resources\<close> is what they rely on of the operating
  system's side, and a program that ends has given back what it took, unless \<open>gorm.Open\<close> itself failed.
\<close>

section \<open>What is constructed\<close>

lemmas build_defs = new_job_repository_def new_job_queue_def Let_def new_job_lifecycle_observer_def
  labelled_def labelled_with_def then_with_def

lemma worker_build_ok: "worker_build pf = Inr pl \<longleftrightarrow> worker_pool pf = Inr pl"
  unfolding worker_pool_eq worker_process_job_eq
  by (simp add: worker_build_def build_defs new_handler_def handlerProcessingDuration_def new_dispatcher_def
      required_job_types_def new_process_job_def new_pool_eq wired_queue_def wired_handlers_def)

lemma worker_pool_ok:
  "trim_space (pf_queue_name pf) \<noteq> [] \<Longrightarrow> \<exists>uc. worker_process_job pf = Inr uc
     \<and> worker_pool pf = Inr (pool_for (queue_dequeue (wired_queue pf)) uc (pf_logger pf))"
  by (simp add: worker_pool_eq worker_process_job_eq)

definition api_job_handler :: "'w platform \<Rightarrow> 'w create_job \<Rightarrow> 'w job_handler" where
  "api_job_handler pf cc =
     \<lparr>jh_create = create_job_execute cc, jh_get = get_job_execute (mysql_repository (pf_db pf)),
      jh_logger = pf_logger pf\<rparr>"

lemma api_build_ok:
  "api_build pf stat server assets checkers = Inr serve \<longleftrightarrow>
     (\<exists>cc. api_create_job pf = Inr cc \<and> is_ok (stat assets indexFile)
        \<and> serve = new_router (pf_random pf) (api_job_handler pf cc)
            \<lparr>ui_stat = stat assets, ui_file_server = server assets\<rparr> checkers)"
  unfolding api_create_job_eq
  by (auto simp: api_build_def build_defs new_create_job_def new_get_job_def new_job_handler_def
      new_ui_handler_def wired_queue_def api_job_handler_def is_ok_def split: sum.splits)

lemma value_or_default_trimmed:
  "trim_space d = d \<Longrightarrow> trim_space (value_or_default env name d) = value_or_default env name d"
  by (simp add: value_or_default_def trim_space_idem split: option.splits)

section \<open>A configuration that loaded\<close>

text \<open>What \<open>logging.New\<close> is given, and the states between the calls of \<open>run\<close>: what was there, with one
  line more in the log.\<close>

definition logger_options :: "config \<Rightarrow> gostring \<Rightarrow> log_options" where
  "logger_options cfg service =
     \<lparr>opt_level = cfg_log_level cfg, opt_environment = cfg_environment cfg, opt_service_name = service\<rparr>"

definition mysql_up :: "'w logger \<Rightarrow> 'w \<Rightarrow> 'w" where
  "mysql_up lg = log_attrs lg LevelInfo ''MySQL connection established'' []"

definition redis_up :: "'w logger \<Rightarrow> config \<Rightarrow> 'w \<Rightarrow> 'w" where
  "redis_up lg cfg =
     log_attrs lg LevelInfo ''Redis connection established'' [AttrInt ''database'' (rd_db (cfg_redis cfg))]"

definition worker_starting :: "'w logger \<Rightarrow> config \<Rightarrow> 'w \<Rightarrow> 'w" where
  "worker_starting lg cfg = log_attrs lg LevelInfo ''worker application starting''
     [AttrString ''queue'' (rd_queue_name (cfg_redis cfg)), AttrInt ''worker_count'' (int WorkerCount)]"

definition api_starting :: "'w logger \<Rightarrow> 'w \<Rightarrow> 'w" where
  "api_starting lg = log_attrs lg LevelInfo ''application starting'' []"

lemma loaded_logger:
  assumes "range_order (os_range_order os)" "config_load (os_range_order os) (os_env os) = Inr cfg"
  shows "\<exists>root. new_logger True (logger_options cfg service) = Inr root"
proof -
  note valid = config_load_ok [OF assms]
  have "cfg_log_level cfg = value_or_default (os_env os) ''LOG_LEVEL'' defaultLogLevel"
    using assms(2) by (auto simp: config_load_def Let_def split: sum.splits option.splits)
  moreover have "trim_space defaultLogLevel = defaultLogLevel"
    by (rule trim_space_id) (simp_all add: defaultLogLevel_def is_space_def)
  ultimately have "trim_space (cfg_log_level cfg) = cfg_log_level cfg"
    by (simp add: value_or_default_trimmed)
  then have "is_ok (parse_level (cfg_log_level cfg))"
    using valid by (auto simp: valid_config_def is_supported_log_level_def parse_level_def is_ok_def Let_def)
  then show ?thesis
    by (auto simp: logger_options_def new_logger_def is_ok_def Let_def split: sum.splits)
qed

lemma loaded_queue:
  assumes "range_order (os_range_order os)" "config_load (os_range_order os) (os_env os) = Inr cfg"
  shows "trim_space (pf_queue_name (platform_of os lg cfg my rd)) \<noteq> []"
  using config_load_ok [OF assms] by (simp add: platform_of_def valid_config_def)

lemma loaded_worker:
  assumes "range_order (os_range_order os)" "config_load (os_range_order os) (os_env os) = Inr cfg"
  shows "\<exists>pl. worker_build (platform_of os lg cfg my rd) = Inr pl \<and> worker_pool (platform_of os lg cfg my rd) = Inr pl"
  using worker_pool_ok [OF loaded_queue [OF assms]] worker_build_ok by blast

lemma loaded_api:
  assumes "range_order (os_range_order os)" "config_load (os_range_order os) (os_env os) = Inr cfg"
  shows "is_ok (api_build (platform_of os lg cfg my rd) (os_dir_stat os) (os_dir_server os)
      (cfg_assets_directory cfg) checkers) \<longleftrightarrow> is_ok (os_dir_stat os (cfg_assets_directory cfg) indexFile)"
  using loaded_queue [OF assms] by (auto simp: is_ok_iff api_build_ok api_create_job_eq)

section \<open>What is held\<close>

definition keeps :: "('w \<Rightarrow> gostring list) \<Rightarrow> ('w \<Rightarrow> 'a \<times> 'w) \<Rightarrow> bool" where
  "keeps held f \<longleftrightarrow> (\<forall>w. held (snd (f w)) = held w)"

definition releases :: "('w \<Rightarrow> gostring list) \<Rightarrow> gostring \<Rightarrow> ('w \<Rightarrow> 'a \<times> 'w) \<Rightarrow> bool" where
  "releases held name f \<longleftrightarrow> (\<forall>w rest. held w = name # rest \<longrightarrow> held (snd (f w)) = rest)"

lemma keepsD: "keeps held f \<Longrightarrow> f w = (r, w') \<Longrightarrow> held w' = held w"
  by (metis keeps_def snd_conv)

lemma releasesD: "releases held name f \<Longrightarrow> f w = (r, w') \<Longrightarrow> held w = name # rest \<Longrightarrow> held w' = rest"
  by (metis releases_def snd_conv)

text \<open>
  How a run ends. A configuration that is refused opens nothing. Otherwise the logger is there; if MySQL cannot be
  opened the code is 1, and only a failing \<open>gorm.Open\<close> can leave something open; in every other case all that was
  opened is closed again, and the code is 1 if Redis cannot be opened and \<open>final\<close> of the state
  with both connections open otherwise.
\<close>

definition ends_released ::
  "('w \<Rightarrow> gostring list) \<Rightarrow> 'w os \<Rightarrow> gostring
     \<Rightarrow> ('w logger \<Rightarrow> config \<Rightarrow> 'w gorm_handle \<Rightarrow> 'w redis_handle \<Rightarrow> 'w \<Rightarrow> int \<Rightarrow> bool) \<Rightarrow> 'w \<Rightarrow> int \<times> 'w \<Rightarrow> bool" where
  "ends_released held os service final w x \<longleftrightarrow>
     (case x of (code, w') \<Rightarrow>
      case config_load (os_range_order os) (os_env os) of
        Inl e \<Rightarrow> code = 1 \<and> held w' = held w
      | Inr cfg \<Rightarrow>
          (\<exists>root. new_logger True (logger_options cfg service) = Inr root
            \<and> (case open_mysql (os_gorm_open os) (cfg_mysql cfg) w of
                 (Inl e, w1) \<Rightarrow> code = 1
                   \<and> (held w' = held w
                      \<or> \<not> is_ok (fst (os_gorm_open os (driver_config (cfg_mysql cfg)) w))
                        \<and> held w' = held (snd (os_gorm_open os (driver_config (cfg_mysql cfg)) w)))
               | (Inr my, w1) \<Rightarrow> held w' = held w
                   \<and> (case open_redis (os_redis_new os) (cfg_redis cfg) (mysql_up (os_logger os root) w1) of
                        (Inl e, w2) \<Rightarrow> code = 1
                      | (Inr rd, w2) \<Rightarrow>
                          held (redis_up (os_logger os root) cfg w2) = ''redis'' # ''mysql'' # held w
                          \<and> final (os_logger os root) cfg my rd (redis_up (os_logger os root) cfg w2) code))))"

text \<open>
  \<open>held\<close> is the stack of the connections that are open, the newest first. Opening one pushes it, closing
  it when it is the newest takes it away, also when closing reports an error; nothing is known of closing in another
  order, and nothing of what a \<open>gorm.Open\<close> that fails leaves open. A GORM handle that was opened gives its pool.
\<close>

locale held_resources =
  fixes os :: "'w os" and held :: "'w \<Rightarrow> gostring list"
  assumes bootstrap_held: "held (os_bootstrap_logger os l w) = held w"
    and logger_held: "held (os_logger os root l w) = held w"
    and gorm_opens: "os_gorm_open os mc w = (Inr h, w') \<Longrightarrow> held w' = ''mysql'' # held w
      \<and> (\<exists>db. gh_db h = Inr db \<and> keeps held (sql_ping db) \<and> releases held ''mysql'' (sql_close db))"
    and redis_opens: "os_redis_new os rc w = (c, w') \<Longrightarrow> held w' = ''redis'' # held w
      \<and> keeps held (rh_ping c) \<and> releases held ''redis'' (rh_close c)"
begin

lemma log_held: "held (log_attrs (os_logger os root) lvl msg attrs w) = held w"
  by (simp add: log_attrs_def logger_held)

lemma fail_held: "fail_with (os_logger os root) line w = (code, w') \<Longrightarrow> code = 1 \<and> held w' = held w"
  "fail_with (os_bootstrap_logger os) line w = (code, w') \<Longrightarrow> code = 1 \<and> held w' = held w"
  by (auto simp: fail_with_def log_attrs_def logger_held bootstrap_held)

lemma open_mysql_held:
  assumes "open_mysql (os_gorm_open os) opts w = (r, w')"
  shows "case r of Inl e \<Rightarrow> held w' = held w \<or> w' = snd (os_gorm_open os (driver_config opts) w)
        \<and> \<not> is_ok (fst (os_gorm_open os (driver_config opts) w))
    | Inr h \<Rightarrow> held w' = ''mysql'' # held w \<and> releases held ''mysql'' (mysql_close (Some h))"
proof (cases "validate_mysql_options opts")
  case None
  obtain ro w1 where o: "os_gorm_open os (driver_config opts) w = (ro, w1)" by force
  show ?thesis
  proof (cases ro)
    case (Inl e)
    with assms None o show ?thesis by (auto simp: open_mysql_def)
  next
    case (Inr h)
    from gorm_opens [OF o [unfolded Inr]] obtain db where db: "held w1 = ''mysql'' # held w" "gh_db h = Inr db"
      "keeps held (sql_ping db)" "releases held ''mysql'' (sql_close db)" by blast
    have close: "releases held ''mysql'' (mysql_close (Some h))"
      using db(2,4) unfolding releases_def
      by (auto simp: mysql_close_def split: prod.splits option.splits) (metis snd_conv)+
    obtain rp w2 where p: "sql_ping db w1 = (rp, w2)" by force
    have w2: "held w2 = ''mysql'' # held w" using keepsD [OF db(3) p] db(1) by simp
    show ?thesis
      using assms None o Inr db(2) p w2 close releasesD [OF db(4) _ w2]
      by (auto simp: open_mysql_def split: option.splits prod.splits)
  qed
qed (use assms in \<open>auto simp: open_mysql_def\<close>)

lemma open_redis_held:
  assumes "open_redis (os_redis_new os) opts w = (r, w')"
  shows "case r of Inl e \<Rightarrow> held w' = held w
    | Inr h \<Rightarrow> held w' = ''redis'' # held w \<and> releases held ''redis'' (redis_close (Some h))"
proof (cases "validate_redis_options opts")
  case None
  let ?rc = "\<lparr>ro_addr = join_host_port (rd_host opts) (itoa (rd_port opts)), ro_password = rd_password opts,
    ro_db = rd_db opts\<rparr>"
  obtain c w1 where o: "os_redis_new os ?rc w = (c, w1)" by force
  from redis_opens [OF o] have c: "held w1 = ''redis'' # held w" "keeps held (rh_ping c)"
    "releases held ''redis'' (rh_close c)" by blast+
  have close: "releases held ''redis'' (redis_close (Some c))"
    using c(3) unfolding releases_def
    by (auto simp: redis_close_def split: prod.splits option.splits) (metis snd_conv)+
  obtain rp w2 where p: "rh_ping c w1 = (rp, w2)" by force
  have w2: "held w2 = ''redis'' # held w" using keepsD [OF c(2) p] c(1) by simp
  show ?thesis
    using assms None o p w2 close releasesD [OF c(3) _ w2]
    by (auto simp: open_redis_def split: option.splits prod.splits)
qed (use assms in \<open>auto simp: open_redis_def\<close>)

lemma deferred_held:
  assumes "deferred_close (os_logger os root) msg close (c, w) = (code, w')" "releases held name close"
    "held w = name # rest"
  shows "code = c \<and> held w' = rest"
  using assms(1) releasesD [OF assms(2) _ assms(3)]
  by (auto simp: deferred_close_def log_held split: prod.splits option.splits)

text \<open>Both programs: if the configuration is refused, nothing was opened; otherwise the exit code is that of
  the first step that fails, or of the body, and what was opened is closed again.\<close>

lemma run_refused:
  "config_load (os_range_order os) (os_env os) = Inl e \<Longrightarrow>
     run_connected os service m1 m2 body w = (code, w') \<Longrightarrow> code = 1 \<and> held w' = held w"
  by (auto simp: run_connected_def labelled_def labelled_with_def dest: fail_held)

lemma run_connected_held:
  assumes run: "run_connected os service m1 m2 body w = (code, w')"
    and cfg: "config_load (os_range_order os) (os_env os) = Inr cfg"
    and root: "new_logger True (logger_options cfg service) = Inr root"
    and body: "\<And>my rd v. held (snd (body (os_logger os root) cfg my rd v)) = held v"
  shows "case open_mysql (os_gorm_open os) (cfg_mysql cfg) w of
      (Inl e, w1) \<Rightarrow> code = 1 \<and> held w' = held w1
    | (Inr my, w1) \<Rightarrow> held w' = held w
        \<and> (case open_redis (os_redis_new os) (cfg_redis cfg) (mysql_up (os_logger os root) w1) of
             (Inl e, w2) \<Rightarrow> code = 1
           | (Inr rd, w2) \<Rightarrow> held w2 = ''redis'' # ''mysql'' # held w
               \<and> code = fst (body (os_logger os root) cfg my rd (redis_up (os_logger os root) cfg w2)))"
proof -
  let ?lg = "os_logger os root"
  obtain rm w1 where m: "open_mysql (os_gorm_open os) (cfg_mysql cfg) w = (rm, w1)" by force
  note run = run [unfolded run_connected_def labelled_def labelled_with_def cfg
    root [unfolded logger_options_def] Let_def sum.case m prod.case]
  show ?thesis
  proof (cases rm)
    case (Inl e)
    with run m show ?thesis by (auto dest: fail_held)
  next
    case (Inr my)
    note my = this
    from open_mysql_held [OF m] my have h1: "held w1 = ''mysql'' # held w"
      "releases held ''mysql'' (mysql_close (Some my))" by simp_all
    obtain rr w2 where r: "open_redis (os_redis_new os) (cfg_redis cfg) (mysql_up ?lg w1) = (rr, w2)" by force
    note run = run [unfolded my sum.case mysql_up_def [symmetric] redis_up_def [symmetric] r prod.case]
    have up: "held (mysql_up ?lg w1) = ''mysql'' # held w" using h1 by (simp add: mysql_up_def log_held)
    show ?thesis
    proof (cases rr)
      case (Inl e)
      obtain c w3 where f: "fail_with ?lg (''failed to initialize Redis'', [error_attribute e]) w2 = (c, w3)" by force
      have "c = 1" "held w3 = ''mysql'' # held w"
        using fail_held(1) [OF f] open_redis_held [OF r] Inl up by simp_all
      with run Inl f deferred_held [OF _ h1(2)] my m r show ?thesis by auto
    next
      case (Inr rd)
      from open_redis_held [OF r] Inr up have h2: "held w2 = ''redis'' # ''mysql'' # held w"
        "releases held ''redis'' (redis_close (Some rd))" by simp_all
      obtain c w3 where b: "body ?lg cfg my rd (redis_up ?lg cfg w2) = (c, w3)" by force
      have h3: "held w3 = ''redis'' # ''mysql'' # held w"
        using body [of my rd "redis_up ?lg cfg w2"] b h2 by (simp add: redis_up_def log_held)
      obtain c4 w4 where d: "deferred_close ?lg ''failed to close Redis connection''
          (redis_close (Some rd)) (c, w3) = (c4, w4)" by force
      from deferred_held [OF d h2(2) h3] have h4: "c4 = c" "held w4 = ''mysql'' # held w" by simp_all
      from run Inr b d have "deferred_close ?lg ''failed to close MySQL connection''
          (mysql_close (Some my)) (c4, w4) = (code, w')" by simp
      from deferred_held [OF this h1(2) h4(2)] h4(1) b h2(1) m my r Inr show ?thesis by simp
    qed
  qed
qed

lemma run_released:
  assumes order: "range_order (os_range_order os)"
    and body: "\<And>root cfg my rd v. held (snd (body (os_logger os root) cfg my rd v)) = held v"
    and code: "\<And>root cfg my rd v. config_load (os_range_order os) (os_env os) = Inr cfg \<Longrightarrow>
      final (os_logger os root) cfg my rd v (fst (body (os_logger os root) cfg my rd v))"
  shows "ends_released held os service final w (run_connected os service m1 m2 body w)"
proof -
  obtain c w' where run: "run_connected os service m1 m2 body w = (c, w')" by force
  show ?thesis
  proof (cases "config_load (os_range_order os) (os_env os)")
    case (Inl e)
    with run_refused [OF Inl run] run show ?thesis by (simp add: ends_released_def)
  next
    case (Inr cfg)
    from loaded_logger [OF order Inr] obtain root where root: "new_logger True (logger_options cfg service) = Inr root"
      by blast
    obtain rm w1 where m: "open_mysql (os_gorm_open os) (cfg_mysql cfg) w = (rm, w1)" by force
    from run_connected_held [OF run Inr root body] open_mysql_held [OF m] code [OF Inr] run Inr root m
    show ?thesis by (fastforce simp: ends_released_def redis_up_def log_held split: sum.splits prod.splits)
  qed
qed

lemma run_ends_held:
  "held (snd (run_ends (os_logger os root) m1 m2 x)) = held (snd x)"
  "fst (run_ends (os_logger os root) m1 m2 x) = (if fst x = None then 0 else 1)"
  by (auto simp: run_ends_def fail_with_def log_held split: prod.splits option.splits)

text \<open>The HTTP server's loop.\<close>

lemma http_server_held:
  assumes "keeps held (nt_select net)" "keeps held (nt_shutdown net)" "keeps held (nt_close net)"
    "keeps held (nt_returned net)"
  shows "held (snd (http_server_run (new_http_server address router (os_logger os root)) net w)) = held w"
  by (auto simp: http_server_run_def new_http_server_def Let_def log_held
      dest!: keepsD [OF assms(1)] keepsD [OF assms(2)] keepsD [OF assms(3)] keepsD [OF assms(4)]
      split: prod.splits select_end.splits option.splits)

lemma worker_body_held:
  assumes "\<And>pl. keeps held (pool_loop pl)"
  shows "held (snd (worker_body os pool_loop (os_logger os root) cfg my rd v)) = held v"
  using assms
  by (auto simp: worker_body_def fail_with_def log_held run_ends_held keeps_def Let_def split: sum.split)

lemma api_body_held:
  assumes "\<And>srv. keeps held (nt_select (net srv)) \<and> keeps held (nt_shutdown (net srv))
      \<and> keeps held (nt_close (net srv)) \<and> keeps held (nt_returned (net srv))"
  shows "held (snd (api_body os net (os_logger os root) cfg my rd v)) = held v"
  using http_server_held assms
  by (auto simp: api_body_def fail_with_def log_held run_ends_held Let_def split: sum.split)

lemma worker_body_code:
  "worker_build (platform_of os (os_logger os root) cfg my rd) = Inr pl \<Longrightarrow>
     fst (worker_body os pool_loop (os_logger os root) cfg my rd v)
       = (if fst (pool_loop pl (worker_starting (os_logger os root) cfg v)) = None then 0 else 1)"
  by (simp add: worker_body_def worker_starting_def run_ends_held Let_def)

lemma api_body_code:
  "fst (api_body os net (os_logger os root) cfg my rd v) =
     (case api_build (platform_of os (os_logger os root) cfg my rd) (os_dir_stat os) (os_dir_server os)
         (cfg_assets_directory cfg) [Some (mysql_ping (Some my)), Some (redis_ping (Some rd))] of
        Inl line \<Rightarrow> 1
      | Inr router \<Rightarrow>
          let srv = new_http_server (cfg_http_address cfg) router (os_logger os root) in
          if fst (http_server_run srv (net srv) (api_starting (os_logger os root) v)) = None then 0 else 1)"
  by (simp add: api_body_def api_starting_def run_ends_held fail_with_def Let_def split: sum.split)

end

end
