(* ===== verification/Http_Laws.thy ===== *)
theory Http_Laws imports Program_Laws begin

text \<open>
  Lemmas on the HTTP adapter: what a valid request identifier is made of, which bodies are
  accepted, where the router sends the two paths of the jobs, and what the two job handlers of the wired API do to the
  table and to the queue.
\<close>

section \<open>Request identifiers\<close>

definition safe_char :: "char \<Rightarrow> bool" where
  "safe_char c \<longleftrightarrow> is_allowed_request_id_character (byte c)"

lemma valid_request_id_bytes:
  "is_valid_request_id i \<longleftrightarrow> i \<noteq> [] \<and> length i \<le> 128 \<and> list_all safe_char i"
proof -
  let ?P = "\<lambda>(k :: nat, r). is_allowed_request_id_character r"
  have "list_all ?P (go_range 0 i) \<longleftrightarrow> list_all ?P (byte_range 0 i)"
    by (rule go_range_ascii_test) (auto simp: is_allowed_request_id_character_def)
  moreover have "list_all ?P (byte_range n i) \<longleftrightarrow> list_all safe_char i" for n
    by (induction i arbitrary: n) (simp_all add: safe_char_def)
  ultimately show ?thesis
    by (simp add: is_valid_request_id_def runes_def list.pred_map comp_def case_prod_unfold)
qed

lemma safe_hex: "list_all is_hex s \<Longrightarrow> list_all safe_char s"
  by (auto simp: list_all_iff is_hex_def safe_char_def is_allowed_request_id_character_def)

lemma generated_request_id:
  assumes "length v = 16"
  shows "is_valid_request_id (format_uuid (set_version v))"
  using assms hex_bytes_hex
  by (simp add: valid_request_id_bytes format_uuid_def safe_hex)
     (simp add: safe_char_def is_allowed_request_id_character_def)

lemma request_id_served:
  assumes "request_id_middleware rand_read next rq w = (rs, w')"
  obtains (failed) e where "rand_read w = (Inl e, w')" "rs = http_error ''failed to create request ID'' 500"
      "\<not> is_valid_request_id (trim_space (rq_header rq RequestIDHeader))"
  | (served) i w1 rs1 where "next (request_id_with_context i rq) w1 = (rs1, w')"
      "rs = rs1\<lparr>rs_headers := (RequestIDHeader, i) # rs_headers rs1\<rparr>"
      "if is_valid_request_id (trim_space (rq_header rq RequestIDHeader))
       then i = trim_space (rq_header rq RequestIDHeader) \<and> w1 = w
       else \<exists>v. rand_read w = (Inr v, w1) \<and> i = format_uuid (set_version v)"
proof (cases "is_valid_request_id (trim_space (rq_header rq RequestIDHeader))")
  case True
  obtain rs1 w2 where "next (request_id_with_context (trim_space (rq_header rq RequestIDHeader)) rq) w = (rs1, w2)"
    by force
  with assms True show ?thesis
    by (intro served [of "trim_space (rq_header rq RequestIDHeader)" w rs1])
       (simp_all add: request_id_middleware_def Let_def)
next
  case False
  obtain r w1 where r: "rand_read w = (r, w1)" by force
  show ?thesis
  proof (cases r)
    case (Inl e)
    with assms False r show ?thesis
      by (intro failed [of e]) (simp_all add: request_id_middleware_def new_request_id_def Let_def)
  next
    case (Inr v)
    obtain rs1 w2 where "next (request_id_with_context (format_uuid (set_version v)) rq) w1 = (rs1, w2)"
      by force
    with assms False r Inr show ?thesis
      by (intro served [of "format_uuid (set_version v)" w1 rs1])
         (simp_all add: request_id_middleware_def new_request_id_def Let_def)
  qed
qed

section \<open>Bodies\<close>

lemma decode_create_context [simp]:
  "decode_create_job_request (request_id_with_context i rq) = decode_create_job_request rq"
  by (simp add: decode_create_job_request_def request_id_with_context_def)

lemma rejected_request:
  "decode_create_job_request rq = Inl de \<Longrightarrow> de_status de \<in> {400, 413, 415}"
  by (auto simp: decode_create_job_request_def Let_def split: if_splits sum.splits prod.splits)

text \<open>The end of a body is seen only if the reader ends there.\<close>

lemma decode_next_ends:
  assumes "decode_next b = Inl JsonEOF"
  shows "bd_end b = EndEOF" "decode_stream (bd_bytes b) = Inl JsonEOF"
  using assms by (auto simp: decode_next_def split: sum.splits if_splits prod.splits)

lemma decode_next_value:
  "decode_next b = Inr (v, b') \<Longrightarrow> \<exists>rest. decode_stream (bd_bytes b) = Inr (v, rest) \<and> b' = b\<lparr>bd_bytes := rest\<rparr>"
  by (auto simp: decode_next_def split: sum.splits if_splits prod.splits)

lemma accepted_request:
  assumes "decode_create_job_request rq = Inr req"
  obtains media v rest where "parse_media_type (rq_header rq ''Content-Type'') = Inr media"
    "equal_fold_ascii media ''application/json''"
    "length (bd_bytes (rq_body rq)) \<le> maxCreateJobBodyBytes" "bd_end (rq_body rq) = EndEOF"
    "decode_stream (bd_bytes (rq_body rq)) = Inr (v, rest)" "decode_stream rest = Inl JsonEOF"
    "decode_struct create_job_request_fields \<lparr>cr_type = [], cr_payload = []\<rparr> v = Inr req"
proof -
  let ?b = "max_bytes_reader maxCreateJobBodyBytes (rq_body rq)"
  from assms obtain media v b' where d: "parse_media_type (rq_header rq ''Content-Type'') = Inr media"
    "equal_fold_ascii media ''application/json''" "decode_next ?b = Inr (v, b')"
    "decode_struct create_job_request_fields \<lparr>cr_type = [], cr_payload = []\<rparr> v = Inr req"
    "decode_next b' = Inl JsonEOF"
    by (auto simp: decode_create_job_request_def Let_def split: if_splits sum.splits prod.splits)
  from decode_next_value [OF d(3)] obtain rest where s: "decode_stream (bd_bytes ?b) = Inr (v, rest)"
    "b' = ?b\<lparr>bd_bytes := rest\<rparr>" by blast
  from decode_next_ends [OF d(5)] s(2) have e: "bd_end ?b = EndEOF" "decode_stream rest = Inl JsonEOF" by simp_all
  then have "length (bd_bytes (rq_body rq)) \<le> maxCreateJobBodyBytes" "?b = rq_body rq"
    by (auto simp: max_bytes_reader_def split: if_splits)
  with that d(1,2,4) s(1) e show ?thesis by simp
qed

section \<open>Paths\<close>

lemma split_slash_ne: "split_slash s \<noteq> []"
  by (induction s) (auto split: list.splits)

lemma split_slash_append: "split_slash (s @ CHR ''/'' # t) = split_slash s @ split_slash t"
proof (induction s)
  case (Cons c s)
  then show ?case using split_slash_ne [of s] by (cases "split_slash s") simp_all
qed simp

lemma split_slash_segment: "CHR ''/'' \<notin> set s \<Longrightarrow> split_slash s = [s]"
  by (induction s) auto

lemma job_path_clean:
  assumes "i \<noteq> []" "i \<noteq> ''.''" "i \<noteq> ''..''" "CHR ''/'' \<notin> set i"
  shows "mux_clean_path (''/api/v1/jobs/'' @ i) = ''/api/v1/jobs/'' @ i"
proof -
  have "split_slash (''/api/v1/jobs'' @ CHR ''/'' # i) = [[], ''api'', ''v1'', ''jobs'', i]"
    using split_slash_segment [OF assms(4)] by (simp only: split_slash_append) simp
  then have "split_slash (''/api/v1/jobs/'' @ i) = [[], ''api'', ''v1'', ''jobs'', i]" by simp
  moreover have "last i \<noteq> CHR ''/''" using assms(4) last_in_set [OF assms(1)] by metis
  then have "last (''/api/v1/jobs/'' @ i) \<noteq> CHR ''/''" using assms(1) by simp
  ultimately show ?thesis
    using assms(1-3) by (simp add: mux_clean_path_def path_clean_def clean_segment_def Let_def)
qed

lemma job_route:
  assumes "i \<noteq> []" "CHR ''/'' \<notin> set i"
  shows "mux_route ''GET'' (''/api/v1/jobs/'' @ i) = RouteGet i"
  using assms by (simp add: mux_route_def job_path_def has_prefix_def)

lemma create_route:
  "mux_clean_path ''/api/v1/jobs'' = ''/api/v1/jobs''" "mux_route ''POST'' ''/api/v1/jobs'' = RouteCreate"
  by (simp_all add: mux_clean_path_def path_clean_def clean_segment_def mux_route_def Let_def)

section \<open>The job handlers of the wired API\<close>

lemma get_parse_error:
  "get_job_execute repo input w = (r, w') \<Longrightarrow> parse_id input = Inl e \<Longrightarrow>
     w' = w \<and> (\<exists>e'. r = Inl e' \<and> errors_is e' ErrInvalidID)"
  by (auto simp: get_job_execute_def dest: parse_id_error)

text \<open>The statuses of the errors.\<close>

definition error_status :: "goerror \<Rightarrow> int" where
  "error_status e =
     (if errors_is e ErrInvalidType \<or> errors_is e ErrInvalidPayload \<or> errors_is e ErrInvalidID then 400
      else if errors_is e ErrJobNotFound then 404 else if errors_is e ErrJobAlreadyExists then 409
      else if errors_is e ErrJobQueueUnavailable then 503 else 500)"

lemma application_error_status:
  assumes "write_application_error h rq operation e w = (rs, w')"
  shows "rs_status rs = error_status e" "w' = w \<or> (\<exists>l. w' = jh_logger h l w)"
  using assms
  by (auto simp: write_application_error_def error_status_def write_api_error_def write_json_def log_attrs_def
      Let_def split: if_splits)

lemma error_status_simps [simp]: "error_status e \<noteq> 202" "error_status e \<noteq> 200"
  by (simp_all add: error_status_def)

lemma error_status_404: "error_status e = 404 \<Longrightarrow> errors_is e ErrJobNotFound \<and> \<not> errors_is e ErrInvalidID"
  by (simp add: error_status_def split: if_splits)

lemma create_answered:
  assumes "handle_create h rq w = (rs, w')"
  shows "case decode_create_job_request rq of
      Inl de \<Rightarrow> rs_status rs = de_status de \<and> (\<exists>l. w' = jh_logger h l w)
    | Inr req \<Rightarrow> (\<exists>r w1. jh_create h \<lparr>in_type = cr_type req, in_payload = cr_payload req\<rparr> w = (r, w1)
        \<and> (w' = w1 \<or> (\<exists>l. w' = jh_logger h l w1))
        \<and> (case r of Inl e \<Rightarrow> rs_status rs = error_status e
           | Inr j \<Rightarrow> rs_status rs = 202 \<and> rs_body rs = JobBody (job_response_from_domain j)
               \<and> (''Location'', ''/api/v1/jobs/'' @ ent_id j) \<in> set (rs_headers rs)))"
proof (cases "decode_create_job_request rq")
  case (Inl de)
  with assms show ?thesis by (auto simp: handle_create_def write_api_error_def write_json_def log_attrs_def)
next
  case (Inr req)
  obtain r w1 where c: "jh_create h \<lparr>in_type = cr_type req, in_payload = cr_payload req\<rparr> w = (r, w1)" by force
  show ?thesis
  proof (cases r)
    case (Inl e)
    with assms Inr c have "write_application_error h rq ''create_job'' e w1 = (rs, w')"
      by (simp add: handle_create_def)
    from application_error_status [OF this] Inr Inl c show ?thesis by auto
  next
    case (Inr j)
    with assms \<open>decode_create_job_request rq = Inr req\<close> c show ?thesis
      by (auto simp: handle_create_def write_json_def log_attrs_def)
  qed
qed

lemma get_answered:
  assumes "handle_get_by_id h rq w = (rs, w')"
  obtains r w1 where "jh_get h (rq_job_id rq) w = (r, w1)" "w' = w1 \<or> (\<exists>l. w' = jh_logger h l w1)"
    "case r of Inl e \<Rightarrow> rs_status rs = error_status e
     | Inr j \<Rightarrow> rs_status rs = 200 \<and> rs_body rs = JobBody (job_response_from_domain j)"
proof -
  obtain r w1 where g: "jh_get h (rq_job_id rq) w = (r, w1)" by force
  show thesis
  proof (cases r)
    case (Inl e)
    with assms g have "write_application_error h rq ''get_job'' e w1 = (rs, w')"
      by (simp add: handle_get_by_id_def)
    from application_error_status [OF this] that [OF g] Inl show ?thesis by auto
  next
    case (Inr j)
    with assms g have "rs_status rs = 200 \<and> rs_body rs = JobBody (job_response_from_domain j)"
      "\<exists>l. w' = jh_logger h l w1"
      by (auto simp: handle_get_by_id_def write_json_def log_attrs_def)
    with that [OF g] Inr show ?thesis by simp
  qed
qed

end
