(* ===== verification/Program_Sample.thy ===== *)
theory Program_Sample imports Program_Laws System_Sample begin

text \<open>
  The reference world as the operating system's side of the two programs: an environment, connections
  that are counted in \<open>w_held\<close> and a file system with an index file. Opening a pool whose first reply is lost
  fails and leaves the pool open. The world satisfies \<open>held_resources\<close>, and both programs run in it.
\<close>

definition sample_environment :: environment where
  "sample_environment =
     [''MYSQL_HOST'' \<mapsto> ''mysql'', ''MYSQL_DATABASE'' \<mapsto> ''jobs'', ''MYSQL_USER'' \<mapsto> ''app'',
      ''MYSQL_PASSWORD'' \<mapsto> ''secret'', ''REDIS_HOST'' \<mapsto> ''redis'', ''REDIS_QUEUE_NAME'' \<mapsto> ''jobs'',
      ''LOG_LEVEL'' \<mapsto> ''warn'']"

definition ref_ping :: "world \<Rightarrow> goerror option \<times> world" where
  "ref_ping w = (case next_fault w of (f, w) \<Rightarrow> (if f = NoFault then None else Some connection_lost, w))"

definition ref_release :: "world \<Rightarrow> goerror option \<times> world" where
  "ref_release w = (case next_fault w of (f, w) \<Rightarrow> (replied f, w\<lparr>w_held := tl (w_held w)\<rparr>))"

definition ref_gorm_open :: "mysql_driver_config \<Rightarrow> world \<Rightarrow> (goerror + world gorm_handle) \<times> world" where
  "ref_gorm_open mc w =
     (case next_fault w of (f, w) \<Rightarrow>
        if f = LostRequest then (Inl connection_lost, w)
        else if f = LostReply then (Inl connection_lost, w\<lparr>w_held := ''mysql'' # w_held w\<rparr>)
        else (Inr \<lparr>gh_gorm = pf_db ref_platform, gh_db = Inr \<lparr>sql_ping = ref_ping, sql_close = ref_release\<rparr>\<rparr>,
          w\<lparr>w_held := ''mysql'' # w_held w\<rparr>))"

definition ref_redis_new :: "redis_driver_options \<Rightarrow> world \<Rightarrow> world redis_handle \<times> world" where
  "ref_redis_new ro w =
     (\<lparr>rh_client = pf_redis ref_platform, rh_addr = ro_addr ro, rh_ping = ref_ping, rh_close = ref_release\<rparr>,
      w\<lparr>w_held := ''redis'' # w_held w\<rparr>)"

definition ref_os :: "world os" where
  "ref_os =
     \<lparr>os_env = sample_environment, os_range_order = required_values, os_bootstrap_logger = ref_log,
      os_logger = (\<lambda>root. ref_log), os_gorm_open = ref_gorm_open, os_redis_new = ref_redis_new,
      os_now = ref_now, os_random = ref_random, os_pause = ref_pause, os_parse_address = Inr,
      os_dir_stat = (\<lambda>dir file. if file = indexFile then Inr False else Inl (NewError ''file does not exist'')),
      os_dir_server = (\<lambda>dir rq w. (\<lparr>rs_status = 200, rs_headers = [], rs_body = FileBody (rq_path rq)\<rparr>, w))\<rparr>"

lemma required_order: "range_order required_values"
  by (simp add: range_order_def required_values_def)

definition sample_config :: config where
  "sample_config =
     \<lparr>cfg_environment = ''development'', cfg_http_address = '':8080'', cfg_assets_directory = ''web/dist'',
      cfg_mysql = \<lparr>my_host = ''mysql'', my_port = 3306, my_database = ''jobs'', my_user = ''app'',
        my_password = ''secret''\<rparr>,
      cfg_redis = \<lparr>rd_host = ''redis'', rd_port = 6379, rd_password = [], rd_db = 0, rd_queue_name = ''jobs''\<rparr>,
      cfg_log_level = ''warn''\<rparr>"

lemma plain_text:
  assumes "list_all (\<lambda>c. 0x21 \<le> byte c \<and> byte c < 0x80 \<and> \<not> (0x41 \<le> byte c \<and> byte c \<le> 0x5A)) s"
  shows "trim_space s = s" "to_lower s = s"
proof -
  show "to_lower s = s" by (rule to_lower_plain) (use assms in \<open>auto simp: list_all_iff plain_char_def\<close>)
  show "trim_space s = s"
  proof (cases "s = []")
    case False
    have "\<not> is_space (byte c)" "byte c < 0x80" if "c \<in> set s" for c
      using assms that by (auto simp: list_all_iff is_space_def)
    with False show ?thesis by (intro trim_space_id) auto
  qed simp
qed

lemma sample_texts:
  "trim_space ''jobs'' = ''jobs''" "trim_space ''warn'' = ''warn''" "trim_space ''mysql'' = ''mysql''"
  "trim_space ''app'' = ''app''" "trim_space ''secret'' = ''secret''" "trim_space ''redis'' = ''redis''"
  "trim_space ''web/dist'' = ''web/dist''"
  "to_lower ''warn'' = ''warn''" "to_lower ''development'' = ''development''"
  by (rule plain_text; simp)+

lemma sample_address: "validate_http_address '':8080'' = None"
  by (simp add: validate_http_address_def split_host_port_def Let_def atoi_def parse_int_def
      digits_value_def is_digit_def min_int64_def max_int64_def validate_port_def)

lemma sample_config_load: "config_load required_values sample_environment = Inr sample_config"
  by (simp add: config_load_def sample_environment_def int_from_environment_def value_or_default_def getenv_def
      sample_texts config_validate_def validate_port_def sample_address errors_join_def required_values_def
      is_supported_environment_def is_supported_log_level_def sample_config_def
      defaultAppEnvironment_def defaultHTTPAddress_def defaultUIAssetsDir_def defaultMySQLPort_def
      defaultRedisPort_def defaultRedisDB_def)

lemma ref_os_environment:
  "os_env ref_os = sample_environment" "os_range_order ref_os = required_values"
  "os_bootstrap_logger ref_os = ref_log" "os_logger ref_os = (\<lambda>root. ref_log)"
  "os_gorm_open ref_os = ref_gorm_open" "os_redis_new ref_os = ref_redis_new"
  "os_dir_stat ref_os dir indexFile = Inr False"
  by (simp_all add: ref_os_def)

text \<open>Both programs get as far as their bodies, with both connections open.\<close>

definition sample_mysql :: "world gorm_handle" where
  "sample_mysql = \<lparr>gh_gorm = pf_db ref_platform, gh_db = Inr \<lparr>sql_ping = ref_ping, sql_close = ref_release\<rparr>\<rparr>"

definition sample_redis :: "world redis_handle" where
  "sample_redis =
     \<lparr>rh_client = pf_redis ref_platform, rh_addr = join_host_port ''redis'' (itoa 6379), rh_ping = ref_ping, rh_close = ref_release\<rparr>"

lemma sample_connections:
  assumes "w_faults w = []"
  shows "open_mysql ref_gorm_open (cfg_mysql sample_config) w
      = (Inr sample_mysql, w\<lparr>w_held := ''mysql'' # w_held w\<rparr>)"
    "open_redis ref_redis_new (cfg_redis sample_config) w
      = (Inr sample_redis, w\<lparr>w_held := ''redis'' # w_held w\<rparr>)"
    "mysql_close (Some sample_mysql) w = (None, w\<lparr>w_held := tl (w_held w)\<rparr>)"
    "redis_close (Some sample_redis) w = (None, w\<lparr>w_held := tl (w_held w)\<rparr>)"
proof -
  show "open_redis ref_redis_new (cfg_redis sample_config) w
      = (Inr sample_redis, w\<lparr>w_held := ''redis'' # w_held w\<rparr>)"
    using assms by (simp add: open_redis_def validate_redis_options_def sample_config_def sample_texts
        ref_redis_new_def ref_ping_def sample_redis_def)
  show "open_mysql ref_gorm_open (cfg_mysql sample_config) w
      = (Inr sample_mysql, w\<lparr>w_held := ''mysql'' # w_held w\<rparr>)"
    using assms by (simp add: open_mysql_def validate_mysql_options_def sample_config_def
        ref_gorm_open_def ref_ping_def sample_mysql_def)
qed (use assms in \<open>simp_all add: mysql_close_def redis_close_def sample_mysql_def sample_redis_def ref_release_def
    replied_def\<close>)

lemma sample_logger:
  "\<exists>root. new_logger True \<lparr>opt_level = cfg_log_level sample_config,
     opt_environment = cfg_environment sample_config, opt_service_name = service\<rparr> = Inr root"
  by (simp add: new_logger_def parse_level_def sample_config_def sample_texts Let_def)

lemma sample_connected_run:
  assumes "\<And>w. w_faults w = [] \<Longrightarrow> fst (body ref_log sample_config sample_mysql sample_redis w) = 0
    \<and> w_faults (snd (body ref_log sample_config sample_mysql sample_redis w)) = []"
  shows "fst (run_connected ref_os service m1 m2 body sample_world) = 0"
proof -
  let ?w1 = "ref_log \<lparr>line_level = LevelInfo, line_message = ''MySQL connection established'', line_attrs = []\<rparr>
    (sample_world\<lparr>w_held := [''mysql'']\<rparr>)"
  let ?w2 = "ref_log \<lparr>line_level = LevelInfo, line_message = ''Redis connection established'',
    line_attrs = [AttrInt ''database'' 0]\<rparr> (?w1\<lparr>w_held := [''redis'', ''mysql'']\<rparr>)"
  have f: "w_faults sample_world = []" "w_faults ?w1 = []" "w_faults ?w2 = []"
    by (simp_all add: sample_world_def ref_log_def)
  obtain root where root: "new_logger True \<lparr>opt_level = cfg_log_level sample_config,
     opt_environment = cfg_environment sample_config, opt_service_name = service\<rparr> = Inr root"
    using sample_logger by blast
  obtain c v where b: "body ref_log sample_config sample_mysql sample_redis ?w2 = (c, v)" by force
  with assms [OF f(3)] have "c = 0" "w_faults v = []" by simp_all
  moreover have "w_held sample_world = []" "w_held ?w1 = [''mysql'']" "rd_db (cfg_redis sample_config) = 0"
    by (simp_all add: sample_world_def ref_log_def sample_config_def)
  ultimately show ?thesis
    using f(1,2) root b
    by (simp add: run_connected_def ref_os_environment sample_config_load labelled_def labelled_with_def
        sample_connections log_attrs_def deferred_close_def)
qed

end
