(* ===== verification/Http_Sample.thy ===== *)
theory Http_Sample imports Http_Laws Program_Sample begin

text \<open>
  The API of the reference world and one request of each kind: a body that creates a job, and a path that reads
  one.
\<close>

definition sample_body :: gostring where
  "sample_body = [CHR ''{'', CHR 0x22] @ ''type'' @ [CHR 0x22, CHR '':'', CHR 0x22] @ ''send_email''
     @ [CHR 0x22, CHR '','', CHR 0x22] @ ''payload'' @ [CHR 0x22, CHR '':''] @ sample_payload @ ''}''"

definition sample_request :: http_request where
  "sample_request =
     \<lparr>rq_method = ''POST'', rq_path = ''/api/v1/jobs'',
      rq_header = (\<lambda>name. if name = ''Content-Type'' then ''application/json''
        else if name = RequestIDHeader then ''demo-1'' else []),
      rq_body = \<lparr>bd_bytes = sample_body, bd_end = EndEOF\<rparr>, rq_job_id = [], rq_request_id = []\<rparr>"

lemma sample_media: "parse_media_type ''application/json'' = Inr ''application/json''"
proof -
  have "trim_left [] = []" by (simp add: trim_left.simps [of "[]"])
  then have "media_params [] [] = None" by (simp add: media_params.simps [of "[]"])
  moreover have "to_lower ''application/json'' = ''application/json''" "trim_space ''application/json'' = ''application/json''"
    by (rule plain_text; simp)+
  moreover have "check_media_type ''application/json'' = None"
    by (simp add: check_media_type_def consume_token_def is_token_char_def is_tspecial_def)
  ultimately show ?thesis by (simp add: parse_media_type_def Let_def)
qed

lemma sample_parsed:
  "decode_stream sample_body = Inr (JObject
     [(''type'', [CHR 0x22] @ ''send_email'' @ [CHR 0x22], JString ''send_email''),
      (''payload'', sample_payload, JObject [(''a'', ''1'', JNumber ''1'')])], [])"
  by (simp add: decode_stream_def sample_body_def sample_payload_def json_eval parse_numeral)


lemma sample_decoded:
  "decode_create_job_request sample_request = Inr \<lparr>cr_type = TypeSendEmail, cr_payload = sample_payload\<rparr>"
proof -
  have keys: "unquote ''type'' = ''type''" "unquote ''payload'' = ''payload''" "unquote ''send_email'' = ''send_email''"
    by (rule unquote_plain; simp)+
  have "length sample_body \<le> maxCreateJobBodyBytes"
    by (simp add: sample_body_def sample_payload_def maxCreateJobBodyBytes_def)
  then have "max_bytes_reader maxCreateJobBodyBytes \<lparr>bd_bytes = sample_body, bd_end = EndEOF\<rparr>
      = \<lparr>bd_bytes = sample_body, bd_end = EndEOF\<rparr>" by (simp add: max_bytes_reader_def)
  moreover have "decode_next \<lparr>bd_bytes = [], bd_end = EndEOF\<rparr> = Inl JsonEOF"
    by (simp add: decode_next_def decode_stream_def json_eval)
  moreover have "decode_struct create_job_request_fields \<lparr>cr_type = [], cr_payload = []\<rparr> (JObject
     [(''type'', [CHR 0x22] @ ''send_email'' @ [CHR 0x22], JString ''send_email''),
      (''payload'', sample_payload, JObject [(''a'', ''1'', JNumber ''1'')])])
    = Inr \<lparr>cr_type = TypeSendEmail, cr_payload = sample_payload\<rparr>"
    by (simp add: decode_struct_def keys find_field_def create_job_request_fields_def string_field_def raw_field_def
        TypeSendEmail_def)
  ultimately show ?thesis
    by (simp add: decode_create_job_request_def sample_request_def RequestIDHeader_def sample_media
        equal_fold_ascii_def Let_def decode_next_def [of "\<lparr>bd_bytes = sample_body, bd_end = EndEOF\<rparr>"] sample_parsed)
qed

definition ref_serve :: "world http_handler" where
  "ref_serve = new_router (pf_random ref_platform) (api_job_handler ref_platform ref_api)
     \<lparr>ui_stat = os_dir_stat ref_os ''web/dist'', ui_file_server = os_dir_server ref_os ''web/dist''\<rparr> []"

lemma ref_api_build:
  "api_build ref_platform (os_dir_stat ref_os) (os_dir_server ref_os) ''web/dist'' [] = Inr ref_serve"
  by (auto simp: api_build_ok ref_api_wired ref_os_environment ref_serve_def)

lemma sample_request_id: "is_valid_request_id ''demo-1''" "trim_space ''demo-1'' = ''demo-1''"
  by (simp add: valid_request_id_bytes safe_char_def is_allowed_request_id_character_def)
     (rule plain_text; simp)

lemma sample_served:
  "\<exists>rs w'. ref_serve sample_request sample_world = (rs, w') \<and> rs_status rs = 202"
proof -
  have id: "request_id_middleware ref_random nx sample_request sample_world
      = (case nx (request_id_with_context ''demo-1'' sample_request) sample_world of
           (rs, w) \<Rightarrow> (rs\<lparr>rs_headers := (RequestIDHeader, ''demo-1'') # rs_headers rs\<rparr>, w))" for nx
    using sample_request_id
    by (simp add: request_id_middleware_def Let_def) (simp add: sample_request_def RequestIDHeader_def)
  obtain w1 where c: "create_job_execute ref_api \<lparr>in_type = TypeSendEmail, in_payload = sample_payload\<rparr> sample_world
      = (Inr fresh_job, w1)" using sample_creation by blast
  have "mux_serve jobs ui checkers (request_id_with_context ''demo-1'' sample_request)
      = handle_create jobs (request_id_with_context ''demo-1'' sample_request)" for jobs ui and checkers :: "world readiness_checker option list"
    by (simp add: fun_eq_iff mux_serve_def create_route request_id_with_context_def sample_request_def)
  then show ?thesis
    using c by (simp add: ref_serve_def new_router_def id handle_create_def sample_decoded api_job_handler_def
        write_json_def)
qed

text \<open>Reading the job of the reference world.\<close>

definition sample_read :: http_request where
  "sample_read = sample_request\<lparr>rq_method := ''GET'', rq_path := ''/api/v1/jobs/'' @ sample_id\<rparr>"

lemma sample_read_path:
  "sample_id \<noteq> []" "sample_id \<noteq> ''.''" "sample_id \<noteq> ''..''" "CHR ''/'' \<notin> set sample_id"
  by (simp_all add: sample_id_def)

lemma sample_read_served:
  "\<exists>rs w'. ref_serve sample_read sample_world = (rs, w') \<and> rs_status rs = 200"
proof -
  have id: "request_id_middleware ref_random nx sample_read sample_world
      = (case nx (request_id_with_context ''demo-1'' sample_read) sample_world of
           (rs, w) \<Rightarrow> (rs\<lparr>rs_headers := (RequestIDHeader, ''demo-1'') # rs_headers rs\<rparr>, w))" for nx
    using sample_request_id
    by (simp add: request_id_middleware_def Let_def)
       (simp add: sample_read_def sample_request_def RequestIDHeader_def)
  have path: "rq_path sample_read = ''/api/v1/jobs/'' @ sample_id" by (simp add: sample_read_def)
  have "mux_serve jobs ui checkers (request_id_with_context ''demo-1'' sample_read)
      = handle_get_by_id jobs (request_id_with_context ''demo-1'' sample_read\<lparr>rq_job_id := sample_id\<rparr>)"
    for jobs ui and checkers :: "world readiness_checker option list"
    using job_path_clean [OF sample_read_path] job_route [OF sample_read_path(1,4)]
    by (simp add: fun_eq_iff mux_serve_def request_id_with_context_def sample_read_def)
  then show ?thesis
    using sample_get parse_id_valid [OF sample_id_valid]
    by (simp add: ref_serve_def new_router_def id handle_get_by_id_def api_job_handler_def get_job_execute_def
        mysql_repository_def write_json_def request_id_with_context_def)
qed

end
