(* ===== verification/Http_Properties.thy ===== *)
theory Http_Properties imports Http_Sample begin

text \<open>
  The properties of the HTTP API that the program of \<open>cmd/api\<close> builds: what an answer to a request to create or
  to read a job says about the table and the queue, which bodies are accepted, and which identifiers requests
  get.
\<close>

section \<open>Requests of the wired API\<close>

lemma routed:
  assumes "new_router rand_read jobs ui checkers rq w = (rs, w')"
  obtains (failed) e where "rs_status rs = 500" "rand_read w = (Inl e, w')"
  | (served) i w1 rs1 where "mux_serve jobs ui checkers (request_id_with_context i rq) w1 = (rs1, w')"
      "rs = rs1\<lparr>rs_headers := (RequestIDHeader, i) # rs_headers rs1\<rparr>"
      "w1 = w \<or> (\<exists>v. rand_read w = (Inr v, w1))"
proof (cases rule: request_id_served [OF assms [unfolded new_router_def], case_names failed served])
  case (failed e)
  then show thesis by (intro that(1)) (simp_all add: http_error_def)
next
  case (served i w1 rs1)
  from served(3) have "w1 = w \<or> (\<exists>v. rand_read w = (Inr v, w1))" by (auto split: if_splits)
  with served show thesis by (intro that(2))
qed

lemma mux_create:
  "rq_method rq = ''POST'' \<Longrightarrow> rq_path rq = ''/api/v1/jobs'' \<Longrightarrow>
     mux_serve jobs ui checkers (request_id_with_context i rq) = handle_create jobs (request_id_with_context i rq)"
  by (simp add: fun_eq_iff mux_serve_def create_route request_id_with_context_def)

lemma mux_get:
  "rq_method rq = ''GET'' \<Longrightarrow> rq_path rq = ''/api/v1/jobs/'' @ i \<Longrightarrow> i \<noteq> [] \<Longrightarrow> i \<noteq> ''.'' \<Longrightarrow> i \<noteq> ''..'' \<Longrightarrow>
     CHR ''/'' \<notin> set i \<Longrightarrow>
     mux_serve jobs ui checkers (request_id_with_context k rq)
       = handle_get_by_id jobs (request_id_with_context k rq\<lparr>rq_job_id := i\<rparr>)"
  using job_path_clean [of i] job_route [of i]
  by (simp add: fun_eq_iff mux_serve_def request_id_with_context_def)

text \<open>A request to the API of a \<open>program_world\<close>: up to the handler, and after it, neither store changes.\<close>

lemma api_served:
  assumes "program_world pf table keys effects" "api_build pf stat server assets checkers = Inr serve"
    "serve rq w = (rs, w')"
  obtains (failed) "rs_status rs = 500" "table w' = table w" "keys w' = keys w"
  | (served) cc i w1 rs1 where "api_create_job pf = Inr cc"
      "mux_serve (api_job_handler pf cc) \<lparr>ui_stat = stat assets, ui_file_server = server assets\<rparr> checkers
        (request_id_with_context i rq) w1 = (rs1, w')"
      "rs_status rs1 = rs_status rs" "rs_body rs1 = rs_body rs" "set (rs_headers rs1) \<subseteq> set (rs_headers rs)"
      "table w1 = table w" "keys w1 = keys w"
proof -
  from assms(2) obtain cc where cc: "api_create_job pf = Inr cc"
    and serve: "serve = new_router (pf_random pf) (api_job_handler pf cc)
      \<lparr>ui_stat = stat assets, ui_file_server = server assets\<rparr> checkers"
    by (auto simp: api_build_ok)
  note random = program_world.random_keeps [OF assms(1)]
  show thesis
  proof (cases rule: routed [OF assms(3) [unfolded serve], case_names failed served])
    case (failed e)
    with random [OF failed(2)] that(1) show thesis by blast
  next
    case (served i w1 rs1)
    have "table w1 = table w \<and> keys w1 = keys w" using served(3) random by auto
    moreover have "rs_status rs1 = rs_status rs" "rs_body rs1 = rs_body rs" "set (rs_headers rs1) \<subseteq> set (rs_headers rs)"
      using served(2) by auto
    ultimately show thesis using that(2) [OF cc served(1)] by simp
  qed
qed

lemma logged_stores:
  assumes "program_world pf table keys effects" "w' = w2 \<or> (\<exists>l. w' = pf_logger pf l w2)"
  shows "table w' = table w2 \<and> keys w' = keys w2"
  using assms(2) program_world.log_keeps [OF assms(1)] by auto

section \<open>Creating\<close>

lemma handled_create:
  assumes world: "program_world pf table keys effects" and cc: "api_create_job pf = Inr cc"
    and run: "handle_create (api_job_handler pf cc) (request_id_with_context k rq) w = (rs, w')"
  defines "rows \<equiv> \<lambda>w. job_rows (table w)"
    and "contents \<equiv> \<lambda>w. queued_ids (keys w (trim_space (pf_queue_name pf)))"
  shows "case decode_create_job_request rq of
      Inl de \<Rightarrow> rs_status rs \<in> {400, 413, 415} \<and> rows w' = rows w \<and> contents w' = contents w
    | Inr req \<Rightarrow>
        (rs_status rs \<noteq> 202 \<and> rows w' = rows w \<and> contents w' = contents w)
        \<or> (\<exists>j j'. wf_job j \<and> ent_status j = StatusPending \<and> retry_count j = 0
            \<and> parse_type (cr_type req) = Inr (ent_type j) \<and> ent_payload j = cr_payload req
            \<and> rows w (ent_id j) = None \<and> stored_as j j' \<and> rows w' = (rows w)(ent_id j \<mapsto> j')
            \<and> (if rs_status rs = 202
               then contents w' = contents w @ [ent_id j] \<and> rs_body rs = JobBody (job_response_from_domain j)
                 \<and> (''Location'', ''/api/v1/jobs/'' @ ent_id j) \<in> set (rs_headers rs)
               else contents w' = contents w \<or> contents w' = contents w @ [ent_id j]))"
proof -
  have same: "rows u = rows v \<and> contents u = contents v" if "table u = table v \<and> keys u = keys v" for u v
    using that by (simp add: rows_def contents_def)
  have lg: "jh_logger (api_job_handler pf cc) = pf_logger pf"
    "jh_create (api_job_handler pf cc) = create_job_execute cc" by (simp_all add: api_job_handler_def)
  note answer = create_answered [OF run, unfolded decode_create_context lg]
  show ?thesis
  proof (cases "decode_create_job_request rq")
    case (Inl de)
    with answer have "rs_status rs = de_status de" "\<exists>l. w' = pf_logger pf l w" by auto
    with rejected_request [OF Inl] Inl same [OF logged_stores [OF world, of w' w]] show ?thesis by auto
  next
    case (Inr req)
    from answer Inr obtain r w2
      where c: "create_job_execute cc \<lparr>in_type = cr_type req, in_payload = cr_payload req\<rparr> w = (r, w2)"
      and w2: "w' = w2 \<or> (\<exists>l. w' = pf_logger pf l w2)"
      and r: "case r of Inl e \<Rightarrow> rs_status rs = error_status e
         | Inr j \<Rightarrow> rs_status rs = 202 \<and> rs_body rs = JobBody (job_response_from_domain j)
             \<and> (''Location'', ''/api/v1/jobs/'' @ ent_id j) \<in> set (rs_headers rs)"
      by auto
    have w': "rows w' = rows w2" "contents w' = contents w2" using same [OF logged_stores [OF world w2]] by simp_all
    have "creating_world cc rows contents"
      unfolding rows_def contents_def by (rule program_world.wired_creating [OF world cc])
    note eff = creating_world.create_job_effect [OF this c, unfolded row_written_def create_job_input.simps]
    show ?thesis
    proof (cases r)
      case (Inl e)
      with r have "rs_status rs \<noteq> 202" by simp
      with eff Inl w' show ?thesis unfolding Inr sum.case by auto
    next
      case (Inr j)
      with eff w' r show ?thesis unfolding \<open>decode_create_job_request rq = Inr req\<close> sum.case by auto
    qed
  qed
qed

text \<open>C5. What \<open>POST /api/v1/jobs\<close> on the API that the program builds says about the stores. Status 202: the
  body was accepted; one new pending job with that type and payload is in the table, its identifier was added to
  the end of the queue, and it is the one in the body and in the Location header. A body that is rejected is
  answered 400, 413 or 415 (or 500, when no request identifier could be made) and touches neither store. Any
  other answer: nothing was stored or queued, or one new pending row was stored and queued at most once.\<close>

theorem api_create_outcome:
  assumes world: "program_world pf table keys effects"
    and built: "api_build pf stat server assets checkers = Inr serve"
    and post: "rq_method rq = ''POST''" "rq_path rq = ''/api/v1/jobs''"
    and run: "serve rq w = (rs, w')"
  defines "rows \<equiv> \<lambda>w. job_rows (table w)"
    and "contents \<equiv> \<lambda>w. queued_ids (keys w (trim_space (pf_queue_name pf)))"
  shows "case decode_create_job_request rq of
      Inl de \<Rightarrow> rs_status rs \<in> {400, 413, 415, 500} \<and> rows w' = rows w \<and> contents w' = contents w
    | Inr req \<Rightarrow>
        (rs_status rs \<noteq> 202 \<and> rows w' = rows w \<and> contents w' = contents w)
        \<or> (\<exists>j j'. wf_job j \<and> ent_status j = StatusPending \<and> retry_count j = 0
            \<and> parse_type (cr_type req) = Inr (ent_type j) \<and> ent_payload j = cr_payload req
            \<and> rows w (ent_id j) = None \<and> stored_as j j' \<and> rows w' = (rows w)(ent_id j \<mapsto> j')
            \<and> (if rs_status rs = 202
               then contents w' = contents w @ [ent_id j] \<and> rs_body rs = JobBody (job_response_from_domain j)
                 \<and> (''Location'', ''/api/v1/jobs/'' @ ent_id j) \<in> set (rs_headers rs)
               else contents w' = contents w \<or> contents w' = contents w @ [ent_id j]))"
proof (cases rule: api_served [OF world built run, case_names failed served])
  case failed
  then show ?thesis by (auto simp: rows_def contents_def split: sum.splits)
next
  case (served cc i w1 rs1)
  from served(2) have "handle_create (api_job_handler pf cc) (request_id_with_context i rq) w1 = (rs1, w')"
    by (simp only: mux_create [OF post])
  from handled_create [OF world served(1) this] served(3-7) show ?thesis
    unfolding rows_def contents_def by (auto split: sum.splits if_splits)
qed

lemma api_create_outcome_witness:
  "\<exists>rs w' j j'. ref_serve sample_request sample_world = (rs, w') \<and> rs_status rs = 202
    \<and> rs_body rs = JobBody (job_response_from_domain j) \<and> ent_payload j = sample_payload
    \<and> job_rows (ref_table w') (ent_id j) = Some j' \<and> ent_status j' = StatusPending
    \<and> queued_ids (w_lists w' ''jobs'') = [ent_id j]"
proof -
  obtain rs w' where s: "ref_serve sample_request sample_world = (rs, w')" "rs_status rs = 202"
    using sample_served by blast
  have post: "rq_method sample_request = ''POST''" "rq_path sample_request = ''/api/v1/jobs''"
    by (simp_all add: sample_request_def)
  have "queued_ids (w_lists sample_world (trim_space (pf_queue_name ref_platform))) = []"
    by (simp add: sample_world_def queued_ids_def)
  with api_create_outcome [OF ref.program_world_axioms ref_api_build post s(1)] s trim_jobs
  show ?thesis by (auto simp: sample_decoded stored_as_def)
qed

section \<open>Reading\<close>

lemma handled_get:
  assumes world: "program_world pf table keys effects"
    and run: "handle_get_by_id (api_job_handler pf cc) rq w = (rs, w')" and i: "rq_job_id rq = i"
  defines "rows \<equiv> \<lambda>w. job_rows (table w)"
    and "contents \<equiv> \<lambda>w. queued_ids (keys w (trim_space (pf_queue_name pf)))"
  shows "rows w' = rows w \<and> contents w' = contents w
    \<and> (rs_status rs = 200 \<longrightarrow> (\<exists>j. parse_id i = Inr (ent_id j) \<and> rows w (ent_id j) = Some j
         \<and> rs_body rs = JobBody (job_response_from_domain j)))
    \<and> (rs_status rs = 404 \<longrightarrow> (\<exists>k. parse_id i = Inr k \<and> rows w k = None))
    \<and> (\<not> is_ok (parse_id i) \<longrightarrow> rs_status rs = 400)"
proof -
  have lg: "jh_logger (api_job_handler pf cc) = pf_logger pf"
    "jh_get (api_job_handler pf cc) = get_job_execute (mysql_repository (pf_db pf))" by (simp_all add: api_job_handler_def)
  obtain r w2 where g: "get_job_execute (mysql_repository (pf_db pf)) i w = (r, w2)"
    and w2: "w' = w2 \<or> (\<exists>l. w' = pf_logger pf l w2)"
    and r: "case r of Inl e \<Rightarrow> rs_status rs = error_status e
       | Inr j \<Rightarrow> rs_status rs = 200 \<and> rs_body rs = JobBody (job_response_from_domain j)"
    by (rule get_answered [OF run, unfolded lg i])
  have laws: "storage_laws (mysql_repository (pf_db pf)) rows (queue_enqueue (wired_queue pf)) contents"
    unfolding rows_def contents_def by (rule program_world.wired_storage [OF world])
  note eff = repository_laws.get_job_effect [OF storage_laws.axioms(1) [OF laws] g]
  have "contents w2 = contents w"
    using g storage_laws.get_contents [OF laws] by (auto simp: get_job_execute_def split: sum.splits prod.splits)
  with logged_stores [OF world w2] eff have stores: "rows w' = rows w" "contents w' = contents w"
    by (simp_all add: rows_def contents_def)
  show ?thesis
  proof (cases r)
    case (Inr j)
    with eff r stores show ?thesis by auto
  next
    case (Inl e)
    with r have st: "rs_status rs = error_status e" by simp
    show ?thesis
    proof (cases "parse_id i")
      case (Inl e')
      from get_parse_error [OF g this] \<open>r = Inl e\<close> have "error_status e = 400" by (simp add: error_status_def)
      then show ?thesis using st stores by simp
    next
      case (Inr jid)
      with eff \<open>r = Inl e\<close> have "errors_is e ErrJobNotFound \<longrightarrow> rows w jid = None" by simp
      with st stores Inr error_status_404 [of e] show ?thesis by auto
    qed
  qed
qed

text \<open>C14. What \<open>GET /api/v1/jobs/{jobID}\<close> answers on the API that the program builds, for every segment that can
  be a job's identifier. It changes neither the table nor the queue. Status 200: the segment parses, and the body is
  the job stored under the identifier. Status 404: it parses, and there is no such job. A segment that
  is no identifier is answered 400 (or 500, when no request identifier could be made).\<close>

theorem api_get_outcome:
  assumes world: "program_world pf table keys effects"
    and built: "api_build pf stat server assets checkers = Inr serve"
    and get: "rq_method rq = ''GET''" "rq_path rq = ''/api/v1/jobs/'' @ i"
    and segment: "i \<noteq> []" "i \<noteq> ''.''" "i \<noteq> ''..''" "CHR ''/'' \<notin> set i"
    and run: "serve rq w = (rs, w')"
  defines "rows \<equiv> \<lambda>w. job_rows (table w)"
    and "contents \<equiv> \<lambda>w. queued_ids (keys w (trim_space (pf_queue_name pf)))"
  shows "rows w' = rows w \<and> contents w' = contents w
    \<and> (rs_status rs = 200 \<longrightarrow> (\<exists>j. parse_id i = Inr (ent_id j) \<and> rows w (ent_id j) = Some j
         \<and> rs_body rs = JobBody (job_response_from_domain j)))
    \<and> (rs_status rs = 404 \<longrightarrow> (\<exists>k. parse_id i = Inr k \<and> rows w k = None))
    \<and> (\<not> is_ok (parse_id i) \<longrightarrow> rs_status rs \<in> {400, 500})"
proof (cases rule: api_served [OF world built run, case_names failed served])
  case failed
  then show ?thesis by (simp add: rows_def contents_def)
next
  case (served cc k w1 rs1)
  from served(2) have h: "handle_get_by_id (api_job_handler pf cc)
      (request_id_with_context k rq\<lparr>rq_job_id := i\<rparr>) w1 = (rs1, w')"
    by (simp only: mux_get [OF get segment])
  have "rq_job_id (request_id_with_context k rq\<lparr>rq_job_id := i\<rparr>) = i" by simp
  from handled_get [OF world h this] served(3-7) show ?thesis
    unfolding rows_def contents_def by auto
qed

lemma api_get_outcome_witness:
  "\<exists>rs w'. ref_serve sample_read sample_world = (rs, w') \<and> rs_status rs = 200
    \<and> rs_body rs = JobBody (job_response_from_domain sample_job)
    \<and> job_rows (ref_table w') sample_id = Some sample_job"
proof -
  obtain rs w' where s: "ref_serve sample_read sample_world = (rs, w')" "rs_status rs = 200"
    using sample_read_served by blast
  have get: "rq_method sample_read = ''GET''" "rq_path sample_read = ''/api/v1/jobs/'' @ sample_id"
    by (simp_all add: sample_read_def)
  from api_get_outcome [OF ref.program_world_axioms ref_api_build get sample_read_path s(1)] s sample_row
  show ?thesis by (auto simp: parse_id_valid [OF sample_id_valid])
qed

section \<open>Other requests\<close>

lemma ready_keeps:
  "(\<And>c v. Some c \<in> set cs \<Longrightarrow> f (snd (c v)) = f v) \<Longrightarrow> f (snd (ready_loop cs w)) = f w"
proof (induction cs w rule: ready_loop.induct)
  case (3 c cs w)
  obtain r v where c: "c w = (r, v)" by force
  with "3.prems" [of c w] have "f v = f w" by simp
  with 3 c show ?case by (cases r) auto
qed simp_all

lemma health_keeps:
  "(\<And>c v. Some c \<in> set cs \<Longrightarrow> f (snd (c v)) = f v) \<Longrightarrow> f (snd (health_ready cs w)) = f w"
  by (simp add: health_ready_def ready_keeps)

lemma ui_keeps:
  "(\<And>q v. f (snd (ui_file_server ui q v)) = f v) \<Longrightarrow> f (snd (ui_serve ui rq w)) = f w"
  by (simp add: ui_serve_def ui_serve_index_def with_headers_def Let_def case_prod_unfold split: sum.split bool.split)

lemma mux_create_only:
  "mux_route m p = RouteCreate \<longleftrightarrow> m = ''POST'' \<and> p = ''/api/v1/jobs''"
  by (auto simp: mux_route_def split: option.splits)

text \<open>C15. Only creating a job writes: every other request to the API that the program builds, whatever its method,
  path and body, leaves the jobs of the table and the queue as they are, if the file server of the web interface and
  the readiness checkers do.\<close>

theorem only_creating_writes:
  assumes world: "program_world pf table keys effects"
    and built: "api_build pf stat server assets checkers = Inr serve"
    and files: "\<And>q v. table (snd (server assets q v)) = table v \<and> keys (snd (server assets q v)) = keys v"
    and checks: "\<And>c v. Some c \<in> set checkers \<Longrightarrow> table (snd (c v)) = table v \<and> keys (snd (c v)) = keys v"
    and other: "\<not> (rq_method rq = ''POST'' \<and> rq_path rq = ''/api/v1/jobs'')"
    and run: "serve rq w = (rs, w')"
  defines "rows \<equiv> \<lambda>w. job_rows (table w)"
    and "contents \<equiv> \<lambda>w. queued_ids (keys w (trim_space (pf_queue_name pf)))"
  shows "rows w' = rows w \<and> contents w' = contents w"
proof (cases rule: api_served [OF world built run, case_names failed served])
  case failed
  then show ?thesis by (simp add: rows_def contents_def)
next
  case (served cc i w1 rs1)
  let ?ui = "\<lparr>ui_stat = stat assets, ui_file_server = server assets\<rparr>"
  let ?rq = "request_id_with_context i rq"
  let ?stores = "\<lambda>v. (table v, keys v)"
  let ?p = "mux_clean_path (rq_path ?rq)"
  have rq: "rq_method ?rq = rq_method rq" "rq_path ?rq = rq_path rq" by (simp_all add: request_id_with_context_def)
  have ui: "?stores (snd (ui_serve ?ui ?rq w1)) = ?stores w1" by (rule ui_keeps) (simp add: files)
  have ready: "?stores (snd (health_ready checkers w1)) = ?stores w1" by (rule health_keeps) (simp add: checks)
  have "rows w' = rows w1 \<and> contents w' = contents w1"
  proof (cases "?p = rq_path ?rq")
    case False
    with served(2) have "w' = w1" by (simp add: mux_serve_def Let_def)
    then show ?thesis by simp
  next
    case True
    have route: "mux_route (rq_method ?rq) ?p \<noteq> RouteCreate"
      using other True rq by (simp add: mux_create_only)
    show ?thesis
    proof (cases "mux_route (rq_method ?rq) ?p")
      case (RouteGet k)
      with served(2) True have "handle_get_by_id (api_job_handler pf cc) (?rq\<lparr>rq_job_id := k\<rparr>) w1 = (rs1, w')"
        by (simp add: mux_serve_def)
      from handled_get [OF world this, of k] show ?thesis by (simp add: rows_def contents_def)
    next
      case RouteReady
      with served(2) True ready show ?thesis by (simp add: mux_serve_def rows_def contents_def)
    next
      case RouteUI
      with served(2) True ui show ?thesis by (simp add: mux_serve_def rows_def contents_def)
    qed (use served(2) True route in \<open>simp_all add: mux_serve_def with_headers_def\<close>)
  qed
  then show ?thesis using served(6,7) by (simp add: rows_def contents_def)
qed

lemma only_creating_writes_witness:
  "\<exists>rs w'. ref_serve (sample_request\<lparr>rq_method := ''DELETE''\<rparr>) sample_world = (rs, w')
    \<and> job_rows (ref_table w') = job_rows (ref_table sample_world)"
proof -
  let ?rq = "sample_request\<lparr>rq_method := ''DELETE''\<rparr>"
  obtain rs w' where s: "ref_serve ?rq sample_world = (rs, w')" by force
  have files: "ref_table (snd (os_dir_server ref_os ''web/dist'' q v)) = ref_table v
      \<and> w_lists (snd (os_dir_server ref_os ''web/dist'' q v)) = w_lists v" for q v
    by (simp add: ref_os_def)
  have other: "\<not> (rq_method ?rq = ''POST'' \<and> rq_path ?rq = ''/api/v1/jobs'')" by simp
  from only_creating_writes [OF ref.program_world_axioms ref_api_build files _ other s] s show ?thesis by simp
qed

lemma mux_ready:
  "rq_method rq = ''GET'' \<Longrightarrow> rq_path rq = ''/health/ready'' \<Longrightarrow>
     mux_serve jobs ui checkers (request_id_with_context i rq) w = health_ready checkers w"
  by (simp add: mux_serve_def mux_route_def mux_clean_path_def path_clean_def clean_segment_def
      request_id_with_context_def Let_def)

text \<open>C23. Readiness of the API that the program builds, with its two checkers: \<open>GET /health/ready\<close> asks MySQL
  and then Redis, and is answered 200 exactly if both answer their ping, and 503 if one does not; Redis is not
  asked once MySQL has failed. Nothing else happens to the world, except that an identifier of the request may
  have been drawn before; if that fails the answer is 500 and neither is asked.\<close>

theorem api_readiness:
  assumes built: "api_build pf stat server assets [Some (mysql_ping (Some my)), Some (redis_ping (Some rd))] = Inr serve"
    and ready: "rq_method rq = ''GET''" "rq_path rq = ''/health/ready''"
    and run: "serve rq w = (rs, w')"
  shows "(rs_status rs = 500 \<and> \<not> is_ok (fst (pf_random pf w)) \<and> w' = snd (pf_random pf w))
    \<or> (\<exists>w1. (w1 = w \<or> w1 = snd (pf_random pf w))
        \<and> (case mysql_ping (Some my) w1 of
             (Some e, w2) \<Rightarrow> rs_status rs = 503 \<and> w' = w2
           | (None, w2) \<Rightarrow>
               (case redis_ping (Some rd) w2 of
                  (r, w3) \<Rightarrow> rs_status rs = (if r = None then 200 else 503) \<and> w' = w3)))"
proof -
  from built obtain cc where serve: "serve = new_router (pf_random pf) (api_job_handler pf cc)
      \<lparr>ui_stat = stat assets, ui_file_server = server assets\<rparr> [Some (mysql_ping (Some my)), Some (redis_ping (Some rd))]"
    by (auto simp: api_build_ok)
  show ?thesis
  proof (cases rule: routed [OF run [unfolded serve], case_names failed served])
    case (failed e)
    then show ?thesis by simp
  next
    case (served i w1 rs1)
    have w1: "w1 = w \<or> w1 = snd (pf_random pf w)" using served(3) by auto
    have st: "rs_status rs = rs_status rs1" using served(2) by simp
    obtain a w2 where a: "mysql_ping (Some my) w1 = (a, w2)" by force
    obtain b w3 where b: "redis_ping (Some rd) w2 = (b, w3)" by force
    from served(1) a b st
    have "case a of Some e \<Rightarrow> rs_status rs = 503 \<and> w' = w2
        | None \<Rightarrow> rs_status rs = (if b = None then 200 else 503) \<and> w' = w3"
      unfolding mux_ready [OF ready]
      by (auto simp: health_ready_def write_not_ready_def write_json_def split: option.splits)
    with w1 a b show ?thesis by (auto split: option.splits)
  qed
qed

lemma api_readiness_witness:
  "\<exists>serve rs w'. api_build ref_platform (os_dir_stat ref_os) (os_dir_server ref_os) ''web/dist''
       [Some (mysql_ping (Some sample_mysql)), Some (redis_ping (Some sample_redis))] = Inr serve
    \<and> serve (sample_request\<lparr>rq_method := ''GET'', rq_path := ''/health/ready''\<rparr>) sample_world = (rs, w')
    \<and> rs_status rs = 200"
proof -
  let ?rq = "sample_request\<lparr>rq_method := ''GET'', rq_path := ''/health/ready''\<rparr>"
  obtain serve where b: "api_build ref_platform (os_dir_stat ref_os) (os_dir_server ref_os) ''web/dist''
       [Some (mysql_ping (Some sample_mysql)), Some (redis_ping (Some sample_redis))] = Inr serve"
    by (auto simp: api_build_ok ref_api_wired ref_os_environment)
  obtain rs w' where s: "serve ?rq sample_world = (rs, w')" by force
  have random: "is_ok (fst (pf_random ref_platform sample_world))"
    "w_faults (snd (pf_random ref_platform sample_world)) = []" "w_faults sample_world = []"
    by (simp_all add: ref_random_def sample_world_def)
  have ping: "mysql_ping (Some sample_mysql) w1 = (None, w1) \<and> redis_ping (Some sample_redis) w1 = (None, w1)"
    if "w_faults w1 = []" for w1
    using that by (simp add: mysql_ping_def redis_ping_def sample_mysql_def sample_redis_def ref_ping_def)
  have "rq_method ?rq = ''GET''" "rq_path ?rq = ''/health/ready''" by simp_all
  from api_readiness [OF b this s] random ping have "rs_status rs = 200" by auto
  with b s show ?thesis by blast
qed

section \<open>Bodies\<close>

text \<open>C20. A request to create a job is accepted only with the media type \<open>application/json\<close>, a body of at most
  1 MiB that was read to its end, and in it one JSON value, null or an object whose keys all select one of the two
  fields, with nothing but white space after it: no byte of an accepted body is ignored. Everything else is
  rejected with 400, 413 or 415.\<close>

theorem accepted_bodies:
  "case decode_create_job_request rq of
     Inl de \<Rightarrow> de_status de \<in> {400, 413, 415}
   | Inr req \<Rightarrow> (\<exists>media v rest. parse_media_type (rq_header rq ''Content-Type'') = Inr media
       \<and> equal_fold_ascii media ''application/json''
       \<and> length (bd_bytes (rq_body rq)) \<le> 1048576 \<and> bd_end (rq_body rq) = EndEOF
       \<and> decode_stream (bd_bytes (rq_body rq)) = Inr (v, rest) \<and> decode_stream rest = Inl JsonEOF
       \<and> ((v = JNull \<and> cr_type req = [] \<and> cr_payload req = [])
          \<or> (\<exists>ms. v = JObject ms \<and> list_all (\<lambda>(key, raw, x).
                fold_name (unquote key) \<in> {fold_name ''type'', fold_name ''payload''}) ms)))"
proof (cases "decode_create_job_request rq")
  case (Inl de)
  with rejected_request [OF Inl] show ?thesis by simp
next
  case (Inr req)
  from accepted_request [OF Inr] obtain media v rest where a:
    "parse_media_type (rq_header rq ''Content-Type'') = Inr media" "equal_fold_ascii media ''application/json''"
    "length (bd_bytes (rq_body rq)) \<le> maxCreateJobBodyBytes" "bd_end (rq_body rq) = EndEOF"
    "decode_stream (bd_bytes (rq_body rq)) = Inr (v, rest)" "decode_stream rest = Inl JsonEOF"
    "decode_struct create_job_request_fields \<lparr>cr_type = [], cr_payload = []\<rparr> v = Inr req" by metis
  have keys: "fold_name key \<in> {fold_name ''type'', fold_name ''payload''}"
    if "find_field create_job_request_fields key \<noteq> None" for key
    using that by (auto simp: find_field_def create_job_request_fields_def split: if_splits option.splits)
  have "(v = JNull \<and> req = \<lparr>cr_type = [], cr_payload = []\<rparr>)
      \<or> (\<exists>ms. v = JObject ms \<and> list_all (\<lambda>(key, raw, x). find_field create_job_request_fields (unquote key) \<noteq> None) ms)"
    using decode_struct_ok [OF a(7)] by blast
  then have "(v = JNull \<and> cr_type req = [] \<and> cr_payload req = [])
      \<or> (\<exists>ms. v = JObject ms \<and> list_all (\<lambda>(key, raw, x).
            fold_name (unquote key) \<in> {fold_name ''type'', fold_name ''payload''}) ms)"
    using keys by (auto simp: list_all_iff) blast+
  with a Inr show ?thesis unfolding Inr maxCreateJobBodyBytes_def by auto
qed

section \<open>Request identifiers\<close>

text \<open>C21. Every answer of the router carries, as its first header, the request's identifier: the client's, if
  that is valid, else a generated one, and in both cases 1 to 128 bytes, all of them ASCII letters, digits, hyphens,
  underscores or dots. So no header or log line can be injected through it. The only other answer is 500, when the
  client sent no valid identifier and there are no random bytes.\<close>

theorem request_ids_are_safe:
  assumes "\<And>v u u'. rand_read u = (Inr v, u') \<Longrightarrow> length v = 16"
    "new_router rand_read jobs ui checkers rq w = (rs, w')"
  shows "(\<exists>i rest. rs_headers rs = (RequestIDHeader, i) # rest \<and> i \<noteq> [] \<and> length i \<le> 128
      \<and> (\<forall>c \<in> set i. byte c \<in> {48..57} \<union> {65..90} \<union> {97..122} \<union> {45, 46, 95})
      \<and> (is_valid_request_id (trim_space (rq_header rq RequestIDHeader)) \<longrightarrow> i = trim_space (rq_header rq RequestIDHeader)))
    \<or> (rs_status rs = 500 \<and> \<not> is_valid_request_id (trim_space (rq_header rq RequestIDHeader))
      \<and> (\<exists>e. fst (rand_read w) = Inl e))"
proof (cases rule: request_id_served [OF assms(2) [unfolded new_router_def], case_names failed served])
  case (failed e)
  then show ?thesis by (simp add: http_error_def)
next
  case (served i w1 rs1)
  have "is_valid_request_id i"
    using served(3) generated_request_id assms(1) by (auto split: if_splits)
  then have "i \<noteq> []" "length i \<le> 128" "\<forall>c \<in> set i. safe_char c"
    by (simp_all add: valid_request_id_bytes list_all_iff)
  moreover have "byte c \<in> {48..57} \<union> {65..90} \<union> {97..122} \<union> {45, 46, 95}" if "safe_char c" for c
    using that by (auto simp: safe_char_def is_allowed_request_id_character_def)
  ultimately show ?thesis using served(2,3) by auto
qed

lemma request_ids_are_safe_witness:
  "\<exists>i rest. rs_headers (fst (new_router (\<lambda>w. (Inr (replicate 16 255), w)) (api_job_handler ref_platform ref_api)
      \<lparr>ui_stat = Inr \<circ> (\<lambda>f. False), ui_file_server = \<lambda>rq w. (http_error [] 404, w)\<rparr> []
      (sample_request\<lparr>rq_path := ''/'', rq_header := (\<lambda>_. [])\<rparr>) sample_world)) = (RequestIDHeader, i) # rest \<and> length i \<le> 128"
proof -
  let ?rand = "\<lambda>w :: world. (Inr (replicate 16 255) :: goerror + 8 word list, w)"
  let ?ui = "\<lparr>ui_stat = Inr \<circ> (\<lambda>f. False), ui_file_server = \<lambda>rq w. (http_error [] 404, w)\<rparr>"
  obtain rs w' where s: "new_router ?rand (api_job_handler ref_platform ref_api) ?ui []
      (sample_request\<lparr>rq_path := ''/'', rq_header := (\<lambda>_. [])\<rparr>) sample_world = (rs, w')" by force
  from request_ids_are_safe [OF _ s] s show ?thesis by auto
qed

end
