(* ===== verification/Program_Properties.thy ===== *)
theory Program_Properties imports Program_Sample begin

text \<open>
  The properties of the two programs as processes: a configuration that loads is enough to construct
  everything, and whatever happens, the connections that were opened are closed.
\<close>

interpretation ref_held: held_resources ref_os w_held
proof
  fix w w' :: world and l root mc rc c h
  have fault: "w_held w1 = w_held w" if "next_fault w = (f, w1)" for f w w1
    using that by (auto split: list.splits)
  have ping: "keeps w_held ref_ping"
    using fault by (auto simp: keeps_def ref_ping_def simp del: next_fault.simps split: prod.splits)
  have release: "releases w_held name ref_release" for name
    using fault by (auto simp: releases_def ref_release_def simp del: next_fault.simps split: prod.splits)
  show "w_held (os_bootstrap_logger ref_os l w) = w_held w" "w_held (os_logger ref_os root l w) = w_held w"
    by (simp_all add: ref_os_def ref_log_def)
  show "w_held w' = ''mysql'' # w_held w \<and> (\<exists>db. gh_db h = Inr db \<and> keeps w_held (sql_ping db)
      \<and> releases w_held ''mysql'' (sql_close db))" if "os_gorm_open ref_os mc w = (Inr h, w')"
    using that fault ping release
    by (auto simp: ref_os_def ref_gorm_open_def simp del: next_fault.simps split: prod.splits if_splits)
  show "w_held w' = ''redis'' # w_held w \<and> keeps w_held (rh_ping c) \<and> releases w_held ''redis'' (rh_close c)"
    if "os_redis_new ref_os rc w = (c, w')"
    using that ping release by (auto simp: ref_os_def ref_redis_new_def)
qed

text \<open>C13. Whatever fails on the way, a program that ends has closed the connections it opened, the newest
  first, also when the first ping of one of them fails; the one exception is a \<open>gorm.Open\<close> that fails, which may
  leave its pool open. The exit code is exact: 0 if the configuration loads, both connections open, the
  constructors succeed and the main loop (the worker pool's or the HTTP server's) ends without an error, and 1 in
  every other case. With a configuration that loads, the logger and the worker's constructors always succeed, and
  the API's do exactly if the assets have an index file.\<close>

theorem programs_release_resources:
  assumes "held_resources os held" "range_order (os_range_order os)" "\<And>pl. keeps held (pool_loop pl)"
    "\<And>srv. keeps held (nt_select (net srv)) \<and> keeps held (nt_shutdown (net srv))
      \<and> keeps held (nt_close (net srv)) \<and> keeps held (nt_returned (net srv))"
  shows "ends_released held os ''async-job-worker''
      (\<lambda>lg cfg my rd v code. \<exists>pl. worker_build (platform_of os lg cfg my rd) = Inr pl
         \<and> code = (if fst (pool_loop pl (worker_starting lg cfg v)) = None then 0 else 1))
      w (worker_run os pool_loop w)
    \<and> ends_released held os ''async-job-api''
      (\<lambda>lg cfg my rd v code.
         case api_build (platform_of os lg cfg my rd) (os_dir_stat os) (os_dir_server os)
            (cfg_assets_directory cfg) [Some (mysql_ping (Some my)), Some (redis_ping (Some rd))] of
           Inl line \<Rightarrow> code = 1 \<and> \<not> is_ok (os_dir_stat os (cfg_assets_directory cfg) indexFile)
         | Inr router \<Rightarrow> is_ok (os_dir_stat os (cfg_assets_directory cfg) indexFile)
             \<and> (let srv = new_http_server (cfg_http_address cfg) router lg
                in code = (if fst (http_server_run srv (net srv) (api_starting lg v)) = None then 0 else 1)))
      w (api_run os net w)"
proof (intro conjI)
  have worker: "held (snd (worker_body os pool_loop (os_logger os root) cfg my rd v)) = held v"
    and api: "held (snd (api_body os net (os_logger os root) cfg my rd v)) = held v" for root cfg my rd v
    using assms(1,3,4) by (auto intro!: held_resources.worker_body_held held_resources.api_body_held)
  note code = held_resources.worker_body_code [OF assms(1)] held_resources.api_body_code [OF assms(1)]
  show "ends_released held os ''async-job-worker''
      (\<lambda>lg cfg my rd v code. \<exists>pl. worker_build (platform_of os lg cfg my rd) = Inr pl
         \<and> code = (if fst (pool_loop pl (worker_starting lg cfg v)) = None then 0 else 1))
      w (worker_run os pool_loop w)"
    unfolding worker_run_def
    by (rule held_resources.run_released [OF assms(1,2)], rule worker) (use loaded_worker [OF assms(2)] code(1) in blast)
  show "ends_released held os ''async-job-api''
      (\<lambda>lg cfg my rd v code.
         case api_build (platform_of os lg cfg my rd) (os_dir_stat os) (os_dir_server os)
            (cfg_assets_directory cfg) [Some (mysql_ping (Some my)), Some (redis_ping (Some rd))] of
           Inl line \<Rightarrow> code = 1 \<and> \<not> is_ok (os_dir_stat os (cfg_assets_directory cfg) indexFile)
         | Inr router \<Rightarrow> is_ok (os_dir_stat os (cfg_assets_directory cfg) indexFile)
             \<and> (let srv = new_http_server (cfg_http_address cfg) router lg
                in code = (if fst (http_server_run srv (net srv) (api_starting lg v)) = None then 0 else 1)))
      w (api_run os net w)"
    unfolding api_run_def
  proof (rule held_resources.run_released [OF assms(1,2)], rule api, unfold code(2))
    fix root cfg my rd and v
    assume cfg: "config_load (os_range_order os) (os_env os) = Inr cfg"
    let ?b = "api_build (platform_of os (os_logger os root) cfg my rd) (os_dir_stat os) (os_dir_server os)
            (cfg_assets_directory cfg) [Some (mysql_ping (Some my)), Some (redis_ping (Some rd))]"
    show "case ?b of
           Inl line \<Rightarrow>
             (case ?b of Inl line \<Rightarrow> 1 | Inr router \<Rightarrow> let srv = new_http_server (cfg_http_address cfg) router (os_logger os root)
                in if fst (http_server_run srv (net srv) (api_starting (os_logger os root) v)) = None then 0 else 1) = (1 :: int)
             \<and> \<not> is_ok (os_dir_stat os (cfg_assets_directory cfg) indexFile)
         | Inr router \<Rightarrow> is_ok (os_dir_stat os (cfg_assets_directory cfg) indexFile)
             \<and> (let srv = new_http_server (cfg_http_address cfg) router (os_logger os root)
                in (case ?b of Inl line \<Rightarrow> 1 | Inr router \<Rightarrow> let srv = new_http_server (cfg_http_address cfg) router (os_logger os root)
                      in if fst (http_server_run srv (net srv) (api_starting (os_logger os root) v)) = None then 0 else 1)
                  = (if fst (http_server_run srv (net srv) (api_starting (os_logger os root) v)) = None then 0 else 1 :: int))"
      using loaded_api [OF assms(2) cfg, of "os_logger os root" my rd "[Some (mysql_ping (Some my)), Some (redis_ping (Some rd))]"]
      by (cases ?b) (simp_all add: Let_def)
  qed
qed

text \<open>A worker that is told to stop at once, and a server that a signal stops; the pool and the listener are
  as long as they run.\<close>

definition sample_net :: "world http_server \<Rightarrow> world net_server" where
  "sample_net srv =
     \<lparr>nt_select = (\<lambda>w. (ContextDone, w\<lparr>w_cancelled := True\<rparr>)), nt_shutdown = Pair None, nt_close = Pair None,
      nt_returned = Pair (Sentinel ErrServerClosed)\<rparr>"

lemma sample_worker_body:
  "w_faults w = [] \<Longrightarrow> fst (worker_body ref_os (\<lambda>pl. Pair None) ref_log sample_config my rd w) = 0
     \<and> w_faults (snd (worker_body ref_os (\<lambda>pl. Pair None) ref_log sample_config my rd w)) = []"
proof -
  assume w: "w_faults w = []"
  let ?pf = "platform_of ref_os ref_log sample_config my rd"
  have q: "trim_space (pf_queue_name ?pf) \<noteq> []" by (simp add: platform_of_def sample_config_def sample_texts)
  obtain pl where "worker_build ?pf = Inr pl" using worker_pool_ok [OF q] worker_build_ok by blast
  with w show ?thesis by (simp add: worker_body_def run_ends_def log_attrs_def ref_log_def)
qed

lemma sample_api_body:
  "w_faults w = [] \<Longrightarrow> fst (api_body ref_os sample_net ref_log sample_config my rd w) = 0
     \<and> w_faults (snd (api_body ref_os sample_net ref_log sample_config my rd w)) = []"
proof -
  assume w: "w_faults w = []"
  let ?pf = "platform_of ref_os ref_log sample_config my rd"
  have q: "trim_space (pf_queue_name ?pf) \<noteq> []" by (simp add: platform_of_def sample_config_def sample_texts)
  then obtain cc where cc: "api_create_job ?pf = Inr cc" by (simp add: api_create_job_eq)
  obtain serve where "api_build ?pf (os_dir_stat ref_os) (os_dir_server ref_os)
      (cfg_assets_directory sample_config) [Some (mysql_ping (Some my)), Some (redis_ping (Some rd))] = Inr serve"
    using cc by (simp add: api_build_ok ref_os_environment)
  with w show ?thesis
    by (simp add: api_body_def http_server_run_def new_http_server_def sample_net_def listen_result_def
        run_ends_def log_attrs_def ref_log_def Let_def)
qed

lemma programs_release_resources_witness:
  "fst (worker_run ref_os (\<lambda>pl. Pair None) sample_world) = 0
   \<and> w_held (snd (worker_run ref_os (\<lambda>pl. Pair None) sample_world)) = []
   \<and> fst (api_run ref_os sample_net sample_world) = 0
   \<and> w_held (snd (api_run ref_os sample_net sample_world)) = []"
proof -
  have codes: "fst (worker_run ref_os (\<lambda>pl. Pair None) sample_world) = 0"
    "fst (api_run ref_os sample_net sample_world) = 0"
    by (simp_all add: worker_run_def api_run_def sample_connected_run sample_worker_body sample_api_body)
  have order: "range_order (os_range_order ref_os)" by (simp add: ref_os_environment required_order)
  have "w_faults sample_world = []" by (simp add: sample_world_def)
  note opens = sample_connections(1) [OF this]
  have held: "w_held (snd x) = w_held sample_world"
    if "ends_released w_held ref_os service final sample_world x" for service final x
    using that
    by (cases "open_redis ref_redis_new (cfg_redis sample_config)
        (mysql_up ref_log (sample_world\<lparr>w_held := ''mysql'' # w_held sample_world\<rparr>))")
       (auto simp: ends_released_def ref_os_environment sample_config_load opens split: prod.splits)
  have loop: "keeps w_held (Pair (None :: goerror option))"
    and net: "keeps w_held (nt_select (sample_net srv)) \<and> keeps w_held (nt_shutdown (sample_net srv))
      \<and> keeps w_held (nt_close (sample_net srv)) \<and> keeps w_held (nt_returned (sample_net srv))" for srv
    by (simp_all add: keeps_def sample_net_def)
  note ends = programs_release_resources [OF ref_held.held_resources_axioms order, of "\<lambda>pl. Pair None" sample_net,
    OF loop net]
  from held [OF conjunct1 [OF ends]] held [OF conjunct2 [OF ends]]
  have "w_held (snd (worker_run ref_os (\<lambda>pl. Pair None) sample_world)) = w_held sample_world
      \<and> w_held (snd (api_run ref_os sample_net sample_world)) = w_held sample_world" ..
  moreover have "w_held sample_world = []" by (simp add: sample_world_def)
  ultimately show ?thesis using codes by simp
qed

text \<open>C22. A configuration that loads is valid and suffices: it does not depend on the order in which Go
  ranges over its map, the options of both connections pass their own checks, the logger is built, and
  the worker builds the pool that \<open>System\<close> runs. The API builds its handler exactly if the assets have an
  index file.\<close>

theorem valid_configuration_suffices:
  assumes "range_order (os_range_order os)" "config_load (os_range_order os) (os_env os) = Inr cfg"
  shows "valid_config cfg
    \<and> (\<forall>ord. range_order ord \<longrightarrow> config_load ord (os_env os) = Inr cfg)
    \<and> validate_mysql_options (cfg_mysql cfg) = None \<and> validate_redis_options (cfg_redis cfg) = None
    \<and> is_ok (new_logger True \<lparr>opt_level = cfg_log_level cfg, opt_environment = cfg_environment cfg,
        opt_service_name = service\<rparr>)
    \<and> (\<exists>pl. worker_build (platform_of os lg cfg my rd) = Inr pl \<and> worker_pool (platform_of os lg cfg my rd) = Inr pl)
    \<and> (is_ok (api_build (platform_of os lg cfg my rd) (os_dir_stat os) (os_dir_server os)
          (cfg_assets_directory cfg) checkers)
        \<longleftrightarrow> is_ok (os_dir_stat os (cfg_assets_directory cfg) indexFile))"
proof -
  note valid = config_load_ok [OF assms]
  have order: "config_load ord (os_env os) = Inr cfg" if "range_order ord" for ord
    using assms(2) config_validate_None [OF assms(1)] config_validate_None [OF that]
    by (auto simp: config_load_def Let_def split: sum.splits option.splits)
  have logger: "is_ok (new_logger True \<lparr>opt_level = cfg_log_level cfg, opt_environment = cfg_environment cfg,
      opt_service_name = service\<rparr>)"
    using loaded_logger [OF assms] by (auto simp: is_ok_iff logger_options_def)
  from valid valid_config_options [OF valid] order logger loaded_worker [OF assms] loaded_api [OF assms]
  show ?thesis by blast
qed

lemma valid_configuration_suffices_witness:
  "validate_redis_options (cfg_redis sample_config) = None
   \<and> (\<exists>pl. worker_build (platform_of ref_os ref_log sample_config sample_mysql sample_redis) = Inr pl)"
proof -
  have load: "range_order (os_range_order ref_os)"
    "config_load (os_range_order ref_os) (os_env ref_os) = Inr sample_config"
    by (simp_all add: ref_os_environment sample_config_load required_order)
  from valid_configuration_suffices [OF load, where lg = ref_log and my = sample_mysql and rd = sample_redis] show ?thesis by blast
qed

end
