(* ===== verification/Spec2Isabelle.thy ===== *)
theory Spec2Isabelle imports System_Properties Http_Properties Program_Properties begin

text \<open>
  A verification development for the asynchronous job service of this repository: an HTTP API
  (\<open>cmd/api\<close>) that stores a job as a row in MySQL and puts its identifier on a Redis list, and a worker
  program (\<open>cmd/worker\<close>) whose dispatcher takes identifiers from the list and hands them to five
  workers, which load the job, mark it as processing, run the handler of its type and record success, a retry
  (the row is pending again and the identifier goes back on the list) or the final failure.

  \<^bold>\<open>How the code is modelled.\<close> A Go string or byte slice is the list of its bytes; a Go \<open>int\<close> is an
  integer (the two places that parse one have the 64-bit range written out, and counters stay between 0 and 255
  by the schema); random bytes are 8-bit words. An error is a value of \<open>goerror\<close>, a fallible function returns a sum
  (an error on the left) or an optional error. A call of anything outside a function (a port, the logger, the database) takes the
  world and returns the next one; the world is a type variable, so nothing is assumed of it but what a
  locale says. A loop over \<open>range\<close> is a list function; an endless loop of a goroutine is a state and a step relation.
  A struct with unexported fields is a record; a nil pointer or interface is None.

  \<^bold>\<open>The theories and what they model.\<close>

  \<^item> \<open>Prelude\<close>, \<open>Go_Strings\<close>, \<open>Unicode_Case\<close>, \<open>Go_Strconv\<close>, \<open>Go_Json\<close>, \<open>Go_Json_Decode\<close>, \<open>Go_Errors\<close>,
    \<open>Go_Time\<close>, \<open>Go_Mime\<close>: what the program uses of the standard library: UTF-8 decoding, \<open>TrimSpace\<close>, \<open>ToLower\<close>,
    \<open>Atoi\<close>, the JSON scanner and decoder, \<open>errors.Is\<close> and \<open>Join\<close>, \<open>fmt.Errorf\<close>, \<open>time.Time\<close>,
    \<open>ParseMediaType\<close>. The JSON parser takes fuel \<open>json_fuel\<close>, computed from the length of the input; a
    lemma of \<open>Go_Json\<close> shows that it is never used up. The nesting limit of 10000 is the library's own.
  \<^item> \<open>Job_Types\<close>, \<open>Job\<close> (\<open>internal/domain/job\<close>): identifiers, types, statuses and the entity, each
    method a function that returns the updated record. \<open>Job_Lifecycle\<close> has the entity's invariants
    \<open>wf_job\<close> and \<open>lifecycle_ok\<close>, \<open>Job_Runs\<close> its transition system, \<open>Job_Properties\<close> its properties.
  \<^item> \<open>Ports\<close> (\<open>internal/application/ports\<close>): the interfaces as records of functions, and as locales what an
    adapter promises: \<open>repository_laws\<close>, \<open>queue_laws\<close>, \<open>consumer_laws\<close>, \<open>storage_laws\<close>. Every law about an error
    allows the write to have taken effect, since a reply can be lost.
  \<^item> \<open>Use_Cases\<close> (\<open>internal/application/usecase\<close>): \<open>CreateJob\<close>, \<open>GetJob\<close>, \<open>ProcessJob\<close> as whole
    executions; \<open>Use_Case_Laws\<close> proves inside the locales \<open>creating_world\<close> and \<open>processing_world\<close> what one
    execution does, for every way in which a call can fail.
  \<^item> \<open>Mysql_Repository\<close> (\<open>internal/adapters/mysql\<close>), \<open>Redis_Queue\<close> (\<open>internal/adapters/redis\<close>),
    \<open>Executor\<close> (\<open>internal/adapters/executor\<close>), \<open>Logging\<close>, \<open>Id_Generator\<close> (\<open>internal/platform\<close>): the
    adapters over the operations of GORM, go-redis, slog, the clock and the random source that they call. The locales
    \<open>gorm_jobs\<close> and \<open>redis_lists\<close> state the documented behaviour relied on; in them the adapters are shown to
    satisfy the laws of \<open>Ports\<close>. \<open>Durable_Rows\<close> adds, in the locale \<open>durable_rows\<close>, what MySQL documents of the values that
    a row gives back.
  \<^item> \<open>Wiring\<close>: the adapters and use cases as the two \<open>main.go\<close> put them together, over a \<open>platform\<close> of
    everything outside the repository; \<open>program_world\<close> is what the platform has to satisfy.
  \<^item> \<open>Process_Steps\<close>, \<open>Step_Invariants\<close>, \<open>Step_Effects\<close>: the two writing use cases again, as sequences of atomic
    calls (at most ten for \<open>ProcessJob\<close>, six for \<open>CreateJob\<close>), and what each step does to the stores. That the two
    forms agree (\<open>process_refines\<close>, \<open>create_refines\<close>: run alone, the steps give the result and the world of
    the executions of \<open>Use_Cases\<close>) is a check of the model and not a property of the code.
  \<^item> \<open>Worker\<close>, \<open>Pool_Steps\<close> (\<open>internal/adapters/worker\<close>): the dispatcher, the workers and the pool; the
    goroutines are states, a step is one call or one choice of a \<open>select\<close>, the unbuffered channel is the step in which the
    dispatcher's send meets an idle worker. \<open>pool_left\<close> bounds the steps after a cancellation by 73.
  \<^item> \<open>System\<close>, \<open>System_World\<close>, \<open>Deployment\<close>: one API process with any number of concurrent requests and one worker process
    over the two stores, interleaved call by call, with kills and restarts of either process between any two steps; the
    invariant \<open>system_ok\<close> counts the places that hold each identifier.
  \<^item> \<open>Http_Handler\<close>, \<open>Http_Router\<close>, \<open>Http_Server\<close> (\<open>internal/adapters/http\<close>, \<open>internal/platform/server\<close> and
    \<open>requestid\<close>): decoding and answering requests, the readiness checks, the request identifier's middleware, the UI
    handler, the router on the five patterns and the life of the server. \<open>Http_Laws\<close> has their lemmas.
  \<^item> \<open>Config\<close>, \<open>Connections\<close> (\<open>internal/platform/config\<close>, \<open>database\<close>, \<open>cache\<close>): reading and checking the
    environment, opening, pinging and closing the two connections.
  \<^item> \<open>Programs\<close>: \<open>run\<close> of both programs, from the environment to the exit code. \<open>Program_Laws\<close> shows that what they
    construct is what \<open>Deployment\<close> runs, and in the locale \<open>held_resources\<close> that they release what they open, with
    the exact exit code (\<open>ends_released\<close>).
  \<^item> \<open>Reference_World\<close>, \<open>System_Sample\<close>, \<open>Program_Sample\<close>, \<open>Http_Sample\<close>: a concrete platform, with the
    constraints of the table in \<open>migrations\<close>, a broker, a clock, faults from a script and connections. It satisfies every locale,
    and the witnesses run the wired programs in it.

  \<^bold>\<open>What is shown.\<close> The properties are in \<open>Job_Properties\<close>, \<open>Use_Case_Properties\<close>, \<open>Adapter_Properties\<close>,
  \<open>System_Properties\<close>, \<open>Http_Properties\<close> and \<open>Program_Properties\<close>.

  \<^item> Domain: the status machine and its exact guards, the invariant of every reachable job, the exact number of attempts, the
    grammar of identifiers and payloads, round trips of parsing, restoring and mapping to a row.
  \<^item> Use cases: what a result says about the row and the queue, a retry is persisted before it is published, a
    second delivery does no harm, what creating a job can leave behind.
  \<^item> Adapters: exactly when they give which error, the queue is first in, first out, the repository reads what it wrote,
    generated identifiers are UUIDs, the limits of the handlers' payloads, exactly when a dispatcher is built.
  \<^item> System, over every interleaving, failure and restart: no job is queued or executed in two places at
    once, a queued identifier has a pending row, the executor runs at most four times on a job, rows move along the status machine,
    a cancelled pool ends. And what the program does not guarantee: a job that nobody holds is never picked up again
    (\<open>orphaned_jobs_stay\<close>), and a shutdown at the wrong moment makes one (\<open>shutdown_loses_dequeued_job\<close>).
  \<^item> API: what each answer to creating and reading a job says about the stores, that no other request writes, when the
    service is ready, which bodies are accepted, and that request identifiers are safe to log and to send back.
  \<^item> Programs: a configuration that loads suffices for everything built from it; connections are closed on every path,
    a failing \<open>gorm.Open\<close> apart, and the exit code is exact.

  \<^bold>\<open>What is assumed of the outside, and where it is idealised.\<close> The locales state it; the reference world satisfies
  all of them.

  \<^item> \<open>gorm_jobs\<close>: an insert, a read and an update act on one row, atomically, and an error may come after the effect. What a
    row keeps (\<open>column_kept\<close>, and \<open>stored_as\<close> for a job) says nothing of the payload's text and of the values of times:
    the weaker the assumption, the more stores the use cases are proved for. The round trip needs more and uses
    \<open>durable_rows\<close>.
  \<^item> \<open>redis_lists\<close>: LPUSH and BRPOP act once. go-redis repeats a command by default when the connection fails, so a
    push whose reply was lost may be there twice; this is not modelled.
  \<^item> \<open>deployed_world\<close> (\<open>pop_done\<close>): a waiting BRPOP returns an error once the context has ended. The client's option
    \<open>ContextTimeoutEnabled\<close> is not set, but the repository's integration test of the queue asserts it for a deadline.
  \<^item> \<open>held_resources\<close>: what opening and closing a connection does to the set of open ones; nothing is assumed of a
    \<open>gorm.Open\<close> that fails, nor of closing in another order than the newest first.
  \<^item> The options of \<open>open_mysql\<close> and \<open>open_redis\<close> that are constants (pool sizes, timeouts, collation) are part of the
    parameters, as is the installation of the signal handler, which is the context of the main loops.

  \<^bold>\<open>Not modelled.\<close> The text that slog, \<open>encoding/json\<close> and \<open>net/http\<close> print (lines and responses are data); the
  insides of GORM, the MySQL driver, go-redis and \<open>http.FileServer\<close>; \<open>net/mail.ParseAddress\<close> (a parameter);
  the duration of anything (a timeout is a call that returns an error); percent escapes in paths (the router is on
  decoded paths); the fairness of Go's scheduler (properties of termination bound the number of steps); several worker processes
  at once; the single-page application under \<open>web\<close> and the SQL and shell files. The constructors' checks for a nil receiver or
  context have no counterpart where the model's type has no nil.
\<close>

end
